(* ===== verification/CSI_Prelude.thy ===== *)
theory CSI_Prelude
  imports Main "HOL-Library.AList" "HOL-Library.Sublist" "HOL-Library.Word"
begin

section \<open>Prelude: Go values, errors and effects\<close>

text \<open>
  What the components share.
  \<^item> Go strings are byte lists (\<^typ>\<open>string\<close>); the functions of the packages
    \<open>strings\<close> and \<open>strconv\<close> that the driver calls are defined here.
  \<^item> A \<open>map[string]string\<close> is an association list; reading a missing key gives the zero value.
  \<^item> Errors are values of \<open>gerror\<close>; a fallible call returns \<open>gerror + 'a\<close>, or a pointer together
    with an error where the code looks at both.
  \<^item> A call with effects is a function from the state to an outcome and the new state. The outcome
    is a value or a Go panic (nil dereference, index out of range); deferred calls run in both cases.
  \<^item> \<open>pres\<close> is the frame and invariant calculus of the development: \<open>pres R m\<close> says that every run of
    \<open>m\<close> relates its first and last state by \<open>R\<close>. The rules are collected in \<open>pres_rules\<close>.
\<close>

named_theorems go_simps \<open>the effect combinators, unfolded for evaluation\<close>
named_theorems pres_rules \<open>rules for relations kept by every run of a computation\<close>
named_theorems res_iff \<open>inversion of successful results\<close>

subsection \<open>Strings\<close>

definition Contains :: "string \<Rightarrow> string \<Rightarrow> bool" where
  "Contains s substr = sublist substr s"

definition HasPrefix :: "string \<Rightarrow> string \<Rightarrow> bool" where
  "HasPrefix s p = prefix p s"

definition HasSuffix :: "string \<Rightarrow> string \<Rightarrow> bool" where
  "HasSuffix s p = suffix p s"

text \<open>\<open>strings.Split(s, sep)\<close> for a separator of one byte: always at least one part.\<close>

fun Split :: "string \<Rightarrow> char \<Rightarrow> string list" where
  "Split [] c = [[]]"
| "Split (x # xs) c =
     (if x = c then [] # Split xs c
      else (case Split xs c of [] \<Rightarrow> [[x]] | p # ps \<Rightarrow> (x # p) # ps))"

fun Join :: "string list \<Rightarrow> string \<Rightarrow> string" where
  "Join [] sep = []"
| "Join [x] sep = x"
| "Join (x # y # xs) sep = x @ sep @ Join (y # xs) sep"

lemma Split_neq_Nil [simp]: "Split s c \<noteq> []"
  by (cases s) (auto split: list.splits)

lemma Split_notin [simp]: "c \<notin> set s \<Longrightarrow> Split s c = [s]"
  by (induction s) auto

lemma Split_append_sep: "c \<notin> set a \<Longrightarrow> Split (a @ c # b) c = a # Split b c"
  by (induction a) auto

lemma length_Split: "length (Split s c) = Suc (count_list s c)"
  by (induction s) (auto split: list.splits)

lemma Join_Split: "Join (Split s c) [c] = s"
proof (induction s)
  case (Cons x xs)
  obtain p ps where p: "Split xs c = p # ps"
    by (cases "Split xs c") auto
  with Cons show ?case
    by (cases ps) auto
qed simp

lemma Split_parts: "p \<in> set (Split s c) \<Longrightarrow> c \<notin> set p"
proof (induction s arbitrary: p)
  case (Cons x xs)
  obtain q qs where q: "Split xs c = q # qs"
    by (cases "Split xs c") auto
  with Cons show ?case
    by (auto split: if_splits)
qed simp

text \<open>\<open>unicode.IsSpace\<close> on the ASCII range, \<open>strings.TrimSpace\<close>, \<open>strings.Fields\<close> and
  \<open>strings.ToLower\<close>; the driver applies them to command output and environment values.\<close>

definition isspace :: "char \<Rightarrow> bool" where
  "isspace c = (c = CHR 0x20 \<or> (9 \<le> (of_char c :: nat) \<and> (of_char c :: nat) \<le> 13))"

definition TrimSpace :: "string \<Rightarrow> string" where
  "TrimSpace s = rev (dropWhile isspace (rev (dropWhile isspace s)))"

fun Fields_acc :: "string \<Rightarrow> string \<Rightarrow> string list" where
  "Fields_acc [] acc = (if acc = [] then [] else [acc])"
| "Fields_acc (c # cs) acc =
     (if isspace c then (if acc = [] then Fields_acc cs [] else acc # Fields_acc cs [])
      else Fields_acc cs (acc @ [c]))"

definition Fields :: "string \<Rightarrow> string list" where
  "Fields s = Fields_acc s []"

lemma TrimSpace_Nil [simp]: "TrimSpace [] = []"
  by (simp add: TrimSpace_def)

lemma TrimSpace_idem [simp]: "TrimSpace (TrimSpace s) = TrimSpace s"
proof -
  let ?d = "dropWhile isspace s"
  let ?t = "rev (dropWhile isspace (rev ?d))"
  have "dropWhile isspace ?t = ?t"
  proof (cases ?t)
    case Nil
    then show ?thesis by (simp only: Nil dropWhile.simps)
  next
    case (Cons x xs)
    have "prefix ?t ?d"
      by (metis suffix_dropWhile suffix_to_prefix rev_rev_ident)
    with Cons have "?d \<noteq> [] \<and> hd ?d = x"
      by (metis append_Cons list.sel(1) list.distinct(1) prefix_def)
    then have "\<not> isspace x"
      by (metis hd_dropWhile)
    with Cons show ?thesis by (simp only: Cons dropWhile.simps if_False)
  qed
  moreover have "dropWhile isspace (rev ?t) = rev ?t"
    by (simp add: dropWhile_idem)
  ultimately show ?thesis
    by (simp add: TrimSpace_def)
qed

definition tolower :: "char \<Rightarrow> char" where
  "tolower c = (let n = (of_char c :: nat) in if 65 \<le> n \<and> n \<le> 90 then char_of (n + 32) else c)"

definition ToLower :: "string \<Rightarrow> string" where
  "ToLower s = map tolower s"

subsection \<open>Decimal integers\<close>

text \<open>\<open>fmt.Sprintf("%d", n)\<close>, \<open>strconv.Itoa\<close>, \<open>strconv.FormatInt(n, 10)\<close> and \<open>strconv.Atoi\<close>.\<close>

fun itoa_nat :: "nat \<Rightarrow> string" where
  "itoa_nat n = (if n < 10 then [char_of (n + 48)] else itoa_nat (n div 10) @ [char_of (n mod 10 + 48)])"

declare itoa_nat.simps [simp del]

definition itoa :: "int \<Rightarrow> string" where
  "itoa n = (if n < 0 then ''-'' @ itoa_nat (nat (- n)) else itoa_nat (nat n))"

definition isdigit :: "char \<Rightarrow> bool" where
  "isdigit c = (48 \<le> (of_char c :: nat) \<and> (of_char c :: nat) \<le> 57)"

definition digits_val :: "string \<Rightarrow> nat" where
  "digits_val s = foldl (\<lambda>a c. 10 * a + (of_char c - 48)) 0 s"

definition atoi_nat :: "string \<Rightarrow> nat option" where
  "atoi_nat s = (if s \<noteq> [] \<and> list_all isdigit s then Some (digits_val s) else None)"

text \<open>An optional sign, then at least one digit; values outside the signed 64-bit range are refused.\<close>

definition Atoi :: "string \<Rightarrow> int option" where
  "Atoi s =
     (let (neg, body) = (case s of c # cs \<Rightarrow> if c = CHR ''-'' then (True, cs)
                                    else if c = CHR ''+'' then (False, cs) else (False, s)
                                 | [] \<Rightarrow> (False, []))
      in case atoi_nat body of None \<Rightarrow> None
         | Some n \<Rightarrow> let v = (if neg then - int n else int n)
             in if - (2 ^ 63) \<le> v \<and> v < 2 ^ 63 then Some v else None)"

lemma of_char_digit: "n < 10 \<Longrightarrow> (of_char (char_of (n + 48) :: char) :: nat) = n + 48"
  by (simp add: of_char_of)

lemma itoa_nat_digits: "list_all isdigit (itoa_nat n)"
proof (induction n rule: itoa_nat.induct)
  case (1 n)
  show ?case
  proof (cases "n < 10")
    case True
    then show ?thesis
      by (subst itoa_nat.simps) (simp add: isdigit_def of_char_digit)
  next
    case False
    have "isdigit (char_of (n mod 10 + 48))"
      by (simp add: isdigit_def of_char_digit less_Suc_eq_le [symmetric])
    with 1 False show ?thesis
      by (subst itoa_nat.simps) simp
  qed
qed

lemma itoa_nat_neq_Nil [simp]: "itoa_nat n \<noteq> []"
  by (subst itoa_nat.simps) simp

lemma digits_val_itoa_nat: "digits_val (itoa_nat n) = n"
proof (induction n rule: itoa_nat.induct)
  case (1 n)
  show ?case
  proof (cases "n < 10")
    case True
    then show ?thesis
      by (subst itoa_nat.simps) (simp add: digits_val_def of_char_digit)
  next
    case False
    with 1 have "digits_val (itoa_nat (n div 10)) = n div 10" by simp
    with False show ?thesis
      by (subst itoa_nat.simps) (simp add: digits_val_def of_char_digit)
  qed
qed

lemma hd_itoa_nat: "hd (itoa_nat n) \<noteq> CHR ''-'' \<and> hd (itoa_nat n) \<noteq> CHR ''+''"
proof -
  have "isdigit (hd (itoa_nat n))"
    using itoa_nat_digits [of n] by (cases "itoa_nat n") auto
  then show ?thesis by (auto simp: isdigit_def)
qed

lemma Atoi_itoa:
  assumes "- (2 ^ 63) \<le> n" and "n < 2 ^ 63"
  shows "Atoi (itoa n) = Some n"
proof (cases "n < 0")
  case True
  with assms show ?thesis
    by (simp add: Atoi_def itoa_def atoi_nat_def itoa_nat_digits digits_val_itoa_nat)
next
  case False
  obtain c cs where c: "itoa_nat (nat n) = c # cs"
    by (cases "itoa_nat (nat n)") auto
  with hd_itoa_nat [of "nat n"] have "c \<noteq> CHR ''-''" "c \<noteq> CHR ''+''" by simp_all
  with c False assms itoa_nat_digits [of "nat n"] digits_val_itoa_nat [of "nat n"] show ?thesis
    by (simp add: Atoi_def itoa_def atoi_nat_def)
qed

lemma itoa_inj: "itoa m = itoa n \<Longrightarrow> - (2 ^ 63) \<le> m \<Longrightarrow> m < 2 ^ 63 \<Longrightarrow> - (2 ^ 63) \<le> n \<Longrightarrow> n < 2 ^ 63 \<Longrightarrow> m = n"
  by (metis Atoi_itoa option.inject)

subsection \<open>Maps from strings to strings\<close>

type_synonym gomap = "(string \<times> string) list"

definition gget :: "gomap \<Rightarrow> string \<Rightarrow> string" where
  "gget m k = (case map_of m k of None \<Rightarrow> [] | Some v \<Rightarrow> v)"

text \<open>\<open>for key, value := range src { dst[key] = value }\<close>, in the order the list gives.\<close>

definition gmerge :: "gomap \<Rightarrow> gomap \<Rightarrow> gomap" where
  "gmerge dst src = fold (\<lambda>(k, v) m. AList.update k v m) src dst"

lemma map_of_gmerge: "map_of (gmerge dst src) = map_of dst ++ map_of (rev src)"
proof (induction src arbitrary: dst)
  case (Cons kv src)
  obtain k v where "kv = (k, v)" by force
  with Cons show ?case
    by (simp add: gmerge_def AList.update_conv' map_add_def fun_eq_iff split: option.splits)
qed (simp add: gmerge_def)

lemma map_of_rev_distinct: "distinct (map fst m) \<Longrightarrow> map_of (rev m) = map_of m"
  by (simp add: map_of_inject_set rev_map [symmetric])

end
