(* ===== verification/Go_Effects.thy ===== *)
theory Go_Effects
  imports CSI_Prelude
begin

section \<open>Errors and effects\<close>

text \<open>
  Error values and the effect combinators in which the handlers are written. The combinators
  follow the shapes of the Go code: \<open>tryE\<close> is a call followed by \<open>if err != nil { return err }\<close>,
  \<open>tryP\<close> the same for a call that returns a pointer and an error, \<open>map_err\<close> is the wrapping of the
  error that is returned, \<open>deferred\<close> is a \<open>defer\<close> statement. The second half is the calculus of
  relations between the states before and after a run.
\<close>

subsection \<open>Error values\<close>

datatype grpc_code = InvalidArgument | NotFound | Internal | Unavailable | Unimplemented

datatype api_reason = ReasonNotFound | ReasonAlreadyExists | ReasonConflict | ReasonOther string

text \<open>
  An error is known by the format it was built from and its arguments. \<open>ErrorfE\<close> and \<open>Wrapf\<close> embed
  another error: the first only its text (\<open>%v\<close>), the second keeps it as the cause
  (\<open>github.com/pkg/errors\<close>). \<open>StatusError c e\<close> is a gRPC status of code \<open>c\<close> whose message is the
  text of \<open>e\<close>. \<open>ErrList\<close> is \<open>errors.Errorf("%+v", errs)\<close>.
\<close>

datatype gerror =
    Errorf string "string list"
  | ErrorfE string "string list" gerror
  | Wrapf string "string list" gerror
  | StatusError grpc_code gerror
  | ErrList "gerror list"
  | ApiError api_reason string
  | OsNotExist string
  | OsExist string
  | OsError string
  | ExitError int

fun IsNotFound :: "gerror \<Rightarrow> bool" where
  "IsNotFound (ApiError r _) = (r = ReasonNotFound)"
| "IsNotFound (Wrapf _ _ e) = IsNotFound e"
| "IsNotFound _ = False"

fun os_IsNotExist :: "gerror option \<Rightarrow> bool" where
  "os_IsNotExist (Some (OsNotExist _)) = True"
| "os_IsNotExist _ = False"

fun os_IsExist :: "gerror option \<Rightarrow> bool" where
  "os_IsExist (Some (OsExist _)) = True"
| "os_IsExist _ = False"

subsection \<open>Computations\<close>

datatype 'a outcome = Return 'a | Panic string

type_synonym ('s, 'a) go = "'s \<Rightarrow> 'a outcome \<times> 's"
type_synonym 'a perr = "'a option \<times> gerror option"

definition ret :: "'a \<Rightarrow> ('s, 'a) go" where
  [go_simps]: "ret x = (\<lambda>s. (Return x, s))"

definition panic :: "string \<Rightarrow> ('s, 'a) go" where
  [go_simps]: "panic p = (\<lambda>s. (Panic p, s))"

definition bnd :: "('s, 'a) go \<Rightarrow> ('a \<Rightarrow> ('s, 'b) go) \<Rightarrow> ('s, 'b) go" where
  [go_simps]: "bnd m f = (\<lambda>s. case m s of (Return x, s') \<Rightarrow> f x s' | (Panic p, s') \<Rightarrow> (Panic p, s'))"

definition andthen :: "('s, 'a) go \<Rightarrow> ('s, 'b) go \<Rightarrow> ('s, 'b) go" where
  [go_simps]: "andthen m k = bnd m (\<lambda>_. k)"

definition tryE :: "('s, gerror + 'a) go \<Rightarrow> ('a \<Rightarrow> ('s, gerror + 'b) go) \<Rightarrow> ('s, gerror + 'b) go" where
  [go_simps]: "tryE m f = bnd m (\<lambda>r. case r of Inl e \<Rightarrow> ret (Inl e) | Inr x \<Rightarrow> f x)"

definition deref :: "'a option \<Rightarrow> ('s, 'a) go" where
  [go_simps]: "deref p = (case p of None \<Rightarrow> panic ''nil pointer dereference'' | Some x \<Rightarrow> ret x)"

definition tryP :: "('s, 'a perr) go \<Rightarrow> ('a \<Rightarrow> ('s, gerror + 'b) go) \<Rightarrow> ('s, gerror + 'b) go" where
  [go_simps]: "tryP m f = bnd m (\<lambda>(p, e). case e of Some err \<Rightarrow> ret (Inl err) | None \<Rightarrow> bnd (deref p) f)"

definition map_err :: "(gerror \<Rightarrow> gerror) \<Rightarrow> ('s, gerror + 'a) go \<Rightarrow> ('s, gerror + 'a) go" where
  [go_simps]: "map_err f m = bnd m (\<lambda>r. ret (map_sum f id r))"

definition map_perr :: "(gerror \<Rightarrow> gerror) \<Rightarrow> ('s, 'a perr) go \<Rightarrow> ('s, 'a perr) go" where
  [go_simps]: "map_perr f m = bnd m (\<lambda>(p, e). ret (p, map_option f e))"

definition deferred :: "('s, unit) go \<Rightarrow> ('s, 'a) go \<Rightarrow> ('s, 'a) go" where
  [go_simps]: "deferred d m = (\<lambda>s. case m s of (r, s') \<Rightarrow>
     (case d s' of (Return _, s'') \<Rightarrow> (r, s'') | (Panic p, s'') \<Rightarrow> (Panic p, s'')))"

definition modify :: "('s \<Rightarrow> 's) \<Rightarrow> ('s, unit) go" where
  [go_simps]: "modify f = (\<lambda>s. (Return (), f s))"

definition asks :: "('s \<Rightarrow> 'a) \<Rightarrow> ('s, 'a) go" where
  [go_simps]: "asks f = (\<lambda>s. (Return (f s), s))"

definition internal :: "gerror \<Rightarrow> gerror" where
  "internal e = StatusError Internal e"

abbreviation ok :: "('s, gerror + unit) go" where
  "ok \<equiv> ret (Inr ())"

abbreviation fail :: "gerror \<Rightarrow> ('s, gerror + 'a) go" where
  "fail e \<equiv> ret (Inl e)"

subsection \<open>Runs and inversion\<close>

lemma ret_run [simp]: "ret x s = (Return x, s)"
  by (simp add: ret_def)

lemma panic_run [simp]: "panic p s = (Panic p, s)"
  by (simp add: panic_def)

lemma modify_run [simp]: "modify f s = (Return (), f s)"
  by (simp add: modify_def)

lemma asks_run [simp]: "asks f s = (Return (f s), s)"
  by (simp add: asks_def)

lemma bnd_ret [simp]: "bnd (ret x) f = f x"
  by (simp add: bnd_def ret_def)

lemma bnd_panic [simp]: "bnd (panic p) f = panic p"
  by (simp add: bnd_def panic_def)

lemma bnd_assoc: "bnd (bnd m f) g = bnd m (\<lambda>x. bnd (f x) g)"
  by (rule ext) (simp add: bnd_def split: prod.split outcome.split)

lemma tryE_ret [simp]: "tryE (ret (Inr x)) f = f x" "tryE (ret (Inl e)) f = ret (Inl e)"
  by (simp_all add: tryE_def fun_eq_iff)

lemma tryP_ret [simp]:
  "tryP (ret (p, Some e)) f = ret (Inl e)" "tryP (ret (Some x, None)) f = f x"
  by (simp_all add: tryP_def deref_def fun_eq_iff)

lemma map_err_ret [simp]:
  "map_err g (ret (Inl e)) = ret (Inl (g e))" "map_err g (ret (Inr x)) = ret (Inr x)"
  by (simp_all add: map_err_def fun_eq_iff)

lemma bnd_Return_iff [res_iff]:
  "bnd m f s = (Return y, s') \<longleftrightarrow> (\<exists>x t. m s = (Return x, t) \<and> f x t = (Return y, s'))"
  by (auto simp: bnd_def split: prod.splits outcome.splits)

lemma tryE_Inr_iff [res_iff]:
  "tryE m f s = (Return (Inr y), s') \<longleftrightarrow> (\<exists>x t. m s = (Return (Inr x), t) \<and> f x t = (Return (Inr y), s'))"
  by (auto simp: tryE_def bnd_def split: prod.splits outcome.splits sum.splits)

lemma tryP_Inr_iff [res_iff]:
  "tryP m f s = (Return (Inr y), s') \<longleftrightarrow>
     (\<exists>x t. m s = (Return (Some x, None), t) \<and> f x t = (Return (Inr y), s'))"
  by (auto simp: tryP_def bnd_def deref_def split: prod.splits outcome.splits option.splits)

lemma map_err_Inr_iff [res_iff]:
  "map_err g m s = (Return (Inr y), s') \<longleftrightarrow> m s = (Return (Inr y), s')"
proof -
  have "map_sum g id r = Inr y \<longleftrightarrow> r = Inr y" for r :: "gerror + 'a"
    by (cases r) auto
  then show ?thesis
    by (auto simp: map_err_def bnd_def split: prod.splits outcome.splits)
qed

lemma deferred_snd:
  "snd (deferred d m s) = snd (d (snd (m s)))"
  by (simp add: deferred_def split: prod.split outcome.split)

subsection \<open>Relations kept by every run\<close>

definition pres :: "('s \<Rightarrow> 's \<Rightarrow> bool) \<Rightarrow> ('s, 'a) go \<Rightarrow> bool" where
  "pres R m = (\<forall>s. R s (snd (m s)))"

definition prel :: "('s \<Rightarrow> 's \<Rightarrow> bool) \<Rightarrow> bool" where
  "prel R = ((\<forall>s. R s s) \<and> (\<forall>s t u. R s t \<longrightarrow> R t u \<longrightarrow> R s u))"

lemma presI: "(\<And>s. R s (snd (m s))) \<Longrightarrow> pres R m"
  by (simp add: pres_def)

lemma presD: "pres R m \<Longrightarrow> R s (snd (m s))"
  by (simp add: pres_def)

lemma presD': "pres R m \<Longrightarrow> m s = (r, s') \<Longrightarrow> R s s'"
  by (metis presD snd_conv)

lemma pres_ret [pres_rules]: "prel R \<Longrightarrow> pres R (ret x)"
  by (simp add: pres_def prel_def)

lemma pres_panic [pres_rules]: "prel R \<Longrightarrow> pres R (panic p)"
  by (simp add: pres_def prel_def)

lemma pres_asks [pres_rules]: "prel R \<Longrightarrow> pres R (asks f)"
  by (simp add: pres_def prel_def)

lemma pres_modify [pres_rules]: "(\<And>s. R s (f s)) \<Longrightarrow> pres R (modify f)"
  by (simp add: pres_def)

lemma pres_bnd [pres_rules]: "prel R \<Longrightarrow> pres R m \<Longrightarrow> (\<And>x. pres R (f x)) \<Longrightarrow> pres R (bnd m f)"
  unfolding pres_def bnd_def prel_def
  by (auto split: prod.split outcome.split) (metis snd_conv)+

lemma pres_andthen [pres_rules]: "prel R \<Longrightarrow> pres R m \<Longrightarrow> pres R k \<Longrightarrow> pres R (andthen m k)"
  by (simp add: andthen_def pres_bnd)

lemma pres_tryE [pres_rules]: "prel R \<Longrightarrow> pres R m \<Longrightarrow> (\<And>x. pres R (f x)) \<Longrightarrow> pres R (tryE m f)"
  by (auto simp: tryE_def intro!: pres_bnd pres_ret split: sum.split)

lemma pres_deref [pres_rules]: "prel R \<Longrightarrow> pres R (deref p)"
  by (auto simp: deref_def intro: pres_ret pres_panic split: option.split)

lemma pres_tryP [pres_rules]: "prel R \<Longrightarrow> pres R m \<Longrightarrow> (\<And>x. pres R (f x)) \<Longrightarrow> pres R (tryP m f)"
  by (auto simp: tryP_def intro!: pres_bnd pres_ret pres_deref split: option.split)

lemma pres_map_err [pres_rules]: "prel R \<Longrightarrow> pres R m \<Longrightarrow> pres R (map_err g m)"
  by (auto simp: map_err_def intro!: pres_bnd pres_ret)

lemma pres_map_perr [pres_rules]: "prel R \<Longrightarrow> pres R m \<Longrightarrow> pres R (map_perr g m)"
  by (auto simp: map_perr_def intro!: pres_bnd pres_ret)

lemma pres_deferred [pres_rules]: "prel R \<Longrightarrow> pres R m \<Longrightarrow> pres R d \<Longrightarrow> pres R (deferred d m)"
  unfolding pres_def deferred_snd prel_def by blast

lemma pres_if [pres_rules]: "(c \<Longrightarrow> pres R a) \<Longrightarrow> (\<not> c \<Longrightarrow> pres R b) \<Longrightarrow> pres R (if c then a else b)"
  by simp

lemma pres_case_option [pres_rules]:
  "(x = None \<Longrightarrow> pres R a) \<Longrightarrow> (\<And>y. x = Some y \<Longrightarrow> pres R (b y)) \<Longrightarrow> pres R (case x of None \<Rightarrow> a | Some y \<Rightarrow> b y)"
  by (cases x) auto

lemma pres_case_sum [pres_rules]:
  "(\<And>y. x = Inl y \<Longrightarrow> pres R (a y)) \<Longrightarrow> (\<And>y. x = Inr y \<Longrightarrow> pres R (b y)) \<Longrightarrow>
   pres R (case x of Inl y \<Rightarrow> a y | Inr y \<Rightarrow> b y)"
  by (cases x) auto

lemma pres_case_prod [pres_rules]:
  "(\<And>a b. x = (a, b) \<Longrightarrow> pres R (f a b)) \<Longrightarrow> pres R (case x of (a, b) \<Rightarrow> f a b)"
  by (cases x) auto

lemma pres_case_list [pres_rules]:
  "(x = [] \<Longrightarrow> pres R a) \<Longrightarrow> (\<And>y ys. x = y # ys \<Longrightarrow> pres R (b y ys)) \<Longrightarrow>
   pres R (case x of [] \<Rightarrow> a | y # ys \<Rightarrow> b y ys)"
  by (cases x) auto

lemma pres_Let [pres_rules]: "pres R (f v) \<Longrightarrow> pres R (let x = v in f x)"
  by simp

text \<open>Equality of the state and of a projection of it are the relations used most.\<close>

lemma prel_eq [simp]: "prel (\<lambda>s t. f t = f s)"
  by (auto simp: prel_def)

lemma prel_eq2 [simp]: "prel (\<lambda>s t. f s = f t)"
  by (auto simp: prel_def)

lemma pres_eq_state: "pres (\<lambda>s t. t = s) m \<Longrightarrow> snd (m s) = s"
  by (simp add: pres_def)

subsection \<open>Loops over slices\<close>

text \<open>\<open>for _, x := range xs { ... }\<close> whose body may return: \<open>Some r\<close> leaves the function with \<open>r\<close>,
  \<open>None\<close> goes on with the next element.\<close>

fun for_range :: "'a list \<Rightarrow> ('a \<Rightarrow> ('s, 'r option) go) \<Rightarrow> ('s, 'r) go \<Rightarrow> ('s, 'r) go" where
  "for_range [] body k = k"
| "for_range (x # xs) body k =
     bnd (body x) (\<lambda>r. case r of Some v \<Rightarrow> ret v | None \<Rightarrow> for_range xs body k)"

lemma pres_for_range [pres_rules]:
  "prel R \<Longrightarrow> (\<And>x. x \<in> set xs \<Longrightarrow> pres R (body x)) \<Longrightarrow> pres R k \<Longrightarrow> pres R (for_range xs body k)"
  by (induction xs) (auto intro!: pres_bnd pres_ret split: option.split)

end
