(* ===== verification/Rounding.thy ===== *)
theory Rounding
  imports Go_Effects "HOL-Library.Signed_Division"
begin

section \<open>Sizes: pkg/utils/rounding.go\<close>

text \<open>
  Volume sizes are \<open>int64\<close>, kept at their width as \<^typ>\<open>64 word\<close> read by \<open>sint\<close>; Go's integer division
  truncates towards zero (\<open>sdiv64\<close>, \<open>smod64\<close>) and its additions and products wrap. \<open>roundUpSize\<close> is
  shown to be the ceiling of the quotient for every size and every positive unit, without overflow;
  the product of \<open>RoundUpBytes\<close> wraps for sizes within one GiB of the largest \<open>int64\<close>.
\<close>

type_synonym int64 = "64 word"
type_synonym uint64 = "64 word"

definition GiB :: int64 where
  "GiB = 1024 * 1024 * 1024"

definition sdiv64 :: "int64 \<Rightarrow> int64 \<Rightarrow> int64" where
  "sdiv64 a b = word_of_int (sint a sdiv sint b)"

definition smod64 :: "int64 \<Rightarrow> int64 \<Rightarrow> int64" where
  "smod64 a b = word_of_int (sint a smod sint b)"

text \<open>\<open>roundUpSize\<close> is not exported and every caller passes the constant \<open>GiB\<close>, so the division by a
  zero unit, which would panic, does not arise; its lemmas ask for a positive unit.\<close>

definition roundUpSize :: "int64 \<Rightarrow> int64 \<Rightarrow> int64" where
  "roundUpSize volumeSizeBytes allocationUnitBytes =
     (let roundedUp = sdiv64 volumeSizeBytes allocationUnitBytes
      in if 0 <s smod64 volumeSizeBytes allocationUnitBytes then roundedUp + 1 else roundedUp)"

definition RoundUpBytes :: "int64 \<Rightarrow> int64" where
  "RoundUpBytes volumeSizeBytes = roundUpSize volumeSizeBytes GiB * GiB"

definition RoundUpGiB :: "int64 \<Rightarrow> int64" where
  "RoundUpGiB volumeSizeBytes = roundUpSize volumeSizeBytes GiB"

definition BytesToGiB :: "int64 \<Rightarrow> int64" where
  "BytesToGiB volumeSizeBytes = sdiv64 volumeSizeBytes GiB"

definition GiBToBytes :: "int64 \<Rightarrow> int64" where
  "GiBToBytes volumeSizeGiB = volumeSizeGiB * GiB"

text \<open>\<open>ByteCount\<close>: the loop divides \<open>val\<close> by 1024 while it is at least 1024, multiplying \<open>div\<close> and
  counting in \<open>index\<close>; \<open>"KMGTPE"[index]\<close> panics when the index is 6 or more.\<close>

function byteCountLoop :: "uint64 \<Rightarrow> uint64 \<Rightarrow> nat \<Rightarrow> uint64 \<times> nat" where
  "byteCountLoop val dv index =
     (if 1024 \<le> val then byteCountLoop (val div 1024) (dv * 1024) (Suc index) else (dv, index))"
  by pat_completeness auto
termination
  by (relation "measure (\<lambda>(val, dv, index). unat val)") (auto simp: unat_div word_le_nat_alt)

declare byteCountLoop.simps [simp del]

definition ByteCount :: "uint64 \<Rightarrow> ('s, string) go" where
  "ByteCount b =
     (if b < 1024 then ret (itoa_nat (unat b) @ ''B'')
      else let (dv, index) = byteCountLoop (b div 1024) 1024 0
           in if index < length ''KMGTPE'' then ret (itoa_nat (unat (b div dv)) @ [''KMGTPE'' ! index] @ ''i'')
              else panic ''index out of range'')"

subsection \<open>The ceiling\<close>

definition ceil_div :: "int \<Rightarrow> int \<Rightarrow> int" where
  "ceil_div a b = - ((- a) div b)"

lemma ceil_div_least:
  assumes "0 < b"
  shows "a \<le> ceil_div a b * b" "ceil_div a b * b < a + b"
proof -
  have eq: "(- a) div b * b + (- a) mod b = - a" by (rule div_mult_mod_eq)
  have "0 \<le> (- a) mod b" "(- a) mod b < b" using assms by simp_all
  with eq show "a \<le> ceil_div a b * b" "ceil_div a b * b < a + b"
    unfolding ceil_div_def mult_minus_left by linarith+
qed

lemma ceil_div_unique:
  assumes "0 < b" "a \<le> c * b" "c * b < a + b"
  shows "c = ceil_div a b"
proof -
  from assms ceil_div_least [OF assms(1), of a]
  have "(c - 1) * b < ceil_div a b * b" "(ceil_div a b - 1) * b < c * b"
    by (simp_all add: left_diff_distrib)
  with assms(1) have "c - 1 < ceil_div a b" "ceil_div a b - 1 < c" by simp_all
  then show ?thesis by simp
qed

lemma ceil_div_range:
  assumes "0 < b" "- (2 ^ 63) \<le> a" "a < 2 ^ 63"
  shows "- (2 ^ 63) \<le> ceil_div a b" "ceil_div a b < 2 ^ 63"
proof -
  show "- (2 ^ 63) \<le> ceil_div a b"
  proof (rule ccontr)
    assume "\<not> ?thesis"
    then have "ceil_div a b * b \<le> ceil_div a b * 1"
      using assms(1) by (intro mult_left_mono_neg) auto
    with \<open>\<not> ?thesis\<close> ceil_div_least(1) [OF assms(1), of a] assms(2) show False by simp
  qed
  show "ceil_div a b < 2 ^ 63"
  proof (rule ccontr)
    assume "\<not> ?thesis"
    then have "(ceil_div a b - 1) * 1 \<le> (ceil_div a b - 1) * b"
      using assms(1) by (intro mult_left_mono) auto
    with \<open>\<not> ?thesis\<close> ceil_div_least(2) [OF assms(1), of a] assms(3) show False
      by (simp add: left_diff_distrib)
  qed
qed

lemma sdiv_smod_ceil:
  assumes "0 < (b::int)"
  shows "ceil_div a b = (if 0 < a smod b then a sdiv b + 1 else a sdiv b)"
proof -
  have sgn: "a smod b = sgn a * (abs a mod b)" "a sdiv b = sgn a * (abs a div b)"
    using assms by (simp_all add: signed_modulo_int_def signed_divide_int_def)
  show ?thesis
  proof (cases "0 \<le> a")
    case True
    then have "a smod b = a mod b" "a sdiv b = a div b" using sgn by (auto simp: sgn_if)
    moreover have "0 \<le> a mod b" using assms by simp
    ultimately show ?thesis
      using assms by (auto simp: ceil_div_def zdiv_zminus1_eq_if order_le_less)
  next
    case False
    then have "a smod b = - ((- a) mod b)" "a sdiv b = - ((- a) div b)"
      using sgn by (auto simp: sgn_if)
    then show ?thesis using assms by (simp add: ceil_div_def not_less)
  qed
qed

lemma sint64_bounds: "- (2 ^ 63) \<le> sint (x :: int64)" "sint (x :: int64) < 2 ^ 63"
  using sint_ge [of x] sint_lt [of x] by simp_all

lemma sint_of_int64: "- (2 ^ 63) \<le> n \<Longrightarrow> n < 2 ^ 63 \<Longrightarrow> sint (word_of_int n :: int64) = n"
  by (simp add: sint_sbintrunc' signed_take_bit_int_eq_self)

lemma smod_abs_less: "0 < (b::int) \<Longrightarrow> \<bar>a smod b\<bar> < b"
  by (simp add: signed_modulo_int_def abs_mult sgn_if)

lemma sint_GiB [simp]: "sint GiB = 2 ^ 30"
  by (simp add: GiB_def)

lemma roundUpSize_ceil:
  assumes u: "0 < sint u"
  shows "roundUpSize v u = word_of_int (ceil_div (sint v) (sint u))"
proof -
  have "sint (smod64 v u) = sint v smod sint u"
    using smod_abs_less [OF u, of "sint v"] sint64_bounds(2) [of u]
    by (simp add: smod64_def sint_of_int64)
  then show ?thesis
    by (simp add: roundUpSize_def Let_def word_sless_alt sdiv_smod_ceil [OF u] sdiv64_def wi_hom_syms)
qed

lemma sint_roundUpSize:
  assumes u: "0 < sint u"
  shows "sint (roundUpSize v u) = ceil_div (sint v) (sint u)"
  using ceil_div_range [OF u sint64_bounds(1) [of v] sint64_bounds(2) [of v]]
  by (simp add: roundUpSize_ceil [OF u] sint_of_int64)

lemma sint_RoundUpGiB: "sint (RoundUpGiB v) = ceil_div (sint v) (2 ^ 30)"
  by (simp add: RoundUpGiB_def sint_roundUpSize)

lemma unat_1024 [simp]: "unat (1024 :: uint64) = 1024"
  by simp

lemma byteCountLoop_power:
  "\<exists>k. byteCountLoop val dv index = (dv * 1024 ^ k, index + k) \<and> unat val div 1024 ^ k < 1024 \<and>
       (k \<noteq> 0 \<longrightarrow> 1 \<le> unat val div 1024 ^ k)"
proof (induction val dv index rule: byteCountLoop.induct)
  case (1 val dv index)
  show ?case
  proof (cases "1024 \<le> val")
    case True
    from 1 [OF True] obtain k where
      k: "byteCountLoop (val div 1024) (dv * 1024) (Suc index) = (dv * 1024 * 1024 ^ k, Suc index + k)"
         "unat (val div 1024) div 1024 ^ k < 1024" "k \<noteq> 0 \<longrightarrow> 1 \<le> unat (val div 1024) div 1024 ^ k"
      by blast
    have d: "unat (val div 1024) div 1024 ^ k = unat val div 1024 ^ Suc k"
      by (simp add: unat_div div_mult2_eq)
    have "1 \<le> unat (val div 1024)"
      using True by (simp add: unat_div word_le_nat_alt div_greater_zero_iff Suc_le_eq)
    with k d have "1 \<le> unat val div 1024 ^ Suc k" by (cases "k = 0") auto
    with k d True show ?thesis
      by (intro exI [of _ "Suc k"]) (simp add: byteCountLoop.simps [of val] mult.assoc)
  next
    case False
    then show ?thesis
      by (intro exI [of _ 0]) (simp add: byteCountLoop.simps [of val] word_le_nat_alt not_le)
  qed
qed

lemma unat_pow_1024: "k \<le> 5 \<Longrightarrow> unat (1024 * 1024 ^ k :: uint64) = 1024 ^ Suc k"
proof -
  assume k: "k \<le> 5"
  have "(1024::nat) ^ Suc k \<le> 1024 ^ 6" by (rule power_increasing) (use k in simp_all)
  then have "(1024::nat) ^ Suc k < 2 ^ 64" by simp
  then have "unat (of_nat (1024 ^ Suc k) :: uint64) = 1024 ^ Suc k"
    by (simp only: unat_of_nat len_of_numeral_defs take_bit_nat_eq_self) (simp add: take_bit_nat_eq_self)
  then show ?thesis by simp
qed

subsection \<open>Properties\<close>

text \<open>C34: the size of a new volume. For every \<open>int64\<close> request the rounded size in GiB is the least number
  of GiB that holds it: no rounding loses bytes and none adds a whole GiB.\<close>

theorem RoundUpGiB_correct:
  "sint v \<le> sint (RoundUpGiB v) * 2 ^ 30 \<and> sint (RoundUpGiB v) * 2 ^ 30 < sint v + 2 ^ 30"
  using ceil_div_least [of "2 ^ 30" "sint v"] by (simp add: sint_RoundUpGiB)

text \<open>C35: \<open>RoundUpBytes\<close> gives the size of that many GiB in bytes exactly when the request is at most
  \<open>2 ^ 63 - 2 ^ 30\<close>; above it the product wraps around.\<close>

theorem RoundUpBytes_exact_iff:
  "sint (RoundUpBytes v) = sint (RoundUpGiB v) * 2 ^ 30 \<longleftrightarrow> sint v \<le> 2 ^ 63 - 2 ^ 30"
proof -
  let ?c = "ceil_div (sint v) (2 ^ 30)"
  have c: "sint v \<le> ?c * 2 ^ 30" "?c * 2 ^ 30 < sint v + 2 ^ 30"
    by (rule ceil_div_least; simp)+
  have w: "RoundUpBytes v = word_of_int (?c * 2 ^ 30)"
    by (simp add: RoundUpBytes_def roundUpSize_ceil) (simp add: GiB_def wi_hom_syms)
  show ?thesis
  proof
    assume "sint v \<le> 2 ^ 63 - 2 ^ 30"
    with c have "?c * 2 ^ 30 < 2 ^ 63" by linarith
    moreover have "- (2 ^ 63) \<le> ?c * 2 ^ 30" using c(1) sint64_bounds(1) [of v] by linarith
    ultimately show "sint (RoundUpBytes v) = sint (RoundUpGiB v) * 2 ^ 30"
      by (simp only: w sint_of_int64 sint_RoundUpGiB)
  next
    assume "sint (RoundUpBytes v) = sint (RoundUpGiB v) * 2 ^ 30"
    then have "?c * 2 ^ 30 < 2 ^ 63"
      using sint64_bounds(2) [of "RoundUpBytes v"] by (simp add: sint_RoundUpGiB)
    then have "?c \<le> 2 ^ 33 - 1" by simp
    with c(1) show "sint v \<le> 2 ^ 63 - 2 ^ 30" by simp
  qed
qed

text \<open>\<open>ByteCount\<close> never indexes past \<open>"KMGTPE"\<close>: for every \<open>uint64\<close> of at least 1024 it
  prints a value between 1 and 1023 with a unit of at most exbibytes.\<close>

theorem ByteCount_unit:
  assumes "1024 \<le> b"
  shows "\<exists>k \<le> 5. ByteCount b s = (Return (itoa_nat (unat b div 1024 ^ Suc k) @ [''KMGTPE'' ! k] @ ''i''), s) \<and>
           1 \<le> unat b div 1024 ^ Suc k \<and> unat b div 1024 ^ Suc k < 1024"
proof -
  let ?v = "b div 1024"
  obtain k where k: "byteCountLoop ?v 1024 0 = (1024 * 1024 ^ k, k)"
      "unat ?v div 1024 ^ k < 1024" "k \<noteq> 0 \<longrightarrow> 1 \<le> unat ?v div 1024 ^ k"
    using byteCountLoop_power [of ?v 1024 0] by auto
  have v: "unat ?v div 1024 ^ k = unat b div 1024 ^ Suc k"
    by (simp add: unat_div div_mult2_eq)
  have b: "1024 \<le> unat b" "unat b < 2 ^ 64"
    using assms unsigned_less [where 'a = nat, of b] by (simp_all add: word_le_nat_alt)
  have one: "1 \<le> unat b div 1024 ^ Suc k"
    using k(3) v b(1) by (cases "k = 0") (auto simp: div_greater_zero_iff Suc_le_eq)
  have "k \<le> 5"
  proof (rule ccontr)
    assume "\<not> k \<le> 5"
    then have "(1024::nat) ^ 7 \<le> 1024 ^ Suc k" by (intro power_increasing) auto
    with b(2) have "unat b div 1024 ^ Suc k = 0" by (intro div_less) simp
    with one show False by simp
  qed
  then have "ByteCount b s = (Return (itoa_nat (unat b div 1024 ^ Suc k) @ [''KMGTPE'' ! k] @ ''i''), s)"
    using assms k(1) unat_pow_1024 [OF \<open>k \<le> 5\<close>] by (simp add: ByteCount_def unat_div)
  with one k(2) v \<open>k \<le> 5\<close> show ?thesis by auto
qed

theorem ByteCount_unit_witness:
  "\<exists>k \<le> 5. ByteCount 1500000 () = (Return (itoa_nat (unat (1500000 :: uint64) div 1024 ^ Suc k) @ [''KMGTPE'' ! k] @ ''i''), ()) \<and>
           1 \<le> unat (1500000 :: uint64) div 1024 ^ Suc k \<and> unat (1500000 :: uint64) div 1024 ^ Suc k < 1024"
  by (rule ByteCount_unit) (simp add: word_le_nat_alt)

end
