(* ===== verification/API_Objects.thy ===== *)
theory API_Objects
  imports Rounding
begin

section \<open>API objects and requests\<close>

text \<open>
  The fields the driver reads and writes of the objects it exchanges with Kubernetes
  (\<open>CStorVolumeConfig\<close>, \<open>CStorVolumeAttachment\<close>, \<open>CStorVolume\<close>, nodes, claims) and of the CSI requests
  and responses. These types come from packages outside the repository; a pointer that may be nil is
  an option, a \<open>map[string]string\<close> that may be nil is a \<open>gomap option\<close>, and a \<open>resource.Quantity\<close> is
  the integer amount it denotes.
\<close>

type_synonym quantity = int

record CStorVolumeConfig =
  cvc_Name :: string
  cvc_GenerateName :: string
  cvc_Namespace :: string
  cvc_Annotations :: "gomap option"
  cvc_Labels :: "gomap option"
  cvc_Finalizers :: "string list option"
  cvc_DeletionTimestamp :: "nat option"
  cvc_Capacity :: "quantity option"
  cvc_CStorVolumeSource :: string
  cvc_ProvisionCapacity :: "quantity option"
  cvc_ReplicaCount :: int
  cvc_NodeID :: string
  cvc_Phase :: string
  cvc_Conditions :: "string list"
  cvc_StatusCapacity :: "quantity option"
  cvc_VersionCurrent :: string
  cvc_VersionDesired :: string
  cvc_DependentsUpgraded :: bool

definition zero_CVC :: CStorVolumeConfig where
  "zero_CVC = \<lparr>cvc_Name = [], cvc_GenerateName = [], cvc_Namespace = [], cvc_Annotations = None,
     cvc_Labels = None, cvc_Finalizers = None, cvc_DeletionTimestamp = None, cvc_Capacity = None,
     cvc_CStorVolumeSource = [], cvc_ProvisionCapacity = None, cvc_ReplicaCount = 0, cvc_NodeID = [],
     cvc_Phase = [], cvc_Conditions = [], cvc_StatusCapacity = None, cvc_VersionCurrent = [],
     cvc_VersionDesired = [], cvc_DependentsUpgraded = False\<rparr>"

record OwnerReference =
  or_APIVersion :: string
  or_Kind :: string
  or_Name :: string
  or_UID :: string

record CStorVolumeAttachment =
  cva_Name :: string
  cva_Namespace :: string
  cva_Labels :: "gomap option"
  cva_Finalizers :: "string list option"
  cva_DeletionTimestamp :: "nat option"
  cva_OwnerReferences :: "OwnerReference list"
  cva_VolName :: string
  cva_Capacity :: string
  cva_AccessType :: string
  cva_FSType :: string
  cva_StagingTargetPath :: string
  cva_TargetPath :: string
  cva_MountOptions :: "string list option"
  cva_DevicePath :: string
  cva_OwnerNodeID :: string
  cva_ReadOnly :: bool
  cva_Iqn :: string
  cva_TargetPortal :: string
  cva_IscsiInterface :: string
  cva_Lun :: string

definition zero_CVA :: CStorVolumeAttachment where
  "zero_CVA = \<lparr>cva_Name = [], cva_Namespace = [], cva_Labels = None, cva_Finalizers = None,
     cva_DeletionTimestamp = None, cva_OwnerReferences = [], cva_VolName = [], cva_Capacity = [],
     cva_AccessType = [], cva_FSType = [], cva_StagingTargetPath = [], cva_TargetPath = [],
     cva_MountOptions = None, cva_DevicePath = [], cva_OwnerNodeID = [], cva_ReadOnly = False,
     cva_Iqn = [], cva_TargetPortal = [], cva_IscsiInterface = [], cva_Lun = []\<rparr>"

record CStorVolume =
  cv_Name :: string
  cv_GenerateName :: string
  cv_Namespace :: string
  cv_Annotations :: "gomap option"
  cv_Labels :: "gomap option"
  cv_TargetIP :: string
  cv_Capacity :: quantity
  cv_Iqn :: string
  cv_TargetPort :: string
  cv_TargetPortal :: string
  cv_ReplicationFactor :: int
  cv_ConsistencyFactor :: int
  cv_Phase :: string
  cv_StatusCapacity :: quantity

definition zero_CV :: CStorVolume where
  "zero_CV = \<lparr>cv_Name = [], cv_GenerateName = [], cv_Namespace = [], cv_Annotations = None,
     cv_Labels = None, cv_TargetIP = [], cv_Capacity = 0, cv_Iqn = [], cv_TargetPort = [],
     cv_TargetPortal = [], cv_ReplicationFactor = 0, cv_ConsistencyFactor = 0, cv_Phase = [],
     cv_StatusCapacity = 0\<rparr>"

record NodeCondition =
  cond_Type :: string
  cond_Status :: string
  cond_Reason :: string

record Node =
  node_Name :: string
  node_UID :: string
  node_Labels :: "gomap option"
  node_Conditions :: "NodeCondition list"
  node_OSImage :: string
  node_KernelVersion :: string

record PersistentVolumeClaim =
  pvc_Name :: string
  pvc_Namespace :: string
  pvc_Annotations :: "gomap option"

text \<open>Reading a map that may be nil: a nil map has no keys.\<close>

definition nget :: "gomap option \<Rightarrow> string \<Rightarrow> string" where
  "nget m k = (case m of None \<Rightarrow> [] | Some g \<Rightarrow> gget g k)"

text \<open>CSI requests. The access type of a capability is a oneof: unset, block, or mount with a
  message that may be nil.\<close>

datatype access_mode = UNKNOWN | SINGLE_NODE_WRITER | SINGLE_NODE_READER_ONLY |
  MULTI_NODE_READER_ONLY | MULTI_NODE_SINGLE_WRITER | MULTI_NODE_MULTI_WRITER

record MountVolume =
  mv_FsType :: string
  mv_MountFlags :: "string list"

datatype access_type = AccessNone | AccessBlock | AccessMount "MountVolume option"

record VolumeCapability =
  vc_AccessType :: access_type
  vc_AccessMode :: "access_mode option"

text \<open>The generated getters read through nil pointers and give zero values.\<close>

fun GetMount :: "VolumeCapability \<Rightarrow> MountVolume option" where
  "GetMount vc = (case vc_AccessType vc of AccessMount m \<Rightarrow> m | _ \<Rightarrow> None)"

definition mount_FsType :: "MountVolume option \<Rightarrow> string" where
  "mount_FsType m = (case m of None \<Rightarrow> [] | Some mv \<Rightarrow> mv_FsType mv)"

definition mount_Flags :: "MountVolume option \<Rightarrow> string list" where
  "mount_Flags m = (case m of None \<Rightarrow> [] | Some mv \<Rightarrow> mv_MountFlags mv)"

type_synonym topology = gomap

record TopologyRequirement =
  topo_Preferred :: "topology list"

text \<open>The source of a new volume: nothing, a snapshot (its id) or another volume (its id).\<close>

datatype content_source = SourceSnapshot string | SourceVolume string

record CreateVolumeRequest =
  cr_Name :: string
  cr_CapacityRange :: "int64 option"
  cr_VolumeCapabilities :: "VolumeCapability list option"
  cr_Parameters :: gomap
  cr_VolumeContentSource :: "content_source option"
  cr_AccessibilityRequirements :: "TopologyRequirement option"

record CreateVolumeResponse =
  cresp_VolumeId :: string
  cresp_CapacityBytes :: int64
  cresp_VolumeContext :: gomap
  cresp_ContentSource :: "content_source option"

end
