(* ===== verification/Env.thy ===== *)
theory Env
  imports API_Objects
begin

section \<open>Environment variables: pkg/env/env.go\<close>

text \<open>
  The process environment is a map from names to values. \<open>os.Setenv\<close> refuses an empty name, a name with
  an equals sign or a NUL byte, and a value with a NUL byte. \<open>ParseBool\<close> is the one of \<open>strconv\<close>.
\<close>

type_synonym environ = "string \<rightharpoonup> string"

definition KubeConfig :: string where "KubeConfig = ''OPENEBS_IO_KUBE_CONFIG''"
definition KubeMaster :: string where "KubeMaster = ''OPENEBS_IO_K8S_MASTER''"
definition OpenEBSEnableAnalytics :: string where "OpenEBSEnableAnalytics = ''OPENEBS_IO_ENABLE_ANALYTICS''"
definition OpenEBSVersion :: string where "OpenEBSVersion = ''OPENEBS_IO_VERSION''"

definition os_Setenv :: "environ \<Rightarrow> string \<Rightarrow> string \<Rightarrow> gerror option \<times> environ" where
  "os_Setenv env k v =
     (if k = [] \<or> CHR ''='' \<in> set k \<or> CHR 0x00 \<in> set k \<or> CHR 0x00 \<in> set v
      then (Some (OsError ''invalid argument''), env) else (None, env(k \<mapsto> v)))"

definition os_Getenv :: "environ \<Rightarrow> string \<Rightarrow> string" where
  "os_Getenv env k = (case env k of None \<Rightarrow> [] | Some v \<Rightarrow> v)"

definition ParseBool :: "string \<Rightarrow> bool option" where
  "ParseBool s =
     (if s \<in> set [''1'', ''t'', ''T'', ''TRUE'', ''true'', ''True''] then Some True
      else if s \<in> set [''0'', ''f'', ''F'', ''FALSE'', ''false'', ''False''] then Some False
      else None)"

definition getEnv :: "environ \<Rightarrow> string \<Rightarrow> string" where
  "getEnv env envKey = TrimSpace (os_Getenv env envKey)"

definition lookupEnv :: "environ \<Rightarrow> string \<Rightarrow> string \<times> bool" where
  "lookupEnv env envKey = (case env envKey of None \<Rightarrow> (TrimSpace [], False) | Some v \<Rightarrow> (TrimSpace v, True))"

definition env_Set :: "environ \<Rightarrow> string \<Rightarrow> string \<Rightarrow> gerror option \<times> environ" where
  "env_Set env envKey v = os_Setenv env envKey v"

definition env_Get :: "environ \<Rightarrow> string \<Rightarrow> string" where
  "env_Get env envKey = getEnv env envKey"

definition GetOrDefault :: "environ \<Rightarrow> string \<Rightarrow> string \<Rightarrow> string" where
  "GetOrDefault env e defaultValue =
     (let envValue = env_Get env e in if length envValue = 0 then defaultValue else envValue)"

definition Lookup :: "environ \<Rightarrow> string \<Rightarrow> string \<times> bool" where
  "Lookup env envKey = lookupEnv env envKey"

text \<open>A value that \<open>ParseBool\<close> rejects gives false together with an error that is dropped.\<close>

definition Truthy :: "environ \<Rightarrow> string \<Rightarrow> bool" where
  "Truthy env envKey = (case Lookup env envKey of (v, found) \<Rightarrow>
     if \<not> found then False else (case ParseBool v of None \<Rightarrow> False | Some truth \<Rightarrow> truth))"

definition LookupOrFalse :: "environ \<Rightarrow> string \<Rightarrow> string" where
  "LookupOrFalse env envKey = (case Lookup env envKey of (val, present) \<Rightarrow>
     if \<not> present then ''false'' else TrimSpace val)"

lemmas env_defs = env_Get_def getEnv_def os_Getenv_def Lookup_def lookupEnv_def

text \<open>An environment variable that was set without error is read back without surrounding blanks by
  every accessor, and the other variables read as before: \<open>Get\<close>, \<open>GetOrDefault\<close>, \<open>LookupOrFalse\<close> and
  \<open>Truthy\<close> after \<open>Set\<close>. A value made of blanks only counts as not set for \<open>GetOrDefault\<close>.\<close>

theorem env_Set_read_back:
  assumes "env_Set env k v = (None, env')"
  shows "env_Get env' e = (if e = k then TrimSpace v else env_Get env e) \<and>
    GetOrDefault env' k d = (if TrimSpace v = [] then d else TrimSpace v) \<and>
    LookupOrFalse env' k = TrimSpace v \<and>
    Truthy env' k = (ParseBool (TrimSpace v) = Some True)"
proof (intro conjI)
  from assms have env': "env' = env(k \<mapsto> v)"
    by (auto simp: env_Set_def os_Setenv_def split: if_splits)
  show "env_Get env' e = (if e = k then TrimSpace v else env_Get env e)"
    by (simp add: env' env_defs)
  show "GetOrDefault env' k d = (if TrimSpace v = [] then d else TrimSpace v)"
    by (simp add: env' env_defs GetOrDefault_def)
  show "LookupOrFalse env' k = TrimSpace v"
    by (simp add: env' env_defs LookupOrFalse_def)
  show "Truthy env' k = (ParseBool (TrimSpace v) = Some True)"
    by (simp add: env' env_defs Truthy_def split: option.split)
qed

theorem env_Set_read_back_witness:
  "let env' = snd (env_Set Map.empty ''A'' '' 1 '') in
     env_Get env' ''A'' = ''1'' \<and> GetOrDefault env' ''A'' ''d'' = ''1'' \<and> LookupOrFalse env' ''A'' = ''1'' \<and>
     Truthy env' ''A''"
proof -
  have set: "env_Set Map.empty ''A'' '' 1 '' = (None, [''A'' \<mapsto> '' 1 ''])"
    by (simp add: env_Set_def os_Setenv_def)
  have trim: "TrimSpace '' 1 '' = ''1''"
    by (simp add: TrimSpace_def isspace_def)
  show ?thesis
    using env_Set_read_back [OF set, of "''A''" "''d''"]
    by (simp add: set trim ParseBool_def)
qed

end
