(* ===== verification/Kube_Client.thy ===== *)
theory Kube_Client
  imports Env
begin

section \<open>Kubernetes clients: pkg/kubernetes/client/client.go and the shape of the Kubeclients\<close>

text \<open>
  The Kubernetes libraries are parameters: the record \<open>kube\<close> holds the calls that the repository makes
  of client-go and of the generated clientset, each a computation on an abstract cluster state of type
  \<open>'w\<close>. A rest config and a clientset are opaque handles (\<open>nat\<close>). A call that returns a pointer
  and an error gives both, since callers look at both. \<open>k_Sleep\<close> is what becomes of the cluster while
  the driver sleeps.

  \<open>Client\<close> and its operations are those of client.go. The struct \<open>Kubeclient\<close>, which each resource
  package declares for itself with the fields it needs, is one record here; a package leaves the
  function fields it does not have at \<open>None\<close>. The methods of a \<open>Kubeclient\<close> take a pointer receiver and
  may store a clientset in it, so they return the receiver with their result.
\<close>

record ListOptions =
  lo_LabelSelector :: string
  lo_Limit :: int

record ('w, 'o) resource_api =
  r_Get :: "nat \<Rightarrow> string \<Rightarrow> string \<Rightarrow> ('w, 'o perr) go"
  r_List :: "nat \<Rightarrow> string \<Rightarrow> ListOptions \<Rightarrow> ('w, 'o list perr) go"
  r_Create :: "nat \<Rightarrow> string \<Rightarrow> 'o \<Rightarrow> ('w, 'o perr) go"
  r_Update :: "nat \<Rightarrow> string \<Rightarrow> 'o \<Rightarrow> ('w, 'o perr) go"
  r_Delete :: "nat \<Rightarrow> string \<Rightarrow> string \<Rightarrow> string \<Rightarrow> ('w, gerror option) go"
  r_Patch :: "nat \<Rightarrow> string \<Rightarrow> string \<Rightarrow> string \<Rightarrow> string list \<Rightarrow> ('w, 'o perr) go"
  r_DeleteCollection :: "nat \<Rightarrow> string \<Rightarrow> ListOptions \<Rightarrow> string \<Rightarrow> ('w, gerror option) go"

record 'w kube =
  k_env :: environ
  k_InClusterConfig :: "('w, nat perr) go"
  k_BuildConfigFromFlags :: "string \<Rightarrow> string \<Rightarrow> ('w, nat perr) go"
  k_NewForConfig :: "nat option \<Rightarrow> ('w, nat perr) go"
  k_openebs_NewForConfig :: "nat option \<Rightarrow> ('w, nat perr) go"
  k_dynamic_NewForConfig :: "nat option \<Rightarrow> ('w, nat perr) go"
  k_ServerVersion :: "nat \<Rightarrow> ('w, string perr) go"
  k_cvc :: "('w, CStorVolumeConfig) resource_api"
  k_cva :: "('w, CStorVolumeAttachment) resource_api"
  k_cv :: "('w, CStorVolume) resource_api"
  k_node :: "('w, Node) resource_api"
  k_pvc :: "('w, PersistentVolumeClaim) resource_api"
  k_json_cvc :: "CStorVolumeConfig \<Rightarrow> gerror + string"
  k_json_cva :: "CStorVolumeAttachment \<Rightarrow> gerror + string"
  k_json_cv :: "CStorVolume \<Rightarrow> gerror + string"
  k_ParseQuantity :: "string \<Rightarrow> gerror + quantity"
  k_Sleep :: "nat \<Rightarrow> ('w, unit) go"
  k_TwoWayMergePatch :: "string \<Rightarrow> string \<Rightarrow> CStorVolumeConfig \<Rightarrow> gerror + string"

definition call_fn :: "'f option \<Rightarrow> ('f \<Rightarrow> ('s, 'a) go) \<Rightarrow> ('s, 'a) go" where
  "call_fn f k = bnd (deref f) k"

lemma call_fn_simps [simp]:
  "call_fn (Some f) k = k f" "call_fn None k = panic ''nil pointer dereference''"
  by (simp_all add: call_fn_def deref_def)

lemma pres_call_fn [pres_rules]: "prel R \<Longrightarrow> (\<And>x. f = Some x \<Longrightarrow> pres R (k x)) \<Longrightarrow> pres R (call_fn f k)"
  by (cases f) (auto intro: pres_panic)

subsection \<open>client.go\<close>

record 'w Client =
  c_IsInCluster :: bool
  c_KubeConfigPath :: string
  c_getInClusterConfig :: "('w, nat perr) go option"
  c_buildConfigFromFlags :: "(string \<Rightarrow> string \<Rightarrow> ('w, nat perr) go) option"
  c_getKubernetesClientset :: "(nat option \<Rightarrow> ('w, nat perr) go) option"
  c_getKubernetesDynamicClient :: "(nat option \<Rightarrow> ('w, nat perr) go) option"
  c_getKubeMasterIP :: "(string \<Rightarrow> string) option"
  c_getKubeConfigPath :: "(string \<Rightarrow> string) option"

definition zero_Client :: "'w Client" where
  "zero_Client = \<lparr>c_IsInCluster = False, c_KubeConfigPath = [], c_getInClusterConfig = None,
     c_buildConfigFromFlags = None, c_getKubernetesClientset = None,
     c_getKubernetesDynamicClient = None, c_getKubeMasterIP = None, c_getKubeConfigPath = None\<rparr>"

definition or_default :: "'a option \<Rightarrow> 'a \<Rightarrow> 'a option" where
  "or_default f d = (case f of None \<Rightarrow> Some d | Some g \<Rightarrow> Some g)"

lemma or_default_simps [simp]: "or_default None d = Some d" "or_default (Some g) d = Some g"
  by (simp_all add: or_default_def)

definition client_withDefaults :: "'w kube \<Rightarrow> 'w Client \<Rightarrow> 'w Client" where
  "client_withDefaults X c = c
     \<lparr>c_getInClusterConfig := or_default (c_getInClusterConfig c) (k_InClusterConfig X),
      c_buildConfigFromFlags := or_default (c_buildConfigFromFlags c) (k_BuildConfigFromFlags X),
      c_getKubernetesClientset := or_default (c_getKubernetesClientset c) (k_NewForConfig X),
      c_getKubernetesDynamicClient := or_default (c_getKubernetesDynamicClient c) (k_dynamic_NewForConfig X),
      c_getKubeMasterIP := or_default (c_getKubeMasterIP c) (env_Get (k_env X)),
      c_getKubeConfigPath := or_default (c_getKubeConfigPath c) (env_Get (k_env X))\<rparr>"

definition client_New :: "'w kube \<Rightarrow> ('w Client \<Rightarrow> 'w Client) list \<Rightarrow> 'w Client" where
  "client_New X opts = client_withDefaults X (fold (\<lambda>op c. op c) opts zero_Client)"

definition InCluster :: "'w Client \<Rightarrow> 'w Client" where
  "InCluster c = c\<lparr>c_IsInCluster := True\<rparr>"

definition client_WithKubeConfigPath :: "string \<Rightarrow> 'w Client \<Rightarrow> 'w Client" where
  "client_WithKubeConfigPath kubeConfigPath c = c\<lparr>c_KubeConfigPath := kubeConfigPath\<rparr>"

definition getConfigFromENV :: "'w Client \<Rightarrow> ('w, nat perr) go" where
  "getConfigFromENV c =
     call_fn (c_getKubeMasterIP c) (\<lambda>master. call_fn (c_getKubeConfigPath c) (\<lambda>path.
       (let k8sMaster = master KubeMaster; kubeConfig = path KubeConfig in
        if TrimSpace k8sMaster = [] \<and> TrimSpace kubeConfig = []
        then ret (None, Some (Errorf ''failed to get kubernetes config: missing ENV: atleast one should be set: {%s} or {%s}''
               [KubeMaster, KubeConfig]))
        else call_fn (c_buildConfigFromFlags c) (\<lambda>f. f k8sMaster kubeConfig))))"

definition Config :: "'w Client \<Rightarrow> ('w, nat perr) go" where
  "Config c =
     (if c_IsInCluster c then call_fn (c_getInClusterConfig c) (\<lambda>f. f)
      else call_fn (c_getKubeMasterIP c) (\<lambda>master.
        if TrimSpace (master KubeMaster) \<noteq> [] then getConfigFromENV c
        else call_fn (c_getKubeConfigPath c) (\<lambda>path.
          if TrimSpace (path KubeConfig) \<noteq> [] then getConfigFromENV c
          else call_fn (c_getInClusterConfig c) (\<lambda>f. f))))"

definition ConfigForPath :: "'w Client \<Rightarrow> string \<Rightarrow> ('w, nat perr) go" where
  "ConfigForPath c kubeConfigPath = call_fn (c_buildConfigFromFlags c) (\<lambda>f. f [] kubeConfigPath)"

definition GetConfigForPathOrDirect :: "'w Client \<Rightarrow> ('w, nat perr) go" where
  "GetConfigForPathOrDirect c =
     (if c_KubeConfigPath c \<noteq> [] then ConfigForPath c (c_KubeConfigPath c) else Config c)"

definition GetConfig :: "'w Client option \<Rightarrow> ('w, nat perr) go" where
  "GetConfig p = (case p of
     None \<Rightarrow> ret (None, Some (Errorf ''failed to get kubernetes config: nil client was provided'' []))
   | Some c \<Rightarrow> GetConfigForPathOrDirect c)"

definition show_bool :: "bool \<Rightarrow> string" where
  "show_bool b = (if b then ''true'' else ''false'')"

definition Clientset :: "'w Client \<Rightarrow> ('w, nat perr) go" where
  "Clientset c = bnd (GetConfigForPathOrDirect c) (\<lambda>(config, err). case err of
     Some e \<Rightarrow> ret (None, Some (Wrapf ''failed to get kubernetes clientset: failed to get kubernetes config: IsInCluster {%t}: KubeConfigPath {%s}''
            [show_bool (c_IsInCluster c), c_KubeConfigPath c] e))
   | None \<Rightarrow> call_fn (c_getKubernetesClientset c) (\<lambda>f. f config))"

definition Dynamic :: "'w Client \<Rightarrow> ('w, nat perr) go" where
  "Dynamic c = bnd (GetConfigForPathOrDirect c) (\<lambda>(config, err). case err of
     Some e \<Rightarrow> ret (None, Some (Wrapf ''failed to get dynamic client'' [] e))
   | None \<Rightarrow> call_fn (c_getKubernetesDynamicClient c) (\<lambda>f. f config))"

definition getClusterConfig :: "'w kube \<Rightarrow> string \<Rightarrow> ('w, nat perr) go" where
  "getClusterConfig X kubeconfig =
     (if kubeconfig \<noteq> [] then k_BuildConfigFromFlags X [] kubeconfig else k_InClusterConfig X)"

definition GetServerVersion :: "'w kube \<Rightarrow> ('w, string perr) go" where
  "GetServerVersion X = bnd (getClusterConfig X []) (\<lambda>(cfg, err). case err of
     Some e \<Rightarrow> ret (None, Some (Wrapf ''error building kubeconfig'' [] e))
   | None \<Rightarrow> bnd (k_NewForConfig X cfg) (\<lambda>(kubeClient, err). case err of
       Some e \<Rightarrow> ret (None, Some (Wrapf ''error building kubernetes clientset'' [] e))
     | None \<Rightarrow> call_fn kubeClient (k_ServerVersion X)))"

lemma env_Get_trim [simp]: "TrimSpace (env_Get env k) = env_Get env k"
  by (simp add: env_Get_def getEnv_def)


subsection \<open>The shape of a Kubeclient\<close>

record ('w, 'o) Kubeclient =
  kc_clientset :: "nat option"
  kc_kubeConfigPath :: string
  kc_namespace :: string
  kc_getClientset :: "('w, nat perr) go option"
  kc_getClientsetForPath :: "(string \<Rightarrow> ('w, nat perr) go) option"
  kc_get :: "(nat option \<Rightarrow> string \<Rightarrow> string \<Rightarrow> ('w, 'o perr) go) option"
  kc_list :: "(nat option \<Rightarrow> string \<Rightarrow> ListOptions \<Rightarrow> ('w, 'o list perr) go) option"
  kc_del :: "(nat option \<Rightarrow> string \<Rightarrow> string \<Rightarrow> string option \<Rightarrow> ('w, gerror option) go) option"
  kc_create :: "(nat option \<Rightarrow> 'o \<Rightarrow> string \<Rightarrow> ('w, 'o perr) go) option"
  kc_update :: "(nat option \<Rightarrow> 'o \<Rightarrow> string \<Rightarrow> ('w, 'o perr) go) option"
  kc_patch :: "(nat option \<Rightarrow> 'o \<Rightarrow> 'o \<Rightarrow> string list \<Rightarrow> ('w, 'o perr) go) option"
  kc_delCollection :: "(nat option \<Rightarrow> string \<Rightarrow> ListOptions \<Rightarrow> string option \<Rightarrow> ('w, gerror option) go) option"

definition zero_Kubeclient :: "('w, 'o) Kubeclient" where
  "zero_Kubeclient = \<lparr>kc_clientset = None, kc_kubeConfigPath = [], kc_namespace = [],
     kc_getClientset = None, kc_getClientsetForPath = None, kc_get = None, kc_list = None, kc_del = None,
     kc_create = None, kc_update = None, kc_patch = None, kc_delCollection = None\<rparr>"

text \<open>A pointer to \<open>DeleteOptions\<close> is an option of the propagation policy, the only field the repository
  sets.\<close>

text \<open>The code that is the same in every package: the options of the constructor, the choice of the
  clientset, the cached clientset (with the wrapping of its error as an argument, since one package
  returns the error unwrapped), and the prologue of the methods.\<close>

definition WithClientSet :: "nat option \<Rightarrow> ('w, 'o) Kubeclient \<Rightarrow> ('w, 'o) Kubeclient" where
  "WithClientSet c k = k\<lparr>kc_clientset := c\<rparr>"

definition WithNamespace :: "string \<Rightarrow> ('w, 'o) Kubeclient \<Rightarrow> ('w, 'o) Kubeclient" where
  "WithNamespace namespace k = k\<lparr>kc_namespace := namespace\<rparr>"

definition WithKubeConfigPath :: "string \<Rightarrow> ('w, 'o) Kubeclient \<Rightarrow> ('w, 'o) Kubeclient" where
  "WithKubeConfigPath path k = k\<lparr>kc_kubeConfigPath := path\<rparr>"

definition getClientsetForPathOrDirect :: "('w, 'o) Kubeclient \<Rightarrow> ('w, nat perr) go" where
  "getClientsetForPathOrDirect k =
     (if kc_kubeConfigPath k \<noteq> [] then call_fn (kc_getClientsetForPath k) (\<lambda>f. f (kc_kubeConfigPath k))
      else call_fn (kc_getClientset k) (\<lambda>f. f))"

type_synonym ('w, 'o, 'r) kmethod = "('w, 'r \<times> ('w, 'o) Kubeclient) go"

definition clientOrCached ::
  "(gerror \<Rightarrow> gerror) \<Rightarrow> ('w, 'o) Kubeclient \<Rightarrow> ('w, 'o, nat perr) kmethod" where
  "clientOrCached wrap k = (case kc_clientset k of
     Some c \<Rightarrow> ret ((Some c, None), k)
   | None \<Rightarrow> bnd (getClientsetForPathOrDirect k) (\<lambda>(c, err). case err of
       Some e \<Rightarrow> ret ((None, Some (wrap e)), k)
     | None \<Rightarrow> ret ((c, None), k\<lparr>kc_clientset := c\<rparr>)))"

definition with_client ::
  "(('w, 'o) Kubeclient \<Rightarrow> ('w, 'o, nat perr) kmethod) \<Rightarrow> ('w, 'o) Kubeclient \<Rightarrow> (gerror \<Rightarrow> 'r) \<Rightarrow>
   (nat option \<Rightarrow> ('w, 'o) Kubeclient \<Rightarrow> ('w, 'r) go) \<Rightarrow> ('w, 'o, 'r) kmethod" where
  "with_client getClient k onerr call = bnd (getClient k) (\<lambda>((cli, err), k'). case err of
     Some e \<Rightarrow> ret (onerr e, k')
   | None \<Rightarrow> bnd (call cli k') (\<lambda>r. ret (r, k')))"

definition the_result :: "('w, 'r \<times> 'k) go \<Rightarrow> ('w, 'r) go" where
  "the_result m = bnd m (\<lambda>(r, _). ret r)"

text \<open>The contract of the cached clientset that the methods rely on: a stored clientset is returned
  without a call to the outside, a fresh one is stored, and a failure stores nothing.\<close>

locale cached_client =
  fixes getClient :: "('w, 'o) Kubeclient \<Rightarrow> ('w, 'o, nat perr) kmethod"
  assumes hit: "kc_clientset k = Some c \<Longrightarrow> getClient k = ret ((Some c, None), k)"
    and stored: "getClient k s = (Return ((p, None), k'), s') \<Longrightarrow> k' = k\<lparr>kc_clientset := p\<rparr>"
    and failed: "getClient k s = (Return ((p, Some e), k'), s') \<Longrightarrow> k' = k"
begin

lemma with_client_hit:
  "kc_clientset k = Some c \<Longrightarrow> with_client getClient k onerr call = bnd (call (Some c) k) (\<lambda>r. ret (r, k))"
  by (simp add: with_client_def hit)

lemma getClient_keeps: "getClient k s = (Return ((p, err), k'), s') \<Longrightarrow> k' = k\<lparr>kc_clientset := kc_clientset k'\<rparr>"
  by (cases err) (auto dest: stored failed)

lemma with_client_keeps:
  "with_client getClient k onerr call s = (Return (r, k'), s') \<Longrightarrow> k' = k\<lparr>kc_clientset := kc_clientset k'\<rparr>"
  by (fastforce simp: with_client_def bnd_Return_iff split: option.splits dest: getClient_keeps)

text \<open>Two method calls on one Kubeclient: when the first one got as far as its API call, the second
  one asks for no clientset again and makes its API call with the same one.\<close>

theorem with_client_again:
  assumes "getClient k s = (Return ((Some c, None), k'), s')"
  shows "with_client getClient k' onerr call = bnd (call (Some c) k') (\<lambda>r. ret (r, k'))"
  using stored [OF assms] by (simp add: with_client_hit)

end

lemma clientOrCached_laws:
  "kc_clientset k = Some c \<Longrightarrow> clientOrCached wrap k = ret ((Some c, None), k)"
  "clientOrCached wrap k s = (Return ((c', None), k'), s') \<Longrightarrow> k' = k\<lparr>kc_clientset := c'\<rparr>"
  "clientOrCached wrap k s = (Return ((c', Some e), k'), s') \<Longrightarrow> k' = k"
  by (auto simp: clientOrCached_def bnd_Return_iff split: option.splits)

lemma pres_clientOrCached:
  "prel R \<Longrightarrow> pres R (getClientsetForPathOrDirect k) \<Longrightarrow> pres R (clientOrCached wrap k)"
  unfolding clientOrCached_def by (intro pres_rules; simp)

lemma with_client_Return:
  "with_client getClient k onerr call s = (Return (r, k'), s') \<longleftrightarrow>
     (\<exists>cli err t. getClient k s = (Return ((cli, err), k'), t) \<and>
       (case err of Some e \<Rightarrow> r = onerr e \<and> s' = t | None \<Rightarrow> call cli k' t = (Return r, s')))"
  by (auto simp: with_client_def bnd_Return_iff split: option.splits)

text \<open>Most callers make a fresh Kubeclient for one call. The method is then the fetching of a
  clientset followed by the API call.\<close>

definition fresh :: "('w, 'o) Kubeclient \<Rightarrow> ('w, nat perr) go \<Rightarrow> bool" where
  "fresh k g = (kc_clientset k = None \<and> kc_kubeConfigPath k = [] \<and> kc_getClientset k = Some g)"

lemma the_result_ret [simp]: "the_result (ret (r, k)) = ret r"
  by (rule ext) (simp add: the_result_def)

lemma the_result_if [simp]: "the_result (if c then a else b) = (if c then the_result a else the_result b)"
  by simp

lemma fresh_with_client:
  "fresh k g \<Longrightarrow> the_result (with_client (clientOrCached wrap) k onerr call) =
     bnd g (\<lambda>(c, err). case err of Some e \<Rightarrow> ret (onerr (wrap e)) | None \<Rightarrow> call c (k\<lparr>kc_clientset := c\<rparr>))"
  unfolding fresh_def the_result_def with_client_def clientOrCached_def getClientsetForPathOrDirect_def
  by (rule ext) (simp add: bnd_def split: prod.split outcome.split option.split)

lemma pres_the_result [pres_rules]: "prel R \<Longrightarrow> pres R m \<Longrightarrow> pres R (the_result m)"
  unfolding the_result_def by (intro pres_rules)

end
