(* ===== verification/Builder_Contract.thy ===== *)
theory Builder_Contract
  imports API_Objects
begin

section \<open>Builders that collect errors\<close>

text \<open>
  The packages \<open>volumeconfig\<close>, \<open>volumeattachment\<close> and \<open>volume\<close> each have a \<open>Builder\<close> struct with the
  object under construction and a slice of errors; every \<open>With...\<close> method either updates the object or
  appends an error, and \<open>Build\<close> returns the object only when there is no error. The locale states that
  contract once, over a datatype of the calls of a builder chain, and derives what a whole chain
  returns; each package interprets it on its own methods.
\<close>

record 'o Builder =
  b_object :: 'o
  b_errs :: "gerror list"

definition b_err :: "gerror \<Rightarrow> 'o Builder \<Rightarrow> 'o Builder" where
  "b_err e b = b\<lparr>b_errs := b_errs b @ [e]\<rparr>"

definition b_set :: "('o \<Rightarrow> 'o) \<Rightarrow> 'o Builder \<Rightarrow> 'o Builder" where
  "b_set f b = b\<lparr>b_object := f (b_object b)\<rparr>"

definition b_msg :: "string \<Rightarrow> 'o Builder \<Rightarrow> 'o Builder" where
  "b_msg m = b_err (Errorf m [])"

definition Build :: "'o Builder \<Rightarrow> gerror + 'o" where
  "Build b = (if 0 < length (b_errs b) then Inl (ErrList (b_errs b)) else Inr (b_object b))"

lemma b_simps [simp]:
  "b_object (b_err e b) = b_object b" "b_errs (b_err e b) = b_errs b @ [e]"
  "b_object (b_set f b) = f (b_object b)" "b_errs (b_set f b) = b_errs b"
  "b_object (b_msg m b) = b_object b" "b_errs (b_msg m b) = b_errs b @ [Errorf m []]"
  by (simp_all add: b_err_def b_set_def b_msg_def)

lemma Build_Inr_iff [res_iff]: "Build b = Inr x \<longleftrightarrow> b_errs b = [] \<and> x = b_object b"
  by (auto simp: Build_def)

locale error_builder =
  fixes call :: "'c \<Rightarrow> 'o Builder \<Rightarrow> 'o Builder"
    and valid :: "'c \<Rightarrow> 'o \<Rightarrow> bool"
    and apply_call :: "'c \<Rightarrow> 'o \<Rightarrow> 'o"
  assumes call_valid: "valid c (b_object b) \<Longrightarrow> call c b = b_set (apply_call c) b"
    and call_invalid: "\<not> valid c (b_object b) \<Longrightarrow> \<exists>e. b_errs (call c b) = b_errs b @ [e]"
begin

fun valids :: "'c list \<Rightarrow> 'o \<Rightarrow> bool" where
  "valids [] x = True"
| "valids (c # cs) x = (valid c x \<and> valids cs (apply_call c x))"

lemma errs_call: "b_errs (call c b) = [] \<longleftrightarrow> b_errs b = [] \<and> valid c (b_object b)"
  using call_valid call_invalid by (metis append_is_Nil_conv b_simps(4) not_Cons_self2)

lemma errs_mono: "b_errs b \<noteq> [] \<Longrightarrow> b_errs (fold call cs b) \<noteq> []"
  by (induction cs arbitrary: b) (auto simp: errs_call)

lemma chain_errs: "b_errs (fold call cs b) = [] \<longleftrightarrow> b_errs b = [] \<and> valids cs (b_object b)"
proof (induction cs arbitrary: b)
  case (Cons c cs)
  show ?case
  proof (cases "valid c (b_object b)")
    case True
    with Cons show ?thesis by (simp add: call_valid)
  next
    case False
    then have "b_errs (call c b) \<noteq> []" by (simp add: errs_call)
    then have "b_errs (fold call cs (call c b)) \<noteq> []" by (rule errs_mono)
    with False show ?thesis by simp
  qed
qed simp

lemma chain_object: "valids cs (b_object b) \<Longrightarrow> b_object (fold call cs b) = fold apply_call cs (b_object b)"
  by (induction cs arbitrary: b) (auto simp: call_valid)

theorem chain_Build:
  "Build (fold call cs b) = Inr x \<longleftrightarrow>
     b_errs b = [] \<and> valids cs (b_object b) \<and> x = fold apply_call cs (b_object b)"
  by (auto simp: Build_Inr_iff chain_errs chain_object)

end

end
