(* ===== verification/VolumeConfig_Build.thy ===== *)
theory VolumeConfig_Build
  imports Builder_Contract
begin

section \<open>The builder of CStorVolumeConfig: pkg/cstor/volumeconfig/build.go\<close>

text \<open>
  One definition per builder method. \<open>cvc_call\<close> lists the methods as a datatype so that a builder chain
  is a list of calls, and the interpretation of the builder contract gives what a chain returns.
  \<open>resource.ParseQuantity\<close> is the parameter \<open>ParseQuantity\<close>.
\<close>

type_synonym cvc_Builder = "CStorVolumeConfig Builder"

definition cvc_NewBuilder :: cvc_Builder where
  "cvc_NewBuilder = \<lparr>b_object = zero_CVC, b_errs = []\<rparr>"

definition cvc_BuildFrom :: "CStorVolumeConfig option \<Rightarrow> cvc_Builder" where
  "cvc_BuildFrom cvc = (case cvc of
     None \<Rightarrow> b_msg ''failed to build cstorvolumeclaim object: nil cvc'' cvc_NewBuilder
   | Some c \<Rightarrow> \<lparr>b_object = c, b_errs = []\<rparr>)"

definition cvc_WithName :: "string \<Rightarrow> cvc_Builder \<Rightarrow> cvc_Builder" where
  "cvc_WithName name b =
     (if name = [] then b_msg ''failed to build cstorvolumeclaim object: missing name'' b
      else b_set (\<lambda>ob. ob\<lparr>cvc_Name := name\<rparr>) b)"

definition cvc_WithGenerateName :: "string \<Rightarrow> cvc_Builder \<Rightarrow> cvc_Builder" where
  "cvc_WithGenerateName name b =
     (if name = [] then b_msg ''failed to build cstorvolumeclaim object: missing generateName'' b
      else b_set (\<lambda>ob. ob\<lparr>cvc_GenerateName := name\<rparr>) b)"

definition cvc_WithNamespace :: "string \<Rightarrow> cvc_Builder \<Rightarrow> cvc_Builder" where
  "cvc_WithNamespace namespace b =
     (if namespace = [] then b_msg ''failed to build cstorvolumeclaim object: missing namespace'' b
      else b_set (\<lambda>ob. ob\<lparr>cvc_Namespace := namespace\<rparr>) b)"

definition cvc_WithStatusPhase :: "string \<Rightarrow> cvc_Builder \<Rightarrow> cvc_Builder" where
  "cvc_WithStatusPhase phase b =
     (if phase = [] then b_msg ''failed to build cstorvolumeclaim object: missing phase'' b
      else b_set (\<lambda>ob. ob\<lparr>cvc_Phase := phase\<rparr>) b)"

definition cvc_WithStatusConditions :: "string list \<Rightarrow> cvc_Builder \<Rightarrow> cvc_Builder" where
  "cvc_WithStatusConditions conditions b =
     (if length conditions = 0 then b_msg ''failed to build cstorvolumeclaim object: missing conditions'' b
      else b_set (\<lambda>ob. ob\<lparr>cvc_Conditions := cvc_Conditions ob @ conditions\<rparr>) b)"

definition cvc_WithStatusConditionsNew :: "string list \<Rightarrow> cvc_Builder \<Rightarrow> cvc_Builder" where
  "cvc_WithStatusConditionsNew conditions b =
     (if length conditions = 0 then b_msg ''failed to build cstorvolumeclaim object: missing conditions'' b
      else b_set (\<lambda>ob. ob\<lparr>cvc_Conditions := conditions\<rparr>) b)"

definition cvc_WithAnnotationsNew :: "gomap \<Rightarrow> cvc_Builder \<Rightarrow> cvc_Builder" where
  "cvc_WithAnnotationsNew annotations b =
     (if length annotations = 0 then b_msg ''failed to build cstorvolumeclaim object: no new annotations'' b
      else b_set (\<lambda>ob. ob\<lparr>cvc_Annotations := Some (gmerge [] annotations)\<rparr>) b)"

definition cvc_WithAnnotations :: "gomap \<Rightarrow> cvc_Builder \<Rightarrow> cvc_Builder" where
  "cvc_WithAnnotations annotations b =
     (if length annotations = 0 then b_msg ''failed to build cstorvolumeclaim object: missing annotations'' b
      else (case cvc_Annotations (b_object b) of
        None \<Rightarrow> cvc_WithAnnotationsNew annotations b
      | Some m \<Rightarrow> b_set (\<lambda>ob. ob\<lparr>cvc_Annotations := Some (gmerge m annotations)\<rparr>) b))"

definition cvc_WithLabelsNew :: "gomap \<Rightarrow> cvc_Builder \<Rightarrow> cvc_Builder" where
  "cvc_WithLabelsNew labels b =
     (if length labels = 0 then b_msg ''failed to build cstorvolumeclaim object: no new labels'' b
      else b_set (\<lambda>ob. ob\<lparr>cvc_Labels := Some (gmerge [] labels)\<rparr>) b)"

definition cvc_WithLabels :: "gomap \<Rightarrow> cvc_Builder \<Rightarrow> cvc_Builder" where
  "cvc_WithLabels labels b =
     (if length labels = 0 then b_msg ''failed to build cstorvolumeclaim object: missing labels'' b
      else (case cvc_Labels (b_object b) of
        None \<Rightarrow> cvc_WithLabelsNew labels b
      | Some m \<Rightarrow> b_set (\<lambda>ob. ob\<lparr>cvc_Labels := Some (gmerge m labels)\<rparr>) b))"

definition cvc_WithFinalizersNew :: "string list \<Rightarrow> cvc_Builder \<Rightarrow> cvc_Builder" where
  "cvc_WithFinalizersNew finalizers b =
     (if length finalizers = 0 then b_msg ''failed to build cstorvolumeclaim object: no new finalizers'' b
      else b_set (\<lambda>ob. ob\<lparr>cvc_Finalizers := Some finalizers\<rparr>) b)"

definition cvc_WithFinalizers :: "string list \<Rightarrow> cvc_Builder \<Rightarrow> cvc_Builder" where
  "cvc_WithFinalizers finalizers b =
     (if length finalizers = 0 then b_msg ''failed to build cstorvolumeclaim object: missing finalizers'' b
      else (case cvc_Finalizers (b_object b) of
        None \<Rightarrow> cvc_WithFinalizersNew finalizers b
      | Some fs \<Rightarrow> b_set (\<lambda>ob. ob\<lparr>cvc_Finalizers := Some (fs @ finalizers)\<rparr>) b))"

definition cvc_WithCapacityQty :: "quantity \<Rightarrow> cvc_Builder \<Rightarrow> cvc_Builder" where
  "cvc_WithCapacityQty resCapacity b = b_set (\<lambda>ob. ob\<lparr>cvc_Capacity := Some resCapacity\<rparr>) b"

definition cvc_WithCapacity :: "(string \<Rightarrow> gerror + quantity) \<Rightarrow> string \<Rightarrow> cvc_Builder \<Rightarrow> cvc_Builder" where
  "cvc_WithCapacity ParseQuantity capacity b = (case ParseQuantity capacity of
     Inl err \<Rightarrow> b_err (Wrapf ''failed to build CStorVolumeConfig object: failed to parse capacity {%s}'' [capacity] err) b
   | Inr resCapacity \<Rightarrow> cvc_WithCapacityQty resCapacity b)"

definition cvc_WithSource :: "string \<Rightarrow> cvc_Builder \<Rightarrow> cvc_Builder" where
  "cvc_WithSource volumeSource b = b_set (\<lambda>ob. ob\<lparr>cvc_CStorVolumeSource := volumeSource\<rparr>) b"

definition cvc_WithProvisionCapacityQty :: "quantity \<Rightarrow> cvc_Builder \<Rightarrow> cvc_Builder" where
  "cvc_WithProvisionCapacityQty resCapacity b = b_set (\<lambda>ob. ob\<lparr>cvc_ProvisionCapacity := Some resCapacity\<rparr>) b"

definition cvc_WithReplicaCount :: "string \<Rightarrow> cvc_Builder \<Rightarrow> cvc_Builder" where
  "cvc_WithReplicaCount count b = (case Atoi count of
     None \<Rightarrow> b_err (Wrapf ''failed to build cstorvolumeclaim object {%s}'' [count] (Errorf ''strconv.Atoi'' [count])) b
   | Some replicaCount \<Rightarrow> b_set (\<lambda>ob. ob\<lparr>cvc_ReplicaCount := replicaCount\<rparr>) b)"

definition cvc_WithNodeID :: "string \<Rightarrow> cvc_Builder \<Rightarrow> cvc_Builder" where
  "cvc_WithNodeID nodeID b =
     (if nodeID = [] then b_msg ''failed to build cstorvolumeconfig object: missing nodeID'' b
      else b_set (\<lambda>ob. ob\<lparr>cvc_NodeID := nodeID\<rparr>) b)"

definition cvc_WithNewVersion :: "string \<Rightarrow> cvc_Builder \<Rightarrow> cvc_Builder" where
  "cvc_WithNewVersion version b =
     (if version = [] then b_msg ''failed to build cstorvolume object: version can't be empty'' b
      else b_set (\<lambda>ob. ob\<lparr>cvc_VersionCurrent := version, cvc_VersionDesired := version\<rparr>) b)"

definition cvc_WithDependentsUpgraded :: "cvc_Builder \<Rightarrow> cvc_Builder" where
  "cvc_WithDependentsUpgraded b = b_set (\<lambda>ob. ob\<lparr>cvc_DependentsUpgraded := True\<rparr>) b"

subsection \<open>Chains of calls\<close>

datatype cvc_call =
    CvcName string | CvcGenerateName string | CvcNamespace string | CvcStatusPhase string
  | CvcStatusConditions "string list" | CvcStatusConditionsNew "string list"
  | CvcAnnotations gomap | CvcAnnotationsNew gomap | CvcLabels gomap | CvcLabelsNew gomap
  | CvcFinalizers "string list" | CvcFinalizersNew "string list"
  | CvcCapacity string | CvcCapacityQty quantity | CvcSource string
  | CvcProvisionCapacityQty quantity | CvcReplicaCount string | CvcNodeID string
  | CvcNewVersion string | CvcDependentsUpgraded

fun cvc_run :: "(string \<Rightarrow> gerror + quantity) \<Rightarrow> cvc_call \<Rightarrow> cvc_Builder \<Rightarrow> cvc_Builder" where
  "cvc_run pq (CvcName n) = cvc_WithName n"
| "cvc_run pq (CvcGenerateName n) = cvc_WithGenerateName n"
| "cvc_run pq (CvcNamespace n) = cvc_WithNamespace n"
| "cvc_run pq (CvcStatusPhase p) = cvc_WithStatusPhase p"
| "cvc_run pq (CvcStatusConditions cs) = cvc_WithStatusConditions cs"
| "cvc_run pq (CvcStatusConditionsNew cs) = cvc_WithStatusConditionsNew cs"
| "cvc_run pq (CvcAnnotations m) = cvc_WithAnnotations m"
| "cvc_run pq (CvcAnnotationsNew m) = cvc_WithAnnotationsNew m"
| "cvc_run pq (CvcLabels m) = cvc_WithLabels m"
| "cvc_run pq (CvcLabelsNew m) = cvc_WithLabelsNew m"
| "cvc_run pq (CvcFinalizers fs) = cvc_WithFinalizers fs"
| "cvc_run pq (CvcFinalizersNew fs) = cvc_WithFinalizersNew fs"
| "cvc_run pq (CvcCapacity c) = cvc_WithCapacity pq c"
| "cvc_run pq (CvcCapacityQty q) = cvc_WithCapacityQty q"
| "cvc_run pq (CvcSource s) = cvc_WithSource s"
| "cvc_run pq (CvcProvisionCapacityQty q) = cvc_WithProvisionCapacityQty q"
| "cvc_run pq (CvcReplicaCount c) = cvc_WithReplicaCount c"
| "cvc_run pq (CvcNodeID n) = cvc_WithNodeID n"
| "cvc_run pq (CvcNewVersion v) = cvc_WithNewVersion v"
| "cvc_run pq CvcDependentsUpgraded = cvc_WithDependentsUpgraded"

text \<open>The specification of a call: when it is accepted, and what it writes.\<close>

fun cvc_valid :: "(string \<Rightarrow> gerror + quantity) \<Rightarrow> cvc_call \<Rightarrow> CStorVolumeConfig \<Rightarrow> bool" where
  "cvc_valid pq (CvcName n) ob = (n \<noteq> [])"
| "cvc_valid pq (CvcGenerateName n) ob = (n \<noteq> [])"
| "cvc_valid pq (CvcNamespace n) ob = (n \<noteq> [])"
| "cvc_valid pq (CvcStatusPhase p) ob = (p \<noteq> [])"
| "cvc_valid pq (CvcStatusConditions cs) ob = (cs \<noteq> [])"
| "cvc_valid pq (CvcStatusConditionsNew cs) ob = (cs \<noteq> [])"
| "cvc_valid pq (CvcAnnotations m) ob = (m \<noteq> [])"
| "cvc_valid pq (CvcAnnotationsNew m) ob = (m \<noteq> [])"
| "cvc_valid pq (CvcLabels m) ob = (m \<noteq> [])"
| "cvc_valid pq (CvcLabelsNew m) ob = (m \<noteq> [])"
| "cvc_valid pq (CvcFinalizers fs) ob = (fs \<noteq> [])"
| "cvc_valid pq (CvcFinalizersNew fs) ob = (fs \<noteq> [])"
| "cvc_valid pq (CvcCapacity c) ob = (\<exists>q. pq c = Inr q)"
| "cvc_valid pq (CvcReplicaCount c) ob = (Atoi c \<noteq> None)"
| "cvc_valid pq (CvcNodeID n) ob = (n \<noteq> [])"
| "cvc_valid pq (CvcNewVersion v) ob = (v \<noteq> [])"
| "cvc_valid pq _ ob = True"

definition onto :: "gomap option \<Rightarrow> gomap \<Rightarrow> gomap option" where
  "onto m new = Some (gmerge (case m of None \<Rightarrow> [] | Some g \<Rightarrow> g) new)"

definition onto_list :: "'a list option \<Rightarrow> 'a list \<Rightarrow> 'a list option" where
  "onto_list m new = Some ((case m of None \<Rightarrow> [] | Some g \<Rightarrow> g) @ new)"

fun cvc_apply :: "(string \<Rightarrow> gerror + quantity) \<Rightarrow> cvc_call \<Rightarrow> CStorVolumeConfig \<Rightarrow> CStorVolumeConfig" where
  "cvc_apply pq (CvcName n) ob = ob\<lparr>cvc_Name := n\<rparr>"
| "cvc_apply pq (CvcGenerateName n) ob = ob\<lparr>cvc_GenerateName := n\<rparr>"
| "cvc_apply pq (CvcNamespace n) ob = ob\<lparr>cvc_Namespace := n\<rparr>"
| "cvc_apply pq (CvcStatusPhase p) ob = ob\<lparr>cvc_Phase := p\<rparr>"
| "cvc_apply pq (CvcStatusConditions cs) ob = ob\<lparr>cvc_Conditions := cvc_Conditions ob @ cs\<rparr>"
| "cvc_apply pq (CvcStatusConditionsNew cs) ob = ob\<lparr>cvc_Conditions := cs\<rparr>"
| "cvc_apply pq (CvcAnnotations m) ob = ob\<lparr>cvc_Annotations := onto (cvc_Annotations ob) m\<rparr>"
| "cvc_apply pq (CvcAnnotationsNew m) ob = ob\<lparr>cvc_Annotations := onto None m\<rparr>"
| "cvc_apply pq (CvcLabels m) ob = ob\<lparr>cvc_Labels := onto (cvc_Labels ob) m\<rparr>"
| "cvc_apply pq (CvcLabelsNew m) ob = ob\<lparr>cvc_Labels := onto None m\<rparr>"
| "cvc_apply pq (CvcFinalizers fs) ob = ob\<lparr>cvc_Finalizers := onto_list (cvc_Finalizers ob) fs\<rparr>"
| "cvc_apply pq (CvcFinalizersNew fs) ob = ob\<lparr>cvc_Finalizers := onto_list None fs\<rparr>"
| "cvc_apply pq (CvcCapacity c) ob = (case pq c of Inl _ \<Rightarrow> ob | Inr q \<Rightarrow> ob\<lparr>cvc_Capacity := Some q\<rparr>)"
| "cvc_apply pq (CvcCapacityQty q) ob = ob\<lparr>cvc_Capacity := Some q\<rparr>"
| "cvc_apply pq (CvcSource s) ob = ob\<lparr>cvc_CStorVolumeSource := s\<rparr>"
| "cvc_apply pq (CvcProvisionCapacityQty q) ob = ob\<lparr>cvc_ProvisionCapacity := Some q\<rparr>"
| "cvc_apply pq (CvcReplicaCount c) ob = (case Atoi c of None \<Rightarrow> ob | Some n \<Rightarrow> ob\<lparr>cvc_ReplicaCount := n\<rparr>)"
| "cvc_apply pq (CvcNodeID n) ob = ob\<lparr>cvc_NodeID := n\<rparr>"
| "cvc_apply pq (CvcNewVersion v) ob = ob\<lparr>cvc_VersionCurrent := v, cvc_VersionDesired := v\<rparr>"
| "cvc_apply pq CvcDependentsUpgraded ob = ob\<lparr>cvc_DependentsUpgraded := True\<rparr>"

lemmas cvc_With_defs = cvc_WithName_def cvc_WithGenerateName_def cvc_WithNamespace_def
  cvc_WithStatusPhase_def cvc_WithStatusConditions_def cvc_WithStatusConditionsNew_def
  cvc_WithAnnotations_def cvc_WithAnnotationsNew_def cvc_WithLabels_def cvc_WithLabelsNew_def
  cvc_WithFinalizers_def cvc_WithFinalizersNew_def cvc_WithCapacity_def cvc_WithCapacityQty_def
  cvc_WithSource_def cvc_WithProvisionCapacityQty_def cvc_WithReplicaCount_def cvc_WithNodeID_def
  cvc_WithNewVersion_def cvc_WithDependentsUpgraded_def

lemma cvc_run_valid: "cvc_valid pq c (b_object b) \<Longrightarrow> cvc_run pq c b = b_set (cvc_apply pq c) b"
  by (cases c) (auto simp: cvc_With_defs b_set_def onto_def onto_list_def split: option.splits sum.splits)

lemma cvc_run_invalid: "\<not> cvc_valid pq c (b_object b) \<Longrightarrow> \<exists>e. b_errs (cvc_run pq c b) = b_errs b @ [e]"
  by (cases c) (auto simp: cvc_With_defs split: option.splits sum.splits)

interpretation cvcb: error_builder "cvc_run pq" "cvc_valid pq" "cvc_apply pq" for pq
  by unfold_locales (simp_all add: cvc_run_valid cvc_run_invalid)

subsection \<open>What a chain returns\<close>

lemma cvc_valid_stable: "cvc_valid pq c ob = cvc_valid pq c ob'"
  by (cases c) auto

lemma cvc_valids_list_all: "cvcb.valids pq cs ob \<longleftrightarrow> list_all (\<lambda>c. cvc_valid pq c ob') cs"
  by (induction cs arbitrary: ob) (auto intro: cvc_valid_stable [THEN iffD1])

text \<open>C36: a builder chain of any length over an existing CStorVolumeConfig succeeds exactly when every
  call of it was given valid data, and the object it returns is then the one obtained by writing the
  fields in the order of the calls; one invalid call anywhere makes \<open>Build\<close> fail, whatever follows it.\<close>

theorem cvc_builder_chain:
  "Build (fold (cvc_run pq) cs (cvc_BuildFrom (Some ob))) = Inr x \<longleftrightarrow>
     list_all (\<lambda>c. cvc_valid pq c ob) cs \<and> x = fold (cvc_apply pq) cs ob"
  by (simp add: cvcb.chain_Build cvc_BuildFrom_def cvc_valids_list_all [where ob' = ob])

end
