(* ===== verification/VolumeConfig_Client.thy ===== *)
theory VolumeConfig_Client
  imports Kube_Client VolumeConfig_Build
begin

section \<open>CStorVolumeConfig client: pkg/cstor/volumeconfig/kubernetes.go and utils.go\<close>

text \<open>
  The default implementations of the function fields, the constructor, and the methods that the
  driver calls. A patch is computed from the JSON of the old and the new object.
\<close>

type_synonym 'w cvc_Kubeclient = "('w, CStorVolumeConfig) Kubeclient"

definition cvc_defaultGetClientset :: "'w kube \<Rightarrow> ('w, nat perr) go" where
  "cvc_defaultGetClientset X = bnd (GetConfig (Some (client_New X []))) (\<lambda>(config, err). case err of
     Some e \<Rightarrow> ret (None, Some e)
   | None \<Rightarrow> k_openebs_NewForConfig X config)"

definition cvc_defaultGetClientsetForPath :: "'w kube \<Rightarrow> string \<Rightarrow> ('w, nat perr) go" where
  "cvc_defaultGetClientsetForPath X kubeConfigPath =
     bnd (GetConfig (Some (client_New X [client_WithKubeConfigPath kubeConfigPath]))) (\<lambda>(config, err). case err of
       Some e \<Rightarrow> ret (None, Some e)
     | None \<Rightarrow> k_openebs_NewForConfig X config)"

definition cvc_defaultGet :: "'w kube \<Rightarrow> nat option \<Rightarrow> string \<Rightarrow> string \<Rightarrow> ('w, CStorVolumeConfig perr) go" where
  "cvc_defaultGet X cli name namespace = call_fn cli (\<lambda>c. r_Get (k_cvc X) c namespace name)"

definition cvc_defaultList :: "'w kube \<Rightarrow> nat option \<Rightarrow> string \<Rightarrow> ListOptions \<Rightarrow> ('w, CStorVolumeConfig list perr) go" where
  "cvc_defaultList X cli namespace opts = call_fn cli (\<lambda>c. r_List (k_cvc X) c namespace opts)"

definition cvc_defaultDel :: "'w kube \<Rightarrow> nat option \<Rightarrow> string \<Rightarrow> string \<Rightarrow> string option \<Rightarrow> ('w, gerror option) go" where
  "cvc_defaultDel X cli name namespace opts =
     call_fn opts (\<lambda>_. call_fn cli (\<lambda>c. r_Delete (k_cvc X) c namespace name ''Foreground''))"

definition cvc_defaultCreate :: "'w kube \<Rightarrow> nat option \<Rightarrow> CStorVolumeConfig \<Rightarrow> string \<Rightarrow> ('w, CStorVolumeConfig perr) go" where
  "cvc_defaultCreate X cli vol namespace = call_fn cli (\<lambda>c. r_Create (k_cvc X) c namespace vol)"

definition cvc_defaultUpdate :: "'w kube \<Rightarrow> nat option \<Rightarrow> CStorVolumeConfig \<Rightarrow> string \<Rightarrow> ('w, CStorVolumeConfig perr) go" where
  "cvc_defaultUpdate X cli vol namespace = call_fn cli (\<lambda>c. r_Update (k_cvc X) c namespace vol)"

definition CVCKey :: "CStorVolumeConfig \<Rightarrow> string" where
  "CVCKey cvc = cvc_Namespace cvc @ ''/'' @ cvc_Name cvc"

definition getPatchData :: "'w kube \<Rightarrow> CStorVolumeConfig \<Rightarrow> CStorVolumeConfig \<Rightarrow> gerror + string" where
  "getPatchData X oldObj newObj = (case k_json_cvc X oldObj of
     Inl err \<Rightarrow> Inl (ErrorfE ''marshal old object failed: %v'' [] err)
   | Inr oldData \<Rightarrow> (case k_json_cvc X newObj of
       Inl err \<Rightarrow> Inl (ErrorfE ''mashal new object failed: %v'' [] err)
     | Inr newData \<Rightarrow> (case k_TwoWayMergePatch X oldData newData oldObj of
         Inl err \<Rightarrow> Inl (ErrorfE ''CreateTwoWayMergePatch failed: %v'' [] err)
       | Inr patchBytes \<Rightarrow> Inr patchBytes)))"

definition cvc_defaultPatch ::
  "'w kube \<Rightarrow> nat option \<Rightarrow> CStorVolumeConfig \<Rightarrow> CStorVolumeConfig \<Rightarrow> string list \<Rightarrow> ('w, CStorVolumeConfig perr) go" where
  "cvc_defaultPatch X cli oldCVC newCVC subresources = (case getPatchData X oldCVC newCVC of
     Inl err \<Rightarrow> ret (None, Some (ErrorfE ''can't patch CVC %s as generate path data failed: %v'' [CVCKey oldCVC] err))
   | Inr patchBytes \<Rightarrow>
       bnd (call_fn cli (\<lambda>c. r_Patch (k_cvc X) c (cvc_Namespace oldCVC) (cvc_Name oldCVC) patchBytes subresources))
         (\<lambda>(updatedCVC, updateErr). case updateErr of
            Some err \<Rightarrow> ret (None, Some (ErrorfE ''can't patch status of  CVC %s with %v'' [CVCKey oldCVC] err))
          | None \<Rightarrow> ret (updatedCVC, None)))"

definition cvc_withDefaults :: "'w kube \<Rightarrow> 'w cvc_Kubeclient \<Rightarrow> 'w cvc_Kubeclient" where
  "cvc_withDefaults X k = k
     \<lparr>kc_getClientset := or_default (kc_getClientset k) (cvc_defaultGetClientset X),
      kc_getClientsetForPath := or_default (kc_getClientsetForPath k) (cvc_defaultGetClientsetForPath X),
      kc_get := or_default (kc_get k) (cvc_defaultGet X),
      kc_list := or_default (kc_list k) (cvc_defaultList X),
      kc_del := or_default (kc_del k) (cvc_defaultDel X),
      kc_create := or_default (kc_create k) (cvc_defaultCreate X),
      kc_update := or_default (kc_update k) (cvc_defaultUpdate X),
      kc_patch := or_default (kc_patch k) (cvc_defaultPatch X)\<rparr>"

definition cvc_NewKubeclient ::
  "'w kube \<Rightarrow> ('w cvc_Kubeclient \<Rightarrow> 'w cvc_Kubeclient) list \<Rightarrow> 'w cvc_Kubeclient" where
  "cvc_NewKubeclient X opts = cvc_withDefaults X (fold (\<lambda>op k. op k) opts zero_Kubeclient)"

definition cvc_getClientOrCached :: "'w cvc_Kubeclient \<Rightarrow> ('w, CStorVolumeConfig, nat perr) kmethod" where
  "cvc_getClientOrCached = clientOrCached (Wrapf ''failed to get clientset'' [])"

interpretation cvccc: cached_client cvc_getClientOrCached
  unfolding cvc_getClientOrCached_def by unfold_locales (rule clientOrCached_laws; assumption)+

definition cvc_Create :: "'w cvc_Kubeclient \<Rightarrow> CStorVolumeConfig option \<Rightarrow> ('w, CStorVolumeConfig, CStorVolumeConfig perr) kmethod" where
  "cvc_Create k vol = (case vol of
     None \<Rightarrow> ret ((None, Some (Errorf ''failed to create cstovolumeclaim: nil cvc object'' [])), k)
   | Some v \<Rightarrow> with_client cvc_getClientOrCached k
       (\<lambda>e. (None, Some (Wrapf ''failed to create cvc {%s} in namespace {%s}'' [cvc_Name v, kc_namespace k] e)))
       (\<lambda>cli k. call_fn (kc_create k) (\<lambda>f. f cli v (kc_namespace k))))"

definition cvc_Get :: "'w cvc_Kubeclient \<Rightarrow> string \<Rightarrow> ('w, CStorVolumeConfig, CStorVolumeConfig perr) kmethod" where
  "cvc_Get k name =
     (if name = [] then ret ((None, Some (Errorf ''failed to get cstorvolumeclaim: missing cvc name'' [])), k)
      else with_client cvc_getClientOrCached k
       (\<lambda>e. (None, Some (Wrapf ''failed to get cstorvolumeclaim {%s} in namespace {%s}'' [name, kc_namespace k] e)))
       (\<lambda>cli k. call_fn (kc_get k) (\<lambda>f. f cli name (kc_namespace k))))"

definition cvc_GetRaw :: "'w kube \<Rightarrow> 'w cvc_Kubeclient \<Rightarrow> string \<Rightarrow> ('w, CStorVolumeConfig, string perr) kmethod" where
  "cvc_GetRaw X k name = 
     (if name = [] then ret ((None, Some (Errorf ''failed to get raw cstorvolumeclaim: missing cvc name'' [])), k) else
     bnd (cvc_Get k name) (\<lambda>((vol, err), k'). case err of
       Some e \<Rightarrow> ret ((None, Some (Wrapf ''failed to get cstorvolumeclaim {%s} in namespace {%s}'' [name, kc_namespace k] e)), k')
     | None \<Rightarrow> (case vol of None \<Rightarrow> ret ((Some ''null'', None), k') | Some v \<Rightarrow> (case k_json_cvc X v of
         Inl e \<Rightarrow> ret ((None, Some e), k') | Inr raw \<Rightarrow> ret ((Some raw, None), k')))))"

definition cvc_List :: "'w cvc_Kubeclient \<Rightarrow> ListOptions \<Rightarrow> ('w, CStorVolumeConfig, CStorVolumeConfig list perr) kmethod" where
  "cvc_List k opts = with_client cvc_getClientOrCached k
     (\<lambda>e. (None, Some (Wrapf ''failed to list cstorvolumeclaims in namespace {%s}'' [kc_namespace k] e)))
     (\<lambda>cli k. call_fn (kc_list k) (\<lambda>f. f cli (kc_namespace k) opts))"

definition cvc_Delete :: "'w cvc_Kubeclient \<Rightarrow> string \<Rightarrow> ('w, CStorVolumeConfig, gerror option) kmethod" where
  "cvc_Delete k name = 
     (if name = [] then ret (Some (Errorf ''failed to delete cstorvolumeclaim: missing cvc name'' []), k) else
     with_client cvc_getClientOrCached k
       (\<lambda>e. Some (Wrapf ''failed to delete cstorvolumeclaim {%s} in namespace {%s}'' [name, kc_namespace k] e))
       (\<lambda>cli k. call_fn (kc_del k) (\<lambda>f. f cli name (kc_namespace k) (Some []))))"

definition cvc_Update :: "'w cvc_Kubeclient \<Rightarrow> CStorVolumeConfig option \<Rightarrow> ('w, CStorVolumeConfig, CStorVolumeConfig perr) kmethod" where
  "cvc_Update k vol = (case vol of
     None \<Rightarrow> ret ((None, Some (Errorf ''failed to update cstorvolumeclaim: nil cvc object'' [])), k)
   | Some v \<Rightarrow> with_client cvc_getClientOrCached k
       (\<lambda>e. (None, Some (Wrapf ''failed to update cstorvolumeclaim {%s} in namespace {%s}'' [cvc_Name v, cvc_Namespace v] e)))
       (\<lambda>cli k. call_fn (kc_update k) (\<lambda>f. f cli v (kc_namespace k))))"

definition cvc_Patch ::
  "'w cvc_Kubeclient \<Rightarrow> CStorVolumeConfig option \<Rightarrow> CStorVolumeConfig option \<Rightarrow> string list \<Rightarrow> ('w, CStorVolumeConfig, CStorVolumeConfig perr) kmethod" where
  "cvc_Patch k oldCVC newCVC subresources = (case (oldCVC, newCVC) of
     (Some old, Some new) \<Rightarrow> with_client cvc_getClientOrCached k
       (\<lambda>e. (None, Some (Wrapf ''failed to update cstorvolumeclaim {%s} in namespace {%s}'' [cvc_Name new, cvc_Namespace new] e)))
       (\<lambda>cli k. call_fn (kc_patch k) (\<lambda>f. f cli old new subresources))
   | _ \<Rightarrow> ret ((None, Some (Errorf ''failed to update cstorvolumeclaim: nil cvc object'' [])), k))"

lemmas cvc_client_defs = cvc_NewKubeclient_def cvc_withDefaults_def cvc_defaultGet_def cvc_defaultList_def
  cvc_defaultDel_def cvc_defaultCreate_def cvc_defaultUpdate_def WithNamespace_def zero_Kubeclient_def

definition cvc_kc :: "'w kube \<Rightarrow> string \<Rightarrow> 'w cvc_Kubeclient" where
  "cvc_kc X namespace = WithNamespace namespace (cvc_NewKubeclient X [])"

lemma cvc_kc_fresh: "fresh (cvc_kc X ns) (cvc_defaultGetClientset X)"
  by (simp add: fresh_def cvc_kc_def cvc_client_defs)

lemma cvc_kc_fields [simp]:
  "kc_namespace (cvc_kc X ns) = ns" "kc_get (cvc_kc X ns) = Some (cvc_defaultGet X)"
  "kc_list (cvc_kc X ns) = Some (cvc_defaultList X)" "kc_del (cvc_kc X ns) = Some (cvc_defaultDel X)"
  "kc_create (cvc_kc X ns) = Some (cvc_defaultCreate X)" "kc_update (cvc_kc X ns) = Some (cvc_defaultUpdate X)"
  "kc_patch (cvc_kc X ns) = Some (cvc_defaultPatch X)"
  by (simp_all add: cvc_kc_def cvc_client_defs)

lemma cvc_Get_fresh:
  "name \<noteq> [] \<Longrightarrow> the_result (cvc_Get (cvc_kc X ns) name) s = (Return (p, None), s') \<longleftrightarrow>
     (\<exists>c t. cvc_defaultGetClientset X s = (Return (Some c, None), t) \<and>
            r_Get (k_cvc X) c ns name t = (Return (p, None), s'))"
  by (auto simp: cvc_Get_def cvc_getClientOrCached_def fresh_with_client [OF cvc_kc_fresh] bnd_Return_iff
      cvc_defaultGet_def call_fn_def deref_def split: option.splits)

lemma cvc_Create_fresh:
  "the_result (cvc_Create (cvc_kc X ns) (Some v)) s = (Return (p, None), s') \<longleftrightarrow>
     (\<exists>c t. cvc_defaultGetClientset X s = (Return (Some c, None), t) \<and>
            r_Create (k_cvc X) c ns v t = (Return (p, None), s'))"
  by (auto simp: cvc_Create_def cvc_getClientOrCached_def fresh_with_client [OF cvc_kc_fresh] bnd_Return_iff
      cvc_defaultCreate_def call_fn_def deref_def split: option.splits)

lemma cvc_List_fresh:
  "the_result (cvc_List (cvc_kc X ns) opts) s = (Return (p, None), s') \<longleftrightarrow>
     (\<exists>c t. cvc_defaultGetClientset X s = (Return (Some c, None), t) \<and>
            r_List (k_cvc X) c ns opts t = (Return (p, None), s'))"
  by (auto simp: cvc_List_def cvc_getClientOrCached_def fresh_with_client [OF cvc_kc_fresh] bnd_Return_iff
      cvc_defaultList_def call_fn_def deref_def split: option.splits)

lemma cvc_Delete_fresh:
  "name \<noteq> [] \<Longrightarrow> the_result (cvc_Delete (cvc_kc X ns) name) s = (Return None, s') \<longleftrightarrow>
     (\<exists>c t. cvc_defaultGetClientset X s = (Return (Some c, None), t) \<and>
            r_Delete (k_cvc X) c ns name ''Foreground'' t = (Return None, s'))"
  by (auto simp: cvc_Delete_def cvc_getClientOrCached_def fresh_with_client [OF cvc_kc_fresh] bnd_Return_iff
      cvc_defaultDel_def call_fn_def deref_def split: option.splits)

lemma cvc_Update_fresh:
  "the_result (cvc_Update (cvc_kc X ns) (Some v)) s = (Return (p, None), s') \<longleftrightarrow>
     (\<exists>c t. cvc_defaultGetClientset X s = (Return (Some c, None), t) \<and>
            r_Update (k_cvc X) c ns v t = (Return (p, None), s'))"
  by (auto simp: cvc_Update_def cvc_getClientOrCached_def fresh_with_client [OF cvc_kc_fresh] bnd_Return_iff
      cvc_defaultUpdate_def call_fn_def deref_def split: option.splits)

end
