(* ===== verification/PVC_Client.thy ===== *)
theory PVC_Client
  imports Kube_Client
begin

section \<open>Claim client: pkg/kubernetes/persistentvolumeclaim/kubernetes.go\<close>

text \<open>
  Names are checked after trimming blanks. The options of a deletion are passed on as given, and a nil
  pointer to them panics in the call. \<open>CreateCollection\<close> stops at the first claim that cannot be created.
\<close>

type_synonym 'w pvc_Kubeclient = "('w, PersistentVolumeClaim) Kubeclient"

definition pvc_withDefaults :: "'w kube \<Rightarrow> 'w pvc_Kubeclient \<Rightarrow> 'w pvc_Kubeclient" where
  "pvc_withDefaults X k = k
     \<lparr>kc_getClientset := or_default (kc_getClientset k) (Clientset (client_New X [])),
      kc_getClientsetForPath := or_default (kc_getClientsetForPath k)
        (\<lambda>kubeConfigPath. Clientset (client_New X [client_WithKubeConfigPath kubeConfigPath])),
      kc_get := or_default (kc_get k) (\<lambda>cli name namespace. call_fn cli (\<lambda>c. r_Get (k_pvc X) c namespace name)),
      kc_list := or_default (kc_list k) (\<lambda>cli namespace opts. call_fn cli (\<lambda>c. r_List (k_pvc X) c namespace opts)),
      kc_del := or_default (kc_del k)
        (\<lambda>cli name namespace deleteOpts. call_fn cli (\<lambda>c. call_fn deleteOpts (\<lambda>d. r_Delete (k_pvc X) c namespace name d))),
      kc_delCollection := or_default (kc_delCollection k)
        (\<lambda>cli namespace listOpts deleteOpts. call_fn cli (\<lambda>c. call_fn deleteOpts (\<lambda>d. r_DeleteCollection (k_pvc X) c namespace listOpts d))),
      kc_create := or_default (kc_create k) (\<lambda>cli pvc namespace. call_fn cli (\<lambda>c. r_Create (k_pvc X) c namespace pvc)),
      kc_update := or_default (kc_update k) (\<lambda>cli pvc namespace. call_fn cli (\<lambda>c. r_Update (k_pvc X) c namespace pvc))\<rparr>"

definition pvc_NewKubeClient ::
  "'w kube \<Rightarrow> ('w pvc_Kubeclient \<Rightarrow> 'w pvc_Kubeclient) list \<Rightarrow> 'w pvc_Kubeclient" where
  "pvc_NewKubeClient X opts = pvc_withDefaults X (fold (\<lambda>op k. op k) opts zero_Kubeclient)"

definition pvc_getClientsetOrCached :: "'w pvc_Kubeclient \<Rightarrow> ('w, PersistentVolumeClaim, nat perr) kmethod" where
  "pvc_getClientsetOrCached = clientOrCached (Wrapf ''failed to get clientset'' [])"

interpretation pvccc: cached_client pvc_getClientsetOrCached
  unfolding pvc_getClientsetOrCached_def by unfold_locales (rule clientOrCached_laws; assumption)+

definition pvc_Get :: "'w pvc_Kubeclient \<Rightarrow> string \<Rightarrow> ('w, PersistentVolumeClaim, PersistentVolumeClaim perr) kmethod" where
  "pvc_Get k name =
     (if TrimSpace name = [] then ret ((None, Some (Errorf ''failed to get pvc: missing pvc name'' [])), k)
      else with_client pvc_getClientsetOrCached k
        (\<lambda>e. (None, Some (Wrapf ''failed to get pvc {%s}'' [name] e)))
        (\<lambda>cli k. call_fn (kc_get k) (\<lambda>f. f cli name (kc_namespace k))))"

definition pvc_List :: "'w pvc_Kubeclient \<Rightarrow> ListOptions \<Rightarrow> ('w, PersistentVolumeClaim, PersistentVolumeClaim list perr) kmethod" where
  "pvc_List k opts = with_client pvc_getClientsetOrCached k
     (\<lambda>e. (None, Some (Wrapf (''failed to list pvc listoptions: '%v'' @ [CHR 0x27]) [lo_LabelSelector opts] e)))
     (\<lambda>cli k. call_fn (kc_list k) (\<lambda>f. f cli (kc_namespace k) opts))"

definition pvc_Delete :: "'w pvc_Kubeclient \<Rightarrow> string \<Rightarrow> string option \<Rightarrow> ('w, PersistentVolumeClaim, gerror option) kmethod" where
  "pvc_Delete k name deleteOpts =
     (if TrimSpace name = [] then ret (Some (Errorf ''failed to delete pvc: missing pvc name'' []), k)
      else with_client pvc_getClientsetOrCached k
        (\<lambda>e. Some (Wrapf ''failed to delete pvc {%s}'' [name] e))
        (\<lambda>cli k. call_fn (kc_del k) (\<lambda>f. f cli name (kc_namespace k) deleteOpts)))"

definition pvc_Create ::
  "'w pvc_Kubeclient \<Rightarrow> PersistentVolumeClaim option \<Rightarrow> ('w, PersistentVolumeClaim, PersistentVolumeClaim perr) kmethod" where
  "pvc_Create k pvc = (case pvc of
     None \<Rightarrow> ret ((None, Some (Errorf ''failed to create pvc: nil pvc object'' [])), k)
   | Some p \<Rightarrow> with_client pvc_getClientsetOrCached k
       (\<lambda>e. (None, Some (Wrapf ''failed to create pvc {%s} in namespace {%s}'' [pvc_Name p, pvc_Namespace p] e)))
       (\<lambda>cli k. call_fn (kc_create k) (\<lambda>f. f cli p (kc_namespace k))))"

definition pvc_Update ::
  "'w pvc_Kubeclient \<Rightarrow> PersistentVolumeClaim option \<Rightarrow> ('w, PersistentVolumeClaim, PersistentVolumeClaim perr) kmethod" where
  "pvc_Update k pvc = (case pvc of
     None \<Rightarrow> ret ((None, Some (Errorf ''failed to update pvc: nil pvc object'' [])), k)
   | Some p \<Rightarrow> with_client pvc_getClientsetOrCached k
       (\<lambda>e. (None, Some (Wrapf ''failed to update pvc {%s} in namespace {%s}'' [pvc_Name p, pvc_Namespace p] e)))
       (\<lambda>cli k. call_fn (kc_update k) (\<lambda>f. f cli p (kc_namespace k))))"

fun pvc_createAll ::
  "'w pvc_Kubeclient \<Rightarrow> PersistentVolumeClaim list \<Rightarrow> PersistentVolumeClaim list \<Rightarrow>
   ('w, PersistentVolumeClaim, PersistentVolumeClaim list perr) kmethod" where
  "pvc_createAll k [] newlist = ret ((Some newlist, None), k)"
| "pvc_createAll k (item # items) newlist =
     bnd (pvc_Create k (Some item)) (\<lambda>((obj, err), k'). case err of
       Some e \<Rightarrow> ret ((None, Some e), k')
     | None \<Rightarrow> bnd (deref obj) (\<lambda>p. pvc_createAll k' items (newlist @ [p])))"

definition pvc_CreateCollection ::
  "'w pvc_Kubeclient \<Rightarrow> PersistentVolumeClaim list option \<Rightarrow>
   ('w, PersistentVolumeClaim, PersistentVolumeClaim list perr) kmethod" where
  "pvc_CreateCollection k pvcs = (case pvcs of
     None \<Rightarrow> ret ((None, Some (Errorf ''failed to create list of pvcs: nil pvc list provided'' [])), k)
   | Some items \<Rightarrow>
       if length items = 0 then ret ((None, Some (Errorf ''failed to create list of pvcs: nil pvc list provided'' [])), k)
       else pvc_createAll k items [])"

definition pvc_DeleteCollection ::
  "'w pvc_Kubeclient \<Rightarrow> ListOptions \<Rightarrow> string option \<Rightarrow> ('w, PersistentVolumeClaim, gerror option) kmethod" where
  "pvc_DeleteCollection k listOpts deleteOpts = with_client pvc_getClientsetOrCached k
     (\<lambda>e. Some (Wrapf ''failed to delete the collection of pvcs'' [] e))
     (\<lambda>cli k. call_fn (kc_delCollection k) (\<lambda>f. f cli (kc_namespace k) listOpts deleteOpts))"

lemma pvc_kc_fresh: "fresh (WithNamespace ns (pvc_NewKubeClient X [])) (Clientset (client_New X []))"
  by (simp add: fresh_def pvc_NewKubeClient_def pvc_withDefaults_def zero_Kubeclient_def WithNamespace_def)

lemma pvc_kc_fields [simp]:
  "kc_get (WithNamespace ns (pvc_NewKubeClient X [])) = Some (\<lambda>cli name namespace. call_fn cli (\<lambda>c. r_Get (k_pvc X) c namespace name))"
  "kc_namespace (WithNamespace ns (pvc_NewKubeClient X [])) = ns"
  by (simp_all add: pvc_NewKubeClient_def pvc_withDefaults_def zero_Kubeclient_def WithNamespace_def)

lemma pvc_Get_eq:
  "the_result (pvc_Get (WithNamespace ns (pvc_NewKubeClient X [])) name) =
     (if TrimSpace name = [] then ret (None, Some (Errorf ''failed to get pvc: missing pvc name'' []))
      else bnd (Clientset (client_New X [])) (\<lambda>(c, err). case err of
        Some e \<Rightarrow> ret (None, Some (Wrapf ''failed to get pvc {%s}'' [name] (Wrapf ''failed to get clientset'' [] e)))
      | None \<Rightarrow> call_fn c (\<lambda>c. r_Get (k_pvc X) c ns name)))"
  by (simp add: pvc_Get_def pvc_getClientsetOrCached_def fresh_with_client [OF pvc_kc_fresh] cong: option.case_cong)

end
