(* ===== verification/VolumeAttachment_Build.thy ===== *)
theory VolumeAttachment_Build
  imports VolumeConfig_Build
begin

section \<open>The builder of CStorVolumeAttachment: pkg/cstor/volumeattachment/build.go\<close>

text \<open>
  The same shape as \<open>VolumeConfig_Build\<close>: the builder methods, the calls as a datatype, and the
  interpretation of the builder contract. Mount options are optional here: an empty list is no error.
\<close>

type_synonym cva_Builder = "CStorVolumeAttachment Builder"

definition cva_NewBuilder :: cva_Builder where
  "cva_NewBuilder = \<lparr>b_object = zero_CVA, b_errs = []\<rparr>"

definition cva_BuildFrom :: "CStorVolumeAttachment option \<Rightarrow> cva_Builder" where
  "cva_BuildFrom volume = (case volume of
     None \<Rightarrow> b_msg ''failed to build volume object: nil volume'' cva_NewBuilder
   | Some v \<Rightarrow> \<lparr>b_object = v, b_errs = []\<rparr>)"

definition cva_WithNamespace :: "string \<Rightarrow> cva_Builder \<Rightarrow> cva_Builder" where
  "cva_WithNamespace namespace b =
     (if namespace = [] then b_msg ''failed to build csi volume object: missing namespace'' b
      else b_set (\<lambda>ob. ob\<lparr>cva_Namespace := namespace\<rparr>) b)"

definition cva_WithName :: "string \<Rightarrow> cva_Builder \<Rightarrow> cva_Builder" where
  "cva_WithName name b =
     (if name = [] then b_msg ''failed to build csi volume object: missing name'' b
      else b_set (\<lambda>ob. ob\<lparr>cva_Name := name\<rparr>) b)"

definition cva_WithVolName :: "string \<Rightarrow> cva_Builder \<Rightarrow> cva_Builder" where
  "cva_WithVolName volName b =
     (if volName = [] then b_msg ''failed to build csi volume object: missing volume name'' b
      else b_set (\<lambda>ob. ob\<lparr>cva_VolName := volName\<rparr>) b)"

definition cva_WithAccessType :: "string \<Rightarrow> cva_Builder \<Rightarrow> cva_Builder" where
  "cva_WithAccessType accessType b =
     (if accessType = [] then b_msg ''failed to build csi volume object: missing accessType'' b
      else b_set (\<lambda>ob. ob\<lparr>cva_AccessType := accessType\<rparr>) b)"

definition cva_WithCapacity :: "string \<Rightarrow> cva_Builder \<Rightarrow> cva_Builder" where
  "cva_WithCapacity capacity b =
     (if capacity = [] then b_msg ''failed to build csi volume object: missing capacity'' b
      else b_set (\<lambda>ob. ob\<lparr>cva_Capacity := capacity\<rparr>) b)"

definition cva_WithFSType :: "string \<Rightarrow> cva_Builder \<Rightarrow> cva_Builder" where
  "cva_WithFSType fstype b =
     (if fstype = [] \<and> cva_AccessType (b_object b) = ''mount''
      then b_msg ''failed to build csi volume object: missing fstype'' b
      else b_set (\<lambda>ob. ob\<lparr>cva_FSType := fstype\<rparr>) b)"

definition cva_WithStagingTargetPath :: "string \<Rightarrow> cva_Builder \<Rightarrow> cva_Builder" where
  "cva_WithStagingTargetPath stagingTargetPath b =
     (if stagingTargetPath = [] then b_msg ''failed to build csi volume object: missing mountPath'' b
      else b_set (\<lambda>ob. ob\<lparr>cva_StagingTargetPath := stagingTargetPath\<rparr>) b)"

definition cva_WithMountOptionsNew :: "string list \<Rightarrow> cva_Builder \<Rightarrow> cva_Builder" where
  "cva_WithMountOptionsNew mountOptions b =
     (if length mountOptions = 0 then b
      else b_set (\<lambda>ob. ob\<lparr>cva_MountOptions := Some mountOptions\<rparr>) b)"

definition cva_WithMountOptions :: "string list \<Rightarrow> cva_Builder \<Rightarrow> cva_Builder" where
  "cva_WithMountOptions mountOptions b =
     (if length mountOptions = 0 then b
      else (case cva_MountOptions (b_object b) of
        None \<Rightarrow> cva_WithMountOptionsNew mountOptions b
      | Some os \<Rightarrow> b_set (\<lambda>ob. ob\<lparr>cva_MountOptions := Some (os @ mountOptions)\<rparr>) b))"

definition cva_WithDevicePath :: "string \<Rightarrow> cva_Builder \<Rightarrow> cva_Builder" where
  "cva_WithDevicePath devicePath b =
     (if devicePath = [] then b_msg ''failed to build csi volume object: missing devicePath'' b
      else b_set (\<lambda>ob. ob\<lparr>cva_DevicePath := devicePath\<rparr>) b)"

definition cva_WithOwnerNodeID :: "string \<Rightarrow> cva_Builder \<Rightarrow> cva_Builder" where
  "cva_WithOwnerNodeID ownerNodeID b =
     (if ownerNodeID = [] then b_msg ''failed to build csi volume object: missing ownerNodeID'' b
      else b_set (\<lambda>ob. ob\<lparr>cva_OwnerNodeID := ownerNodeID\<rparr>) b)"

definition cva_WithIQN :: "string \<Rightarrow> cva_Builder \<Rightarrow> cva_Builder" where
  "cva_WithIQN iqn b =
     (if iqn = [] then b_msg ''failed to build csi volume object: missing IQN'' b
      else b_set (\<lambda>ob. ob\<lparr>cva_Iqn := iqn\<rparr>) b)"

definition cva_WithTargetPortal :: "string \<Rightarrow> cva_Builder \<Rightarrow> cva_Builder" where
  "cva_WithTargetPortal targetPortal b =
     (if targetPortal = [] then b_msg ''failed to build csi volume object: missing targetPortal'' b
      else b_set (\<lambda>ob. ob\<lparr>cva_TargetPortal := targetPortal\<rparr>) b)"

definition cva_WithIscsiInterface :: "string \<Rightarrow> cva_Builder \<Rightarrow> cva_Builder" where
  "cva_WithIscsiInterface iscsiInterface b =
     (if iscsiInterface = [] then b_msg ''failed to build csi volume object: missing iscsiInterface'' b
      else b_set (\<lambda>ob. ob\<lparr>cva_IscsiInterface := iscsiInterface\<rparr>) b)"

definition cva_WithLun :: "string \<Rightarrow> cva_Builder \<Rightarrow> cva_Builder" where
  "cva_WithLun lun b =
     (if lun = [] then b_msg ''failed to build csi volume object: missing lun'' b
      else b_set (\<lambda>ob. ob\<lparr>cva_Lun := lun\<rparr>) b)"

definition cva_WithReadOnly :: "bool \<Rightarrow> cva_Builder \<Rightarrow> cva_Builder" where
  "cva_WithReadOnly readOnly b = b_set (\<lambda>ob. ob\<lparr>cva_ReadOnly := readOnly\<rparr>) b"

definition cva_WithLabelsNew :: "gomap \<Rightarrow> cva_Builder \<Rightarrow> cva_Builder" where
  "cva_WithLabelsNew labels b =
     (if length labels = 0 then b_msg ''failed to build csi volume object: no new labels'' b
      else b_set (\<lambda>ob. ob\<lparr>cva_Labels := Some (gmerge [] labels)\<rparr>) b)"

definition cva_WithLabels :: "gomap \<Rightarrow> cva_Builder \<Rightarrow> cva_Builder" where
  "cva_WithLabels labels b =
     (if length labels = 0 then b_msg ''failed to build csi volume object: missing labels'' b
      else (case cva_Labels (b_object b) of
        None \<Rightarrow> cva_WithLabelsNew labels b
      | Some m \<Rightarrow> b_set (\<lambda>ob. ob\<lparr>cva_Labels := Some (gmerge m labels)\<rparr>) b))"

subsection \<open>Chains of calls\<close>

datatype cva_call =
    CvaNamespace string | CvaName string | CvaVolName string | CvaAccessType string | CvaCapacity string | CvaStagingTargetPath string
  | CvaDevicePath string | CvaOwnerNodeID string | CvaIQN string | CvaTargetPortal string | CvaIscsiInterface string | CvaLun string
  | CvaFSType string | CvaMountOptions "string list" | CvaMountOptionsNew "string list"
  | CvaReadOnly bool | CvaLabels gomap | CvaLabelsNew gomap

fun cva_run :: "cva_call \<Rightarrow> cva_Builder \<Rightarrow> cva_Builder" where
  "cva_run (CvaNamespace x) = cva_WithNamespace x"
| "cva_run (CvaName x) = cva_WithName x"
| "cva_run (CvaVolName x) = cva_WithVolName x"
| "cva_run (CvaAccessType x) = cva_WithAccessType x"
| "cva_run (CvaCapacity x) = cva_WithCapacity x"
| "cva_run (CvaStagingTargetPath x) = cva_WithStagingTargetPath x"
| "cva_run (CvaDevicePath x) = cva_WithDevicePath x"
| "cva_run (CvaOwnerNodeID x) = cva_WithOwnerNodeID x"
| "cva_run (CvaIQN x) = cva_WithIQN x"
| "cva_run (CvaTargetPortal x) = cva_WithTargetPortal x"
| "cva_run (CvaIscsiInterface x) = cva_WithIscsiInterface x"
| "cva_run (CvaLun x) = cva_WithLun x"
| "cva_run (CvaFSType x) = cva_WithFSType x"
| "cva_run (CvaMountOptions x) = cva_WithMountOptions x"
| "cva_run (CvaMountOptionsNew x) = cva_WithMountOptionsNew x"
| "cva_run (CvaReadOnly x) = cva_WithReadOnly x"
| "cva_run (CvaLabels x) = cva_WithLabels x"
| "cva_run (CvaLabelsNew x) = cva_WithLabelsNew x"

fun cva_valid :: "cva_call \<Rightarrow> CStorVolumeAttachment \<Rightarrow> bool" where
  "cva_valid (CvaNamespace x) ob = (x \<noteq> [])"
| "cva_valid (CvaName x) ob = (x \<noteq> [])"
| "cva_valid (CvaVolName x) ob = (x \<noteq> [])"
| "cva_valid (CvaAccessType x) ob = (x \<noteq> [])"
| "cva_valid (CvaCapacity x) ob = (x \<noteq> [])"
| "cva_valid (CvaStagingTargetPath x) ob = (x \<noteq> [])"
| "cva_valid (CvaDevicePath x) ob = (x \<noteq> [])"
| "cva_valid (CvaOwnerNodeID x) ob = (x \<noteq> [])"
| "cva_valid (CvaIQN x) ob = (x \<noteq> [])"
| "cva_valid (CvaTargetPortal x) ob = (x \<noteq> [])"
| "cva_valid (CvaIscsiInterface x) ob = (x \<noteq> [])"
| "cva_valid (CvaLun x) ob = (x \<noteq> [])"
| "cva_valid (CvaFSType x) ob = (x \<noteq> [] \<or> cva_AccessType ob \<noteq> ''mount'')"
| "cva_valid (CvaLabels x) ob = (x \<noteq> [])"
| "cva_valid (CvaLabelsNew x) ob = (x \<noteq> [])"
| "cva_valid _ ob = True"

fun cva_apply :: "cva_call \<Rightarrow> CStorVolumeAttachment \<Rightarrow> CStorVolumeAttachment" where
  "cva_apply (CvaNamespace x) ob = ob\<lparr>cva_Namespace := x\<rparr>"
| "cva_apply (CvaName x) ob = ob\<lparr>cva_Name := x\<rparr>"
| "cva_apply (CvaVolName x) ob = ob\<lparr>cva_VolName := x\<rparr>"
| "cva_apply (CvaAccessType x) ob = ob\<lparr>cva_AccessType := x\<rparr>"
| "cva_apply (CvaCapacity x) ob = ob\<lparr>cva_Capacity := x\<rparr>"
| "cva_apply (CvaStagingTargetPath x) ob = ob\<lparr>cva_StagingTargetPath := x\<rparr>"
| "cva_apply (CvaDevicePath x) ob = ob\<lparr>cva_DevicePath := x\<rparr>"
| "cva_apply (CvaOwnerNodeID x) ob = ob\<lparr>cva_OwnerNodeID := x\<rparr>"
| "cva_apply (CvaIQN x) ob = ob\<lparr>cva_Iqn := x\<rparr>"
| "cva_apply (CvaTargetPortal x) ob = ob\<lparr>cva_TargetPortal := x\<rparr>"
| "cva_apply (CvaIscsiInterface x) ob = ob\<lparr>cva_IscsiInterface := x\<rparr>"
| "cva_apply (CvaLun x) ob = ob\<lparr>cva_Lun := x\<rparr>"
| "cva_apply (CvaFSType x) ob = ob\<lparr>cva_FSType := x\<rparr>"
| "cva_apply (CvaMountOptions x) ob = (if x = [] then ob else ob\<lparr>cva_MountOptions := onto_list (cva_MountOptions ob) x\<rparr>)"
| "cva_apply (CvaMountOptionsNew x) ob = (if x = [] then ob else ob\<lparr>cva_MountOptions := onto_list None x\<rparr>)"
| "cva_apply (CvaReadOnly x) ob = ob\<lparr>cva_ReadOnly := x\<rparr>"
| "cva_apply (CvaLabels x) ob = ob\<lparr>cva_Labels := onto (cva_Labels ob) x\<rparr>"
| "cva_apply (CvaLabelsNew x) ob = ob\<lparr>cva_Labels := onto None x\<rparr>"

lemmas cva_With_defs = cva_WithNamespace_def cva_WithName_def cva_WithVolName_def cva_WithAccessType_def cva_WithCapacity_def cva_WithStagingTargetPath_def 
  cva_WithDevicePath_def cva_WithOwnerNodeID_def cva_WithIQN_def cva_WithTargetPortal_def cva_WithIscsiInterface_def cva_WithLun_def 
  cva_WithFSType_def cva_WithMountOptions_def cva_WithMountOptionsNew_def cva_WithReadOnly_def cva_WithLabels_def cva_WithLabelsNew_def

lemma cva_run_valid: "cva_valid c (b_object b) \<Longrightarrow> cva_run c b = b_set (cva_apply c) b"
  by (cases c) (auto simp: cva_With_defs b_set_def onto_def onto_list_def split: option.splits)

lemma cva_run_invalid: "\<not> cva_valid c (b_object b) \<Longrightarrow> \<exists>e. b_errs (cva_run c b) = b_errs b @ [e]"
  by (cases c) (auto simp: cva_With_defs)

interpretation cvab: error_builder cva_run cva_valid cva_apply
  by unfold_locales (simp_all add: cva_run_valid cva_run_invalid)

subsection \<open>What a chain returns\<close>

fun cva_valids :: "cva_call list \<Rightarrow> CStorVolumeAttachment \<Rightarrow> bool" where
  "cva_valids [] ob = True"
| "cva_valids (c # cs) ob = (cva_valid c ob \<and> cva_valids cs (cva_apply c ob))"

lemma cvab_valids [simp]: "cvab.valids cs ob = cva_valids cs ob"
  by (induction cs arbitrary: ob) auto

text \<open>A chain of builder calls over an existing CStorVolumeAttachment returns an object exactly when
  each call is valid on the object as built so far (\<open>WithFSType\<close> looks at the access type that an earlier
  call has set), and the object is then the fold of the field updates in call order.\<close>

theorem cva_builder_chain:
  "Build (fold cva_run cs (cva_BuildFrom (Some ob))) = Inr x \<longleftrightarrow>
     cva_valids cs ob \<and> x = fold cva_apply cs ob"
  by (simp add: cvab.chain_Build cva_BuildFrom_def)

end
