(* ===== verification/VolumeAttachment_Client.thy ===== *)
theory VolumeAttachment_Client
  imports Kube_Client VolumeAttachment_Build
begin

section \<open>CStorVolumeAttachment client: pkg/cstor/volumeattachment/kubernetes.go\<close>

text \<open>
  The default implementations of the function fields, the constructor, and the methods that the
  driver calls. There is no patch for this resource.
\<close>

type_synonym 'w cva_Kubeclient = "('w, CStorVolumeAttachment) Kubeclient"

definition cva_defaultGetClientset :: "'w kube \<Rightarrow> ('w, nat perr) go" where
  "cva_defaultGetClientset X = bnd (GetConfig (Some (client_New X []))) (\<lambda>(config, err). case err of
     Some e \<Rightarrow> ret (None, Some e)
   | None \<Rightarrow> k_openebs_NewForConfig X config)"

definition cva_defaultGetClientsetForPath :: "'w kube \<Rightarrow> string \<Rightarrow> ('w, nat perr) go" where
  "cva_defaultGetClientsetForPath X kubeConfigPath =
     bnd (GetConfig (Some (client_New X [client_WithKubeConfigPath kubeConfigPath]))) (\<lambda>(config, err). case err of
       Some e \<Rightarrow> ret (None, Some e)
     | None \<Rightarrow> k_openebs_NewForConfig X config)"

definition cva_defaultGet :: "'w kube \<Rightarrow> nat option \<Rightarrow> string \<Rightarrow> string \<Rightarrow> ('w, CStorVolumeAttachment perr) go" where
  "cva_defaultGet X cli name namespace = call_fn cli (\<lambda>c. r_Get (k_cva X) c namespace name)"

definition cva_defaultList :: "'w kube \<Rightarrow> nat option \<Rightarrow> string \<Rightarrow> ListOptions \<Rightarrow> ('w, CStorVolumeAttachment list perr) go" where
  "cva_defaultList X cli namespace opts = call_fn cli (\<lambda>c. r_List (k_cva X) c namespace opts)"

definition cva_defaultDel :: "'w kube \<Rightarrow> nat option \<Rightarrow> string \<Rightarrow> string \<Rightarrow> string option \<Rightarrow> ('w, gerror option) go" where
  "cva_defaultDel X cli name namespace opts =
     call_fn opts (\<lambda>_. call_fn cli (\<lambda>c. r_Delete (k_cva X) c namespace name ''Foreground''))"

definition cva_defaultCreate :: "'w kube \<Rightarrow> nat option \<Rightarrow> CStorVolumeAttachment \<Rightarrow> string \<Rightarrow> ('w, CStorVolumeAttachment perr) go" where
  "cva_defaultCreate X cli vol namespace = call_fn cli (\<lambda>c. r_Create (k_cva X) c namespace vol)"

definition cva_defaultUpdate :: "'w kube \<Rightarrow> nat option \<Rightarrow> CStorVolumeAttachment \<Rightarrow> string \<Rightarrow> ('w, CStorVolumeAttachment perr) go" where
  "cva_defaultUpdate X cli vol namespace = call_fn cli (\<lambda>c. r_Update (k_cva X) c namespace vol)"

definition cva_withDefaults :: "'w kube \<Rightarrow> 'w cva_Kubeclient \<Rightarrow> 'w cva_Kubeclient" where
  "cva_withDefaults X k = k
     \<lparr>kc_getClientset := or_default (kc_getClientset k) (cva_defaultGetClientset X),
      kc_getClientsetForPath := or_default (kc_getClientsetForPath k) (cva_defaultGetClientsetForPath X),
      kc_get := or_default (kc_get k) (cva_defaultGet X),
      kc_list := or_default (kc_list k) (cva_defaultList X),
      kc_del := or_default (kc_del k) (cva_defaultDel X),
      kc_create := or_default (kc_create k) (cva_defaultCreate X),
      kc_update := or_default (kc_update k) (cva_defaultUpdate X)\<rparr>"

definition cva_NewKubeclient ::
  "'w kube \<Rightarrow> ('w cva_Kubeclient \<Rightarrow> 'w cva_Kubeclient) list \<Rightarrow> 'w cva_Kubeclient" where
  "cva_NewKubeclient X opts = cva_withDefaults X (fold (\<lambda>op k. op k) opts zero_Kubeclient)"

definition cva_getClientOrCached :: "'w cva_Kubeclient \<Rightarrow> ('w, CStorVolumeAttachment, nat perr) kmethod" where
  "cva_getClientOrCached = clientOrCached (Wrapf ''failed to get clientset'' [])"

interpretation cvacc: cached_client cva_getClientOrCached
  unfolding cva_getClientOrCached_def by unfold_locales (rule clientOrCached_laws; assumption)+

definition cva_Create :: "'w cva_Kubeclient \<Rightarrow> CStorVolumeAttachment option \<Rightarrow> ('w, CStorVolumeAttachment, CStorVolumeAttachment perr) kmethod" where
  "cva_Create k vol = (case vol of
     None \<Rightarrow> ret ((None, Some (Errorf ''failed to create csivolume: nil vol object'' [])), k)
   | Some v \<Rightarrow> with_client cva_getClientOrCached k
       (\<lambda>e. (None, Some (Wrapf ''failed to create csi volume {%s} in namespace {%s}'' [cva_Name v, kc_namespace k] e)))
       (\<lambda>cli k. call_fn (kc_create k) (\<lambda>f. f cli v (kc_namespace k))))"

definition cva_Get :: "'w cva_Kubeclient \<Rightarrow> string \<Rightarrow> ('w, CStorVolumeAttachment, CStorVolumeAttachment perr) kmethod" where
  "cva_Get k name =
     (if name = [] then ret ((None, Some (Errorf ''failed to get csi volume: missing csi volume name'' [])), k)
      else with_client cva_getClientOrCached k
       (\<lambda>e. (None, Some (Wrapf ''failed to get csi volume {%s} in namespace {%s}'' [name, kc_namespace k] e)))
       (\<lambda>cli k. call_fn (kc_get k) (\<lambda>f. f cli name (kc_namespace k))))"

definition cva_GetRaw :: "'w kube \<Rightarrow> 'w cva_Kubeclient \<Rightarrow> string \<Rightarrow> ('w, CStorVolumeAttachment, string perr) kmethod" where
  "cva_GetRaw X k name = 
     (if name = [] then ret ((None, Some (Errorf ''failed to get raw csi volume: missing vol name'' [])), k) else
     bnd (cva_Get k name) (\<lambda>((vol, err), k'). case err of
       Some e \<Rightarrow> ret ((None, Some (Wrapf ''failed to get csi volume {%s} in namespace {%s}'' [name, kc_namespace k] e)), k')
     | None \<Rightarrow> (case vol of None \<Rightarrow> ret ((Some ''null'', None), k') | Some v \<Rightarrow> (case k_json_cva X v of
         Inl e \<Rightarrow> ret ((None, Some e), k') | Inr raw \<Rightarrow> ret ((Some raw, None), k')))))"

definition cva_List :: "'w cva_Kubeclient \<Rightarrow> ListOptions \<Rightarrow> ('w, CStorVolumeAttachment, CStorVolumeAttachment list perr) kmethod" where
  "cva_List k opts = with_client cva_getClientOrCached k
     (\<lambda>e. (None, Some (Wrapf ''failed to list csi volumes in namespace {%s}'' [kc_namespace k] e)))
     (\<lambda>cli k. call_fn (kc_list k) (\<lambda>f. f cli (kc_namespace k) opts))"

definition cva_Delete :: "'w cva_Kubeclient \<Rightarrow> string \<Rightarrow> ('w, CStorVolumeAttachment, gerror option) kmethod" where
  "cva_Delete k name = 
     (if name = [] then ret (Some (Errorf ''failed to delete csivolume: missing vol name'' []), k) else
     with_client cva_getClientOrCached k
       (\<lambda>e. Some (Wrapf ''failed to delete csivolume {%s} in namespace {%s}'' [name, kc_namespace k] e))
       (\<lambda>cli k. call_fn (kc_del k) (\<lambda>f. f cli name (kc_namespace k) (Some []))))"

definition cva_Update :: "'w cva_Kubeclient \<Rightarrow> CStorVolumeAttachment option \<Rightarrow> ('w, CStorVolumeAttachment, CStorVolumeAttachment perr) kmethod" where
  "cva_Update k vol = (case vol of
     None \<Rightarrow> ret ((None, Some (Errorf ''failed to update csivolume: nil vol object'' [])), k)
   | Some v \<Rightarrow> with_client cva_getClientOrCached k
       (\<lambda>e. (None, Some (Wrapf ''failed to update csivolume {%s} in namespace {%s}'' [cva_Name v, cva_Namespace v] e)))
       (\<lambda>cli k. call_fn (kc_update k) (\<lambda>f. f cli v (kc_namespace k))))"

lemmas cva_client_defs = cva_NewKubeclient_def cva_withDefaults_def cva_defaultGet_def cva_defaultList_def
  cva_defaultDel_def cva_defaultCreate_def cva_defaultUpdate_def WithNamespace_def zero_Kubeclient_def

definition cva_kc :: "'w kube \<Rightarrow> string \<Rightarrow> 'w cva_Kubeclient" where
  "cva_kc X namespace = WithNamespace namespace (cva_NewKubeclient X [])"

lemma cva_kc_fresh: "fresh (cva_kc X ns) (cva_defaultGetClientset X)"
  by (simp add: fresh_def cva_kc_def cva_client_defs)

lemma cva_kc_fields [simp]:
  "kc_namespace (cva_kc X ns) = ns" "kc_get (cva_kc X ns) = Some (cva_defaultGet X)"
  "kc_list (cva_kc X ns) = Some (cva_defaultList X)" "kc_del (cva_kc X ns) = Some (cva_defaultDel X)"
  "kc_create (cva_kc X ns) = Some (cva_defaultCreate X)" "kc_update (cva_kc X ns) = Some (cva_defaultUpdate X)"
  by (simp_all add: cva_kc_def cva_client_defs)

lemma cva_Get_fresh:
  "name \<noteq> [] \<Longrightarrow> the_result (cva_Get (cva_kc X ns) name) s = (Return (p, None), s') \<longleftrightarrow>
     (\<exists>c t. cva_defaultGetClientset X s = (Return (Some c, None), t) \<and>
            r_Get (k_cva X) c ns name t = (Return (p, None), s'))"
  by (auto simp: cva_Get_def cva_getClientOrCached_def fresh_with_client [OF cva_kc_fresh] bnd_Return_iff
      cva_defaultGet_def call_fn_def deref_def split: option.splits)

lemma cva_Create_fresh:
  "the_result (cva_Create (cva_kc X ns) (Some v)) s = (Return (p, None), s') \<longleftrightarrow>
     (\<exists>c t. cva_defaultGetClientset X s = (Return (Some c, None), t) \<and>
            r_Create (k_cva X) c ns v t = (Return (p, None), s'))"
  by (auto simp: cva_Create_def cva_getClientOrCached_def fresh_with_client [OF cva_kc_fresh] bnd_Return_iff
      cva_defaultCreate_def call_fn_def deref_def split: option.splits)

lemma cva_List_fresh:
  "the_result (cva_List (cva_kc X ns) opts) s = (Return (p, None), s') \<longleftrightarrow>
     (\<exists>c t. cva_defaultGetClientset X s = (Return (Some c, None), t) \<and>
            r_List (k_cva X) c ns opts t = (Return (p, None), s'))"
  by (auto simp: cva_List_def cva_getClientOrCached_def fresh_with_client [OF cva_kc_fresh] bnd_Return_iff
      cva_defaultList_def call_fn_def deref_def split: option.splits)

lemma cva_Delete_fresh:
  "name \<noteq> [] \<Longrightarrow> the_result (cva_Delete (cva_kc X ns) name) s = (Return None, s') \<longleftrightarrow>
     (\<exists>c t. cva_defaultGetClientset X s = (Return (Some c, None), t) \<and>
            r_Delete (k_cva X) c ns name ''Foreground'' t = (Return None, s'))"
  by (auto simp: cva_Delete_def cva_getClientOrCached_def fresh_with_client [OF cva_kc_fresh] bnd_Return_iff
      cva_defaultDel_def call_fn_def deref_def split: option.splits)

lemma cva_Update_fresh:
  "the_result (cva_Update (cva_kc X ns) (Some v)) s = (Return (p, None), s') \<longleftrightarrow>
     (\<exists>c t. cva_defaultGetClientset X s = (Return (Some c, None), t) \<and>
            r_Update (k_cva X) c ns v t = (Return (p, None), s'))"
  by (auto simp: cva_Update_def cva_getClientOrCached_def fresh_with_client [OF cva_kc_fresh] bnd_Return_iff
      cva_defaultUpdate_def call_fn_def deref_def split: option.splits)

end
