(* ===== verification/Volume_Build.thy ===== *)
theory Volume_Build
  imports VolumeAttachment_Build
begin

section \<open>The builder of CStorVolume: pkg/cstor/volume/build.go\<close>

text \<open>
  The same shape as \<open>VolumeConfig_Build\<close>; the replication and consistency factors must be positive.
\<close>

type_synonym cv_Builder = "CStorVolume Builder"

definition cv_NewBuilder :: cv_Builder where
  "cv_NewBuilder = \<lparr>b_object = zero_CV, b_errs = []\<rparr>"

definition cv_WithName :: "string \<Rightarrow> cv_Builder \<Rightarrow> cv_Builder" where
  "cv_WithName name b =
     (if length name = 0 then b_msg ''failed to build cstorvolume object: missing name'' b
      else b_set (\<lambda>ob. ob\<lparr>cv_Name := name\<rparr>) b)"

definition cv_WithGenerateName :: "string \<Rightarrow> cv_Builder \<Rightarrow> cv_Builder" where
  "cv_WithGenerateName name b =
     (if length name = 0 then b_msg ''failed to build cstorvolume object: missing generateName'' b
      else b_set (\<lambda>ob. ob\<lparr>cv_GenerateName := name\<rparr>) b)"

definition cv_WithNamespace :: "string \<Rightarrow> cv_Builder \<Rightarrow> cv_Builder" where
  "cv_WithNamespace namespace b =
     (if length namespace = 0 then b_msg ''failed to build cstorvolume object: missing namespace'' b
      else b_set (\<lambda>ob. ob\<lparr>cv_Namespace := namespace\<rparr>) b)"

definition cv_WithAnnotationsNew :: "gomap \<Rightarrow> cv_Builder \<Rightarrow> cv_Builder" where
  "cv_WithAnnotationsNew annotations b =
     (if length annotations = 0 then b_msg ''failed to build cstorvolume object: no new annotations'' b
      else b_set (\<lambda>ob. ob\<lparr>cv_Annotations := Some (gmerge [] annotations)\<rparr>) b)"

definition cv_WithAnnotations :: "gomap \<Rightarrow> cv_Builder \<Rightarrow> cv_Builder" where
  "cv_WithAnnotations annotations b =
     (if length annotations = 0 then b_msg ''failed to build cstorvolume object: missing annotations'' b
      else (case cv_Annotations (b_object b) of
        None \<Rightarrow> cv_WithAnnotationsNew annotations b
      | Some m \<Rightarrow> b_set (\<lambda>ob. ob\<lparr>cv_Annotations := Some (gmerge m annotations)\<rparr>) b))"

definition cv_WithLabelsNew :: "gomap \<Rightarrow> cv_Builder \<Rightarrow> cv_Builder" where
  "cv_WithLabelsNew labels b =
     (if length labels = 0 then b_msg ''failed to build cstorvolume object: no new labels'' b
      else b_set (\<lambda>ob. ob\<lparr>cv_Labels := Some (gmerge [] labels)\<rparr>) b)"

definition cv_WithLabels :: "gomap \<Rightarrow> cv_Builder \<Rightarrow> cv_Builder" where
  "cv_WithLabels labels b =
     (if length labels = 0 then b_msg ''failed to build cstorvolume object: missing labels'' b
      else (case cv_Labels (b_object b) of
        None \<Rightarrow> cv_WithLabelsNew labels b
      | Some m \<Rightarrow> b_set (\<lambda>ob. ob\<lparr>cv_Labels := Some (gmerge m labels)\<rparr>) b))"

definition cv_WithTargetIP :: "string \<Rightarrow> cv_Builder \<Rightarrow> cv_Builder" where
  "cv_WithTargetIP targetip b =
     (if length targetip = 0 then b_msg ''failed to build cstorvolume object: missing targetip'' b
      else b_set (\<lambda>ob. ob\<lparr>cv_TargetIP := targetip\<rparr>) b)"

text \<open>A capacity that does not parse records an error and then still stores the zero quantity that
  \<open>ParseQuantity\<close> returned with it: there is no return in that branch.\<close>

definition cv_WithCapacity :: "(string \<Rightarrow> gerror + quantity) \<Rightarrow> string \<Rightarrow> cv_Builder \<Rightarrow> cv_Builder" where
  "cv_WithCapacity ParseQuantity capacity b =
     (if length capacity = 0 then b_msg ''failed to build cstorvolume object: missing capacity'' b
      else (case ParseQuantity capacity of
        Inl err \<Rightarrow> b_set (\<lambda>ob. ob\<lparr>cv_Capacity := 0\<rparr>)
          (b_err (Wrapf ''failed to build cstorvolume object: failed to parse capacity {%s}'' [capacity] err) b)
      | Inr capacityQnt \<Rightarrow> b_set (\<lambda>ob. ob\<lparr>cv_Capacity := capacityQnt\<rparr>) b))"

definition cv_WithIQN :: "string \<Rightarrow> cv_Builder \<Rightarrow> cv_Builder" where
  "cv_WithIQN iqn b =
     (if length iqn = 0 then b_msg ''failed to build cstorvolume object: missing iqn'' b
      else b_set (\<lambda>ob. ob\<lparr>cv_Iqn := iqn\<rparr>) b)"

definition cv_WithTargetPort :: "string \<Rightarrow> cv_Builder \<Rightarrow> cv_Builder" where
  "cv_WithTargetPort targetport b =
     (if length targetport = 0 then b_msg ''failed to build cstorvolume object: missing targetport'' b
      else b_set (\<lambda>ob. ob\<lparr>cv_TargetPort := targetport\<rparr>) b)"

definition cv_WithTargetPortal :: "string \<Rightarrow> cv_Builder \<Rightarrow> cv_Builder" where
  "cv_WithTargetPortal targetportal b =
     (if length targetportal = 0 then b_msg ''failed to build cstorvolume object: missing targetportal'' b
      else b_set (\<lambda>ob. ob\<lparr>cv_TargetPortal := targetportal\<rparr>) b)"

definition cv_WithReplicationFactor :: "int \<Rightarrow> cv_Builder \<Rightarrow> cv_Builder" where
  "cv_WithReplicationFactor replicationfactor b =
     (if replicationfactor \<le> 0 then b_err (Errorf ''failed to build cstorvolume object: invalid replicationfactor {%d}'' [itoa replicationfactor]) b
      else b_set (\<lambda>ob. ob\<lparr>cv_ReplicationFactor := replicationfactor\<rparr>) b)"

definition cv_WithConsistencyFactor :: "int \<Rightarrow> cv_Builder \<Rightarrow> cv_Builder" where
  "cv_WithConsistencyFactor consistencyfactor b =
     (if consistencyfactor \<le> 0 then b_err (Errorf ''failed to build cstorvolume object: invalid consistencyfactor {%d}'' [itoa consistencyfactor]) b
      else b_set (\<lambda>ob. ob\<lparr>cv_ConsistencyFactor := consistencyfactor\<rparr>) b)"

subsection \<open>Chains of calls\<close>

datatype cv_call =
    CvName string | CvGenerateName string | CvNamespace string | CvTargetIP string | CvIQN string | CvTargetPort string | CvTargetPortal string
  | CvAnnotations gomap | CvAnnotationsNew gomap | CvLabels gomap | CvLabelsNew gomap
  | CvCapacity string | CvReplicationFactor int | CvConsistencyFactor int

fun cv_run :: "(string \<Rightarrow> gerror + quantity) \<Rightarrow> cv_call \<Rightarrow> cv_Builder \<Rightarrow> cv_Builder" where
  "cv_run pq (CvName x) = cv_WithName x"
| "cv_run pq (CvGenerateName x) = cv_WithGenerateName x"
| "cv_run pq (CvNamespace x) = cv_WithNamespace x"
| "cv_run pq (CvTargetIP x) = cv_WithTargetIP x"
| "cv_run pq (CvIQN x) = cv_WithIQN x"
| "cv_run pq (CvTargetPort x) = cv_WithTargetPort x"
| "cv_run pq (CvTargetPortal x) = cv_WithTargetPortal x"
| "cv_run pq (CvAnnotations x) = cv_WithAnnotations x"
| "cv_run pq (CvAnnotationsNew x) = cv_WithAnnotationsNew x"
| "cv_run pq (CvLabels x) = cv_WithLabels x"
| "cv_run pq (CvLabelsNew x) = cv_WithLabelsNew x"
| "cv_run pq (CvCapacity x) = cv_WithCapacity pq x"
| "cv_run pq (CvReplicationFactor x) = cv_WithReplicationFactor x"
| "cv_run pq (CvConsistencyFactor x) = cv_WithConsistencyFactor x"

fun cv_valid :: "(string \<Rightarrow> gerror + quantity) \<Rightarrow> cv_call \<Rightarrow> CStorVolume \<Rightarrow> bool" where
  "cv_valid pq (CvName x) ob = (x \<noteq> [])"
| "cv_valid pq (CvGenerateName x) ob = (x \<noteq> [])"
| "cv_valid pq (CvNamespace x) ob = (x \<noteq> [])"
| "cv_valid pq (CvTargetIP x) ob = (x \<noteq> [])"
| "cv_valid pq (CvIQN x) ob = (x \<noteq> [])"
| "cv_valid pq (CvTargetPort x) ob = (x \<noteq> [])"
| "cv_valid pq (CvTargetPortal x) ob = (x \<noteq> [])"
| "cv_valid pq (CvAnnotations x) ob = (x \<noteq> [])"
| "cv_valid pq (CvAnnotationsNew x) ob = (x \<noteq> [])"
| "cv_valid pq (CvLabels x) ob = (x \<noteq> [])"
| "cv_valid pq (CvLabelsNew x) ob = (x \<noteq> [])"
| "cv_valid pq (CvCapacity x) ob = (x \<noteq> [] \<and> (\<exists>q. pq x = Inr q))"
| "cv_valid pq (CvReplicationFactor x) ob = (0 < x)"
| "cv_valid pq (CvConsistencyFactor x) ob = (0 < x)"

fun cv_apply :: "(string \<Rightarrow> gerror + quantity) \<Rightarrow> cv_call \<Rightarrow> CStorVolume \<Rightarrow> CStorVolume" where
  "cv_apply pq (CvName x) ob = ob\<lparr>cv_Name := x\<rparr>"
| "cv_apply pq (CvGenerateName x) ob = ob\<lparr>cv_GenerateName := x\<rparr>"
| "cv_apply pq (CvNamespace x) ob = ob\<lparr>cv_Namespace := x\<rparr>"
| "cv_apply pq (CvTargetIP x) ob = ob\<lparr>cv_TargetIP := x\<rparr>"
| "cv_apply pq (CvIQN x) ob = ob\<lparr>cv_Iqn := x\<rparr>"
| "cv_apply pq (CvTargetPort x) ob = ob\<lparr>cv_TargetPort := x\<rparr>"
| "cv_apply pq (CvTargetPortal x) ob = ob\<lparr>cv_TargetPortal := x\<rparr>"
| "cv_apply pq (CvAnnotations x) ob = ob\<lparr>cv_Annotations := onto (cv_Annotations ob) x\<rparr>"
| "cv_apply pq (CvAnnotationsNew x) ob = ob\<lparr>cv_Annotations := onto None x\<rparr>"
| "cv_apply pq (CvLabels x) ob = ob\<lparr>cv_Labels := onto (cv_Labels ob) x\<rparr>"
| "cv_apply pq (CvLabelsNew x) ob = ob\<lparr>cv_Labels := onto None x\<rparr>"
| "cv_apply pq (CvCapacity x) ob = (case pq x of Inl _ \<Rightarrow> ob | Inr q \<Rightarrow> ob\<lparr>cv_Capacity := q\<rparr>)"
| "cv_apply pq (CvReplicationFactor x) ob = ob\<lparr>cv_ReplicationFactor := x\<rparr>"
| "cv_apply pq (CvConsistencyFactor x) ob = ob\<lparr>cv_ConsistencyFactor := x\<rparr>"

lemmas cv_With_defs = cv_WithName_def cv_WithGenerateName_def cv_WithNamespace_def cv_WithTargetIP_def cv_WithIQN_def cv_WithTargetPort_def cv_WithTargetPortal_def 
  cv_WithAnnotations_def cv_WithAnnotationsNew_def cv_WithLabels_def cv_WithLabelsNew_def cv_WithCapacity_def cv_WithReplicationFactor_def cv_WithConsistencyFactor_def

lemma cv_run_valid: "cv_valid pq c (b_object b) \<Longrightarrow> cv_run pq c b = b_set (cv_apply pq c) b"
  by (cases c) (auto simp: cv_With_defs b_set_def onto_def split: option.splits sum.splits)

lemma cv_run_invalid: "\<not> cv_valid pq c (b_object b) \<Longrightarrow> \<exists>e. b_errs (cv_run pq c b) = b_errs b @ [e]"
  by (cases c) (auto simp: cv_With_defs split: option.splits sum.splits)

interpretation cvb: error_builder "cv_run pq" "cv_valid pq" "cv_apply pq" for pq
  by unfold_locales (simp_all add: cv_run_valid cv_run_invalid)

end
