(* ===== verification/Volume_Client.thy ===== *)
theory Volume_Client
  imports Kube_Client Volume_Build
begin

section \<open>CStorVolume client: pkg/cstor/volume/kubernetes.go\<close>

text \<open>
  The default implementations of the function fields, the constructor, and the methods that the
  driver calls. Errors are handed on without wrapping, and there is no update.
\<close>

type_synonym 'w cv_Kubeclient = "('w, CStorVolume) Kubeclient"

definition cv_defaultGetClientset :: "'w kube \<Rightarrow> ('w, nat perr) go" where
  "cv_defaultGetClientset X = bnd (GetConfig (Some (client_New X []))) (\<lambda>(config, err). case err of
     Some e \<Rightarrow> ret (None, Some e)
   | None \<Rightarrow> k_openebs_NewForConfig X config)"

definition cv_defaultGetClientsetForPath :: "'w kube \<Rightarrow> string \<Rightarrow> ('w, nat perr) go" where
  "cv_defaultGetClientsetForPath X kubeConfigPath =
     bnd (GetConfig (Some (client_New X [client_WithKubeConfigPath kubeConfigPath]))) (\<lambda>(config, err). case err of
       Some e \<Rightarrow> ret (None, Some e)
     | None \<Rightarrow> k_openebs_NewForConfig X config)"

definition cv_defaultGet :: "'w kube \<Rightarrow> nat option \<Rightarrow> string \<Rightarrow> string \<Rightarrow> ('w, CStorVolume perr) go" where
  "cv_defaultGet X cli name namespace = call_fn cli (\<lambda>c. r_Get (k_cv X) c namespace name)"

definition cv_defaultList :: "'w kube \<Rightarrow> nat option \<Rightarrow> string \<Rightarrow> ListOptions \<Rightarrow> ('w, CStorVolume list perr) go" where
  "cv_defaultList X cli namespace opts = call_fn cli (\<lambda>c. r_List (k_cv X) c namespace opts)"

definition cv_defaultDel :: "'w kube \<Rightarrow> nat option \<Rightarrow> string \<Rightarrow> string \<Rightarrow> string option \<Rightarrow> ('w, gerror option) go" where
  "cv_defaultDel X cli name namespace opts =
     call_fn opts (\<lambda>_. call_fn cli (\<lambda>c. r_Delete (k_cv X) c namespace name ''Foreground''))"

definition cv_defaultCreate :: "'w kube \<Rightarrow> nat option \<Rightarrow> CStorVolume \<Rightarrow> string \<Rightarrow> ('w, CStorVolume perr) go" where
  "cv_defaultCreate X cli vol namespace = call_fn cli (\<lambda>c. r_Create (k_cv X) c namespace vol)"

definition cv_withDefaults :: "'w kube \<Rightarrow> 'w cv_Kubeclient \<Rightarrow> 'w cv_Kubeclient" where
  "cv_withDefaults X k = k
     \<lparr>kc_getClientset := or_default (kc_getClientset k) (cv_defaultGetClientset X),
      kc_getClientsetForPath := or_default (kc_getClientsetForPath k) (cv_defaultGetClientsetForPath X),
      kc_get := or_default (kc_get k) (cv_defaultGet X),
      kc_list := or_default (kc_list k) (cv_defaultList X),
      kc_del := or_default (kc_del k) (cv_defaultDel X),
      kc_create := or_default (kc_create k) (cv_defaultCreate X)\<rparr>"

definition cv_NewKubeclient ::
  "'w kube \<Rightarrow> ('w cv_Kubeclient \<Rightarrow> 'w cv_Kubeclient) list \<Rightarrow> 'w cv_Kubeclient" where
  "cv_NewKubeclient X opts = cv_withDefaults X (fold (\<lambda>op k. op k) opts zero_Kubeclient)"

definition cv_getClientOrCached :: "'w cv_Kubeclient \<Rightarrow> ('w, CStorVolume, nat perr) kmethod" where
  "cv_getClientOrCached = clientOrCached (\<lambda>e. e)"

interpretation cvcc: cached_client cv_getClientOrCached
  unfolding cv_getClientOrCached_def by unfold_locales (rule clientOrCached_laws; assumption)+

definition cv_Create :: "'w cv_Kubeclient \<Rightarrow> CStorVolume option \<Rightarrow> ('w, CStorVolume, CStorVolume perr) kmethod" where
  "cv_Create k vol = (case vol of
     None \<Rightarrow> ret ((None, Some (Errorf ''failed to create cstorvolume: nil cstorvolume object'' [])), k)
   | Some v \<Rightarrow> with_client cv_getClientOrCached k
       (\<lambda>e. (None, Some e))
       (\<lambda>cli k. call_fn (kc_create k) (\<lambda>f. f cli v (kc_namespace k))))"

definition cv_Get :: "'w cv_Kubeclient \<Rightarrow> string \<Rightarrow> ('w, CStorVolume, CStorVolume perr) kmethod" where
  "cv_Get k name =
     (if name = [] then ret ((None, Some (Errorf ''failed to get cstorvolume: name can't be empty'' [])), k)
      else with_client cv_getClientOrCached k
       (\<lambda>e. (None, Some e))
       (\<lambda>cli k. call_fn (kc_get k) (\<lambda>f. f cli name (kc_namespace k))))"

definition cv_GetRaw :: "'w kube \<Rightarrow> 'w cv_Kubeclient \<Rightarrow> string \<Rightarrow> ('w, CStorVolume, string perr) kmethod" where
  "cv_GetRaw X k name = 
     bnd (cv_Get k name) (\<lambda>((vol, err), k'). case err of
       Some e \<Rightarrow> ret ((None, Some (e)), k')
     | None \<Rightarrow> (case vol of None \<Rightarrow> ret ((Some ''null'', None), k') | Some v \<Rightarrow> (case k_json_cv X v of
         Inl e \<Rightarrow> ret ((None, Some e), k') | Inr raw \<Rightarrow> ret ((Some raw, None), k'))))"

definition cv_List :: "'w cv_Kubeclient \<Rightarrow> ListOptions \<Rightarrow> ('w, CStorVolume, CStorVolume list perr) kmethod" where
  "cv_List k opts = with_client cv_getClientOrCached k
     (\<lambda>e. (None, Some e))
     (\<lambda>cli k. call_fn (kc_list k) (\<lambda>f. f cli (kc_namespace k) opts))"

definition cv_Delete :: "'w cv_Kubeclient \<Rightarrow> string \<Rightarrow> ('w, CStorVolume, gerror option) kmethod" where
  "cv_Delete k name = 
     with_client cv_getClientOrCached k
       (\<lambda>e. Some e)
       (\<lambda>cli k. call_fn (kc_del k) (\<lambda>f. f cli name (kc_namespace k) (Some [])))"

lemmas cv_client_defs = cv_NewKubeclient_def cv_withDefaults_def cv_defaultGet_def cv_defaultList_def
  cv_defaultDel_def cv_defaultCreate_def WithNamespace_def zero_Kubeclient_def

definition cv_kc :: "'w kube \<Rightarrow> string \<Rightarrow> 'w cv_Kubeclient" where
  "cv_kc X namespace = WithNamespace namespace (cv_NewKubeclient X [])"

lemma cv_kc_fresh: "fresh (cv_kc X ns) (cv_defaultGetClientset X)"
  by (simp add: fresh_def cv_kc_def cv_client_defs)

lemma cv_kc_fields [simp]:
  "kc_namespace (cv_kc X ns) = ns" "kc_get (cv_kc X ns) = Some (cv_defaultGet X)"
  "kc_list (cv_kc X ns) = Some (cv_defaultList X)" "kc_del (cv_kc X ns) = Some (cv_defaultDel X)"
  "kc_create (cv_kc X ns) = Some (cv_defaultCreate X)"
  by (simp_all add: cv_kc_def cv_client_defs)

lemma cv_Get_fresh:
  "name \<noteq> [] \<Longrightarrow> the_result (cv_Get (cv_kc X ns) name) s = (Return (p, None), s') \<longleftrightarrow>
     (\<exists>c t. cv_defaultGetClientset X s = (Return (Some c, None), t) \<and>
            r_Get (k_cv X) c ns name t = (Return (p, None), s'))"
  by (auto simp: cv_Get_def cv_getClientOrCached_def fresh_with_client [OF cv_kc_fresh] bnd_Return_iff
      cv_defaultGet_def call_fn_def deref_def split: option.splits)

lemma cv_Create_fresh:
  "the_result (cv_Create (cv_kc X ns) (Some v)) s = (Return (p, None), s') \<longleftrightarrow>
     (\<exists>c t. cv_defaultGetClientset X s = (Return (Some c, None), t) \<and>
            r_Create (k_cv X) c ns v t = (Return (p, None), s'))"
  by (auto simp: cv_Create_def cv_getClientOrCached_def fresh_with_client [OF cv_kc_fresh] bnd_Return_iff
      cv_defaultCreate_def call_fn_def deref_def split: option.splits)

lemma cv_List_fresh:
  "the_result (cv_List (cv_kc X ns) opts) s = (Return (p, None), s') \<longleftrightarrow>
     (\<exists>c t. cv_defaultGetClientset X s = (Return (Some c, None), t) \<and>
            r_List (k_cv X) c ns opts t = (Return (p, None), s'))"
  by (auto simp: cv_List_def cv_getClientOrCached_def fresh_with_client [OF cv_kc_fresh] bnd_Return_iff
      cv_defaultList_def call_fn_def deref_def split: option.splits)

lemma cv_Delete_fresh:
  "name \<noteq> [] \<Longrightarrow> the_result (cv_Delete (cv_kc X ns) name) s = (Return None, s') \<longleftrightarrow>
     (\<exists>c t. cv_defaultGetClientset X s = (Return (Some c, None), t) \<and>
            r_Delete (k_cv X) c ns name ''Foreground'' t = (Return None, s'))"
  by (auto simp: cv_Delete_def cv_getClientOrCached_def fresh_with_client [OF cv_kc_fresh] bnd_Return_iff
      cv_defaultDel_def call_fn_def deref_def split: option.splits)

end
