(* ===== verification/Node_Client.thy ===== *)
theory Node_Client
  imports Kube_Client
begin

section \<open>Node client: pkg/kubernetes/node/kubernetes.go\<close>

text \<open>
  Nodes are cluster scoped: the namespace argument of the API calls is empty. The readiness test and
  the cluster facts that analytics reports are here too.
\<close>

type_synonym 'w node_Kubeclient = "('w, Node) Kubeclient"

definition node_withDefaults :: "'w kube \<Rightarrow> 'w node_Kubeclient \<Rightarrow> 'w node_Kubeclient" where
  "node_withDefaults X k = k
     \<lparr>kc_getClientset := or_default (kc_getClientset k) (Clientset (client_New X [])),
      kc_getClientsetForPath := or_default (kc_getClientsetForPath k)
        (\<lambda>kubeConfigPath. Clientset (client_New X [client_WithKubeConfigPath kubeConfigPath])),
      kc_list := or_default (kc_list k) (\<lambda>cli _ opts. call_fn cli (\<lambda>c. r_List (k_node X) c [] opts)),
      kc_get := or_default (kc_get k) (\<lambda>cli name _. call_fn cli (\<lambda>c. r_Get (k_node X) c [] name))\<rparr>"

definition node_NewKubeClient ::
  "'w kube \<Rightarrow> ('w node_Kubeclient \<Rightarrow> 'w node_Kubeclient) list \<Rightarrow> 'w node_Kubeclient" where
  "node_NewKubeClient X opts = node_withDefaults X (fold (\<lambda>op k. op k) opts zero_Kubeclient)"

definition node_getClientsetOrCached :: "'w node_Kubeclient \<Rightarrow> ('w, Node, nat perr) kmethod" where
  "node_getClientsetOrCached = clientOrCached (Wrapf ''failed to get clientset'' [])"

interpretation nodecc: cached_client node_getClientsetOrCached
  unfolding node_getClientsetOrCached_def by unfold_locales (rule clientOrCached_laws; assumption)+

definition node_Get :: "'w node_Kubeclient \<Rightarrow> string \<Rightarrow> ('w, Node, Node perr) kmethod" where
  "node_Get k name =
     (if length name = 0 then ret ((None, Some (Errorf ''failed to get node: missing node name'' [])), k)
      else with_client node_getClientsetOrCached k
        (\<lambda>e. (None, Some (Wrapf ''failed to get node {%s}: failed to get clientset'' [name] e)))
        (\<lambda>cli k. call_fn (kc_get k) (\<lambda>f. f cli name [])))"

definition node_List :: "'w node_Kubeclient \<Rightarrow> ListOptions \<Rightarrow> ('w, Node, Node list perr) kmethod" where
  "node_List k opts = with_client node_getClientsetOrCached k
     (\<lambda>e. (None, Some (Wrapf ''failed to list nodes'' [] e)))
     (\<lambda>cli k. call_fn (kc_list k) (\<lambda>f. f cli [] opts))"

definition NumberOfNodes :: "'w kube \<Rightarrow> ('w, gerror + nat) go" where
  "NumberOfNodes X = map_err (Wrapf ''failed to get the number of nodes'' [])
     (tryP (the_result (node_List (node_NewKubeClient X []) \<lparr>lo_LabelSelector = [], lo_Limit = 0\<rparr>))
       (\<lambda>items. ret (Inr (length items))))"

text \<open>\<open>firstNode.Items[0]\<close> panics on an empty list.\<close>

definition GetOSAndKernelVersion :: "'w kube \<Rightarrow> ('w, string \<times> gerror option) go" where
  "GetOSAndKernelVersion X =
     bnd (the_result (node_List (node_NewKubeClient X []) \<lparr>lo_LabelSelector = [], lo_Limit = 1\<rparr>)) (\<lambda>(firstNode, err).
       case err of
         Some e \<Rightarrow> ret (''unknown, unknown'', Some (Wrapf ''failed to get the os kernel/arch'' [] e))
       | None \<Rightarrow> bnd (deref firstNode) (\<lambda>items. case items of
           [] \<Rightarrow> panic ''index out of range''
         | n # _ \<Rightarrow> ret (node_OSImage n @ '', '' @ node_KernelVersion n, None)))"

fun ready_cond :: "NodeCondition list \<Rightarrow> bool" where
  "ready_cond [] = False"
| "ready_cond (cond # conds) =
     (if cond_Type cond = ''Ready'' then (if cond_Status cond = ''True'' then True else ready_cond conds)
      else ready_cond conds)"

definition IsNodeReady :: "'w kube \<Rightarrow> string \<Rightarrow> ('w, gerror + bool) go" where
  "IsNodeReady X nodeName =
     tryP (the_result (node_Get (node_NewKubeClient X []) nodeName))
       (\<lambda>node. ret (Inr (ready_cond (node_Conditions node))))"

lemma ready_cond_iff:
  "ready_cond conds \<longleftrightarrow> (\<exists>c \<in> set conds. cond_Type c = ''Ready'' \<and> cond_Status c = ''True'')"
  by (induction conds) auto

lemma node_kc_fresh: "fresh (node_NewKubeClient X []) (Clientset (client_New X []))"
  by (simp add: fresh_def node_NewKubeClient_def node_withDefaults_def zero_Kubeclient_def)

lemma node_kc_fields [simp]:
  "kc_list (node_NewKubeClient X []) = Some (\<lambda>cli _ opts. call_fn cli (\<lambda>c. r_List (k_node X) c [] opts))"
  "kc_get (node_NewKubeClient X []) = Some (\<lambda>cli name _. call_fn cli (\<lambda>c. r_Get (k_node X) c [] name))"
  by (simp_all add: node_NewKubeClient_def node_withDefaults_def zero_Kubeclient_def)

lemma node_List_eq:
  "the_result (node_List (node_NewKubeClient X []) opts) = bnd (Clientset (client_New X [])) (\<lambda>(c, err). case err of
     Some e \<Rightarrow> ret (None, Some (Wrapf ''failed to list nodes'' [] (Wrapf ''failed to get clientset'' [] e)))
   | None \<Rightarrow> call_fn c (\<lambda>c. r_List (k_node X) c [] opts))"
  by (simp add: node_List_def node_getClientsetOrCached_def fresh_with_client [OF node_kc_fresh] cong: option.case_cong)

lemma node_Get_eq:
  "name \<noteq> [] \<Longrightarrow> the_result (node_Get (node_NewKubeClient X []) name) = bnd (Clientset (client_New X [])) (\<lambda>(c, err). case err of
     Some e \<Rightarrow> ret (None, Some (Wrapf ''failed to get node {%s}: failed to get clientset'' [name] (Wrapf ''failed to get clientset'' [] e)))
   | None \<Rightarrow> call_fn c (\<lambda>c. r_Get (k_node X) c [] name))"
  by (simp add: node_Get_def node_getClientsetOrCached_def fresh_with_client [OF node_kc_fresh] cong: option.case_cong)

end
