(* ===== verification/Attachment_Ops.thy ===== *)
theory Attachment_Ops
  imports VolumeAttachment_Client Volume_Client Node_Client
begin

section \<open>Attachment resources: pkg/utils/kubernetes.go\<close>

text \<open>
  The globals \<open>OpenEBSNamespace\<close> and \<open>NodeIDENV\<close> of package utils are set once from the environment
  (\<open>utils_init\<close>, from \<open>init\<close> of utils.go, where \<open>Fatalf\<close> ends the process) and are a record here.
  An operation that writes into the attachment it was given returns it with its result. The world of
  these operations is the cluster.
\<close>

record utils_globals =
  OpenEBSNamespace :: string
  NodeIDENV :: string

definition utils_init :: "environ \<Rightarrow> utils_globals outcome" where
  "utils_init env =
     (let ns = os_Getenv env ''OPENEBS_NAMESPACE'' in
      if ns = [] then Panic ''OPENEBS_NAMESPACE environment variable not set''
      else let nodeid = os_Getenv env ''OPENEBS_NODE_ID'' in
        if nodeid = [] \<and> os_Getenv env ''OPENEBS_NODE_DRIVER'' \<noteq> [] then Panic ''OPENEBS_NODE_ID not set''
        else Return \<lparr>OpenEBSNamespace = ns, NodeIDENV = nodeid\<rparr>)"

definition NODEID :: string where "NODEID = ''nodeID''"
definition VOLNAME :: string where "VOLNAME = ''Volname''"
definition loopCount :: nat where "loopCount = 5"

definition selector :: "string \<Rightarrow> ListOptions" where
  "selector sel = \<lparr>lo_LabelSelector = sel, lo_Limit = 0\<rparr>"

definition getNodeDetails :: "'w kube \<Rightarrow> string \<Rightarrow> ('w, Node perr) go" where
  "getNodeDetails X name = the_result (node_Get (node_NewKubeClient X []) name)"

definition getVolStatus :: "'w kube \<Rightarrow> utils_globals \<Rightarrow> string \<Rightarrow> ('w, gerror + string) go" where
  "getVolStatus X G volumeID =
     (let listOptions = selector (''openebs.io/persistent-volume='' @ volumeID) in
      tryP (the_result (cv_List (cv_kc X (OpenEBSNamespace G)) listOptions)) (\<lambda>volumeList.
        case volumeList of
          [v] \<Rightarrow> ret (Inr (cv_Phase v))
        | _ \<Rightarrow> fail (Errorf ''expected single volume got {%d} for selector {%v}''
                 [itoa (int (length volumeList)), lo_LabelSelector listOptions])))"

definition GetVolListForNode :: "'w kube \<Rightarrow> utils_globals \<Rightarrow> ('w, CStorVolumeAttachment list perr) go" where
  "GetVolListForNode X G =
     the_result (cva_List (cva_kc X (OpenEBSNamespace G)) (selector (NODEID @ ''='' @ NodeIDENV G)))"

definition GetVolList :: "'w kube \<Rightarrow> utils_globals \<Rightarrow> string \<Rightarrow> ('w, CStorVolumeAttachment list perr) go" where
  "GetVolList X G volume =
     the_result (cva_List (cva_kc X (OpenEBSNamespace G)) (selector (VOLNAME @ ''='' @ volume)))"

definition GetCStorVolumeAttachment :: "'w kube \<Rightarrow> utils_globals \<Rightarrow> string \<Rightarrow> ('w, CStorVolumeAttachment perr) go" where
  "GetCStorVolumeAttachment X G csivol = the_result (cva_Get (cva_kc X (OpenEBSNamespace G)) csivol)"

definition GetVolumeIP :: "'w kube \<Rightarrow> utils_globals \<Rightarrow> string \<Rightarrow> ('w, gerror + string) go" where
  "GetVolumeIP X G volumeID =
     bnd (the_result (cv_Get (cv_kc X (OpenEBSNamespace G)) volumeID)) (\<lambda>(cstorvolume, err). case err of
       Some e \<Rightarrow> fail e
     | None \<Rightarrow> (case cstorvolume of None \<Rightarrow> ret (Inr []) | Some v \<Rightarrow> ret (Inr (cv_TargetIP v))))"

text \<open>The result is the error, and the attachment with the fields written so far.\<close>

definition CreateCStorVolumeAttachmentCR ::
  "'w kube \<Rightarrow> utils_globals \<Rightarrow> CStorVolumeAttachment \<Rightarrow> string \<Rightarrow> ('w, gerror option \<times> CStorVolumeAttachment) go" where
  "CreateCStorVolumeAttachmentCR X G csivol nodeID =
     (let v1 = csivol\<lparr>cva_OwnerNodeID := nodeID\<rparr> in
      bnd (getNodeDetails X nodeID) (\<lambda>(nodeInfo, err). case err of
        Some e \<Rightarrow> ret (Some e, v1)
      | None \<Rightarrow> bnd (deref nodeInfo) (\<lambda>n.
          let v2 = v1\<lparr>cva_OwnerReferences := [\<lparr>or_APIVersion = ''v1'', or_Kind = ''Node'',
                         or_Name = node_Name n, or_UID = node_UID n\<rparr>]\<rparr> in
          bnd (the_result (cva_Create (cva_kc X (OpenEBSNamespace G)) (Some v2))) (\<lambda>(_, err). ret (err, v2)))))"

definition UpdateCStorVolumeAttachmentCR ::
  "'w kube \<Rightarrow> utils_globals \<Rightarrow> CStorVolumeAttachment option \<Rightarrow> ('w, CStorVolumeAttachment perr) go" where
  "UpdateCStorVolumeAttachmentCR X G csivol = the_result (cva_Update (cva_kc X (OpenEBSNamespace G)) csivol)"

fun markForDeletion ::
  "'w kube \<Rightarrow> utils_globals \<Rightarrow> string \<Rightarrow> CStorVolumeAttachment list \<Rightarrow> string \<Rightarrow> ('w, gerror + string) go" where
  "markForDeletion X G nodeID [] nodeCVA = ret (Inr nodeCVA)"
| "markForDeletion X G nodeID (csivol # csivols) nodeCVA =
     bnd (the_result (cva_Delete (cva_kc X (OpenEBSNamespace G)) (cva_Name csivol))) (\<lambda>err. case err of
       Some e \<Rightarrow> fail e
     | None \<Rightarrow> markForDeletion X G nodeID csivols
         (if HasSuffix (cva_Name csivol) nodeID then cva_Name csivol else nodeCVA))"

text \<open>The loop that waits for the attachment to disappear. What it ends with is only logged.\<close>

fun waitForDeletion :: "'w kube \<Rightarrow> utils_globals \<Rightarrow> string \<Rightarrow> nat \<Rightarrow> ('w, unit) go" where
  "waitForDeletion X G nodeCVA 0 = ret ()"
| "waitForDeletion X G nodeCVA (Suc i) =
     bnd (the_result (cva_Get (cva_kc X (OpenEBSNamespace G)) nodeCVA)) (\<lambda>(_, err).
       if (case err of Some e \<Rightarrow> IsNotFound e | None \<Rightarrow> False) then ret ()
       else andthen (k_Sleep X 1) (waitForDeletion X G nodeCVA i))"

definition DeleteOldCStorVolumeAttachmentCRs :: "'w kube \<Rightarrow> utils_globals \<Rightarrow> string \<Rightarrow> string \<Rightarrow> ('w, gerror + unit) go" where
  "DeleteOldCStorVolumeAttachmentCRs X G volumeID nodeID =
     tryP (GetVolList X G volumeID) (\<lambda>csivols.
     tryE (markForDeletion X G nodeID csivols []) (\<lambda>nodeCVA.
       if nodeCVA \<noteq> [] then andthen (waitForDeletion X G nodeCVA loopCount) ok else ok))"

definition DeleteCStorVolumeAttachmentCR :: "'w kube \<Rightarrow> utils_globals \<Rightarrow> string \<Rightarrow> ('w, gerror option) go" where
  "DeleteCStorVolumeAttachmentCR X G csivolName = the_result (cva_Delete (cva_kc X (OpenEBSNamespace G)) csivolName)"

subsection \<open>What is marked for deletion\<close>

text \<open>A run of successful deletions, one per attachment, in order.\<close>

inductive deletes :: "'w kube \<Rightarrow> utils_globals \<Rightarrow> string list \<Rightarrow> 'w \<Rightarrow> 'w \<Rightarrow> bool"
  for X :: "'w kube" and G :: utils_globals where
  deletes_Nil: "deletes X G [] s s"
| deletes_Cons: "the_result (cva_Delete (cva_kc X (OpenEBSNamespace G)) n) s = (Return None, t) \<Longrightarrow>
     deletes X G ns t u \<Longrightarrow> deletes X G (n # ns) s u"

inductive_cases deletes_NilE: "deletes X G [] s u"
inductive_cases deletes_ConsE: "deletes X G (n # ns) s u"

lemma markForDeletion_Inr:
  "markForDeletion X G nodeID vols c s = (Return (Inr r), s') \<longleftrightarrow>
     deletes X G (map cva_Name vols) s s' \<and>
     r = last (c # filter (\<lambda>n. HasSuffix n nodeID) (map cva_Name vols))"
proof (induction vols arbitrary: c s)
  case Nil
  then show ?case by (auto intro: deletes_Nil elim: deletes_NilE)
next
  case (Cons v vols)
  then show ?case
    by (auto simp: bnd_Return_iff split: option.splits if_splits intro!: deletes_Cons elim!: deletes_ConsE)
qed

end
