(* ===== verification/Volume_Ops.thy ===== *)
theory Volume_Ops
  imports VolumeConfig_Client PVC_Client Attachment_Ops
begin

section \<open>Volume resources: pkg/utils/maya.go\<close>

text \<open>
  Provisioning, deletion and resizing of CStorVolumeConfigs, and the lookups the controller and the
  node make. \<open>resource.MustParse\<close> panics on a text that \<open>ParseQuantity\<close> rejects; both are code outside
  the repository, given by \<open>k_ParseQuantity\<close>. A resource list without a storage entry reads as the zero
  quantity.
\<close>

definition OpenebsVolumePolicy :: string where "OpenebsVolumePolicy = ''openebs.io/volume-policy''"
definition OpenebsPVC :: string where "OpenebsPVC = ''openebs.io/persistent-volume-claim''"
definition OpenebsVolumeID :: string where "OpenebsVolumeID = ''openebs.io/volumeID''"
definition OpenebsCSPCName :: string where "OpenebsCSPCName = ''openebs.io/cstor-pool-cluster''"
definition CVCFinalizer :: string where "CVCFinalizer = ''cvc.openebs.io/finalizer''"
definition TargetLunID :: string where "TargetLunID = ''0''"
definition DefaultIscsiInterface :: string where "DefaultIscsiInterface = ''default''"
definition volumeCreatedThrough :: string where "volumeCreatedThrough = ''openebs.io/created-through''"
definition CStorVolumeConfigPhasePending :: string where "CStorVolumeConfigPhasePending = ''Pending''"

definition MustParse :: "'w kube \<Rightarrow> string \<Rightarrow> ('w, quantity) go" where
  "MustParse X str = (case k_ParseQuantity X str of
     Inl _ \<Rightarrow> panic ''cannot parse quantity'' | Inr q \<Rightarrow> ret q)"

definition storage :: "quantity option \<Rightarrow> quantity" where
  "storage q = (case q of None \<Rightarrow> 0 | Some x \<Rightarrow> x)"

text \<open>\<open>strings.Split\<close> never returns an empty slice, so the error branch cannot be taken, and an id
  without an at sign has no second part: the index is out of range.\<close>

definition GetVolumeSourceDetails :: "string \<Rightarrow> ('w, gerror + string \<times> string) go" where
  "GetVolumeSourceDetails snapshotID =
     (let volSrc = Split snapshotID (CHR ''@'') in
      if length volSrc = 0 then fail (Errorf ''failed to get volumeSource'' [])
      else if length volSrc \<le> 1 then panic ''index out of range''
      else ret (Inr (volSrc ! 0, volSrc ! 1)))"

definition provision_labels :: "string \<Rightarrow> string \<Rightarrow> ('w, gomap) go" where
  "provision_labels cspcName snapshotID =
     (if snapshotID \<noteq> [] then
        bnd (GetVolumeSourceDetails snapshotID) (\<lambda>r.
          ret [(OpenebsCSPCName, cspcName),
               (''openebs.io/source-volume'', case r of Inr (srcVolName, _) \<Rightarrow> srcVolName | Inl _ \<Rightarrow> [])])
      else ret [(OpenebsCSPCName, cspcName)])"

definition provision_annotations ::
  "'w kube \<Rightarrow> string \<Rightarrow> string \<Rightarrow> string \<Rightarrow> string \<Rightarrow> ('w, gerror + gomap) go" where
  "provision_annotations X volName policyName pvcName pvcNamespace =
     (let annotations = [(OpenebsVolumeID, volName), (OpenebsVolumePolicy, policyName), (OpenebsPVC, pvcName)] in
      if pvcName \<noteq> [] then
        tryP (the_result (pvc_Get (WithNamespace pvcNamespace (pvc_NewKubeClient X [])) pvcName)) (\<lambda>pvcObj.
          case (case pvc_Annotations pvcObj of None \<Rightarrow> None | Some m \<Rightarrow> map_of m volumeCreatedThrough) of
            Some v \<Rightarrow> ret (Inr (AList.update volumeCreatedThrough v annotations))
          | None \<Rightarrow> ret (Inr annotations))
      else ret (Inr annotations))"

definition provision_chain ::
  "string \<Rightarrow> string \<Rightarrow> gomap \<Rightarrow> gomap \<Rightarrow> quantity \<Rightarrow> string \<Rightarrow> string \<Rightarrow> string \<Rightarrow> cvc_call list" where
  "provision_chain ns volName annotations labels sSize snapshotID nodeID replicaCount =
     [CvcName volName, CvcNamespace ns, CvcAnnotations annotations, CvcLabelsNew labels,
      CvcFinalizers [CVCFinalizer], CvcCapacityQty sSize, CvcSource snapshotID, CvcNodeID nodeID,
      CvcReplicaCount replicaCount, CvcProvisionCapacityQty sSize, CvcDependentsUpgraded,
      CvcStatusPhase CStorVolumeConfigPhasePending]"

definition ProvisionVolume ::
  "'w kube \<Rightarrow> utils_globals \<Rightarrow> int64 \<Rightarrow> string \<Rightarrow> string \<Rightarrow> string \<Rightarrow> string \<Rightarrow> string \<Rightarrow> string \<Rightarrow> string \<Rightarrow> string \<Rightarrow>
   ('w, gerror + unit) go" where
  "ProvisionVolume X G sz volName replicaCount cspcName snapshotID nodeID policyName pvcName pvcNamespace =
     tryE (provision_annotations X volName policyName pvcName pvcNamespace) (\<lambda>annotations.
     bnd (provision_labels cspcName snapshotID) (\<lambda>labels.
     bnd (MustParse X (itoa (sint (RoundUpGiB sz)) @ ''Gi'')) (\<lambda>sSize.
       case Build (fold (cvc_run (k_ParseQuantity X))
              (provision_chain (OpenEBSNamespace G) volName annotations labels sSize snapshotID nodeID replicaCount)
              cvc_NewBuilder) of
         Inl err \<Rightarrow> fail err
       | Inr cvcObj \<Rightarrow>
           bnd (the_result (cvc_Create (cvc_kc X (OpenEBSNamespace G)) (Some cvcObj))) (\<lambda>(_, err).
             case err of Some e \<Rightarrow> fail e | None \<Rightarrow> ok))))"

definition GetVolume :: "'w kube \<Rightarrow> utils_globals \<Rightarrow> string \<Rightarrow> ('w, CStorVolumeConfig perr) go" where
  "GetVolume X G volumeID = the_result (cvc_Get (cvc_kc X (OpenEBSNamespace G)) volumeID)"

text \<open>The test is on the pointer, not on the error.\<close>

definition IsSourceAvailable :: "'w kube \<Rightarrow> utils_globals \<Rightarrow> string \<Rightarrow> ('w, bool \<times> gerror option) go" where
  "IsSourceAvailable X G snapshotID =
     bnd (GetVolumeSourceDetails snapshotID) (\<lambda>r. case r of
       Inl e \<Rightarrow> ret (False, Some e)
     | Inr (srcVolName, _) \<Rightarrow> bnd (GetVolume X G srcVolName) (\<lambda>(cvc, err).
         if cvc \<noteq> None then ret (True, None) else ret (False, err)))"

definition DeleteVolumeCVC :: "'w kube \<Rightarrow> utils_globals \<Rightarrow> string \<Rightarrow> ('w, gerror option) go" where
  "DeleteVolumeCVC X G volumeID = the_result (cvc_Delete (cvc_kc X (OpenEBSNamespace G)) volumeID)"

definition IsCVCBound :: "'w kube \<Rightarrow> utils_globals \<Rightarrow> string \<Rightarrow> ('w, gerror + bool) go" where
  "IsCVCBound X G volumeID =
     tryP (the_result (cvc_Get (cvc_kc X (OpenEBSNamespace G)) volumeID)) (\<lambda>cvcObj.
       if cvc_Phase cvcObj = CStorVolumeConfigPhasePending then ret (Inr False) else ret (Inr True))"

text \<open>A failed \<open>Build\<close> gives a nil object, which \<open>Patch\<close> refuses.\<close>

definition built :: "gerror + 'o \<Rightarrow> 'o option" where
  "built r = (case r of Inl _ \<Rightarrow> None | Inr ob \<Rightarrow> Some ob)"

definition PatchCVCNodeID :: "'w kube \<Rightarrow> utils_globals \<Rightarrow> string \<Rightarrow> string \<Rightarrow> ('w, gerror option) go" where
  "PatchCVCNodeID X G volumeID nodeID =
     bnd (the_result (cvc_Get (cvc_kc X (OpenEBSNamespace G)) volumeID)) (\<lambda>(oldCVCObj, err). case err of
       Some e \<Rightarrow> ret (Some e)
     | None \<Rightarrow>
         bnd (the_result (cvc_Patch (cvc_kc X (OpenEBSNamespace G)) oldCVCObj
               (built (Build (cvc_WithNodeID nodeID (cvc_BuildFrom oldCVCObj)))) [])) (\<lambda>(_, err). ret err))"

text \<open>The builder works on the attachment of the caller, whose fields are written even when a later
  call of the chain records an error.\<close>

definition FetchAndUpdateISCSIDetails ::
  "'w kube \<Rightarrow> utils_globals \<Rightarrow> string \<Rightarrow> CStorVolumeAttachment \<Rightarrow> ('w, gerror option \<times> CStorVolumeAttachment) go" where
  "FetchAndUpdateISCSIDetails X G volumeID vol =
     bnd (the_result (cv_Get (cv_kc X (OpenEBSNamespace G)) volumeID)) (\<lambda>(cstorVolume, err). case err of
       Some e \<Rightarrow> ret (Some e, vol)
     | None \<Rightarrow> bnd (deref cstorVolume) (\<lambda>cv.
         let b = fold cva_run [CvaIQN (cv_Iqn cv), CvaTargetPortal (cv_TargetPortal cv), CvaLun TargetLunID,
                   CvaIscsiInterface DefaultIscsiInterface] (cva_BuildFrom (Some vol)) in
         ret (case Build b of Inl e \<Rightarrow> Some e | Inr _ \<Rightarrow> None, b_object b)))"

definition getCVC :: "'w kube \<Rightarrow> utils_globals \<Rightarrow> string \<Rightarrow> ('w, CStorVolumeConfig perr) go" where
  "getCVC X G cvcName = the_result (cvc_Get (cvc_kc X (OpenEBSNamespace G)) cvcName)"

definition GetCStorVolume :: "'w kube \<Rightarrow> utils_globals \<Rightarrow> string \<Rightarrow> ('w, CStorVolume perr) go" where
  "GetCStorVolume X G volName = the_result (cv_Get (cv_kc X (OpenEBSNamespace G)) volName)"

definition updateCVCSize :: "'w kube \<Rightarrow> utils_globals \<Rightarrow> CStorVolumeConfig \<Rightarrow> quantity \<Rightarrow> ('w, gerror + unit) go" where
  "updateCVCSize X G oldCVCObj sSize =
     (case Build (cvc_WithCapacityQty sSize (cvc_BuildFrom (Some oldCVCObj))) of
        Inl err \<Rightarrow> fail err
      | Inr newCVCObj \<Rightarrow>
          bnd (the_result (cvc_Patch (cvc_kc X (OpenEBSNamespace G)) (Some oldCVCObj) (Some newCVCObj) [])) (\<lambda>(_, err).
            case err of Some e \<Rightarrow> fail e | None \<Rightarrow> ok))"

definition waitAndReverifyResizeStatus :: "'w kube \<Rightarrow> utils_globals \<Rightarrow> string \<Rightarrow> quantity \<Rightarrow> ('w, gerror + unit) go" where
  "waitAndReverifyResizeStatus X G cvcName sSize =
     andthen (k_Sleep X 5)
       (tryP (getCVC X G cvcName) (\<lambda>cvcObj.
         let cvcActualSize = storage (cvc_StatusCapacity cvcObj) in
         if sSize \<noteq> cvcActualSize
         then fail (Errorf ''ResizeInProgress from: %v to: %v'' [itoa cvcActualSize, itoa sSize])
         else ok))"

definition handleResize :: "'w kube \<Rightarrow> utils_globals \<Rightarrow> CStorVolumeConfig \<Rightarrow> quantity \<Rightarrow> ('w, gerror + unit) go" where
  "handleResize X G cvc sSize =
     tryE (updateCVCSize X G cvc sSize) (\<lambda>_.
       if cvc_NodeID cvc = [] then ok else waitAndReverifyResizeStatus X G (cvc_Name cvc) sSize)"

definition ResizeVolume :: "'w kube \<Rightarrow> utils_globals \<Rightarrow> string \<Rightarrow> int64 \<Rightarrow> ('w, gerror + unit) go" where
  "ResizeVolume X G volumeID sz =
     bnd (MustParse X (itoa (sint (RoundUpGiB sz)) @ ''Gi'')) (\<lambda>desiredSize.
     tryP (getCVC X G volumeID) (\<lambda>cvc.
       let cvcDesiredSize = storage (cvc_Capacity cvc) in
       if desiredSize < cvcDesiredSize
       then fail (Errorf ''Volume shrink not supported from: %v to: %v''
              [itoa (storage (cvc_StatusCapacity cvc)), itoa (storage (cvc_Capacity cvc))])
       else if cvc_Phase cvc = CStorVolumeConfigPhasePending then handleResize X G cvc desiredSize
       else let cvcActualSize = storage (cvc_StatusCapacity cvc) in
         if cvcActualSize < cvcDesiredSize
         then fail (Errorf ''ResizeInProgress from: %v to: %v'' [itoa cvcActualSize, itoa cvcDesiredSize])
         else if desiredSize = cvcActualSize then ok
         else handleResize X G cvc desiredSize))"

end
