(* ===== verification/Snapshot.thy ===== *)
theory Snapshot
  imports Volume_Ops
begin

section \<open>Snapshots: pkg/cstor/snapshot/client.go and the snapshot calls of pkg/utils/utils.go\<close>

text \<open>
  The gRPC library and the generated client of the target are the record \<open>snap_api\<close>: dialling an address,
  closing a connection, and the two commands, which return the status bytes of the response. What
  \<open>json.Unmarshal\<close> finds as the field \<open>response\<close> of these bytes is \<open>sn_Response\<close>; its error is ignored
  in the code and leaves the field empty.
\<close>

record SnapRequest =
  sq_Version :: nat
  sq_Volume :: string
  sq_Snapname :: string

record 'w snap_api =
  sn_Dial :: "string \<Rightarrow> ('w, gerror + nat) go"
  sn_Close :: "nat \<Rightarrow> ('w, unit) go"
  sn_RunCreate :: "nat \<Rightarrow> SnapRequest \<Rightarrow> ('w, string perr) go"
  sn_RunDelete :: "nat \<Rightarrow> SnapRequest \<Rightarrow> ('w, string perr) go"
  sn_Response :: "string \<Rightarrow> string"

definition VolumeGrpcListenPort :: int where "VolumeGrpcListenPort = 7777"
definition ProtocolVersion :: nat where "ProtocolVersion = 1"

definition snap_addr :: "string \<Rightarrow> string" where
  "snap_addr ip = ip @ '':'' @ itoa VolumeGrpcListenPort"

lemma itoa_port [code_unfold]: "itoa VolumeGrpcListenPort = ''7777''"
  by (simp add: VolumeGrpcListenPort_def itoa_def itoa_nat.simps char_of_def bit_0)

definition snapshot_CreateSnapshot ::
  "'w snap_api \<Rightarrow> string \<Rightarrow> string \<Rightarrow> string \<Rightarrow> ('w, string perr) go" where
  "snapshot_CreateSnapshot N ip volName snapName =
     bnd (sn_Dial N (snap_addr ip)) (\<lambda>r. case r of
       Inl err \<Rightarrow> ret (None, Some (ErrorfE ''Unable to dial gRPC server on port %d error : %s'' [itoa VolumeGrpcListenPort] err))
     | Inr conn \<Rightarrow> deferred (sn_Close N conn)
         (bnd (sn_RunCreate N conn \<lparr>sq_Version = ProtocolVersion, sq_Volume = volName, sq_Snapname = snapName\<rparr>)
           (\<lambda>(response, err). case err of
             Some e \<Rightarrow> ret (None, Some (ErrorfE ''Error when calling RunVolumeSnapCreateCommand: %s'' [] e))
           | None \<Rightarrow> (case response of
               Some status \<Rightarrow>
                 if Contains (sn_Response N status) ''ERR''
                 then ret (None, Some (Errorf ''Snapshot create failed with error : %v'' [sn_Response N status]))
                 else ret (response, None)
             | None \<Rightarrow> ret (response, None)))))"

definition snapshot_DestroySnapshot ::
  "'w snap_api \<Rightarrow> string \<Rightarrow> string \<Rightarrow> string \<Rightarrow> ('w, string perr) go" where
  "snapshot_DestroySnapshot N ip volName snapName =
     bnd (sn_Dial N (snap_addr ip)) (\<lambda>r. case r of
       Inl err \<Rightarrow> ret (None, Some (ErrorfE ''Unable to dial gRPC server on port error : %s'' [] err))
     | Inr conn \<Rightarrow> deferred (sn_Close N conn)
         (bnd (sn_RunDelete N conn \<lparr>sq_Version = ProtocolVersion, sq_Volume = volName, sq_Snapname = snapName\<rparr>)
           (\<lambda>(response, err). case err of
             Some e \<Rightarrow> ret (None, Some (ErrorfE ''Error when calling RunVolumeSnapDeleteCommand: %s'' [] e))
           | None \<Rightarrow> (case response of
               Some status \<Rightarrow>
                 if Contains (sn_Response N status) ''ERR''
                 then ret (None, Some (Errorf ''Snapshot deletion failed with error : %v'' [sn_Response N status]))
                 else ret (response, None)
             | None \<Rightarrow> ret (response, None)))))"

definition utils_CreateSnapshot ::
  "'w kube \<Rightarrow> 'w snap_api \<Rightarrow> utils_globals \<Rightarrow> string \<Rightarrow> string \<Rightarrow> ('w, gerror + unit) go" where
  "utils_CreateSnapshot X N G volumeName snapName =
     tryE (GetVolumeIP X G volumeName) (\<lambda>volIP.
     bnd (snapshot_CreateSnapshot N volIP volumeName snapName) (\<lambda>(_, err).
       case err of Some e \<Rightarrow> fail e | None \<Rightarrow> ok))"

definition utils_DeleteSnapshot ::
  "'w kube \<Rightarrow> 'w snap_api \<Rightarrow> utils_globals \<Rightarrow> string \<Rightarrow> string \<Rightarrow> ('w, gerror + unit) go" where
  "utils_DeleteSnapshot X N G volumeName snapName =
     tryE (GetVolumeIP X G volumeName) (\<lambda>volIP.
     bnd (snapshot_DestroySnapshot N volIP volumeName snapName) (\<lambda>(_, err).
       case err of Some e \<Rightarrow> fail e | None \<Rightarrow> ok))"

lemma snapshot_CreateSnapshot_ok:
  "snapshot_CreateSnapshot N ip vol snap s = (Return (p, None), s') \<Longrightarrow>
    \<exists>conn t u response. sn_Dial N (snap_addr ip) s = (Return (Inr conn), t) \<and>
      sn_RunCreate N conn \<lparr>sq_Version = ProtocolVersion, sq_Volume = vol, sq_Snapname = snap\<rparr> t = (Return (response, None), u) \<and>
      (\<forall>st. response = Some st \<longrightarrow> \<not> Contains (sn_Response N st) ''ERR'') \<and> snd (sn_Close N conn u) = s'"
  by (auto simp: snapshot_CreateSnapshot_def deferred_def bnd_def
      split: sum.splits option.splits prod.splits outcome.splits if_splits)

end
