(* ===== verification/Payload.thy ===== *)
theory Payload
  imports API_Objects
begin

section \<open>Response builders: pkg/payload\<close>

text \<open>
  The builders of delete.go, resize.go, response.go and snapshot_create.go. Each holds the response under
  construction; \<open>Build\<close> returns it.
\<close>

record DeleteVolumeResponseBuilder =
  dvb_response :: unit

definition NewDeleteVolumeResponseBuilder :: DeleteVolumeResponseBuilder where
  "NewDeleteVolumeResponseBuilder = \<lparr>dvb_response = ()\<rparr>"

definition dvb_Build :: "DeleteVolumeResponseBuilder \<Rightarrow> unit" where
  "dvb_Build b = dvb_response b"

record ControllerExpandVolumeResponse =
  xp_CapacityBytes :: int64
  xp_NodeExpansionRequired :: bool

definition NewControllerExpandVolumeResponseBuilder :: ControllerExpandVolumeResponse where
  "NewControllerExpandVolumeResponseBuilder = \<lparr>xp_CapacityBytes = 0, xp_NodeExpansionRequired = False\<rparr>"

definition xp_WithCapacityBytes :: "int64 \<Rightarrow> ControllerExpandVolumeResponse \<Rightarrow> ControllerExpandVolumeResponse" where
  "xp_WithCapacityBytes capacity b = b\<lparr>xp_CapacityBytes := capacity\<rparr>"

definition xp_WithNodeExpansionRequired :: "bool \<Rightarrow> ControllerExpandVolumeResponse \<Rightarrow> ControllerExpandVolumeResponse" where
  "xp_WithNodeExpansionRequired nodeExpansionRequired b = b\<lparr>xp_NodeExpansionRequired := nodeExpansionRequired\<rparr>"

definition NewCreateVolumeResponseBuilder :: CreateVolumeResponse where
  "NewCreateVolumeResponseBuilder = \<lparr>cresp_VolumeId = [], cresp_CapacityBytes = 0, cresp_VolumeContext = [],
     cresp_ContentSource = None\<rparr>"

definition cresp_WithName :: "string \<Rightarrow> CreateVolumeResponse \<Rightarrow> CreateVolumeResponse" where
  "cresp_WithName name b = b\<lparr>cresp_VolumeId := name\<rparr>"

definition cresp_WithCapacity :: "int64 \<Rightarrow> CreateVolumeResponse \<Rightarrow> CreateVolumeResponse" where
  "cresp_WithCapacity capacity b = b\<lparr>cresp_CapacityBytes := capacity\<rparr>"

definition cresp_WithContext :: "gomap \<Rightarrow> CreateVolumeResponse \<Rightarrow> CreateVolumeResponse" where
  "cresp_WithContext ctx b = b\<lparr>cresp_VolumeContext := ctx\<rparr>"

record CreateSnapshotResponse =
  sr_SizeBytes :: int64
  sr_SnapshotId :: string
  sr_SourceVolumeId :: string
  sr_CreationTime :: "(int64 \<times> 32 word) option"
  sr_ReadyToUse :: bool

definition NewCreateSnapshotResponseBuilder :: CreateSnapshotResponse where
  "NewCreateSnapshotResponseBuilder = \<lparr>sr_SizeBytes = 0, sr_SnapshotId = [], sr_SourceVolumeId = [],
     sr_CreationTime = None, sr_ReadyToUse = False\<rparr>"

definition sr_WithSize :: "int64 \<Rightarrow> CreateSnapshotResponse \<Rightarrow> CreateSnapshotResponse" where
  "sr_WithSize sz b = b\<lparr>sr_SizeBytes := sz\<rparr>"

definition sr_WithSnapshotID :: "string \<Rightarrow> CreateSnapshotResponse \<Rightarrow> CreateSnapshotResponse" where
  "sr_WithSnapshotID snapshotID b = b\<lparr>sr_SnapshotId := snapshotID\<rparr>"

definition sr_WithSourceVolumeID :: "string \<Rightarrow> CreateSnapshotResponse \<Rightarrow> CreateSnapshotResponse" where
  "sr_WithSourceVolumeID volumeID b = b\<lparr>sr_SourceVolumeId := volumeID\<rparr>"

definition sr_WithCreationTime :: "int64 \<Rightarrow> int64 \<Rightarrow> CreateSnapshotResponse \<Rightarrow> CreateSnapshotResponse" where
  "sr_WithCreationTime tsec tnsec b = b\<lparr>sr_CreationTime := Some (tsec, word_of_int (sint tnsec))\<rparr>"

definition sr_WithReadyToUse :: "bool \<Rightarrow> CreateSnapshotResponse \<Rightarrow> CreateSnapshotResponse" where
  "sr_WithReadyToUse readyToUse b = b\<lparr>sr_ReadyToUse := readyToUse\<rparr>"

lemmas payload_defs = NewDeleteVolumeResponseBuilder_def dvb_Build_def
  NewControllerExpandVolumeResponseBuilder_def xp_WithCapacityBytes_def xp_WithNodeExpansionRequired_def
  NewCreateVolumeResponseBuilder_def cresp_WithName_def cresp_WithCapacity_def cresp_WithContext_def
  NewCreateSnapshotResponseBuilder_def sr_WithSize_def sr_WithSnapshotID_def sr_WithSourceVolumeID_def
  sr_WithCreationTime_def sr_WithReadyToUse_def

end
