(* ===== verification/Controller.thy ===== *)
theory Controller
  imports Snapshot Payload
begin

section \<open>The controller service: pkg/driver/controller.go and controller_utils.go\<close>

text \<open>
  The handlers of the CSI controller service, whole, with the validation of their requests. The record
  \<open>ctl_api\<close> holds the calls to code outside the repository that only the controller makes: sending an
  analytics event, the clock, and two readings of a \<open>resource.Quantity\<close>. The functions of driver/utils.go
  that the controller uses are here too.
\<close>

record analytics_event =
  ev_VolumeType :: string
  ev_VolumeName :: string
  ev_VolumeClaimName :: string
  ev_Action :: string
  ev_Category :: string
  ev_VolumeCapacity :: string

record 'w ctl_api =
  ct_Send :: "analytics_event \<Rightarrow> ('w, unit) go"
  ct_Now :: "('w, int64) go"
  ct_QuantityString :: "quantity \<Rightarrow> string"
  ct_MilliValue :: "quantity \<Rightarrow> int64"

datatype rpc_type = CREATE_DELETE_VOLUME | PUBLISH_UNPUBLISH_VOLUME | LIST_VOLUMES | GET_CAPACITY |
  CREATE_DELETE_SNAPSHOT | LIST_SNAPSHOTS | CLONE_VOLUME | PUBLISH_READONLY | EXPAND_VOLUME |
  LIST_VOLUMES_PUBLISHED_NODES | VOLUME_CONDITION | GET_VOLUME

record controller =
  cs_capabilities :: "rpc_type list"

definition SupportedVolumeCapabilityAccessModes :: "access_mode list" where
  "SupportedVolumeCapabilityAccessModes = [SINGLE_NODE_WRITER]"

definition newControllerCapabilities :: "rpc_type list" where
  "newControllerCapabilities = fold (\<lambda>c capabilities. capabilities @ [c])
     [CREATE_DELETE_VOLUME, EXPAND_VOLUME, CREATE_DELETE_SNAPSHOT, CLONE_VOLUME, GET_VOLUME, VOLUME_CONDITION] []"

definition NewController :: controller where
  "NewController = \<lparr>cs_capabilities = newControllerCapabilities\<rparr>"

definition ControllerGetCapabilities :: "controller \<Rightarrow> rpc_type list" where
  "ControllerGetCapabilities cs = cs_capabilities cs"

fun member_mode :: "access_mode list \<Rightarrow> access_mode \<Rightarrow> bool" where
  "member_mode [] m = False"
| "member_mode (access # accesses) m = (if m = access then True else member_mode accesses m)"

definition IsSupportedVolumeCapabilityAccessMode :: "access_mode \<Rightarrow> bool" where
  "IsSupportedVolumeCapabilityAccessMode accessMode = member_mode SupportedVolumeCapabilityAccessModes accessMode"

text \<open>A capability without an access mode is dereferenced here, and panics.\<close>

fun validateCapabilities :: "VolumeCapability list \<Rightarrow> ('w, bool) go" where
  "validateCapabilities [] = ret True"
| "validateCapabilities (c # caps) = bnd (deref (vc_AccessMode c)) (\<lambda>m.
     if \<not> IsSupportedVolumeCapabilityAccessMode m then ret False else validateCapabilities caps)"

text \<open>The names of the enumerations, as the generated code prints them.\<close>

fun rpc_name :: "rpc_type \<Rightarrow> string" where
  "rpc_name CREATE_DELETE_VOLUME = ''CREATE_DELETE_VOLUME''"
| "rpc_name PUBLISH_UNPUBLISH_VOLUME = ''PUBLISH_UNPUBLISH_VOLUME''"
| "rpc_name LIST_VOLUMES = ''LIST_VOLUMES''"
| "rpc_name GET_CAPACITY = ''GET_CAPACITY''"
| "rpc_name CREATE_DELETE_SNAPSHOT = ''CREATE_DELETE_SNAPSHOT''"
| "rpc_name LIST_SNAPSHOTS = ''LIST_SNAPSHOTS''"
| "rpc_name CLONE_VOLUME = ''CLONE_VOLUME''"
| "rpc_name PUBLISH_READONLY = ''PUBLISH_READONLY''"
| "rpc_name EXPAND_VOLUME = ''EXPAND_VOLUME''"
| "rpc_name LIST_VOLUMES_PUBLISHED_NODES = ''LIST_VOLUMES_PUBLISHED_NODES''"
| "rpc_name VOLUME_CONDITION = ''VOLUME_CONDITION''"
| "rpc_name GET_VOLUME = ''GET_VOLUME''"

fun Mode_name :: "access_mode \<Rightarrow> string" where
  "Mode_name UNKNOWN = ''UNKNOWN''"
| "Mode_name SINGLE_NODE_WRITER = ''SINGLE_NODE_WRITER''"
| "Mode_name SINGLE_NODE_READER_ONLY = ''SINGLE_NODE_READER_ONLY''"
| "Mode_name MULTI_NODE_READER_ONLY = ''MULTI_NODE_READER_ONLY''"
| "Mode_name MULTI_NODE_SINGLE_WRITER = ''MULTI_NODE_SINGLE_WRITER''"
| "Mode_name MULTI_NODE_MULTI_WRITER = ''MULTI_NODE_MULTI_WRITER''"

definition validateRequest :: "controller \<Rightarrow> rpc_type \<Rightarrow> gerror option" where
  "validateRequest cs c = (if c \<in> set (cs_capabilities cs) then None
     else Some (StatusError InvalidArgument (Errorf ''failed to validate request: {%s} is not supported'' [rpc_name c])))"

definition ValidFSTypes :: "string list" where
  "ValidFSTypes = [''ext4'', ''xfs'']"

fun isValidFStype_in :: "string list \<Rightarrow> string \<Rightarrow> bool" where
  "isValidFStype_in [] fstype = False"
| "isValidFStype_in (fs # fss) fstype = (if fs = fstype then True else isValidFStype_in fss fstype)"

definition isValidFStype :: "string \<Rightarrow> bool" where
  "isValidFStype fstype = isValidFStype_in ValidFSTypes fstype"

definition invalid :: "string \<Rightarrow> string list \<Rightarrow> gerror option" where
  "invalid m args = Some (StatusError InvalidArgument (Errorf m args))"

fun validate_caps :: "string \<Rightarrow> VolumeCapability list \<Rightarrow> gerror option" where
  "validate_caps fsParam [] = None"
| "validate_caps fsParam (volcap # volcaps) =
     (if (case GetMount volcap of Some mount \<Rightarrow> \<not> isValidFStype (mv_FsType mount) | None \<Rightarrow> False)
      then invalid ''failed to handle create volume request, invalid fsType : %s'' [fsParam]
      else (case vc_AccessMode volcap of
          Some mode \<Rightarrow> if mode \<noteq> SINGLE_NODE_WRITER
            then invalid ''only SINGLE_NODE_WRITER supported, unsupported access mode requested: %s'' [Mode_name mode]
            else validate_caps fsParam volcaps
        | None \<Rightarrow> validate_caps fsParam volcaps))"

definition validateVolumeCreateReq :: "controller \<Rightarrow> CreateVolumeRequest \<Rightarrow> gerror option" where
  "validateVolumeCreateReq cs req = (case validateRequest cs CREATE_DELETE_VOLUME of
     Some err \<Rightarrow> Some (Wrapf ''failed to handle create volume request for {%s}'' [cr_Name req] err)
   | None \<Rightarrow>
     if cr_Name req = [] then invalid ''failed to handle create volume request: missing volume name'' []
     else if gget (cr_Parameters req) ''cstorPoolCluster'' = []
     then invalid ''failed to handle create volume request: missing storage class parameter cstorPoolCluster'' []
     else if gget (cr_Parameters req) ''replicaCount'' = []
     then invalid ''failed to handle create volume request: missing storage class parameter replicaCount'' []
     else if gget (cr_Parameters req) ''cas-type'' = []
     then invalid ''failed to handle create volume request: missing storage class parameter cas-type'' []
     else (case cr_VolumeCapabilities req of
        None \<Rightarrow> invalid ''failed to handle create volume request: missing volume capabilities'' []
      | Some volCapabilities \<Rightarrow> validate_caps (gget (cr_Parameters req) ''fsType'') volCapabilities))"

definition validateDeleteVolumeReq :: "controller \<Rightarrow> string \<Rightarrow> gerror option" where
  "validateDeleteVolumeReq cs volumeID =
     (if volumeID = [] then invalid ''failed to handle delete volume request: missing volume id'' []
      else (case validateRequest cs CREATE_DELETE_VOLUME of
        Some err \<Rightarrow> Some (Wrapf ''failed to handle delete volume request for {%s}'' [volumeID] err)
      | None \<Rightarrow> None))"

subsection \<open>Placement and events\<close>

fun nodeFiltered :: "gomap option \<Rightarrow> topology \<Rightarrow> bool" where
  "nodeFiltered labels [] = False"
| "nodeFiltered labels ((key, v) # segments) = (if nget labels key \<noteq> v then True else nodeFiltered labels segments)"

fun firstNode :: "topology \<Rightarrow> Node list \<Rightarrow> string option" where
  "firstNode prf [] = None"
| "firstNode prf (node # nodes) = (if \<not> nodeFiltered (node_Labels node) prf then Some (node_Name node) else firstNode prf nodes)"

fun preferredNode :: "topology list \<Rightarrow> Node list \<Rightarrow> string" where
  "preferredNode [] nodes = []"
| "preferredNode (prf # prfs) nodes = (case firstNode prf nodes of Some n \<Rightarrow> n | None \<Rightarrow> preferredNode prfs nodes)"

definition getNode :: "'w kube \<Rightarrow> TopologyRequirement \<Rightarrow> ('w, gerror + string) go" where
  "getNode X topo =
     tryP (the_result (node_List (node_NewKubeClient X []) (selector []))) (\<lambda>items.
       ret (Inr (preferredNode (topo_Preferred topo) items)))"

definition getAccessibilityRequirements :: "'w kube \<Rightarrow> TopologyRequirement option \<Rightarrow> ('w, gerror + string) go" where
  "getAccessibilityRequirements X requirement = (case requirement of
     None \<Rightarrow> fail (internal (Errorf ''accessibility_requirements not found'' []))
   | Some topo \<Rightarrow>
       tryE (map_err (\<lambda>err. internal (ErrorfE ''failed to get the accessibility_requirements node %v'' [] err)) (getNode X topo))
         (\<lambda>node. if length node = 0 then fail (internal (Errorf ''can not find any node'' [])) else ret (Inr node)))"

definition VolumeProvision :: string where "VolumeProvision = ''volume-provision''"
definition VolumeDeprovision :: string where "VolumeDeprovision = ''volume-deprovision''"

definition GetVolumeType :: "string \<Rightarrow> string \<Rightarrow> string" where
  "GetVolumeType volType method = (if method = VolumeProvision \<and> volType = [] then ''cstor'' else volType)"

definition GetReplicaCount :: "string \<Rightarrow> string \<Rightarrow> string" where
  "GetReplicaCount count method = (if method = VolumeProvision \<and> count = [] then ''replica:3'' else ''replica:'' @ count)"

definition sendEventOrIgnore ::
  "'w kube \<Rightarrow> 'w ctl_api \<Rightarrow> string \<Rightarrow> string \<Rightarrow> string \<Rightarrow> string \<Rightarrow> string \<Rightarrow> string \<Rightarrow> ('w, unit) go" where
  "sendEventOrIgnore X T pvcName pvName capacity replicaCount stgType method =
     (if Truthy (k_env X) OpenEBSEnableAnalytics
      then ct_Send T \<lparr>ev_VolumeType = GetVolumeType stgType method, ev_VolumeName = pvName,
             ev_VolumeClaimName = pvcName, ev_Action = GetReplicaCount replicaCount method,
             ev_Category = method, ev_VolumeCapacity = capacity\<rparr>
      else ret ())"

definition getCapacity :: "'w ctl_api \<Rightarrow> CStorVolumeConfig \<Rightarrow> string" where
  "getCapacity T cvc = ct_QuantityString T (storage (cvc_Capacity cvc))"

record VolumeCondition =
  vcond_Abnormal :: bool
  vcond_Message :: string

definition getVolumeCondition :: "CStorVolume \<Rightarrow> VolumeCondition" where
  "getVolumeCondition vol = \<lparr>vcond_Abnormal = (cv_Phase vol \<noteq> ''Healthy''),
     vcond_Message =
       (if cv_Phase vol = ''Healthy'' then ''Volume status is Healthy''
        else if cv_Phase vol = ''Init''
        then ''Volume is getting initialized, quorum no. of replicas are not yet connected to the target''
        else if cv_Phase vol = ''Offline'' then ''Volume status is offline, No replicas are connected to target''
        else if cv_Phase vol = ''Degraded''
        then ''Volume status is degraded, quorum no. of replicas are not in healthy state''
        else ''Volume status is unknown'')\<rparr>"

subsection \<open>Handlers\<close>

definition pvcNameKey :: string where "pvcNameKey = ''csi.storage.k8s.io/pvc/name''"
definition pvcNamespaceKey :: string where "pvcNamespaceKey = ''csi.storage.k8s.io/pvc/namespace''"

text \<open>The check of a snapshot source, with the snapshot id as its result.\<close>

definition checkSource :: "'w kube \<Rightarrow> utils_globals \<Rightarrow> content_source option \<Rightarrow> ('w, gerror + string) go" where
  "checkSource X G contentSource = (case contentSource of
     Some (SourceSnapshot snapshotID) \<Rightarrow>
       if snapshotID = [] then fail (StatusError InvalidArgument (Errorf ''snapshot ID is empty'' []))
       else bnd (IsSourceAvailable X G snapshotID) (\<lambda>(isValidSrc, _).
         if \<not> isValidSrc then fail (StatusError InvalidArgument (Errorf ''VolumeSrc Not Available'' []))
         else ret (Inr snapshotID))
   | _ \<Rightarrow> ret (Inr []))"

definition createVolumeResponse :: "CreateVolumeRequest \<Rightarrow> int64 \<Rightarrow> CreateVolumeResponse" where
  "createVolumeResponse req sz = \<lparr>cresp_VolumeId = cr_Name req, cresp_CapacityBytes = sz,
     cresp_VolumeContext = [(''openebs.io/cas-type'', gget (cr_Parameters req) ''cas-type'')],
     cresp_ContentSource = cr_VolumeContentSource req\<rparr>"

definition liveCVC :: "CStorVolumeConfig perr \<Rightarrow> bool" where
  "liveCVC r = (case r of (Some cvc, None) \<Rightarrow> cvc_DeletionTimestamp cvc = None | _ \<Rightarrow> False)"

definition CreateVolume ::
  "'w kube \<Rightarrow> 'w ctl_api \<Rightarrow> utils_globals \<Rightarrow> controller \<Rightarrow> CreateVolumeRequest \<Rightarrow> ('w, gerror + CreateVolumeResponse) go" where
  "CreateVolume X T G cs req = (case validateVolumeCreateReq cs req of
     Some err \<Rightarrow> fail err
   | None \<Rightarrow>
     bnd (deref (cr_CapacityRange req)) (\<lambda>sz.
     let volName = cr_Name req;
         rCount = gget (cr_Parameters req) ''replicaCount'';
         cspcName = gget (cr_Parameters req) ''cstorPoolCluster'';
         policyName = gget (cr_Parameters req) ''cstorVolumePolicy'';
         pvcName = gget (cr_Parameters req) pvcNameKey;
         pvcNamespace = gget (cr_Parameters req) pvcNamespaceKey in
     tryE (getAccessibilityRequirements X (cr_AccessibilityRequirements req)) (\<lambda>nodeID.
     tryE (checkSource X G (cr_VolumeContentSource req)) (\<lambda>snapshotID.
     bnd (GetVolume X G volName) (\<lambda>r.
       if liveCVC r then ret (Inr (createVolumeResponse req sz))
       else
         tryE (map_err internal
             (ProvisionVolume X G sz volName rCount cspcName snapshotID nodeID policyName pvcName pvcNamespace)) (\<lambda>_.
         andthen (sendEventOrIgnore X T pvcName volName (itoa (sint sz)) rCount ''cstor-csi'' VolumeProvision)
           (ret (Inr (createVolumeResponse req sz)))))))))"

definition DeleteVolume ::
  "'w kube \<Rightarrow> 'w ctl_api \<Rightarrow> utils_globals \<Rightarrow> controller \<Rightarrow> string \<Rightarrow> ('w, gerror + unit) go" where
  "DeleteVolume X T G cs volumeID = (case validateDeleteVolumeReq cs volumeID of
     Some err \<Rightarrow> fail err
   | None \<Rightarrow>
     bnd (GetVolume X G volumeID) (\<lambda>(cvc, _).
       if (case cvc of Some c \<Rightarrow> cvc_DeletionTimestamp c \<noteq> None | None \<Rightarrow> False)
       then ret (Inr (dvb_Build NewDeleteVolumeResponseBuilder))
       else bnd (DeleteVolumeCVC X G volumeID) (\<lambda>err.
         if (case err of Some e \<Rightarrow> \<not> IsNotFound e | None \<Rightarrow> False)
         then fail (Wrapf ''failed to handle delete volume request for {%s}'' [volumeID] (the err))
         else bnd (deref cvc) (\<lambda>c.
           andthen (sendEventOrIgnore X T (nget (cvc_Annotations c) OpenebsPVC) volumeID (getCapacity T c)
                     (itoa (cvc_ReplicaCount c)) ''cstor-csi'' VolumeDeprovision)
             (ret (Inr (dvb_Build NewDeleteVolumeResponseBuilder)))))))"

definition ControllerExpandVolume ::
  "'w kube \<Rightarrow> utils_globals \<Rightarrow> string \<Rightarrow> int64 option \<Rightarrow> ('w, gerror + ControllerExpandVolumeResponse) go" where
  "ControllerExpandVolume X G volumeID capacityRange =
     (let updatedSize = (case capacityRange of None \<Rightarrow> 0 | Some n \<Rightarrow> n) in
      tryE (map_err (\<lambda>err. internal (ErrorfE ''failed to handle ControllerExpandVolumeRequest for %s, {%s}'' [volumeID] err))
             (ResizeVolume X G volumeID updatedSize))
        (\<lambda>_. ret (Inr (xp_WithNodeExpansionRequired True (xp_WithCapacityBytes updatedSize NewControllerExpandVolumeResponseBuilder)))))"

definition CreateSnapshot ::
  "'w kube \<Rightarrow> 'w snap_api \<Rightarrow> 'w ctl_api \<Rightarrow> utils_globals \<Rightarrow> string \<Rightarrow> string \<Rightarrow> ('w, gerror + CreateSnapshotResponse) go" where
  "CreateSnapshot X N T G sourceVolumeId name =
     bnd (ct_Now T) (\<lambda>snapTimeStamp.
     tryE (map_err (\<lambda>err. internal (ErrorfE ''failed to handle CreateSnapshotRequest for %s: %s, {%s}'' [sourceVolumeId, name] err))
             (utils_CreateSnapshot X N G sourceVolumeId name))
       (\<lambda>_. ret (Inr (sr_WithReadyToUse True (sr_WithCreationTime snapTimeStamp 0
          (sr_WithSnapshotID (sourceVolumeId @ ''@'' @ name) (sr_WithSourceVolumeID sourceVolumeId NewCreateSnapshotResponseBuilder)))))))"

definition DeleteSnapshot ::
  "'w kube \<Rightarrow> 'w snap_api \<Rightarrow> utils_globals \<Rightarrow> string \<Rightarrow> ('w, gerror + unit) go" where
  "DeleteSnapshot X N G snapshotId =
     (let snapshotID = Split snapshotId (CHR ''@'') in
      if length snapshotID \<noteq> 2
      then fail (internal (Errorf ''failed to handle DeleteSnapshotRequest for %s, {%s}'' [snapshotId, ''Manual intervention required'']))
      else map_err (\<lambda>err. internal (ErrorfE ''failed to handle DeleteSnapshotRequest for %s, {%s}'' [snapshotId] err))
             (utils_DeleteSnapshot X N G (snapshotID ! 0) (snapshotID ! 1)))"

record ControllerGetVolumeResponse =
  gv_VolumeId :: string
  gv_CapacityBytes :: int64
  gv_VolumeCondition :: VolumeCondition

definition ControllerGetVolume ::
  "'w kube \<Rightarrow> 'w ctl_api \<Rightarrow> utils_globals \<Rightarrow> string \<Rightarrow> ('w, gerror + ControllerGetVolumeResponse) go" where
  "ControllerGetVolume X T G volumeID =
     bnd (GetCStorVolume X G volumeID) (\<lambda>(volume, err). case err of
       Some e \<Rightarrow> fail (internal (ErrorfE ''failed to get the cstorvolume %v'' [] e))
     | None \<Rightarrow> bnd (deref volume) (\<lambda>v. ret (Inr
         \<lparr>gv_VolumeId = cv_Name v, gv_CapacityBytes = ct_MilliValue T (cv_StatusCapacity v),
          gv_VolumeCondition = getVolumeCondition v\<rparr>)))"

text \<open>The services the driver does not implement.\<close>

definition unimplemented :: "('w, gerror + 'a) go" where
  "unimplemented = fail (StatusError Unimplemented (Errorf [] []))"

definition ValidateVolumeCapabilities :: "('w, gerror + 'a) go" where "ValidateVolumeCapabilities = unimplemented"
definition ControllerPublishVolume :: "('w, gerror + 'a) go" where "ControllerPublishVolume = unimplemented"
definition ControllerUnpublishVolume :: "('w, gerror + 'a) go" where "ControllerUnpublishVolume = unimplemented"
definition ListSnapshots :: "('w, gerror + 'a) go" where "ListSnapshots = unimplemented"
definition GetCapacity :: "('w, gerror + 'a) go" where "GetCapacity = unimplemented"
definition ListVolumes :: "('w, gerror + 'a) go" where "ListVolumes = unimplemented"

end
