(* ===== verification/Host.thy ===== *)
theory Host
  imports API_Objects
begin

section \<open>The host: operating system, mounts and iSCSI tools as parameters\<close>

text \<open>
  What the node side of the driver calls outside the repository: \<open>k8s.io/utils/mount\<close> and \<open>exec\<close>, the
  system calls of \<open>os\<close> and \<open>unix\<close>, \<open>net.Dial\<close>, and \<open>csi-lib-iscsi\<close>. Each call is a computation on the
  world, of which the cluster is a part too. A command gives its combined output and its error, which is
  \<open>ExitError\<close> when the command ran and failed.
\<close>

record MountPoint =
  mp_Device :: string
  mp_Path :: string
  mp_Opts :: "string list"

record Statfs =
  st_Bavail :: uint64
  st_Blocks :: uint64
  st_Bfree :: uint64
  st_Bsize :: int64
  st_Ffree :: uint64
  st_Files :: uint64

record Connector =
  conn_VolumeName :: string
  conn_Targets :: "(string \<times> string) list"
  conn_Lun :: int
  conn_Interface :: string
  conn_DoDiscovery :: bool

record 'w host =
  h_List :: "('w, gerror + MountPoint list) go"
  h_IsLikelyNotMountPoint :: "string \<Rightarrow> ('w, bool \<times> gerror option) go"
  h_Mount :: "string \<Rightarrow> string \<Rightarrow> string \<Rightarrow> string list \<Rightarrow> ('w, gerror option) go"
  h_Unmount :: "string \<Rightarrow> ('w, gerror option) go"
  h_FormatAndMount :: "string \<Rightarrow> string \<Rightarrow> string \<Rightarrow> string list \<Rightarrow> ('w, gerror option) go"
  h_GetDeviceNameFromMount :: "string \<Rightarrow> ('w, gerror + string \<times> int) go"
  h_PathExists :: "string \<Rightarrow> ('w, gerror + bool) go"
  h_MkdirAll :: "string \<Rightarrow> nat \<Rightarrow> ('w, gerror option) go"
  h_Chmod :: "string \<Rightarrow> nat \<Rightarrow> ('w, gerror option) go"
  h_Remove :: "string \<Rightarrow> ('w, gerror option) go"
  h_RemoveAll :: "string \<Rightarrow> ('w, gerror option) go"
  h_OpenCreate :: "string \<Rightarrow> nat \<Rightarrow> ('w, gerror option) go"
  h_StatMode :: "string \<Rightarrow> ('w, gerror + 32 word) go"
  h_Stat :: "string \<Rightarrow> ('w, gerror option) go"
  h_Glob :: "string \<Rightarrow> ('w, string list option) go"
  h_Statfs :: "string \<Rightarrow> ('w, gerror + Statfs) go"
  h_Command :: "string \<Rightarrow> string list \<Rightarrow> ('w, string \<times> gerror option) go"
  h_Dial :: "string \<Rightarrow> ('w, gerror + nat) go"
  h_CloseConn :: "nat \<Rightarrow> ('w, unit) go"
  h_Connect :: "Connector \<Rightarrow> ('w, string \<times> gerror option) go"
  h_FindMultipathDeviceForDevice :: "string \<Rightarrow> ('w, string) go"
  h_Sleep :: "nat \<Rightarrow> ('w, unit) go"

definition from_err :: "('s, gerror option) go \<Rightarrow> ('s, gerror + unit) go" where
  "from_err m = bnd m (\<lambda>err. case err of Some e \<Rightarrow> fail e | None \<Rightarrow> ok)"

lemma from_err_Inr_iff [res_iff]: "from_err m s = (Return (Inr u), s') \<longleftrightarrow> m s = (Return None, s')"
  by (auto simp: from_err_def bnd_Return_iff split: option.splits)

lemma pres_from_err [pres_rules]: "prel R \<Longrightarrow> pres R m \<Longrightarrow> pres R (from_err m)"
  unfolding from_err_def by (intro pres_rules)

end
