(* ===== verification/Sample_Cluster.thy ===== *)
theory Sample_Cluster
  imports Volume_Ops Host
begin

section \<open>A concrete cluster\<close>

text \<open>
  An in-memory cluster that instantiates the parameter \<open>kube\<close>: stores of objects by namespace and name
  with the documented behaviour of the API server that the properties name as hypotheses; an update
  cannot take back the mark of deletion of an attachment. It serves the
  witnesses, which run the handlers on it. As the generated clients do, a failed read returns a pointer
  to an empty object together with the error.
\<close>

record cluster =
  cl_cvcs :: "CStorVolumeConfig list"
  cl_cvas :: "CStorVolumeAttachment list"
  cl_cvs :: "CStorVolume list"
  cl_nodes :: "Node list"
  cl_pvcs :: "PersistentVolumeClaim list"
  cl_clock :: nat
  cl_mounts :: "MountPoint list"
  cl_cmds :: "(string \<times> string list) list"

definition not_found :: "string \<Rightarrow> gerror" where
  "not_found name = ApiError ReasonNotFound name"

definition store_get :: "('o \<Rightarrow> string \<times> string) \<Rightarrow> 'o \<Rightarrow> 'o list \<Rightarrow> string \<Rightarrow> string \<Rightarrow> 'o perr" where
  "store_get key zero xs ns name = (case find (\<lambda>x. key x = (ns, name)) xs of
     None \<Rightarrow> (Some zero, Some (not_found name)) | Some x \<Rightarrow> (Some x, None))"

definition has_selector :: "gomap option \<Rightarrow> string \<Rightarrow> bool" where
  "has_selector labels sel = (sel = [] \<or>
     (case Split sel (CHR ''='') of [k, v] \<Rightarrow> (case labels of None \<Rightarrow> False | Some m \<Rightarrow> map_of m k = Some v) | _ \<Rightarrow> False))"

text \<open>Part of the syntax of a label value: it has no character with a meaning in a selector.\<close>

definition valid_label :: "string \<Rightarrow> bool" where
  "valid_label x = list_all (\<lambda>c. c \<noteq> CHR ''='' \<and> c \<noteq> CHR '','') x"

definition valid_labels :: "gomap option \<Rightarrow> bool" where
  "valid_labels labels = (case labels of None \<Rightarrow> True | Some m \<Rightarrow> list_all (\<lambda>(_, x). valid_label x) m)"

definition mk_api ::
  "(cluster \<Rightarrow> 'o list) \<Rightarrow> ('o list \<Rightarrow> cluster \<Rightarrow> cluster) \<Rightarrow> ('o \<Rightarrow> string \<times> string) \<Rightarrow> ('o \<Rightarrow> gomap option) \<Rightarrow> 'o \<Rightarrow>
   (string \<Rightarrow> 'o \<Rightarrow> 'o) \<Rightarrow> ('o \<Rightarrow> 'o \<Rightarrow> 'o) \<Rightarrow> (string \<Rightarrow> 'o \<Rightarrow> 'o) \<Rightarrow> (cluster, 'o) resource_api" where
  "mk_api get put key labels zero clean upd patch = \<lparr>
     r_Get = (\<lambda>_ ns name s. (Return (store_get key zero (get s) ns name), s)),
     r_List = (\<lambda>_ ns opts s. (Return (Some (filter (\<lambda>x.
        find (\<lambda>y. key y = key x) (get s) = Some x \<and> (ns = [] \<or> fst (key x) = ns) \<and>
        has_selector (labels x) (lo_LabelSelector opts)) (get s)), None), s)),
     r_Create = (\<lambda>_ ns x s. if (fst (key x) \<noteq> ns \<and> fst (key x) \<noteq> []) \<or> \<not> valid_labels (labels x)
        then (Return (Some zero, Some (ApiError (ReasonOther ''BadRequest'') (snd (key x)))), s)
        else if find (\<lambda>y. key y = (ns, snd (key x))) (get s) \<noteq> None
        then (Return (Some zero, Some (ApiError ReasonAlreadyExists (snd (key x)))), s)
        else (Return (Some (clean ns x), None), put (get s @ [clean ns x]) s)),
     r_Update = (\<lambda>_ ns x s. if fst (key x) \<noteq> ns
        then (Return (Some zero, Some (ApiError (ReasonOther ''BadRequest'') (snd (key x)))), s)
        else case find (\<lambda>y. key y = key x) (get s) of
        None \<Rightarrow> (Return (Some zero, Some (not_found (snd (key x)))), s)
      | Some u \<Rightarrow> (Return (Some (upd u x), None), put (map (\<lambda>y. if key y = key x then upd y x else y) (get s)) s)),
     r_Delete = (\<lambda>_ ns name _ s. if find (\<lambda>y. key y = (ns, name)) (get s) = None
        then (Return (Some (not_found name)), s)
        else (Return None, put (filter (\<lambda>y. key y \<noteq> (ns, name)) (get s)) s)),
     r_Patch = (\<lambda>_ ns name p _ s. case find (\<lambda>y. key y = (ns, name)) (get s) of
        None \<Rightarrow> (Return (Some zero, Some (not_found name)), s)
      | Some x \<Rightarrow> (Return (Some (patch p x), None), put (map (\<lambda>y. if key y = (ns, name) then patch p y else y) (get s)) s)),
     r_DeleteCollection = (\<lambda>_ ns _ _ s. (Return None, s))\<rparr>"

definition zero_Node :: Node where
  "zero_Node = \<lparr>node_Name = [], node_UID = [], node_Labels = None, node_Conditions = [], node_OSImage = [],
     node_KernelVersion = []\<rparr>"

definition zero_PVC :: PersistentVolumeClaim where
  "zero_PVC = \<lparr>pvc_Name = [], pvc_Namespace = [], pvc_Annotations = None\<rparr>"

text \<open>Quantities written as a number of GiB; the JSON of a volume config is reduced to the two fields
  the driver patches, its capacity (in GiB) and its node.\<close>

definition sample_ParseQuantity :: "string \<Rightarrow> gerror + quantity" where
  "sample_ParseQuantity str =
     (if HasSuffix str ''Gi'' then (case Atoi (take (length str - 2) str) of
         Some n \<Rightarrow> Inr (n * 2 ^ 30) | None \<Rightarrow> Inl (Errorf ''unable to parse quantity'' [str]))
      else Inl (Errorf ''unable to parse quantity'' [str]))"

definition sample_json_cvc :: "CStorVolumeConfig \<Rightarrow> gerror + string" where
  "sample_json_cvc c = Inr (itoa (storage (cvc_Capacity c) div 2 ^ 30) @ ''/'' @ cvc_NodeID c)"

definition sample_patch_cvc :: "string \<Rightarrow> CStorVolumeConfig \<Rightarrow> CStorVolumeConfig" where
  "sample_patch_cvc p c = (case Split p (CHR ''/'') of
     [q, n] \<Rightarrow> c\<lparr>cvc_Capacity := map_option (\<lambda>g. g * 2 ^ 30) (Atoi q), cvc_NodeID := n\<rparr> | _ \<Rightarrow> c)"

definition sample_kube :: "cluster kube" where
  "sample_kube = \<lparr>k_env = Map.empty,
     k_InClusterConfig = ret (Some 1, None),
     k_BuildConfigFromFlags = (\<lambda>_ _. ret (Some 1, None)),
     k_NewForConfig = (\<lambda>_. ret (Some 2, None)),
     k_openebs_NewForConfig = (\<lambda>_. ret (Some 3, None)),
     k_dynamic_NewForConfig = (\<lambda>_. ret (Some 4, None)),
     k_ServerVersion = (\<lambda>_. ret (Some ''v1.20'', None)),
     k_cvc = mk_api cl_cvcs (\<lambda>xs. cl_cvcs_update (\<lambda>_. xs)) (\<lambda>x. (cvc_Namespace x, cvc_Name x)) cvc_Labels zero_CVC (\<lambda>ns x. x\<lparr>cvc_Namespace := ns, cvc_DeletionTimestamp := None\<rparr>) (\<lambda>_ x. x) sample_patch_cvc,
     k_cva = mk_api cl_cvas (\<lambda>xs. cl_cvas_update (\<lambda>_. xs)) (\<lambda>x. (cva_Namespace x, cva_Name x)) cva_Labels zero_CVA (\<lambda>ns x. x\<lparr>cva_Namespace := ns, cva_DeletionTimestamp := None\<rparr>) (\<lambda>y x. x\<lparr>cva_DeletionTimestamp := cva_DeletionTimestamp y\<rparr>) (\<lambda>_ x. x),
     k_cv = mk_api cl_cvs (\<lambda>xs. cl_cvs_update (\<lambda>_. xs)) (\<lambda>x. (cv_Namespace x, cv_Name x)) cv_Labels zero_CV (\<lambda>ns x. x\<lparr>cv_Namespace := ns\<rparr>) (\<lambda>_ x. x) (\<lambda>_ x. x),
     k_node = mk_api cl_nodes (\<lambda>xs. cl_nodes_update (\<lambda>_. xs)) (\<lambda>x. ([], node_Name x)) node_Labels zero_Node (\<lambda>_ x. x) (\<lambda>_ x. x) (\<lambda>_ x. x),
     k_pvc = mk_api cl_pvcs (\<lambda>xs. cl_pvcs_update (\<lambda>_. xs)) (\<lambda>x. (pvc_Namespace x, pvc_Name x)) (\<lambda>_. None) zero_PVC (\<lambda>ns x. x\<lparr>pvc_Namespace := ns\<rparr>) (\<lambda>_ x. x) (\<lambda>_ x. x),
     k_json_cvc = sample_json_cvc,
     k_json_cva = (\<lambda>v. Inr (cva_Name v)),
     k_json_cv = (\<lambda>v. Inr (cv_Name v)),
     k_ParseQuantity = sample_ParseQuantity,
     k_Sleep = (\<lambda>n. modify (cl_clock_update (\<lambda>t. t + n))),
     k_TwoWayMergePatch = (\<lambda>_ new _. Inr new)\<rparr>"

definition sample_globals :: utils_globals where
  "sample_globals = \<lparr>OpenEBSNamespace = ''openebs'', NodeIDENV = ''n1''\<rparr>"

definition sample_node :: "string \<Rightarrow> string \<Rightarrow> Node" where
  "sample_node name status = zero_Node\<lparr>node_Name := name, node_UID := ''uid-'' @ name,
     node_Labels := Some [(''kubernetes.io/hostname'', name)],
     node_Conditions := [\<lparr>cond_Type = ''Ready'', cond_Status = status, cond_Reason = ''KubeletReady''\<rparr>]\<rparr>"

definition sample_cluster :: cluster where
  "sample_cluster = \<lparr>cl_cvcs = [], cl_cvas = [], cl_cvs = [],
     cl_nodes = [sample_node ''n1'' ''True'', sample_node ''n2'' ''False''], cl_pvcs = [], cl_clock = 0,
     cl_mounts = [], cl_cmds = []\<rparr>"

text \<open>A host on which every path exists, commands succeed and are recorded, and mounts are a list.\<close>

definition sample_host :: "cluster host" where
  "sample_host = \<lparr>
     h_List = asks (\<lambda>s. Inr (cl_mounts s)),
     h_IsLikelyNotMountPoint = (\<lambda>p. asks (\<lambda>s. (p \<notin> set (map mp_Path (cl_mounts s)), None))),
     h_Mount = (\<lambda>src tgt _ opts s. (Return None, s\<lparr>cl_mounts := cl_mounts s @ [\<lparr>mp_Device = src, mp_Path = tgt, mp_Opts = opts\<rparr>]\<rparr>)),
     h_Unmount = (\<lambda>p s. (Return None, s\<lparr>cl_mounts := filter (\<lambda>m. mp_Path m \<noteq> p) (cl_mounts s)\<rparr>)),
     h_FormatAndMount = (\<lambda>src tgt _ opts s. (Return None, s\<lparr>cl_mounts := cl_mounts s @ [\<lparr>mp_Device = src, mp_Path = tgt, mp_Opts = opts\<rparr>]\<rparr>)),
     h_GetDeviceNameFromMount = (\<lambda>p. asks (\<lambda>s. Inr ([], int (length (filter (\<lambda>m. mp_Path m = p) (cl_mounts s)))))),
     h_PathExists = (\<lambda>_. ret (Inr True)),
     h_MkdirAll = (\<lambda>_ _. ret None), h_Chmod = (\<lambda>_ _. ret None), h_Remove = (\<lambda>_. ret None),
     h_RemoveAll = (\<lambda>_. ret None), h_OpenCreate = (\<lambda>_ _. ret None), h_StatMode = (\<lambda>_. ret (Inr 0)),
     h_Stat = (\<lambda>_. ret None), h_Glob = (\<lambda>_. ret None),
     h_Statfs = (\<lambda>_. ret (Inr \<lparr>st_Bavail = 5, st_Blocks = 9, st_Bfree = 6, st_Bsize = 4096, st_Ffree = 2, st_Files = 7\<rparr>)),
     h_Command = (\<lambda>c args s. (Return ([], None), s\<lparr>cl_cmds := cl_cmds s @ [(c, args)]\<rparr>)),
     h_Dial = (\<lambda>_. ret (Inr 1)), h_CloseConn = (\<lambda>_. ret ()),
     h_Connect = (\<lambda>_. ret (''/dev/sdb'', None)),
     h_FindMultipathDeviceForDevice = (\<lambda>_. ret []),
     h_Sleep = (\<lambda>n. modify (cl_clock_update (\<lambda>t. t + n)))\<rparr>"

end
