(* ===== verification/Volume_Props.thy ===== *)
theory Volume_Props
  imports Sample_Cluster
begin

section \<open>Properties of the volume operations\<close>

text \<open>
  What a successful provisioning has created, what a successful resize has written, and the ids of
  snapshots. The hypothesis \<open>parses_GiB\<close> is the documented reading of a quantity in GiB within the int64
  range of a \<open>resource.Quantity\<close>.
\<close>

definition parses_GiB :: "'w kube \<Rightarrow> bool" where
  "parses_GiB X = (\<forall>n. 0 \<le> n \<longrightarrow> n < 2 ^ 33 \<longrightarrow> k_ParseQuantity X (itoa n @ ''Gi'') = Inr (n * 2 ^ 30))"

lemma sample_parses_GiB: "parses_GiB sample_kube"
proof -
  have "sample_ParseQuantity (itoa n @ ''Gi'') = Inr (n * 2 ^ 30)" if "0 \<le> n" "n < 2 ^ 33" for n
    using that by (simp add: sample_ParseQuantity_def HasSuffix_def suffix_def Atoi_itoa)
  then show ?thesis by (simp add: parses_GiB_def sample_kube_def)
qed

lemma RoundUpGiB_range:
  assumes "0 \<le> sint sz" "sint sz \<le> 2 ^ 63 - 2 ^ 30"
  shows "0 \<le> sint (RoundUpGiB sz)" "sint (RoundUpGiB sz) < 2 ^ 33"
    "sint sz \<le> sint (RoundUpGiB sz) * 2 ^ 30" "sint (RoundUpGiB sz) * 2 ^ 30 < sint sz + 2 ^ 30"
  using ceil_div_least [of "2 ^ 30" "sint sz"] assms by (simp_all add: sint_RoundUpGiB)

lemma MustParse_GiB:
  "parses_GiB X \<Longrightarrow> 0 \<le> sint sz \<Longrightarrow> sint sz \<le> 2 ^ 63 - 2 ^ 30 \<Longrightarrow>
   MustParse X (itoa (sint (RoundUpGiB sz)) @ ''Gi'') = ret (sint (RoundUpGiB sz) * 2 ^ 30)"
  using RoundUpGiB_range [of sz] by (simp add: MustParse_def parses_GiB_def)

lemma Build_New: "Build (fold (cvc_run pq) cs cvc_NewBuilder) = Inr x \<longleftrightarrow>
    list_all (\<lambda>c. cvc_valid pq c zero_CVC) cs \<and> x = fold (cvc_apply pq) cs zero_CVC"
  by (simp add: cvcb.chain_Build cvc_NewBuilder_def cvc_valids_list_all [where ob' = zero_CVC])

subsection \<open>Snapshot ids\<close>

lemma Split_at:
  assumes "CHR ''@'' \<notin> set vol" "CHR ''@'' \<notin> set snap"
  shows "Split (vol @ ''@'' @ snap) (CHR ''@'') = [vol, snap]"
  using assms by (simp add: Split_append_sep Split_notin)

lemma GetVolumeSourceDetails_pair:
  assumes "CHR ''@'' \<notin> set vol" "CHR ''@'' \<notin> set snap"
  shows "GetVolumeSourceDetails (vol @ ''@'' @ snap) = ret (Inr (vol, snap))"
  using Split_at [OF assms] by (simp add: GetVolumeSourceDetails_def)

text \<open>The id that \<open>CreateSnapshot\<close> hands out, volume name, at sign, snapshot name, is taken apart into
  exactly these two by \<open>GetVolumeSourceDetails\<close>, provided neither name has an at sign of its own.\<close>

theorem snapshot_id_roundtrip:
  assumes "CHR ''@'' \<notin> set vol" "CHR ''@'' \<notin> set snap"
  shows "GetVolumeSourceDetails (vol @ ''@'' @ snap) s = (Return (Inr (vol, snap)), s)"
  unfolding GetVolumeSourceDetails_pair [OF assms] by simp

theorem snapshot_id_roundtrip_witness:
  "GetVolumeSourceDetails (''pvc-1'' @ ''@'' @ ''s1'') () = (Return (Inr (''pvc-1'', ''s1'')), ())"
  by (rule snapshot_id_roundtrip) simp_all

text \<open>An id without an at sign, such as the plain volume name that cloning from a volume passes on or
  any id that a client made up, is not reported as an error: it panics on the missing second part. The
  guard on the length of the split never fires.\<close>

theorem GetVolumeSourceDetails_panics:
  "(\<exists>p. fst (GetVolumeSourceDetails src s) = Panic p) \<longleftrightarrow> CHR ''@'' \<notin> set src"
proof (cases "CHR ''@'' \<in> set src")
  case True
  then obtain a b where "src = a @ CHR ''@'' # b" "CHR ''@'' \<notin> set a"
    by (meson split_list_first)
  then have "2 \<le> length (Split src (CHR ''@''))"
    by (simp add: length_Split)
  with True show ?thesis
    by (simp add: GetVolumeSourceDetails_def Let_def)
next
  case False
  then show ?thesis
    by (simp add: GetVolumeSourceDetails_def Split_notin)
qed

subsection \<open>Provisioning\<close>

lemma provision_annotations_Inr:
  "provision_annotations X volName policyName pvcName ns s = (Return (Inr as), s') \<Longrightarrow>
     distinct (map fst as) \<and> as \<noteq> [] \<and> map_of as OpenebsVolumeID = Some volName \<and>
     map_of as OpenebsVolumePolicy = Some policyName \<and> map_of as OpenebsPVC = Some pvcName"
  by (auto simp: provision_annotations_def Let_def res_iff OpenebsVolumeID_def OpenebsVolumePolicy_def OpenebsPVC_def
      volumeCreatedThrough_def split: if_splits option.splits)

lemma provision_labels_Return:
  "provision_labels cspc snap s = (Return ls, s') \<Longrightarrow>
     s' = s \<and> distinct (map fst ls) \<and> ls \<noteq> [] \<and> map_of ls OpenebsCSPCName = Some cspc \<and>
     (snap \<noteq> [] \<longrightarrow> (\<exists>rest. Split snap (CHR ''@'') = the (map_of ls ''openebs.io/source-volume'') # rest))"
  by (auto simp: provision_labels_def GetVolumeSourceDetails_def Let_def bnd_Return_iff OpenebsCSPCName_def
      split: if_splits sum.splits) (metis Split_neq_Nil list.exhaust nth_Cons_0)

lemma gmerge_nil_map_of: "distinct (map fst m) \<Longrightarrow> map_of (gmerge [] m) = map_of m"
  by (simp add: map_of_gmerge map_of_rev_distinct)

lemma ProvisionVolume_Inr:
  assumes "ProvisionVolume X G sz volName rc cspc snap nodeID policy pvc pvcns s = (Return (Inr ()), s')"
    and "MustParse X (itoa (sint (RoundUpGiB sz)) @ ''Gi'') = ret cap"
  shows "\<exists>as t1 ls t2 cvc p. provision_annotations X volName policy pvc pvcns s = (Return (Inr as), t1) \<and>
     provision_labels cspc snap t1 = (Return ls, t2) \<and>
     Build (fold (cvc_run (k_ParseQuantity X))
       (provision_chain (OpenEBSNamespace G) volName as ls cap snap nodeID rc) cvc_NewBuilder) = Inr cvc \<and>
     the_result (cvc_Create (cvc_kc X (OpenEBSNamespace G)) (Some cvc)) t2 = (Return (p, None), s')"
proof -
  let ?b = "\<lambda>as ls. Build (fold (cvc_run (k_ParseQuantity X))
       (provision_chain (OpenEBSNamespace G) volName as ls cap snap nodeID rc) cvc_NewBuilder)"
  from assms obtain as t1 ls t2 where
    "provision_annotations X volName policy pvc pvcns s = (Return (Inr as), t1)"
    "provision_labels cspc snap t1 = (Return ls, t2)" and
    last: "(case ?b as ls of Inl err \<Rightarrow> fail err
       | Inr cvcObj \<Rightarrow> bnd (the_result (cvc_Create (cvc_kc X (OpenEBSNamespace G)) (Some cvcObj))) (\<lambda>(_, err).
             case err of Some e \<Rightarrow> fail e | None \<Rightarrow> ok)) t2 = (Return (Inr ()), s')"
    unfolding ProvisionVolume_def tryE_Inr_iff bnd_Return_iff by auto
  moreover from last obtain cvc p where "?b as ls = Inr cvc"
    "the_result (cvc_Create (cvc_kc X (OpenEBSNamespace G)) (Some cvc)) t2 = (Return (p, None), s')"
    by (cases "?b as ls") (auto simp: bnd_Return_iff split: option.splits)
  ultimately show ?thesis by blast
qed

text \<open>C6: a provisioning that reports success has created one CStorVolumeConfig, in the driver's
  namespace, with the requested name, node and source, whose capacity is the request rounded up to whole
  GiB (so at least the request and less than a GiB more), with the protection finalizer, phase Pending,
  the replica count of the storage class, the pool cluster label and the annotations of volume, policy
  and claim.\<close>

theorem ProvisionVolume_creates:
  assumes run: "ProvisionVolume X G sz volName rc cspc snap nodeID policy pvc pvcns s = (Return (Inr ()), s')"
    and pq: "parses_GiB X" and sz: "0 \<le> sint sz" "sint sz \<le> 2 ^ 63 - 2 ^ 30"
  shows "\<exists>c t cvc p cap. r_Create (k_cvc X) c (OpenEBSNamespace G) cvc t = (Return (p, None), s') \<and>
     cvc_Name cvc = volName \<and> cvc_Namespace cvc = OpenEBSNamespace G \<and> cvc_NodeID cvc = nodeID \<and>
     cvc_CStorVolumeSource cvc = snap \<and> cvc_Phase cvc = CStorVolumeConfigPhasePending \<and>
     cvc_Finalizers cvc = Some [CVCFinalizer] \<and> Some (cvc_ReplicaCount cvc) = Atoi rc \<and>
     cvc_Capacity cvc = Some cap \<and> cvc_ProvisionCapacity cvc = Some cap \<and>
     cap mod 2 ^ 30 = 0 \<and> sint sz \<le> cap \<and> cap < sint sz + 2 ^ 30 \<and>
     nget (cvc_Labels cvc) OpenebsCSPCName = cspc \<and> nget (cvc_Annotations cvc) OpenebsVolumeID = volName \<and>
     nget (cvc_Annotations cvc) OpenebsVolumePolicy = policy \<and> nget (cvc_Annotations cvc) OpenebsPVC = pvc"
proof -
  let ?cap = "sint (RoundUpGiB sz) * 2 ^ 30"
  let ?chain = "\<lambda>as ls. provision_chain (OpenEBSNamespace G) volName as ls ?cap snap nodeID rc"
  from ProvisionVolume_Inr [OF run MustParse_GiB [OF pq sz]] obtain as t1 ls t2 cvc p where
    as: "provision_annotations X volName policy pvc pvcns s = (Return (Inr as), t1)" and
    ls: "provision_labels cspc snap t1 = (Return ls, t2)" and
    build: "Build (fold (cvc_run (k_ParseQuantity X)) (?chain as ls) cvc_NewBuilder) = Inr cvc" and
    create: "the_result (cvc_Create (cvc_kc X (OpenEBSNamespace G)) (Some cvc)) t2 = (Return (p, None), s')"
    by blast
  from create obtain c t where rc: "r_Create (k_cvc X) c (OpenEBSNamespace G) cvc t = (Return (p, None), s')"
    by (auto simp: cvc_Create_fresh)
  from build have "list_all (\<lambda>c. cvc_valid (k_ParseQuantity X) c zero_CVC) (?chain as ls)"
    and cvc: "cvc = fold (cvc_apply (k_ParseQuantity X)) (?chain as ls) zero_CVC"
    by (auto simp: Build_New)
  then obtain n where n: "Atoi rc = Some n" by (auto simp: provision_chain_def)
  from provision_annotations_Inr [OF as] provision_labels_Return [OF ls]
  have maps: "map_of (gmerge [] as) = map_of as" "map_of (gmerge [] ls) = map_of ls"
    by (auto intro: gmerge_nil_map_of)
  have fields: "cvc_Name cvc = volName" "cvc_Namespace cvc = OpenEBSNamespace G" "cvc_NodeID cvc = nodeID"
    "cvc_CStorVolumeSource cvc = snap" "cvc_Phase cvc = CStorVolumeConfigPhasePending"
    "cvc_Finalizers cvc = Some [CVCFinalizer]" "cvc_ReplicaCount cvc = n" "cvc_Capacity cvc = Some ?cap"
    "cvc_ProvisionCapacity cvc = Some ?cap" "cvc_Labels cvc = Some (gmerge [] ls)" "cvc_Annotations cvc = Some (gmerge [] as)"
    by (simp_all add: cvc provision_chain_def n onto_def onto_list_def zero_CVC_def)
  show ?thesis
    using rc fields n maps provision_annotations_Inr [OF as] provision_labels_Return [OF ls] RoundUpGiB_range [OF sz]
    by (intro exI [of _ c] exI [of _ t] exI [of _ cvc] exI [of _ p] exI [of _ ?cap]) (simp add: nget_def gget_def)
qed

theorem ProvisionVolume_creates_witness:
  "\<exists>c t cvc p cap. r_Create (k_cvc sample_kube) c ''openebs'' cvc t =
      (Return (p, None), snd (ProvisionVolume sample_kube sample_globals 5 ''v'' ''3'' ''pool'' ''a@b'' ''n1'' [] [] [] sample_cluster)) \<and>
     cvc_Name cvc = ''v'' \<and> cvc_Capacity cvc = Some cap \<and> 5 \<le> cap"
proof -
  have "fst (ProvisionVolume sample_kube sample_globals 5 ''v'' ''3'' ''pool'' ''a@b'' ''n1'' [] [] [] sample_cluster) = Return (Inr ())"
    by code_simp
  then have "ProvisionVolume sample_kube sample_globals 5 ''v'' ''3'' ''pool'' ''a@b'' ''n1'' [] [] [] sample_cluster =
      (Return (Inr ()), snd (ProvisionVolume sample_kube sample_globals 5 ''v'' ''3'' ''pool'' ''a@b'' ''n1'' [] [] [] sample_cluster))"
    by (simp add: prod_eq_iff)
  from ProvisionVolume_creates [OF this sample_parses_GiB] show ?thesis
    by (auto simp: sample_globals_def)
qed

subsection \<open>Resizing\<close>

lemma handleResize_Inr:
  "handleResize X G cvc sz s = (Return (Inr ()), s') \<Longrightarrow>
     \<exists>u p. the_result (cvc_Patch (cvc_kc X (OpenEBSNamespace G)) (Some cvc) (Some (cvc\<lparr>cvc_Capacity := Some sz\<rparr>)) []) s
         = (Return (p, None), u)"
  by (fastforce simp: handleResize_def updateCVCSize_def tryE_Inr_iff bnd_Return_iff Build_def cvc_WithCapacityQty_def
      cvc_BuildFrom_def b_set_def split: option.splits)

text \<open>C7: resizing never shrinks a volume. A successful \<open>ResizeVolume\<close> has read the volume config, found
  its capacity at most the rounded request, and either wrote nothing because the volume already has that
  size, or patched exactly the capacity of the config to the rounded request. A smaller request fails and
  leaves the cluster as the read left it.\<close>

theorem ResizeVolume_grows_only:
  assumes pq: "parses_GiB X" and sz: "0 \<le> sint sz" "sint sz \<le> 2 ^ 63 - 2 ^ 30"
    and get: "getCVC X G v s = (Return (Some cvc, None), t)"
    and cap: "cap = sint (RoundUpGiB sz) * 2 ^ 30"
  shows "(cap < storage (cvc_Capacity cvc) \<longrightarrow> (\<exists>e. ResizeVolume X G v sz s = (Return (Inl e), t))) \<and>
    (ResizeVolume X G v sz s = (Return (Inr ()), s') \<longrightarrow> storage (cvc_Capacity cvc) \<le> cap \<and>
       (s' = t \<and> storage (cvc_StatusCapacity cvc) = cap \<or>
        (\<exists>u p. the_result (cvc_Patch (cvc_kc X (OpenEBSNamespace G)) (Some cvc) (Some (cvc\<lparr>cvc_Capacity := Some cap\<rparr>)) []) t
           = (Return (p, None), u))))"
proof -
  have *: "ResizeVolume X G v sz s =
    (if cap < storage (cvc_Capacity cvc)
     then fail (Errorf ''Volume shrink not supported from: %v to: %v''
              [itoa (storage (cvc_StatusCapacity cvc)), itoa (storage (cvc_Capacity cvc))]) t
     else if cvc_Phase cvc = CStorVolumeConfigPhasePending then handleResize X G cvc cap t
     else if storage (cvc_StatusCapacity cvc) < storage (cvc_Capacity cvc)
     then fail (Errorf ''ResizeInProgress from: %v to: %v'' [itoa (storage (cvc_StatusCapacity cvc)), itoa (storage (cvc_Capacity cvc))]) t
     else if cap = storage (cvc_StatusCapacity cvc) then ok t else handleResize X G cvc cap t)"
    unfolding ResizeVolume_def MustParse_GiB [OF pq sz] cap [symmetric] bnd_ret
    by (simp add: tryP_def bnd_def get deref_def Let_def)
  show ?thesis
    using handleResize_Inr [of X G cvc cap t s'] by (auto simp: * split: if_splits)
qed

definition sample_sized :: cluster where
  "sample_sized = sample_cluster\<lparr>cl_cvcs := [zero_CVC\<lparr>cvc_Name := ''v'', cvc_Namespace := ''openebs'',
     cvc_Capacity := Some (2 * 2 ^ 30), cvc_StatusCapacity := Some (2 * 2 ^ 30), cvc_Phase := ''Bound''\<rparr>]\<rparr>"

theorem ResizeVolume_grows_only_witness:
  "(\<exists>e. ResizeVolume sample_kube sample_globals ''v'' 5 sample_sized = (Return (Inl e), sample_sized)) \<and>
   storage (cvc_Capacity (hd (cl_cvcs sample_sized))) \<le> 3 * 2 ^ 30 \<and>
   (\<exists>u p. the_result (cvc_Patch (cvc_kc sample_kube ''openebs'') (Some (hd (cl_cvcs sample_sized)))
        (Some ((hd (cl_cvcs sample_sized))\<lparr>cvc_Capacity := Some (3 * 2 ^ 30)\<rparr>)) []) sample_sized = (Return (p, None), u))"
proof -
  let ?run = "ResizeVolume sample_kube sample_globals ''v'' 3000000000 sample_sized"
  have get: "getCVC sample_kube sample_globals ''v'' sample_sized = (Return (Some (hd (cl_cvcs sample_sized)), None), sample_sized)"
    by code_simp
  have sz: "0 \<le> sint (5 :: int64)" "sint (5 :: int64) \<le> 2 ^ 63 - 2 ^ 30"
    "0 \<le> sint (3000000000 :: int64)" "sint (3000000000 :: int64) \<le> 2 ^ 63 - 2 ^ 30" by simp_all
  have cap: "sint (RoundUpGiB 5) * 2 ^ 30 = 2 ^ 30" "sint (RoundUpGiB 3000000000) * 2 ^ 30 = 3 * 2 ^ 30"
    by code_simp+
  have st: "storage (cvc_Capacity (hd (cl_cvcs sample_sized))) = 2 * 2 ^ 30"
    "storage (cvc_StatusCapacity (hd (cl_cvcs sample_sized))) = 2 * 2 ^ 30" by code_simp+
  have "fst ?run = Return (Inr ())" by code_simp
  then have "?run = (Return (Inr ()), snd ?run)" by (simp add: prod_eq_iff)
  with ResizeVolume_grows_only [OF sample_parses_GiB sz(1,2) get cap(1) [symmetric], of undefined]
    ResizeVolume_grows_only [OF sample_parses_GiB sz(3,4) get cap(2) [symmetric], of "snd ?run"] st
  show ?thesis by (auto simp: sample_globals_def)
qed

end
