(* ===== verification/Controller_Props.thy ===== *)
theory Controller_Props
  imports Controller Volume_Props
begin

section \<open>Properties of the controller service\<close>

text \<open>
  Request validation, placement, retries of create and delete, and snapshot ids. The hypotheses on the
  cluster are named: \<open>connected\<close> (a clientset can be had, without a change to the cluster), \<open>reads_only\<close>
  (reading changes nothing and returns) and \<open>create_visible\<close> (an object that was created is read back,
  not marked for deletion, and other objects stay readable).
\<close>

subsection \<open>Validation\<close>

definition valid_capability :: "VolumeCapability \<Rightarrow> bool" where
  "valid_capability c = ((\<forall>m. GetMount c = Some m \<longrightarrow> mv_FsType m \<in> {''ext4'', ''xfs''}) \<and>
     vc_AccessMode c \<in> {None, Some SINGLE_NODE_WRITER})"

definition valid_create_request :: "CreateVolumeRequest \<Rightarrow> bool" where
  "valid_create_request req = (cr_Name req \<noteq> [] \<and>
     (\<forall>k \<in> {''cstorPoolCluster'', ''replicaCount'', ''cas-type''}. gget (cr_Parameters req) k \<noteq> []) \<and>
     (\<exists>caps. cr_VolumeCapabilities req = Some caps \<and> (\<forall>c \<in> set caps. valid_capability c)))"

lemma isValidFStype_iff: "isValidFStype fs \<longleftrightarrow> fs \<in> {''ext4'', ''xfs''}"
  by (auto simp: isValidFStype_def ValidFSTypes_def)

lemma validate_caps_None: "validate_caps f caps = None \<longleftrightarrow> (\<forall>c \<in> set caps. valid_capability c)"
  by (induction caps) (auto simp: valid_capability_def isValidFStype_iff invalid_def split: option.splits if_splits)

lemma validate_caps_Some: "validate_caps f caps = Some e \<Longrightarrow> \<exists>m. e = StatusError InvalidArgument m"
  by (induction caps) (auto simp: invalid_def split: if_splits option.splits)

lemma NewController_supports [simp]: "validateRequest NewController CREATE_DELETE_VOLUME = None"
  by (simp add: validateRequest_def NewController_def newControllerCapabilities_def)

lemma validateVolumeCreateReq_None: "validateVolumeCreateReq NewController req = None \<longleftrightarrow> valid_create_request req"
  by (auto simp: validateVolumeCreateReq_def valid_create_request_def validate_caps_None invalid_def split: option.splits)

lemma validateVolumeCreateReq_Some:
  "validateVolumeCreateReq NewController req = Some e \<Longrightarrow> \<exists>m. e = StatusError InvalidArgument m"
  by (auto simp: validateVolumeCreateReq_def invalid_def split: option.splits if_splits dest: validate_caps_Some)

text \<open>C10: a create request is accepted exactly when it names the volume, the pool cluster, the replica
  count and the cas type, and every capability it lists asks for ext4 or xfs when it asks for a mount and
  for a single node writer when it names an access mode. Every other request is answered with
  InvalidArgument before anything is read from or written to the cluster.\<close>

theorem CreateVolume_validates:
  "(validateVolumeCreateReq NewController req = None) = valid_create_request req \<and>
   (valid_create_request req \<or>
    (\<exists>m. CreateVolume X T G NewController req s = (Return (Inl (StatusError InvalidArgument m)), s)))"
proof (cases "validateVolumeCreateReq NewController req")
  case None
  then show ?thesis by (simp add: validateVolumeCreateReq_None)
next
  case (Some e)
  then show ?thesis
    using validateVolumeCreateReq_None [of req] validateVolumeCreateReq_Some [OF Some]
    by (auto simp: CreateVolume_def)
qed

subsection \<open>Placement\<close>

definition matches :: "topology \<Rightarrow> Node \<Rightarrow> bool" where
  "matches tp node = (\<forall>(k, v) \<in> set tp. nget (node_Labels node) k = v)"

lemma nodeFiltered_iff: "nodeFiltered (node_Labels node) tp \<longleftrightarrow> \<not> matches tp node"
  by (induction tp) (fastforce simp: matches_def)+

lemma firstNode_eq: "firstNode tp nodes = map_option node_Name (find (matches tp) nodes)"
  by (induction nodes) (auto simp: nodeFiltered_iff)

lemma find_hd_filter: "find P xs = Some x \<Longrightarrow> x \<in> set xs \<and> P x \<and> hd (filter P xs) = x"
  by (induction xs) (auto split: if_splits)

lemma preferredNode_spec:
  "preferredNode tps nodes =
     (case find (\<lambda>tp. \<exists>n \<in> set nodes. matches tp n) tps of
        None \<Rightarrow> [] | Some tp \<Rightarrow> node_Name (hd (filter (matches tp) nodes)))"
proof (induction tps)
  case (Cons tp tps)
  show ?case
  proof (cases "find (matches tp) nodes")
    case None
    then have "\<not> (\<exists>n \<in> set nodes. matches tp n)" by (auto simp: find_None_iff)
    with None Cons show ?thesis by (simp add: firstNode_eq)
  next
    case (Some n)
    then show ?thesis using find_hd_filter [OF Some] by (auto simp: firstNode_eq)
  qed
qed simp

text \<open>C12: the node a volume is placed for. Placement that succeeds picks from the nodes of the cluster:
  it takes the first preferred topology for which some node carries all of the segments as labels, and of
  the nodes that do the first one in the list. It fails when no preferred topology has a node.\<close>

theorem placement_first_preferred:
  assumes "getAccessibilityRequirements X (Some topo) s = (Return r, s')"
    and "\<And>n. n \<in> set nodes \<Longrightarrow> node_Name n \<noteq> []"
    and "the_result (node_List (node_NewKubeClient X []) (selector [])) s = (Return (Some nodes, None), t)"
  shows "case find (\<lambda>tp. \<exists>n \<in> set nodes. matches tp n) (topo_Preferred topo) of
     None \<Rightarrow> r = Inl (internal (Errorf ''can not find any node'' []))
   | Some tp \<Rightarrow> r = Inr (node_Name (hd (filter (matches tp) nodes)))"
proof -
  let ?tps = "topo_Preferred topo"
  have run: "getAccessibilityRequirements X (Some topo) s =
    (if preferredNode ?tps nodes = [] then fail (internal (Errorf ''can not find any node'' [])) t
     else ret (Inr (preferredNode ?tps nodes)) t)"
    by (simp add: getAccessibilityRequirements_def getNode_def tryE_def tryP_def map_err_def deref_def bnd_def assms(3))
  show ?thesis
  proof (cases "find (\<lambda>tp. \<exists>n \<in> set nodes. matches tp n) ?tps")
    case None
    with assms(1) run show ?thesis by (simp add: preferredNode_spec)
  next
    case (Some tp)
    then obtain n where "n \<in> set nodes" "matches tp n" by (auto dest!: find_hd_filter)
    then have "hd (filter (matches tp) nodes) \<in> set nodes"
      by (metis (no_types, lifting) filter_empty_conv filter_is_subset hd_in_set subsetD)
    with Some assms(1) run assms(2) show ?thesis by (simp add: preferredNode_spec)
  qed
qed

theorem placement_first_preferred_witness:
  "getAccessibilityRequirements sample_kube (Some \<lparr>topo_Preferred = [[(''zone'', ''a'')], [(''kubernetes.io/hostname'', ''n2'')]]\<rparr>)
     sample_cluster = (Return (Inr ''n2''), sample_cluster)"
proof -
  let ?topo = "\<lparr>topo_Preferred = [[(''zone'', ''a'')], [(''kubernetes.io/hostname'', ''n2'')]]\<rparr>"
  let ?run = "getAccessibilityRequirements sample_kube (Some ?topo) sample_cluster"
  have run: "?run = (Return (case ?run of (Return r, _) \<Rightarrow> r), sample_cluster)"
    by code_simp
  have nodes: "the_result (node_List (node_NewKubeClient sample_kube []) (selector [])) sample_cluster =
     (Return (Some (cl_nodes sample_cluster), None), sample_cluster)"
    by code_simp
  have names: "node_Name n \<noteq> []" if "n \<in> set (cl_nodes sample_cluster)" for n
    using that by (auto simp: sample_cluster_def sample_node_def)
  have "(case ?run of (Return r, _) \<Rightarrow> r) = Inr ''n2''"
    using placement_first_preferred [OF run names nodes]
    by (simp add: sample_cluster_def sample_node_def matches_def nget_def gget_def)
  with run show ?thesis by simp
qed

subsection \<open>Retries\<close>

definition connected :: "'w kube \<Rightarrow> bool" where
  "connected X = ((\<exists>c. \<forall>s. cvc_defaultGetClientset X s = (Return (Some c, None), s)) \<and>
     (\<exists>c. \<forall>s. Clientset (client_New X []) s = (Return (Some c, None), s)))"

definition reads_only :: "'w kube \<Rightarrow> bool" where
  "reads_only X = ((\<forall>c ns n s. \<exists>r. r_Get (k_cvc X) c ns n s = (Return r, s)) \<and>
     (\<forall>c ns n s. \<exists>r. r_Get (k_pvc X) c ns n s = (Return r, s)) \<and>
     (\<forall>c ns lo s. \<exists>r. r_List (k_node X) c ns lo s = (Return r, s)))"

definition create_visible :: "'w kube \<Rightarrow> bool" where
  "create_visible X = (\<forall>c ns ob s p s'. r_Create (k_cvc X) c ns ob s = (Return (p, None), s') \<longrightarrow>
     (\<forall>c'. \<exists>ob'. r_Get (k_cvc X) c' ns (cvc_Name ob) s' = (Return (Some ob', None), s') \<and> cvc_DeletionTimestamp ob' = None) \<and>
     (\<forall>c' ns' lo. fst (r_List (k_node X) c' ns' lo s') = fst (r_List (k_node X) c' ns' lo s)) \<and>
     (\<forall>c' n x e. fst (r_Get (k_cvc X) c' ns n s) = Return (Some x, e) \<longrightarrow>
        (\<exists>x' e'. fst (r_Get (k_cvc X) c' ns n s') = Return (Some x', e'))))"

lemma GetVolume_connected:
  assumes "connected X" "n \<noteq> []"
  shows "\<exists>c. GetVolume X G n = r_Get (k_cvc X) c (OpenEBSNamespace G) n \<and>
             (\<forall>s. cvc_defaultGetClientset X s = (Return (Some c, None), s))"
proof -
  from assms(1) obtain c where c: "\<forall>s. cvc_defaultGetClientset X s = (Return (Some c, None), s)"
    by (auto simp: connected_def)
  have "GetVolume X G n s = r_Get (k_cvc X) c (OpenEBSNamespace G) n s" for s
    using assms(2) c by (simp add: GetVolume_def cvc_Get_def cvc_getClientOrCached_def
        fresh_with_client [OF cvc_kc_fresh] bnd_def cvc_defaultGet_def)
  with c show ?thesis by blast
qed

lemma node_List_connected:
  assumes "connected X"
  shows "\<exists>c. the_result (node_List (node_NewKubeClient X []) opts) = r_List (k_node X) c [] opts"
proof -
  from assms obtain c where "\<forall>s. Clientset (client_New X []) s = (Return (Some c, None), s)"
    by (auto simp: connected_def)
  then have "the_result (node_List (node_NewKubeClient X []) opts) = r_List (k_node X) c [] opts"
    by (intro ext) (simp add: node_List_eq bnd_def)
  then show ?thesis by blast
qed

text \<open>Two states that answer the reads of \<open>CreateVolume\<close> alike.\<close>

definition same_reads :: "'w kube \<Rightarrow> utils_globals \<Rightarrow> 'w \<Rightarrow> 'w \<Rightarrow> bool" where
  "same_reads X G s t = ((\<forall>c ns lo. fst (r_List (k_node X) c ns lo t) = fst (r_List (k_node X) c ns lo s)) \<and>
     (\<forall>c n x e. fst (r_Get (k_cvc X) c (OpenEBSNamespace G) n s) = Return (Some x, e) \<longrightarrow>
        (\<exists>x' e'. fst (r_Get (k_cvc X) c (OpenEBSNamespace G) n t) = Return (Some x', e'))))"

lemma placement_same:
  assumes c: "connected X" "reads_only X" and same: "same_reads X G s t"
    and run: "getAccessibilityRequirements X q s = (Return (Inr n), s')"
  shows "s' = s \<and> getAccessibilityRequirements X q t = (Return (Inr n), t)"
proof -
  obtain h where h: "the_result (node_List (node_NewKubeClient X []) (selector [])) = r_List (k_node X) h [] (selector [])"
    using node_List_connected [OF c(1)] by blast
  obtain r where r: "r_List (k_node X) h [] (selector []) s = (Return r, s)"
    using c(2) by (meson reads_only_def)
  moreover obtain r' where r': "r_List (k_node X) h [] (selector []) t = (Return r', t)"
    using c(2) by (meson reads_only_def)
  ultimately have "r' = r" using same by (metis fst_conv outcome.inject(1) same_reads_def)
  with r r' run show ?thesis
    by (cases q; cases r; cases "fst r"; cases "snd r")
      (auto simp: getAccessibilityRequirements_def getNode_def h tryE_def tryP_def map_err_def bnd_def deref_def
        split: if_splits)
qed

lemma GetVolume_same:
  assumes c: "connected X" "reads_only X" "same_reads X G s t"
    and g: "GetVolume X G a s = (Return (p, e), s')"
  shows "\<exists>p' e'. GetVolume X G a t = (Return (p', e'), t) \<and> s' = s \<and> (p \<noteq> None \<longrightarrow> p' \<noteq> None)"
proof (cases "a = []")
  case True
  with g show ?thesis by (auto simp: GetVolume_def cvc_Get_def)
next
  case False
  obtain h where h: "GetVolume X G a = r_Get (k_cvc X) h (OpenEBSNamespace G) a"
    using GetVolume_connected [OF c(1) False] by blast
  obtain q q' where q: "r_Get (k_cvc X) h (OpenEBSNamespace G) a s = (Return q, s)"
      "r_Get (k_cvc X) h (OpenEBSNamespace G) a t = (Return q', t)"
    using c(2) by (meson reads_only_def)
  have "fst q' \<noteq> None" if "fst q \<noteq> None"
  proof -
    from that q obtain x e where "fst (r_Get (k_cvc X) h (OpenEBSNamespace G) a s) = Return (Some x, e)"
      by (cases q) auto
    then obtain x' e' where "fst (r_Get (k_cvc X) h (OpenEBSNamespace G) a t) = Return (Some x', e')"
      using c(3) by (meson same_reads_def)
    with q show ?thesis by auto
  qed
  with q g h show ?thesis by (cases q') auto
qed

lemma GetVolumeSourceDetails_pure:
  "GetVolumeSourceDetails sid s = (Return (Inr (a, b)), s') \<Longrightarrow> s' = s \<and> GetVolumeSourceDetails sid t = (Return (Inr (a, b)), t)"
  by (auto simp: GetVolumeSourceDetails_def Let_def split: if_splits)

lemma IsSourceAvailable_same:
  assumes c: "connected X" "reads_only X" "same_reads X G s t"
    and av: "IsSourceAvailable X G sid s = (Return (True, u), s')"
  shows "s' = s \<and> IsSourceAvailable X G sid t = (Return (True, None), t)"
proof -
  from av obtain r s1 where r: "GetVolumeSourceDetails sid s = (Return r, s1)" and
    k: "(case r of Inl e \<Rightarrow> ret (False, Some e)
       | Inr (srcVolName, _) \<Rightarrow> bnd (GetVolume X G srcVolName) (\<lambda>(cvc, err).
           if cvc \<noteq> None then ret (True, None) else ret (False, err))) s1 = (Return (True, u), s')"
    unfolding IsSourceAvailable_def bnd_Return_iff by blast
  then obtain a b where ab: "r = Inr (a, b)" by (cases r) auto
  with r GetVolumeSourceDetails_pure [of sid s a b s1 t]
  have d: "s1 = s" "GetVolumeSourceDetails sid t = (Return (Inr (a, b)), t)" by simp_all
  from k ab d obtain p e where g: "GetVolume X G a s = (Return (p, e), s')" and p: "p \<noteq> None"
    by (auto simp: bnd_Return_iff split: if_splits)
  from GetVolume_same [OF c g] p obtain p' e' where "GetVolume X G a t = (Return (p', e'), t)" "s' = s" "p' \<noteq> None"
    by blast
  with d(2) show ?thesis by (simp add: IsSourceAvailable_def bnd_def)
qed

lemma checkSource_same:
  assumes c: "connected X" "reads_only X" "same_reads X G s t"
    and run: "checkSource X G src s = (Return (Inr n), s')"
  shows "s' = s \<and> checkSource X G src t = (Return (Inr n), t)"
proof (cases "\<exists>sid. src = Some (SourceSnapshot sid)")
  case False
  with run show ?thesis by (auto simp: checkSource_def split: option.splits content_source.splits)
next
  case True
  then obtain sid where src: "src = Some (SourceSnapshot sid)" by blast
  with run have sid: "sid \<noteq> []" by (auto simp: checkSource_def)
  from run src sid have "bnd (IsSourceAvailable X G sid) (\<lambda>(isValidSrc, _).
      if \<not> isValidSrc then fail (StatusError InvalidArgument (Errorf ''VolumeSrc Not Available'' []))
      else ret (Inr sid)) s = (Return (Inr n), s')"
    by (simp add: checkSource_def)
  then obtain v u t' where "IsSourceAvailable X G sid s = (Return (v, u), t')" and
    "(if \<not> v then fail (StatusError InvalidArgument (Errorf ''VolumeSrc Not Available'' [])) else ret (Inr sid)) t'
       = (Return (Inr n), s')"
    unfolding bnd_Return_iff by auto
  then have av: "IsSourceAvailable X G sid s = (Return (True, u), s')" and n: "n = sid"
    by (cases v; simp)+
  from IsSourceAvailable_same [OF c av] src sid n show ?thesis
    by (simp add: checkSource_def bnd_def)
qed

lemma provision_annotations_reads:
  assumes c: "connected X" "reads_only X"
    and run: "provision_annotations X v pol pvc ns s = (Return (Inr as), s')"
  shows "s' = s"
proof -
  obtain h where h: "\<forall>s. Clientset (client_New X []) s = (Return (Some h, None), s)"
    using c(1) by (auto simp: connected_def)
  obtain r where r: "r_Get (k_pvc X) h ns pvc s = (Return r, s)" using c(2) by (meson reads_only_def)
  have get: "the_result (pvc_Get (WithNamespace ns (pvc_NewKubeClient X [])) pvc) s =
    (if TrimSpace pvc = [] then (Return (None, Some (Errorf ''failed to get pvc: missing pvc name'' [])), s) else (Return r, s))"
    using h r by (simp add: pvc_Get_eq bnd_def)
  show ?thesis
    using run by (auto simp: provision_annotations_def Let_def tryP_Inr_iff get split: if_splits option.splits)
qed

lemma ProvisionVolume_create_call:
  assumes c: "connected X" "reads_only X"
    and run: "ProvisionVolume X G sz v rc cspc snap n pol pvc pvcns s = (Return (Inr ()), s')"
  shows "\<exists>h cvc p. r_Create (k_cvc X) h (OpenEBSNamespace G) cvc s = (Return (p, None), s') \<and> cvc_Name cvc = v"
proof -
  obtain cap where cap: "MustParse X (itoa (sint (RoundUpGiB sz)) @ ''Gi'') = ret cap"
    using run by (auto simp: ProvisionVolume_def tryE_Inr_iff bnd_Return_iff MustParse_def split: sum.splits)
  from ProvisionVolume_Inr [OF run cap] obtain as t1 ls t2 cvc p where
    as: "provision_annotations X v pol pvc pvcns s = (Return (Inr as), t1)" and
    ls: "provision_labels cspc snap t1 = (Return ls, t2)" and
    build: "Build (fold (cvc_run (k_ParseQuantity X))
       (provision_chain (OpenEBSNamespace G) v as ls cap snap n rc) cvc_NewBuilder) = Inr cvc" and
    create: "the_result (cvc_Create (cvc_kc X (OpenEBSNamespace G)) (Some cvc)) t2 = (Return (p, None), s')"
    by blast
  have t: "t2 = s" using provision_annotations_reads [OF c as] provision_labels_Return [OF ls] by simp
  have "cvc_Name cvc = v"
    using build unfolding Build_New by (auto simp: provision_chain_def split: option.splits)
  moreover from create t c(1) obtain h where "r_Create (k_cvc X) h (OpenEBSNamespace G) cvc s = (Return (p, None), s')"
    by (auto simp: cvc_Create_fresh connected_def)
  ultimately show ?thesis by blast
qed

lemma same_reads_refl: "same_reads X G s s"
  by (auto simp: same_reads_def)

lemma CreateVolume_steps:
  assumes c: "connected X" "reads_only X" and T: "\<And>e s. ct_Send T e s = (Return (), s)"
    and run: "CreateVolume X T G cs req s = (Return (Inr resp), s')"
  shows "\<exists>sz n snap r. validateVolumeCreateReq cs req = None \<and> cr_CapacityRange req = Some sz \<and> cr_Name req \<noteq> [] \<and>
     getAccessibilityRequirements X (cr_AccessibilityRequirements req) s = (Return (Inr n), s) \<and>
     checkSource X G (cr_VolumeContentSource req) s = (Return (Inr snap), s) \<and>
     GetVolume X G (cr_Name req) s = (Return r, s) \<and> resp = createVolumeResponse req sz \<and>
     (if liveCVC r then s' = s else \<exists>h cvc p. r_Create (k_cvc X) h (OpenEBSNamespace G) cvc s = (Return (p, None), s')
        \<and> cvc_Name cvc = cr_Name req)"
proof -
  have val: "validateVolumeCreateReq cs req = None"
    using run by (auto simp: CreateVolume_def split: option.splits)
  then have name: "cr_Name req \<noteq> []"
    by (auto simp: validateVolumeCreateReq_def invalid_def split: option.splits if_splits)
  obtain sz where sz: "cr_CapacityRange req = Some sz"
    using run val by (cases "cr_CapacityRange req") (auto simp: CreateVolume_def deref_def)
  from run val sz obtain n t1 snap t2 r t3 where
    n: "getAccessibilityRequirements X (cr_AccessibilityRequirements req) s = (Return (Inr n), t1)" and
    snap: "checkSource X G (cr_VolumeContentSource req) t1 = (Return (Inr snap), t2)" and
    r: "GetVolume X G (cr_Name req) t2 = (Return r, t3)" and
    rest: "(if liveCVC r then ret (Inr (createVolumeResponse req sz))
       else tryE (map_err internal
             (ProvisionVolume X G sz (cr_Name req) (gget (cr_Parameters req) ''replicaCount'')
               (gget (cr_Parameters req) ''cstorPoolCluster'') snap n (gget (cr_Parameters req) ''cstorVolumePolicy'')
               (gget (cr_Parameters req) pvcNameKey) (gget (cr_Parameters req) pvcNamespaceKey))) (\<lambda>_.
         andthen (sendEventOrIgnore X T (gget (cr_Parameters req) pvcNameKey) (cr_Name req) (itoa (sint sz))
              (gget (cr_Parameters req) ''replicaCount'') ''cstor-csi'' VolumeProvision)
           (ret (Inr (createVolumeResponse req sz))))) t3 = (Return (Inr resp), s')"
    unfolding CreateVolume_def Let_def by (auto simp: tryE_Inr_iff bnd_Return_iff deref_def)
  have t: "t1 = s" using placement_same [OF c same_reads_refl n] by simp
  moreover have "t2 = t1" using checkSource_same [OF c same_reads_refl snap] by simp
  moreover have "t3 = t2" using GetVolume_same [OF c same_reads_refl, of G "cr_Name req" t2 "fst r" "snd r" t3] r by auto
  ultimately have t: "t1 = s" "t2 = s" "t3 = s" by simp_all
  have ev: "sendEventOrIgnore X T a1 a2 a3 a4 a5 a6 u = (Return (), u)" for a1 a2 a3 a4 a5 a6 u
    by (simp add: sendEventOrIgnore_def T)
  show ?thesis
  proof (cases "liveCVC r")
    case True
    with rest t val name sz n snap r show ?thesis by (intro exI) auto
  next
    case False
    with rest t have "ProvisionVolume X G sz (cr_Name req) (gget (cr_Parameters req) ''replicaCount'')
               (gget (cr_Parameters req) ''cstorPoolCluster'') snap n (gget (cr_Parameters req) ''cstorVolumePolicy'')
               (gget (cr_Parameters req) pvcNameKey) (gget (cr_Parameters req) pvcNamespaceKey) s = (Return (Inr ()), s')"
      and "resp = createVolumeResponse req sz"
      by (auto simp: tryE_Inr_iff map_err_Inr_iff andthen_def bnd_Return_iff ev)
    with ProvisionVolume_create_call [OF c this(1)] False t val name sz n snap r show ?thesis
      by (intro exI) auto
  qed
qed

text \<open>C1: creating a volume is idempotent. On a cluster whose reads change nothing and in which a created
  object is read back, a create request that has succeeded succeeds again with the same response, and the
  second run changes nothing: in particular it creates no second volume.\<close>

theorem CreateVolume_idempotent:
  assumes c: "connected X" "reads_only X" "create_visible X" and T: "\<And>e s. ct_Send T e s = (Return (), s)"
    and run: "CreateVolume X T G cs req s = (Return (Inr resp), s')"
  shows "CreateVolume X T G cs req s' = (Return (Inr resp), s')"
proof -
  from CreateVolume_steps [OF c(1,2) T run] obtain sz n snap r where
    st: "validateVolumeCreateReq cs req = None" "cr_CapacityRange req = Some sz" "cr_Name req \<noteq> []"
     "resp = createVolumeResponse req sz" and
    n: "getAccessibilityRequirements X (cr_AccessibilityRequirements req) s = (Return (Inr n), s)" and
    snap: "checkSource X G (cr_VolumeContentSource req) s = (Return (Inr snap), s)" and
    last: "if liveCVC r then s' = s else \<exists>h cvc p. r_Create (k_cvc X) h (OpenEBSNamespace G) cvc s = (Return (p, None), s')
        \<and> cvc_Name cvc = cr_Name req"
    by blast
  show ?thesis
  proof (cases "liveCVC r")
    case True
    with last run show ?thesis by simp
  next
    case False
    with last obtain h cvc p where cr: "r_Create (k_cvc X) h (OpenEBSNamespace G) cvc s = (Return (p, None), s')"
      and name: "cvc_Name cvc = cr_Name req" by auto
    obtain g where g: "GetVolume X G (cr_Name req) = r_Get (k_cvc X) g (OpenEBSNamespace G) (cr_Name req)"
      using GetVolume_connected [OF c(1) st(3)] by blast
    from c(3) cr name obtain ob' where "GetVolume X G (cr_Name req) s' = (Return (Some ob', None), s')"
      and "cvc_DeletionTimestamp ob' = None"
      unfolding g create_visible_def by metis
    moreover have same: "same_reads X G s s'"
      using c(3) cr unfolding same_reads_def create_visible_def by meson
    ultimately show ?thesis
      using st placement_same [OF c(1,2) same n] checkSource_same [OF c(1,2) same snap]
      by (simp add: CreateVolume_def deref_def tryE_def bnd_def liveCVC_def Let_def)
  qed
qed

definition sample_ctl :: "cluster ctl_api" where
  "sample_ctl = \<lparr>ct_Send = (\<lambda>_. ret ()), ct_Now = asks (\<lambda>s. word_of_int (int (cl_clock s))),
     ct_QuantityString = itoa, ct_MilliValue = (\<lambda>q. word_of_int (1000 * q))\<rparr>"

lemma sample_clients:
  "cvc_defaultGetClientset sample_kube s = (Return (Some 3, None), s)"
  "Clientset (client_New sample_kube []) s = (Return (Some 2, None), s)"
  by (simp_all add: cvc_defaultGetClientset_def Clientset_def GetConfig_def GetConfigForPathOrDirect_def Config_def
      getConfigFromENV_def client_New_def client_withDefaults_def zero_Client_def sample_kube_def bnd_def env_defs)

lemma sample_connected: "connected sample_kube"
  by (auto simp: connected_def sample_clients)

lemma sample_reads_only: "reads_only sample_kube"
  by (simp add: reads_only_def sample_kube_def mk_api_def)

lemma find_None_append: "find P xs = None \<Longrightarrow> P x \<Longrightarrow> find P (xs @ [x]) = Some x"
  by (induction xs) auto

lemma sample_create_visible: "create_visible sample_kube"
  by (auto simp: create_visible_def sample_kube_def mk_api_def store_get_def find_None_append
      split: if_splits option.splits)

definition sample_request :: CreateVolumeRequest where
  "sample_request = \<lparr>cr_Name = ''v'', cr_CapacityRange = Some 5,
     cr_VolumeCapabilities = Some [\<lparr>vc_AccessType = AccessMount (Some \<lparr>mv_FsType = ''ext4'', mv_MountFlags = []\<rparr>),
        vc_AccessMode = Some SINGLE_NODE_WRITER\<rparr>],
     cr_Parameters = [(''cstorPoolCluster'', ''pool''), (''replicaCount'', ''3''), (''cas-type'', ''cstor'')],
     cr_VolumeContentSource = None,
     cr_AccessibilityRequirements = Some \<lparr>topo_Preferred = [[(''kubernetes.io/hostname'', ''n1'')]]\<rparr>\<rparr>"

theorem CreateVolume_idempotent_witness:
  "let s' = snd (CreateVolume sample_kube sample_ctl sample_globals NewController sample_request sample_cluster) in
   CreateVolume sample_kube sample_ctl sample_globals NewController sample_request s' =
     (Return (Inr (createVolumeResponse sample_request 5)), s')"
proof -
  let ?run = "CreateVolume sample_kube sample_ctl sample_globals NewController sample_request sample_cluster"
  have "fst ?run = Return (Inr (createVolumeResponse sample_request 5))" by code_simp
  then have run: "?run = (Return (Inr (createVolumeResponse sample_request 5)), snd ?run)" by (simp add: prod_eq_iff)
  have T: "ct_Send sample_ctl e s = (Return (), s)" for e s by (simp add: sample_ctl_def)
  show ?thesis
    using CreateVolume_idempotent [OF sample_connected sample_reads_only sample_create_visible T run]
    by (simp add: Let_def)
qed

subsection \<open>Deletion\<close>

lemma validateDeleteVolumeReq_None: "v \<noteq> [] \<Longrightarrow> validateDeleteVolumeReq NewController v = None"
  by (simp add: validateDeleteVolumeReq_def)

text \<open>C11: deleting a volume. A config that is already being deleted is left alone; otherwise its deletion
  is requested, and a config that does not exist any more counts as deleted. Every other error of the
  deletion is handed back, wrapped.\<close>

theorem DeleteVolume_outcome:
  assumes v: "v \<noteq> []" and T: "\<And>e s. ct_Send T e s = (Return (), s)"
    and get: "GetVolume X G v s = (Return (Some c, e), t)" and del: "DeleteVolumeCVC X G v t = (Return d, u)"
  shows "DeleteVolume X T G NewController v s =
    (if cvc_DeletionTimestamp c \<noteq> None then (Return (Inr ()), t)
     else case d of
       None \<Rightarrow> (Return (Inr ()), u)
     | Some err \<Rightarrow> if IsNotFound err then (Return (Inr ()), u)
         else (Return (Inl (Wrapf ''failed to handle delete volume request for {%s}'' [v] err)), u))"
proof -
  have ev: "sendEventOrIgnore X T a1 a2 a3 a4 a5 a6 w = (Return (), w)" for a1 a2 a3 a4 a5 a6 w
    by (simp add: sendEventOrIgnore_def T)
  show ?thesis
    by (cases d) (auto simp: DeleteVolume_def validateDeleteVolumeReq_None [OF v] bnd_def get del deref_def andthen_def ev)
qed

theorem DeleteVolume_outcome_witness:
  "DeleteVolume sample_kube sample_ctl sample_globals NewController ''gone'' sample_cluster = (Return (Inr ()), sample_cluster)"
proof -
  have get: "GetVolume sample_kube sample_globals ''gone'' sample_cluster =
      (Return (Some zero_CVC, Some (not_found ''gone'')), sample_cluster)" by code_simp
  have del: "DeleteVolumeCVC sample_kube sample_globals ''gone'' sample_cluster =
      (Return (Some (not_found ''gone'')), sample_cluster)" by code_simp
  have T: "ct_Send sample_ctl e s = (Return (), s)" for e s by (simp add: sample_ctl_def)
  show ?thesis
    using DeleteVolume_outcome [OF _ T get del] by (simp add: zero_CVC_def not_found_def)
qed

subsection \<open>Snapshots\<close>

text \<open>C13: a snapshot that the controller created is addressed by the id it returned. Deleting by that id
  asks the target of the same volume to delete the snapshot of the same name; a volume or snapshot name
  with an at sign makes an id that deletion refuses, so that the snapshot stays behind.\<close>

theorem snapshot_delete_addresses_created:
  assumes "CreateSnapshot X N T G vol name s = (Return (Inr r), s')"
  shows "DeleteSnapshot X N G (sr_SnapshotId r) =
    (if CHR ''@'' \<in> set vol \<or> CHR ''@'' \<in> set name
     then fail (internal (Errorf ''failed to handle DeleteSnapshotRequest for %s, {%s}'' [vol @ ''@'' @ name, ''Manual intervention required'']))
     else map_err (\<lambda>err. internal (ErrorfE ''failed to handle DeleteSnapshotRequest for %s, {%s}'' [vol @ ''@'' @ name] err))
            (utils_DeleteSnapshot X N G vol name))"
proof -
  have id: "sr_SnapshotId r = vol @ ''@'' @ name"
    using assms by (auto simp: CreateSnapshot_def bnd_Return_iff tryE_Inr_iff payload_defs)
  show ?thesis
  proof (cases "CHR ''@'' \<in> set vol \<or> CHR ''@'' \<in> set name")
    case True
    have "length (Split (vol @ ''@'' @ name) (CHR ''@'')) = Suc (count_list (vol @ ''@'' @ name) (CHR ''@''))"
      by (rule length_Split)
    moreover have "0 < count_list vol (CHR ''@'') + count_list name (CHR ''@'')"
      using True by (auto simp: count_list_0_iff neq0_conv [symmetric] simp del: neq0_conv)
    ultimately have "length (Split (vol @ ''@'' @ name) (CHR ''@'')) \<noteq> 2" by simp
    with True show ?thesis by (simp add: DeleteSnapshot_def id)
  next
    case False
    then have "Split (vol @ ''@'' @ name) (CHR ''@'') = [vol, name]" by (intro Split_at) auto
    with False show ?thesis by (simp add: DeleteSnapshot_def id)
  qed
qed

definition sample_snap :: "cluster snap_api" where
  "sample_snap = \<lparr>sn_Dial = (\<lambda>_. ret (Inr 7)), sn_Close = (\<lambda>_. ret ()), sn_RunCreate = (\<lambda>_ _. ret (Some ''OK'', None)),
     sn_RunDelete = (\<lambda>_ _. ret (Some ''OK'', None)), sn_Response = id\<rparr>"

definition sample_with_cv :: cluster where
  "sample_with_cv = sample_cluster\<lparr>cl_cvs := [zero_CV\<lparr>cv_Name := ''v'', cv_Namespace := ''openebs'', cv_TargetIP := ''10.0.0.1'',
     cv_StatusCapacity := 2 ^ 30, cv_Phase := ''Healthy''\<rparr>]\<rparr>"

theorem snapshot_delete_addresses_created_witness:
  "DeleteSnapshot sample_kube sample_snap sample_globals ''v@s1'' =
     map_err (\<lambda>err. internal (ErrorfE ''failed to handle DeleteSnapshotRequest for %s, {%s}'' [''v@s1''] err))
       (utils_DeleteSnapshot sample_kube sample_snap sample_globals ''v'' ''s1'')"
proof -
  let ?r = "sr_WithReadyToUse True (sr_WithCreationTime 0 0 (sr_WithSnapshotID ''v@s1''
     (sr_WithSourceVolumeID ''v'' NewCreateSnapshotResponseBuilder)))"
  let ?run = "CreateSnapshot sample_kube sample_snap sample_ctl sample_globals ''v'' ''s1'' sample_with_cv"
  have "fst ?run = Return (Inr ?r)" by code_simp
  then have "?run = (Return (Inr ?r), snd ?run)" by (simp add: prod_eq_iff)
  from snapshot_delete_addresses_created [OF this] show ?thesis by (simp add: payload_defs)
qed



end
