(* ===== verification/List_Builders.thy ===== *)
theory List_Builders
  imports API_Objects
begin

section \<open>List builders and predicates\<close>

text \<open>
  The list builders of \<open>volumeconfig/config.go\<close>, \<open>volumeattachment/buildlist.go\<close> with \<open>volume.go\<close>,
  \<open>volume/cstorvolume.go\<close> and \<open>kubernetes/node/node.go\<close>: an accumulated list, filters added in groups,
  and \<open>List\<close>, which applies all of them. The filters are a slice that starts nil. The wrapper structs
  around an API object hold a pointer to a copy of it that is never nil in a list, so that the list
  holds the objects themselves. The locale states what every one of these builders promises.
\<close>

type_synonym 'a predicate = "'a \<Rightarrow> bool"

record 'a ListBuilder =
  lb_list :: "'a list"
  lb_filters :: "'a predicate list option"

definition append_slice :: "'a list option \<Rightarrow> 'a list \<Rightarrow> 'a list option" where
  "append_slice xs ys = (case xs of
     None \<Rightarrow> (if ys = [] then None else Some ys)
   | Some zs \<Rightarrow> Some (zs @ ys))"

definition slice_list :: "'a list option \<Rightarrow> 'a list" where
  "slice_list xs = (case xs of None \<Rightarrow> [] | Some ys \<Rightarrow> ys)"

lemma slice_list_append [simp]: "slice_list (append_slice xs ys) = slice_list xs @ ys"
  by (simp add: slice_list_def append_slice_def split: option.split)

lemma slice_list_simps [simp]: "slice_list None = []" "slice_list (Some ys) = ys"
  by (simp_all add: slice_list_def)

locale filtered_list =
  fixes new_builder :: "'b"
    and add_items :: "'a list \<Rightarrow> 'b \<Rightarrow> 'b"
    and add_filters :: "'a predicate list \<Rightarrow> 'b \<Rightarrow> 'b"
    and listed :: "'b \<Rightarrow> 'a list"
    and items :: "'b \<Rightarrow> 'a list"
    and checks :: "'b \<Rightarrow> 'a predicate list"
  assumes new_items: "items new_builder = []" and new_checks: "checks new_builder = []"
    and add_items: "items (add_items xs b) = items b @ xs" "checks (add_items xs b) = checks b"
    and add_filters: "items (add_filters ps b) = items b" "checks (add_filters ps b) = checks b @ ps"
    and listed: "listed b = filter (\<lambda>x. list_all (\<lambda>p. p x) (checks b)) (items b)"
begin

lemma filters_fold:
  "items (fold add_filters pss b) = items b \<and> checks (fold add_filters pss b) = checks b @ concat pss"
  by (induction pss arbitrary: b) (auto simp: add_filters)

text \<open>Groups of filters added one after the other keep exactly the items that satisfy all of them, in
  the order in which they were added to the list.\<close>

theorem listed_filters:
  "listed (fold add_filters pss (add_items xs new_builder)) =
     filter (\<lambda>x. list_all (\<lambda>p. p x) (concat pss)) xs"
  by (simp add: listed filters_fold add_items new_items new_checks)

lemma listed_sublist: "set (listed b) \<subseteq> set (items b)"
  by (auto simp: listed)

end

subsection \<open>volumeconfig/config.go\<close>

definition cvc_NewListBuilder :: "CStorVolumeConfig ListBuilder" where
  "cvc_NewListBuilder = \<lparr>lb_list = [], lb_filters = None\<rparr>"

definition cvc_WithAPIList :: "CStorVolumeConfig list option \<Rightarrow> CStorVolumeConfig ListBuilder \<Rightarrow> CStorVolumeConfig ListBuilder" where
  "cvc_WithAPIList xs b = (case xs of None \<Rightarrow> b | Some Items \<Rightarrow> b\<lparr>lb_list := lb_list b @ Items\<rparr>)"

fun cvc_all :: "CStorVolumeConfig predicate list \<Rightarrow> CStorVolumeConfig \<Rightarrow> bool" where
  "cvc_all [] c = True"
| "cvc_all (check # l) c = (if \<not> check c then False else cvc_all l c)"

fun keep_all :: "('a \<Rightarrow> bool) \<Rightarrow> 'a list \<Rightarrow> 'a list \<Rightarrow> 'a list" where
  "keep_all test [] filtered = filtered"
| "keep_all test (x # xs) filtered = keep_all test xs (if test x then filtered @ [x] else filtered)"

lemma keep_all_filter: "keep_all test xs filtered = filtered @ filter test xs"
  by (induction xs arbitrary: filtered) auto

definition cvc_ListItems :: "CStorVolumeConfig ListBuilder \<Rightarrow> CStorVolumeConfig list" where
  "cvc_ListItems b = (case lb_filters b of None \<Rightarrow> lb_list b
   | Some fs \<Rightarrow> if length fs = 0 then lb_list b else keep_all (cvc_all fs) (lb_list b) [])"

definition cvc_WithFilter :: "CStorVolumeConfig predicate list \<Rightarrow> CStorVolumeConfig ListBuilder \<Rightarrow> CStorVolumeConfig ListBuilder" where
  "cvc_WithFilter pred b = b\<lparr>lb_filters := append_slice (lb_filters b) pred\<rparr>"

lemma cvc_all_list_all: "cvc_all ps = (\<lambda>x. list_all (\<lambda>p. p x) ps)"
  by (rule ext) (induction ps; simp)

interpretation cvcl: filtered_list cvc_NewListBuilder "\<lambda>xs. cvc_WithAPIList (Some xs)" cvc_WithFilter
    cvc_ListItems lb_list "\<lambda>b. slice_list (lb_filters b)"
  by unfold_locales (auto simp: cvc_NewListBuilder_def cvc_WithAPIList_def cvc_WithFilter_def
      cvc_ListItems_def keep_all_filter cvc_all_list_all split: option.split)

subsection \<open>volumeattachment/buildlist.go and volume.go\<close>

definition cva_NewListBuilder :: "CStorVolumeAttachment ListBuilder" where
  "cva_NewListBuilder = \<lparr>lb_list = [], lb_filters = None\<rparr>"

definition cva_ListBuilderFrom :: "CStorVolumeAttachment list \<Rightarrow> CStorVolumeAttachment ListBuilder" where
  "cva_ListBuilderFrom vols =
     (let b = \<lparr>lb_list = [], lb_filters = None\<rparr> in
      if length vols = 0 then b else b\<lparr>lb_list := lb_list b @ vols\<rparr>)"

fun cva_all :: "CStorVolumeAttachment predicate list \<Rightarrow> CStorVolumeAttachment \<Rightarrow> bool" where
  "cva_all [] p = True"
| "cva_all (pred # l) p = (if \<not> pred p then False else cva_all l p)"

definition cva_ListItems :: "CStorVolumeAttachment ListBuilder \<Rightarrow> CStorVolumeAttachment list" where
  "cva_ListItems b = (case lb_filters b of None \<Rightarrow> lb_list b
   | Some fs \<Rightarrow> if length fs = 0 then lb_list b else keep_all (cva_all fs) (lb_list b) [])"

definition cva_WithFilter :: "CStorVolumeAttachment predicate list \<Rightarrow> CStorVolumeAttachment ListBuilder \<Rightarrow> CStorVolumeAttachment ListBuilder" where
  "cva_WithFilter pred b = b\<lparr>lb_filters := append_slice (lb_filters b) pred\<rparr>"

definition cva_HasLabel :: "string \<Rightarrow> string \<Rightarrow> CStorVolumeAttachment predicate" where
  "cva_HasLabel key v p = (case cva_Labels p of None \<Rightarrow> False
   | Some m \<Rightarrow> (case map_of m key of Some val \<Rightarrow> val = v | None \<Rightarrow> False))"

fun cva_HasLabels :: "gomap \<Rightarrow> CStorVolumeAttachment predicate" where
  "cva_HasLabels [] p = True"
| "cva_HasLabels ((key, v) # kvs) p = (if \<not> cva_HasLabel key v p then False else cva_HasLabels kvs p)"

lemma cva_all_list_all: "cva_all ps = (\<lambda>x. list_all (\<lambda>p. p x) ps)"
  by (rule ext) (induction ps; simp)

definition cva_add_items :: "CStorVolumeAttachment list \<Rightarrow> CStorVolumeAttachment ListBuilder \<Rightarrow> CStorVolumeAttachment ListBuilder" where
  "cva_add_items vols b = b\<lparr>lb_list := lb_list b @ lb_list (cva_ListBuilderFrom vols)\<rparr>"

lemma cva_ListBuilderFrom_eq: "cva_ListBuilderFrom vols = cva_add_items vols cva_NewListBuilder"
  by (simp add: cva_ListBuilderFrom_def cva_add_items_def cva_NewListBuilder_def Let_def)

interpretation cval: filtered_list cva_NewListBuilder cva_add_items cva_WithFilter
    cva_ListItems lb_list "\<lambda>b. slice_list (lb_filters b)"
  by unfold_locales (auto simp: cva_NewListBuilder_def cva_add_items_def cva_ListBuilderFrom_def Let_def
      cva_WithFilter_def cva_ListItems_def keep_all_filter cva_all_list_all split: option.split)

lemma cva_HasLabels_iff:
  "cva_HasLabels kvs = (\<lambda>p. list_all (\<lambda>(k, v). \<exists>m. cva_Labels p = Some m \<and> map_of m k = Some v) kvs)"
proof (rule ext)
  fix p show "cva_HasLabels kvs p = list_all (\<lambda>(k, v). \<exists>m. cva_Labels p = Some m \<and> map_of m k = Some v) kvs"
    by (induction kvs) (auto simp: cva_HasLabel_def split: option.splits if_splits)
qed

subsection \<open>volume/cstorvolume.go\<close>

definition cv_NewListBuilder :: "CStorVolume ListBuilder" where
  "cv_NewListBuilder = \<lparr>lb_list = [], lb_filters = None\<rparr>"

definition cv_WithAPIList :: "CStorVolume list option \<Rightarrow> CStorVolume ListBuilder \<Rightarrow> CStorVolume ListBuilder" where
  "cv_WithAPIList xs b = (case xs of None \<Rightarrow> b | Some Items \<Rightarrow> b\<lparr>lb_list := lb_list b @ Items\<rparr>)"

fun cv_all :: "CStorVolume predicate list \<Rightarrow> CStorVolume \<Rightarrow> bool" where
  "cv_all [] c = True"
| "cv_all (check # l) c = (if \<not> check c then False else cv_all l c)"

definition cv_ListItems :: "CStorVolume ListBuilder \<Rightarrow> CStorVolume list" where
  "cv_ListItems b = (case lb_filters b of None \<Rightarrow> lb_list b
   | Some fs \<Rightarrow> if length fs = 0 then lb_list b else keep_all (cv_all fs) (lb_list b) [])"

definition cv_WithFilter :: "CStorVolume predicate list \<Rightarrow> CStorVolume ListBuilder \<Rightarrow> CStorVolume ListBuilder" where
  "cv_WithFilter pred b = b\<lparr>lb_filters := append_slice (lb_filters b) pred\<rparr>"

definition cv_IsHealthy :: "CStorVolume predicate" where
  "cv_IsHealthy p = (cv_Phase p = ''Healthy'')"

lemma cv_all_list_all: "cv_all ps = (\<lambda>x. list_all (\<lambda>p. p x) ps)"
  by (rule ext) (induction ps; simp)

interpretation cvl: filtered_list cv_NewListBuilder "\<lambda>xs. cv_WithAPIList (Some xs)" cv_WithFilter
    cv_ListItems lb_list "\<lambda>b. slice_list (lb_filters b)"
  by unfold_locales (auto simp: cv_NewListBuilder_def cv_WithAPIList_def cv_WithFilter_def
      cv_ListItems_def keep_all_filter cv_all_list_all split: option.split)

subsection \<open>kubernetes/node/node.go\<close>

definition node_NewListBuilder :: "Node ListBuilder" where
  "node_NewListBuilder = \<lparr>lb_list = [], lb_filters = None\<rparr>"

definition node_WithObject :: "Node list \<Rightarrow> Node ListBuilder \<Rightarrow> Node ListBuilder" where
  "node_WithObject nodes b = b\<lparr>lb_list := lb_list b @ nodes\<rparr>"

definition node_WithAPIObject :: "Node list \<Rightarrow> Node ListBuilder \<Rightarrow> Node ListBuilder" where
  "node_WithAPIObject nodes b = fold (\<lambda>n b. b\<lparr>lb_list := lb_list b @ [n]\<rparr>) nodes b"

definition node_WithAPIList :: "Node list option \<Rightarrow> Node ListBuilder \<Rightarrow> Node ListBuilder" where
  "node_WithAPIList nodes b = (case nodes of None \<Rightarrow> b | Some Items \<Rightarrow> node_WithAPIObject Items b)"

fun node_all :: "Node predicate list \<Rightarrow> Node \<Rightarrow> bool" where
  "node_all [] n = True"
| "node_all (pred # l) n = (if \<not> pred n then False else node_all l n)"

text \<open>The early return of this one tests \<open>filters == nil && len(filters) == 0\<close>: an empty slice of filters
  that is not nil goes through the loop.\<close>

definition node_ListItems :: "Node ListBuilder \<Rightarrow> Node list" where
  "node_ListItems b = (case lb_filters b of None \<Rightarrow> lb_list b
   | Some fs \<Rightarrow> keep_all (node_all fs) (lb_list b) [])"

definition node_WithFilter :: "Node predicate list \<Rightarrow> Node ListBuilder \<Rightarrow> Node ListBuilder" where
  "node_WithFilter pred b = b\<lparr>lb_filters := append_slice (lb_filters b) pred\<rparr>"

definition node_ToAPIList :: "Node list \<Rightarrow> Node list" where
  "node_ToAPIList items = fold (\<lambda>n nlist. nlist @ [n]) items []"

fun node_IsReady :: "NodeCondition list \<Rightarrow> bool" where
  "node_IsReady [] = False"
| "node_IsReady (c # conds) =
     (if cond_Reason c = ''KubeletReady'' \<and> cond_Type c = ''Ready'' then True else node_IsReady conds)"

lemma node_WithAPIObject_eq: "node_WithAPIObject nodes b = node_WithObject nodes b"
  unfolding node_WithAPIObject_def node_WithObject_def by (induction nodes arbitrary: b) auto

lemma node_all_list_all: "node_all ps = (\<lambda>x. list_all (\<lambda>p. p x) ps)"
  by (rule ext) (induction ps; simp)

interpretation nodel: filtered_list node_NewListBuilder "\<lambda>xs. node_WithAPIList (Some xs)" node_WithFilter
    node_ListItems lb_list "\<lambda>b. slice_list (lb_filters b)"
  by unfold_locales (auto simp: node_NewListBuilder_def node_WithAPIList_def node_WithAPIObject_eq
      node_WithObject_def node_WithFilter_def node_ListItems_def keep_all_filter node_all_list_all split: option.split)

text \<open>C38: selecting attachments by labels and healthy volumes. A list built from API objects and filtered
  by any number of groups of predicates holds exactly the objects that satisfy all of them, in order;
  stated for the label filter of attachments, for CStorVolumes and for nodes.\<close>

theorem list_builders_filter:
  "cva_ListItems (fold cva_WithFilter [[cva_HasLabels kvs], qs] (cva_ListBuilderFrom vols)) =
     filter (\<lambda>v. list_all (\<lambda>(k, x). \<exists>m. cva_Labels v = Some m \<and> map_of m k = Some x) kvs \<and> list_all (\<lambda>q. q v) qs) vols
   \<and> cv_ListItems (fold cv_WithFilter pss (cv_WithAPIList (Some cvs) cv_NewListBuilder)) =
     filter (\<lambda>v. list_all (\<lambda>q. q v) (concat pss)) cvs
   \<and> node_ListItems (fold node_WithFilter nss (node_WithAPIList (Some ns) node_NewListBuilder)) =
     filter (\<lambda>v. list_all (\<lambda>q. q v) (concat nss)) ns"
  unfolding cva_ListBuilderFrom_eq cval.listed_filters cvl.listed_filters nodel.listed_filters
  by (simp add: cva_HasLabels_iff)

end
