(* ===== verification/ISCSI.thy ===== *)
theory ISCSI
  imports Host
begin

section \<open>The iSCSI utilities: pkg/iscsi\<close>

text \<open>
  iscsi.go, iscsi_util.go, iscsi_extra_utils.go and mount.go: discovery and login of a disk, waiting for
  its device, detaching it, and resizing its file system. Commands are run through \<open>h_Command\<close>. The slice
  that \<open>removeDuplicate\<close> overwrites in place is a list updated by index.
\<close>

record iscsiDisk =
  d_Portals :: "string list"
  d_Iqn :: string
  d_lun :: string
  d_Iface :: string
  d_chapDiscovery :: bool
  d_chapSession :: bool
  d_secret :: gomap
  d_InitiatorName :: string
  d_VolName :: string

record iscsiDiskMounter =
  b_disk :: iscsiDisk
  b_readOnly :: bool
  b_fsType :: string
  b_mountOptions :: "string list"
  b_targetPath :: string

definition portalMounter :: "string \<Rightarrow> string" where
  "portalMounter portal = (if \<not> Contains portal '':'' then portal @ '':3260'' else portal)"

definition zero_disk :: iscsiDisk where
  "zero_disk = \<lparr>d_Portals = [], d_Iqn = [], d_lun = [], d_Iface = [], d_chapDiscovery = False,
     d_chapSession = False, d_secret = [], d_InitiatorName = [], d_VolName = []\<rparr>"

definition getISCSIInfo :: "CStorVolumeAttachment \<Rightarrow> iscsiDisk" where
  "getISCSIInfo vol = zero_disk\<lparr>d_VolName := cva_VolName vol, d_Portals := [portalMounter (cva_TargetPortal vol)],
     d_Iqn := cva_Iqn vol, d_lun := cva_Lun vol, d_Iface := cva_IscsiInterface vol,
     d_chapDiscovery := False, d_chapSession := False\<rparr>"

text \<open>The secret is what \<open>json.Unmarshal\<close> reads from the parameter, nil on an error.\<close>

definition getISCSIInfoFromPV :: "(string \<Rightarrow> gomap) \<Rightarrow> string \<Rightarrow> gomap \<Rightarrow> gerror + iscsiDisk" where
  "getISCSIInfoFromPV parseSecret volName ctx =
     (let tp = gget ctx ''targetPortal''; iqn = gget ctx ''iqn''; lun = gget ctx ''lun'' in
      if tp = [] \<or> iqn = [] \<or> lun = [] then Inl (Errorf ''iSCSI target information is missing'' [])
      else Inr \<lparr>d_Portals = [portalMounter tp], d_Iqn = iqn, d_lun = lun, d_Iface = gget ctx ''iscsiInterface'',
             d_chapDiscovery = (gget ctx ''discoveryCHAPAuth'' = ''true''),
             d_chapSession = (gget ctx ''sessionCHAPAuth'' = ''true''),
             d_secret = parseSecret (gget ctx ''secret''), d_InitiatorName = gget ctx ''initiatorName'', d_VolName = volName\<rparr>)"

subsection \<open>CHAP\<close>

definition chapSt :: "string list" where
  "chapSt = [''discovery.sendtargets.auth.username'', ''discovery.sendtargets.auth.password'',
     ''discovery.sendtargets.auth.username_in'', ''discovery.sendtargets.auth.password_in'']"

definition chapSess :: "string list" where
  "chapSess = [''node.session.auth.username'', ''node.session.auth.password'',
     ''node.session.auth.username_in'', ''node.session.auth.password_in'']"

fun update_keys ::
  "'w host \<Rightarrow> string \<Rightarrow> (string \<Rightarrow> string \<Rightarrow> string list) \<Rightarrow> gomap \<Rightarrow> string list \<Rightarrow> ('w, gerror + unit) go" where
  "update_keys H msg args secret [] = ok"
| "update_keys H msg args secret (k # ks) =
     (let v = gget secret k in
      if 0 < length v then
        bnd (h_Command H ''iscsiadm'' (args k v)) (\<lambda>(out, err). case err of
          Some _ \<Rightarrow> fail (Errorf msg [k, v, out])
        | None \<Rightarrow> update_keys H msg args secret ks)
      else update_keys H msg args secret ks)"

definition updateISCSIDiscoverydb :: "'w host \<Rightarrow> iscsiDisk \<Rightarrow> string \<Rightarrow> ('w, gerror + unit) go" where
  "updateISCSIDiscoverydb H b tp =
     (let args = (\<lambda>k v. [''-m'', ''discoverydb'', ''-t'', ''sendtargets'', ''-p'', tp, ''-I'', d_Iface b, ''-o'', ''update'', ''-n'', k, ''-v'', v]) in
      if \<not> d_chapDiscovery b then ok
      else bnd (h_Command H ''iscsiadm'' (args ''discovery.sendtargets.auth.authmethod'' ''CHAP'')) (\<lambda>(out, err). case err of
        Some _ \<Rightarrow> fail (Errorf ''iscsi: failed to update discoverydb with CHAP, output: %v'' [out])
      | None \<Rightarrow> update_keys H ''iscsi: failed to update discoverydb key %q with value %q error: %v'' args (d_secret b) chapSt))"

definition updateISCSINode :: "'w host \<Rightarrow> iscsiDisk \<Rightarrow> string \<Rightarrow> ('w, gerror + unit) go" where
  "updateISCSINode H b tp =
     (let args = (\<lambda>k v. [''-m'', ''node'', ''-p'', tp, ''-T'', d_Iqn b, ''-I'', d_Iface b, ''-o'', ''update'', ''-n'', k, ''-v'', v]) in
      if \<not> d_chapSession b then ok
      else bnd (h_Command H ''iscsiadm'' (args ''node.session.auth.authmethod'' ''CHAP'')) (\<lambda>(out, err). case err of
        Some _ \<Rightarrow> fail (Errorf ''iscsi: failed to update node with CHAP, output: %v'' [out])
      | None \<Rightarrow> update_keys H ''iscsi: failed to update node session key %q with value %q error: %v'' args (d_secret b) chapSess))"

subsection \<open>Waiting for the device\<close>

text \<open>The recursion argument is the number of attempts left; the device path is returned because the glob
  replaces it.\<close>

fun waitPath :: "'w host \<Rightarrow> string \<Rightarrow> nat \<Rightarrow> string \<Rightarrow> ('w, bool \<times> string) go" where
  "waitPath H path 0 deviceTransport = ret (False, path)"
| "waitPath H path (Suc k) deviceTransport =
     bnd (if deviceTransport = ''tcp'' then bnd (h_Stat H path) (\<lambda>err. ret (err, path))
          else bnd (h_Glob H path) (\<lambda>fpath. case fpath of
            None \<Rightarrow> ret (Some (OsNotExist path), path)
          | Some [] \<Rightarrow> panic ''index out of range''
          | Some (p # _) \<Rightarrow> ret (None, p)))
       (\<lambda>(err, path'). case err of
          None \<Rightarrow> ret (True, path')
        | Some e \<Rightarrow> if \<not> os_IsNotExist (Some e) then ret (False, path')
            else if k = 0 then ret (False, path')
            else andthen (h_Sleep H 1) (waitPath H path' k deviceTransport))"

definition waitForPathToExist :: "'w host \<Rightarrow> string option \<Rightarrow> int \<Rightarrow> string \<Rightarrow> ('w, bool \<times> string option) go" where
  "waitForPathToExist H devicePath maxRetries deviceTransport = (case devicePath of
     None \<Rightarrow> ret (False, None)
   | Some path \<Rightarrow> bnd (waitPath H path (nat maxRetries) deviceTransport) (\<lambda>(b, p). ret (b, Some p)))"

subsection \<open>Output of iscsiadm\<close>

text \<open>The first match of \<open>iface.transport_name = (.*)\<close> followed by a newline, where the dot of the pattern
  stands for any character but a newline.\<close>

fun find_transport :: "string \<Rightarrow> string option" where
  "find_transport [] = None"
| "find_transport (c # cs) =
     (let s = c # cs; rest = drop 23 s in
      if take 5 s = ''iface'' \<and> 23 \<le> length s \<and> s ! 5 \<noteq> CHR 0x0A \<and> take 17 (drop 6 s) = ''transport_name = ''
         \<and> CHR 0x0A \<in> set rest
      then Some (takeWhile (\<lambda>d. d \<noteq> CHR 0x0A) rest) else find_transport cs)"

definition extractTransportname :: "string \<Rightarrow> string" where
  "extractTransportname ifaceOutput = (case find_transport ifaceOutput of
     None \<Rightarrow> []
   | Some iscsiTransport \<Rightarrow> if iscsiTransport = ''<empty>'' then ''tcp'' else iscsiTransport)"

definition removeDuplicate :: "string list \<Rightarrow> string list" where
  "removeDuplicate s =
     (case fold (\<lambda>i (s, m). let v = s ! i in
             if v \<noteq> [] \<and> v \<notin> set m then (s[length m := v], m @ [v]) else (s, m)) [0..<length s] (s, []) of
        (s', m) \<Rightarrow> take (length m) s')"

fun parseLines :: "string list \<Rightarrow> gomap \<Rightarrow> gerror + gomap" where
  "parseLines [] params = Inr params"
| "parseLines (line # ls) params =
     (if \<not> HasPrefix line ''iface.'' \<or> Contains line ''<empty>'' then parseLines ls params
      else (case Fields line of
        [k, eq, v] \<Rightarrow>
          if eq \<noteq> ''='' then Inl (Errorf ''Error: invalid iface setting: %v'' [k, eq, v])
          else if k = ''iface.iscsi_ifacename'' then parseLines ls params
          else parseLines ls (AList.update k v params)
      | iface \<Rightarrow> Inl (Errorf ''Error: invalid iface setting: %v'' iface)))"

definition parseIscsiadmShow :: "string \<Rightarrow> gerror + gomap" where
  "parseIscsiadmShow output = parseLines (Split output (CHR 0x0A)) []"

subsection \<open>Detaching\<close>

definition exit_ISCSI_ERR_SESS_NOT_FOUND :: int where "exit_ISCSI_ERR_SESS_NOT_FOUND = 2"
definition exit_ISCSI_ERR_NO_OBJS_FOUND :: int where "exit_ISCSI_ERR_NO_OBJS_FOUND = 21"

definition ignoreExitCodes :: "gerror option \<Rightarrow> int list \<Rightarrow> gerror option" where
  "ignoreExitCodes err ignoredExitCodes = (case err of
     Some (ExitError c) \<Rightarrow> if c \<in> set ignoredExitCodes then None else err
   | _ \<Rightarrow> err)"

definition iscsiadm :: "'w host \<Rightarrow> string list \<Rightarrow> ('w, gerror + unit) go" where
  "iscsiadm H args = from_err (bnd (h_Command H ''iscsiadm'' args) (\<lambda>(_, err).
     ret (ignoreExitCodes err [exit_ISCSI_ERR_NO_OBJS_FOUND, exit_ISCSI_ERR_SESS_NOT_FOUND])))"

definition logoutArgs :: "string \<Rightarrow> string \<Rightarrow> string \<Rightarrow> bool \<Rightarrow> string list" where
  "logoutArgs portal iqn iface found = [''-m'', ''node'', ''-p'', portal, ''-T'', iqn, ''--logout''] @ (if found then [''-I'', iface] else [])"

definition deleteArgs :: "string \<Rightarrow> string \<Rightarrow> string \<Rightarrow> bool \<Rightarrow> string list" where
  "deleteArgs portal iqn iface found = [''-m'', ''node'', ''-p'', portal, ''-T'', iqn, ''-o'', ''delete''] @ (if found then [''-I'', iface] else [])"

fun logoutPortals :: "'w host \<Rightarrow> string list \<Rightarrow> string \<Rightarrow> string \<Rightarrow> bool \<Rightarrow> ('w, gerror + unit) go" where
  "logoutPortals H [] iqn iface found = ok"
| "logoutPortals H (portal # portals) iqn iface found =
     tryE (iscsiadm H (logoutArgs portal iqn iface found)) (\<lambda>_.
     tryE (iscsiadm H (deleteArgs portal iqn iface found)) (\<lambda>_.
       logoutPortals H portals iqn iface found))"

definition detachISCSIDisk ::
  "'w host \<Rightarrow> string list \<Rightarrow> string \<Rightarrow> string \<Rightarrow> string \<Rightarrow> string \<Rightarrow> bool \<Rightarrow> ('w, gerror + unit) go" where
  "detachISCSIDisk H portals iqn iface volName initiatorName found =
     tryE (logoutPortals H portals iqn iface found) (\<lambda>_.
       if initiatorName \<noteq> [] \<and> found then
         (case portals of
            [] \<Rightarrow> panic ''index out of range''
          | p # _ \<Rightarrow> if iface = p @ '':'' @ volName
              then iscsiadm H [''-m'', ''iface'', ''-I'', iface, ''-o'', ''delete''] else ok)
       else ok)"

definition DetachDisk :: "'w host \<Rightarrow> iscsiDisk \<Rightarrow> string \<Rightarrow> ('w, gerror + unit) go" where
  "DetachDisk H c targetPath =
     tryE (map_err (ErrorfE ''Error checking if path exists: %v'' []) (h_PathExists H targetPath)) (\<lambda>pathExists.
       if \<not> pathExists then ok
       else bnd (h_IsLikelyNotMountPoint H targetPath) (\<lambda>(notMnt, err). case err of
         Some e \<Rightarrow> fail e
       | None \<Rightarrow>
         tryE (if \<not> notMnt then from_err (h_Unmount H targetPath) else ok) (\<lambda>_.
         tryE (h_GetDeviceNameFromMount H targetPath) (\<lambda>(_, cnt).
           if 0 < cnt then fail (Errorf ''iscsi detach failed: volume still mounted at %q mount paths'' [itoa cnt])
           else
             let portals = removeDuplicate (d_Portals c) in
             if length portals = 0
             then fail (Errorf ''iscsi detach disk: failed to detach iscsi disk. Couldn't get connected portals from configurations'' [])
             else
               tryE (map_err (ErrorfE ''failed to finish detachISCSIDisk operation of volume %s, err: %v'' [d_VolName c])
                 (detachISCSIDisk H portals (d_Iqn c) (d_Iface c) (d_VolName c) (d_InitiatorName c) True)) (\<lambda>_.
               from_err (h_RemoveAll H targetPath))))))"

definition UnmountDisk :: "'w host \<Rightarrow> string \<Rightarrow> ('w, gerror + unit) go" where
  "UnmountDisk H targetPath =
     tryE (map_err (ErrorfE ''Error checking if path exists: %v'' []) (h_PathExists H targetPath)) (\<lambda>pathExists.
       if \<not> pathExists then ok else from_err (h_Unmount H targetPath))"

definition UnmountAndDetachDisk :: "'w host \<Rightarrow> CStorVolumeAttachment \<Rightarrow> string \<Rightarrow> ('w, gerror + unit) go" where
  "UnmountAndDetachDisk H vol path =
     DetachDisk H (zero_disk\<lparr>d_VolName := cva_VolName vol, d_Portals := [cva_TargetPortal vol], d_Iqn := cva_Iqn vol,
       d_lun := cva_Lun vol, d_Iface := cva_IscsiInterface vol\<rparr>) path"

definition iscsi_Unmount :: "'w host \<Rightarrow> string \<Rightarrow> ('w, gerror + unit) go" where
  "iscsi_Unmount H path = UnmountDisk H path"

subsection \<open>Attaching\<close>

fun updateIface :: "'w host \<Rightarrow> string \<Rightarrow> string \<Rightarrow> string \<Rightarrow> gomap \<Rightarrow> ('w, gerror + unit) go" where
  "updateIface H newIface iface out [] = ok"
| "updateIface H newIface iface out ((key, val) # params) =
     bnd (h_Command H ''iscsiadm'' [''-m'', ''iface'', ''-I'', newIface, ''-o'', ''update'', ''-n'', key, ''-v'', val]) (\<lambda>(_, err).
       case err of
         Some e \<Rightarrow> andthen (h_Command H ''iscsiadm'' [''-m'', ''iface'', ''-I'', newIface, ''-o'', ''delete''])
           (fail (ErrorfE ''iscsi: failed to update iface records: %s (%v). iface(%s) will be used'' [out, iface] e))
       | None \<Rightarrow> updateIface H newIface iface out params)"

definition cloneIface :: "'w host \<Rightarrow> iscsiDisk \<Rightarrow> string \<Rightarrow> ('w, gerror + unit) go" where
  "cloneIface H b newIface =
     bnd (h_Command H ''iscsiadm'' [''-m'', ''iface'', ''-I'', d_Iface b, ''-o'', ''show'']) (\<lambda>(out, err). case err of
       Some e \<Rightarrow> fail (ErrorfE ''iscsi: failed to show iface records: %s (%v)'' [out] e)
     | None \<Rightarrow> (case parseIscsiadmShow out of
         Inl e \<Rightarrow> fail (ErrorfE ''iscsi: failed to parse iface records: %s (%v)'' [out] e)
       | Inr params \<Rightarrow>
         let params = AList.update ''iface.initiatorname'' (d_InitiatorName b) params in
         bnd (h_Command H ''iscsiadm'' [''-m'', ''iface'', ''-I'', newIface, ''-o'', ''new'']) (\<lambda>(out, err). case err of
           Some e \<Rightarrow> fail (ErrorfE ''iscsi: failed to create new iface: %s (%v)'' [out] e)
         | None \<Rightarrow> updateIface H newIface (d_Iface b) out params)))"

definition devicePathFor :: "iscsiDisk \<Rightarrow> string \<Rightarrow> string \<Rightarrow> string" where
  "devicePathFor b iscsiTransport tp =
     (if iscsiTransport = ''tcp''
      then Join [''/dev/disk/by-path/ip'', tp, ''iscsi'', d_Iqn b, ''lun'', d_lun b] ''-''
      else Join [''/dev/disk/by-path/pci'', ''*'', ''ip'', tp, ''iscsi'', d_Iqn b, ''lun'', d_lun b] ''-'')"

text \<open>One round of the loop over the portals. The result is the device path, when the device is there, or
  the error to remember.\<close>

definition attachPortal :: "'w host \<Rightarrow> iscsiDisk \<Rightarrow> string \<Rightarrow> string \<Rightarrow> ('w, gerror + string) go" where
  "attachPortal H b iscsiTransport tp =
     bnd (waitPath H (devicePathFor b iscsiTransport tp) 1 iscsiTransport) (\<lambda>(exists, path).
       if exists then ret (Inr path)
       else
       andthen (h_Command H ''iscsiadm'' [''-m'', ''discoverydb'', ''-t'', ''sendtargets'', ''-p'', tp, ''-I'', d_Iface b, ''-o'', ''new'']) (
       tryE (map_err (ErrorfE ''iscsi: failed to update discoverydb to portal %s error: %v'' [tp]) (updateISCSIDiscoverydb H b tp)) (\<lambda>_.
       bnd (h_Command H ''iscsiadm'' [''-m'', ''discoverydb'', ''-t'', ''sendtargets'', ''-p'', tp, ''-I'', d_Iface b, ''--discover'']) (\<lambda>(out, err).
       case err of
         Some e \<Rightarrow> andthen (h_Command H ''iscsiadm'' [''-m'', ''discoverydb'', ''-t'', ''sendtargets'', ''-p'', tp, ''-I'', d_Iface b, ''-o'', ''delete''])
           (fail (ErrorfE ''iscsi: failed to sendtargets to portal %s output: %s, err %v'' [tp, out] e))
       | None \<Rightarrow>
       tryE (map_err (ErrorfE ''iscsi: failed to update iscsi node to portal %s error: %v'' [tp]) (updateISCSINode H b tp)) (\<lambda>_.
       bnd (h_Command H ''iscsiadm'' [''-m'', ''node'', ''-p'', tp, ''-T'', d_Iqn b, ''-I'', d_Iface b, ''--login'']) (\<lambda>(out, err).
       case err of
         Some e \<Rightarrow> andthen (h_Command H ''iscsiadm'' [''-m'', ''node'', ''-p'', tp, ''-I'', d_Iface b, ''-T'', d_Iqn b, ''-o'', ''delete''])
           (fail (ErrorfE ''iscsi: failed to attach disk: Error: %s (%v)'' [out] e))
       | None \<Rightarrow>
       bnd (waitPath H path 10 iscsiTransport) (\<lambda>(exists, path).
         if \<not> exists then fail (Errorf ''Could not attach disk: Timeout after 10s'' []) else ret (Inr path))))))))"

text \<open>The loop: a rescan, which may fail, then a return when the transport is not known, then the round.
  The inner sum of the result is the early return of the function.\<close>

fun attachPortals ::
  "'w host \<Rightarrow> iscsiDisk \<Rightarrow> string \<Rightarrow> string list \<Rightarrow> string list \<Rightarrow> gerror option \<Rightarrow> ('w, gerror + string list \<times> gerror option) go" where
  "attachPortals H b iscsiTransport [] devicePaths lastErr = ret (Inr (devicePaths, lastErr))"
| "attachPortals H b iscsiTransport (tp # tps) devicePaths lastErr =
     andthen (h_Command H ''iscsiadm'' [''-m'', ''node'', ''-p'', tp, ''-T'', d_Iqn b, ''-R'']) (
     if iscsiTransport = [] then fail (Errorf ''Could not parse iface file for %s'' [d_Iface b])
     else bnd (attachPortal H b iscsiTransport tp) (\<lambda>r. case r of
       Inl e \<Rightarrow> attachPortals H b iscsiTransport tps devicePaths (Some e)
     | Inr path \<Rightarrow> attachPortals H b iscsiTransport tps (devicePaths @ [path]) lastErr))"

fun findMultipath :: "'w host \<Rightarrow> string list \<Rightarrow> string \<Rightarrow> ('w, string) go" where
  "findMultipath H [] devicePath = ret devicePath"
| "findMultipath H (path # paths) devicePath =
     (if path = [] then findMultipath H paths devicePath
      else bnd (h_FindMultipathDeviceForDevice H path) (\<lambda>mapped.
        if mapped \<noteq> [] then ret mapped else findMultipath H paths devicePath))"

text \<open>What follows the loop: giving up when no device appeared, else mounting the device, or the
  multipath device it belongs to, unless the path is mounted already.\<close>

definition mountAttached ::
  "'w host \<Rightarrow> iscsiDiskMounter \<Rightarrow> iscsiDisk \<Rightarrow> string list \<Rightarrow> gerror option \<Rightarrow> ('w, gerror + string \<times> gerror option) go" where
  "mountAttached H bm b devicePaths lastErr = (case devicePaths of
     [] \<Rightarrow> andthen (h_Command H ''iscsiadm'' [''-m'', ''iface'', ''-I'', d_Iface b, ''-o'', ''delete''])
       (fail (case lastErr of
          Some e \<Rightarrow> ErrorfE (''failed to get any path for iscsi disk, last err seen:'' @ [CHR 0x0A] @ ''%v'') [] e
        | None \<Rightarrow> Errorf (''failed to get any path for iscsi disk, last err seen:'' @ [CHR 0x0A] @ ''%v'') [''<nil>'']))
   | first # _ \<Rightarrow>
     bnd (h_IsLikelyNotMountPoint H (b_targetPath bm)) (\<lambda>(notMnt, err).
       if err \<noteq> None \<and> \<not> os_IsNotExist err then fail (ErrorfE ''Heuristic determination of mount point failed:%v'' [] (the err))
       else if \<not> notMnt then ret (Inr ([], None))
       else bnd (findMultipath H devicePaths first) (\<lambda>devicePath.
         bnd (h_FormatAndMount H devicePath (b_targetPath bm) (b_fsType bm)
               ((if b_readOnly bm then [''ro''] else [''rw'']) @ b_mountOptions bm)) (\<lambda>err.
           ret (Inr (devicePath, err))))))"

definition attachAndMount ::
  "'w host \<Rightarrow> iscsiDiskMounter \<Rightarrow> string \<Rightarrow> ('w, gerror + string \<times> gerror option) go" where
  "attachAndMount H bm iscsiTransport =
     (let disk = b_disk bm in
      tryE (if d_InitiatorName disk \<noteq> [] then
              (case d_Portals disk of
                 [] \<Rightarrow> panic ''index out of range''
               | p # _ \<Rightarrow> tryE (cloneIface H disk (p @ '':'' @ d_VolName disk)) (\<lambda>_. ret (Inr (disk\<lparr>d_Iface := p @ '':'' @ d_VolName disk\<rparr>))))
            else ret (Inr disk)) (\<lambda>b.
      tryE (attachPortals H b iscsiTransport (d_Portals disk) [] None) (\<lambda>(devicePaths, lastErr).
        mountAttached H bm b devicePaths lastErr)))"

text \<open>The value and the error that \<open>AttachDisk\<close> returns. The path is returned also when mounting failed.\<close>

definition AttachDisk :: "'w host \<Rightarrow> iscsiDiskMounter \<Rightarrow> ('w, string \<times> gerror option) go" where
  "AttachDisk H bm =
     bnd (h_Command H ''iscsiadm'' [''-m'', ''iface'', ''-I'', d_Iface (b_disk bm), ''-o'', ''show'']) (\<lambda>(out, err). case err of
       Some e \<Rightarrow> ret ([], Some e)
     | None \<Rightarrow> bnd (attachAndMount H bm (extractTransportname out)) (\<lambda>r. case r of
         Inl e \<Rightarrow> ret ([], Some e) | Inr x \<Rightarrow> ret x))"

subsection \<open>Resizing\<close>

definition run_command :: "'w host \<Rightarrow> string \<Rightarrow> string list \<Rightarrow> ('w, gerror + unit) go" where
  "run_command H cmd args = from_err (bnd (h_Command H cmd args) (\<lambda>(_, err). ret err))"

definition ReScan :: "'w host \<Rightarrow> string \<Rightarrow> string \<Rightarrow> ('w, gerror + unit) go" where
  "ReScan H iqn targetPortal = run_command H ''iscsiadm'' [''-m'', ''node'', ''-T'', iqn, ''-P'', targetPortal, ''--rescan'']"

definition ResizeExt4 :: "'w host \<Rightarrow> string \<Rightarrow> ('w, gerror + unit) go" where
  "ResizeExt4 H path = run_command H ''resize2fs'' [path]"

definition ResizeXFS :: "'w host \<Rightarrow> string \<Rightarrow> ('w, gerror + unit) go" where
  "ResizeXFS H path = run_command H ''xfs_growfs'' [path]"

fun resizeMounted :: "'w host \<Rightarrow> string \<Rightarrow> CStorVolumeAttachment \<Rightarrow> MountPoint list \<Rightarrow> ('w, gerror + unit) go" where
  "resizeMounted H volumePath vol [] = ok"
| "resizeMounted H volumePath vol (mpt # mpts) =
     (if mp_Path mpt = volumePath then
        tryE (ReScan H (cva_Iqn vol) (cva_TargetPortal vol)) (\<lambda>_.
          if cva_FSType vol = ''ext4'' then ResizeExt4 H (mp_Device mpt)
          else if cva_FSType vol = ''xfs'' then ResizeXFS H volumePath
          else ok)
      else resizeMounted H volumePath vol mpts)"

text \<open>The error of the list of mounts is dropped; the list is then empty.\<close>

definition iscsi_ResizeVolume :: "'w host \<Rightarrow> string \<Rightarrow> CStorVolumeAttachment \<Rightarrow> ('w, gerror + unit) go" where
  "iscsi_ResizeVolume H volumePath vol =
     bnd (h_List H) (\<lambda>r. resizeMounted H volumePath vol (case r of Inr mounts \<Rightarrow> mounts | Inl _ \<Rightarrow> []))"

end
