(* ===== verification/Node_State.thy ===== *)
theory Node_State
  imports ISCSI Volume_Ops
begin

section \<open>State of the node service: the lists of volumes in transition\<close>

text \<open>
  \<open>TransitionVolList\<close> and \<open>ReqMountList\<close> of pkg/utils/utils.go with the operations of driver/utils.go on
  them. The lists are guarded by one lock that is held only for the operations themselves, so each
  operation is one step. \<open>nstate\<close> adds the lists to the world of cluster and host; \<open>on_world\<close> runs a
  computation of the world. \<open>with_transition\<close> is the frame of every node handler: enter the volume or
  answer busy, and leave it on the way out whatever happens (\<open>defer\<close>).
\<close>

datatype cva_status = Uninitialized | ResizeInProgress | MountUnderProgress | Mounted | UnmountUnderProgress |
  Unmounted | RemountUnderProgress | WaitingForCVCBound | WaitingForVolumeToBeReady

record 'w nstate =
  TransitionVolList :: "string \<rightharpoonup> cva_status"
  ReqMountList :: "string \<rightharpoonup> cva_status"
  world :: 'w

definition on_world :: "('w, 'a) go \<Rightarrow> ('w nstate, 'a) go" where
  "on_world m = (\<lambda>s. case m (world s) of (r, w) \<Rightarrow> (r, s\<lparr>world := w\<rparr>))"

definition setTransition :: "string \<Rightarrow> cva_status \<Rightarrow> ('w nstate, unit) go" where
  "setTransition volumeID status = modify (\<lambda>s. s\<lparr>TransitionVolList := (TransitionVolList s)(volumeID \<mapsto> status)\<rparr>)"

definition removeVolumeFromTransitionList :: "string \<Rightarrow> ('w nstate, unit) go" where
  "removeVolumeFromTransitionList volumeID =
     modify (\<lambda>s. s\<lparr>TransitionVolList := (TransitionVolList s)(volumeID := None)\<rparr>)"

definition show_status :: "cva_status \<Rightarrow> string" where
  "show_status st = (case st of Uninitialized \<Rightarrow> [] | ResizeInProgress \<Rightarrow> ''ResizeInProgress''
    | MountUnderProgress \<Rightarrow> ''MountUnderProgress'' | Mounted \<Rightarrow> ''Mounted'' | UnmountUnderProgress \<Rightarrow> ''UnmountUnderProgress''
    | Unmounted \<Rightarrow> ''Unmounted'' | RemountUnderProgress \<Rightarrow> ''RemountUnderProgress''
    | WaitingForCVCBound \<Rightarrow> ''WaitingForCVCBound'' | WaitingForVolumeToBeReady \<Rightarrow> ''WaitingForVolumeToBeReady'')"

definition addVolumeToTransitionList :: "string \<Rightarrow> cva_status \<Rightarrow> ('w nstate, gerror + unit) go" where
  "addVolumeToTransitionList volumeID status =
     bnd (asks (\<lambda>s. TransitionVolList s volumeID)) (\<lambda>entry. case entry of
       Some st \<Rightarrow> fail (Errorf ''Volume %s Busy, status: %v'' [volumeID, show_status st])
     | None \<Rightarrow> andthen (setTransition volumeID status) ok)"

definition with_transition ::
  "string \<Rightarrow> cva_status \<Rightarrow> (gerror \<Rightarrow> gerror) \<Rightarrow> ('w nstate, gerror + 'a) go \<Rightarrow> ('w nstate, gerror + 'a) go" where
  "with_transition volumeID status wrap body =
     tryE (map_err wrap (addVolumeToTransitionList volumeID status))
       (\<lambda>_. deferred (removeVolumeFromTransitionList volumeID) body)"

subsection \<open>What a handler may touch\<close>

text \<open>\<open>only v\<close>: no other volume's entry and no remount request changed.\<close>

definition only :: "string \<Rightarrow> 'w nstate \<Rightarrow> 'w nstate \<Rightarrow> bool" where
  "only v s t = ((\<forall>w. w \<noteq> v \<longrightarrow> TransitionVolList t w = TransitionVolList s w) \<and> ReqMountList t = ReqMountList s)"

lemma prel_only [simp]: "prel (only v)"
  by (auto simp: prel_def only_def)

lemma only_on_world [pres_rules]: "pres (only v) (on_world m)"
  by (auto simp: pres_def on_world_def only_def split: prod.split)

lemma only_setTransition [pres_rules]: "pres (only v) (setTransition v st)"
  by (auto simp: pres_def setTransition_def only_def)

lemma only_remove [pres_rules]: "pres (only v) (removeVolumeFromTransitionList v)"
  by (auto simp: pres_def removeVolumeFromTransitionList_def only_def)

text \<open>The contract of the frame, for a body that touches only its own volume.\<close>

lemma with_transition_busy:
  "TransitionVolList s v = Some st \<Longrightarrow>
   with_transition v st0 wrap body s = (Return (Inl (wrap (Errorf ''Volume %s Busy, status: %v'' [v, show_status st]))), s)"
  by (simp add: with_transition_def addVolumeToTransitionList_def tryE_def map_err_def bnd_def)

lemma with_transition_free:
  "TransitionVolList s v = None \<Longrightarrow>
   with_transition v st0 wrap body s =
     deferred (removeVolumeFromTransitionList v) body (s\<lparr>TransitionVolList := (TransitionVolList s)(v \<mapsto> st0)\<rparr>)"
  by (simp add: with_transition_def addVolumeToTransitionList_def tryE_def map_err_def bnd_def andthen_def setTransition_def)

lemma deferred_remove_snd:
  "TransitionVolList (snd (deferred (removeVolumeFromTransitionList v) body s)) = (TransitionVolList (snd (body s)))(v := None)"
  by (simp add: deferred_snd removeVolumeFromTransitionList_def)

lemma with_transition_Inr:
  assumes run: "with_transition v st wrap body s = (Return (Inr r), s')"
  shows "TransitionVolList s v = None \<and>
    (\<exists>t. body (s\<lparr>TransitionVolList := (TransitionVolList s)(v \<mapsto> st)\<rparr>) = (Return (Inr r), t) \<and> world s' = world t)"
proof (cases "TransitionVolList s v")
  case None
  with run show ?thesis
    by (auto simp: with_transition_free [OF None] deferred_def removeVolumeFromTransitionList_def split: prod.splits)
next
  case (Some st')
  with run show ?thesis by (simp add: with_transition_busy)
qed

text \<open>The law every handler that is framed this way obeys, on every outcome: the transition list is as
  before. The locale names the handler, the check of its request that comes first, and its body; the node
  service interprets it for each handler.\<close>

locale framed_handler =
  fixes handler :: "'w nstate \<Rightarrow> (gerror + 'a) outcome \<times> 'w nstate"
    and check :: "gerror + unit"
    and volume :: string and status :: cva_status and wrap :: "gerror \<Rightarrow> gerror"
    and body :: "('w nstate, gerror + 'a) go"
  assumes framed: "handler = tryE (ret check) (\<lambda>_. with_transition volume status wrap body)"
    and confined: "pres (only volume) body"
begin

lemma rejected: "check = Inl e \<Longrightarrow> handler s = (Return (Inl e), s)"
  by (simp add: framed)

lemma accepted: "check = Inr u \<Longrightarrow> handler = with_transition volume status wrap body"
  by (simp add: framed)

lemma busy_refused:
  "check = Inr u \<Longrightarrow> TransitionVolList s volume = Some st \<Longrightarrow>
   handler s = (Return (Inl (wrap (Errorf ''Volume %s Busy, status: %v'' [volume, show_status st]))), s)"
  by (simp add: accepted with_transition_busy)

theorem released: "TransitionVolList (snd (handler s)) = TransitionVolList s \<and> ReqMountList (snd (handler s)) = ReqMountList s"
proof (cases check)
  case (Inl e)
  then show ?thesis by (simp add: rejected)
next
  case (Inr u)
  show ?thesis
  proof (cases "TransitionVolList s volume")
    case None
    let ?s = "s\<lparr>TransitionVolList := (TransitionVolList s)(volume \<mapsto> status)\<rparr>"
    have "only volume ?s (snd (body ?s))" by (rule presD [OF confined])
    then have "(TransitionVolList (snd (body ?s)))(volume := None) = TransitionVolList s"
      "ReqMountList (snd (body ?s)) = ReqMountList s"
      using None by (auto simp: only_def fun_eq_iff)
    then show ?thesis
      by (simp add: accepted [OF Inr] with_transition_free [OF None] deferred_remove_snd)
        (simp add: deferred_snd removeVolumeFromTransitionList_def)
  next
    case (Some st)
    with Inr show ?thesis by (simp add: busy_refused)
  qed
qed

lemma success_body:
  "handler s = (Return (Inr r), s') \<Longrightarrow> check = Inr () \<and> TransitionVolList s volume = None \<and>
    (\<exists>t. body (s\<lparr>TransitionVolList := (TransitionVolList s)(volume \<mapsto> status)\<rparr>) = (Return (Inr r), t) \<and> world s' = world t)"
  by (cases check) (auto simp: rejected accepted dest!: with_transition_Inr)

end

end
