(* ===== verification/Node_Utils.thy ===== *)
theory Node_Utils
  imports Node_State
begin

section \<open>Waiting, remounting and cleaning up: pkg/utils/utils.go, pkg/utils/mount.go\<close>

text \<open>
  The helpers of the node service. What runs in a goroutine of its own is a computation that the
  spawning function returns as a job: \<open>monitorTick\<close> is one round of the endless loop of \<open>MonitorMounts\<close>
  and gives the remounts it started, \<open>Cleanup\<close> gives the cleanups it started. Both hold the lock of the
  lists from beginning to end, so a round is one step; the jobs interleave with everything else.
  Constant \<open>VolumeWaitRetryCount\<close> bounds both waiting loops.
\<close>

definition VolumeWaitTimeout :: nat where "VolumeWaitTimeout = 2"
definition VolumeWaitRetryCount :: nat where "VolumeWaitRetryCount = 6"

subsection \<open>Endpoints and mount points\<close>

text \<open>\<open>strings.SplitN(s, sep, 2)\<close>: the text before and after the first occurrence of the separator.\<close>

fun SplitN2 :: "string \<Rightarrow> string \<Rightarrow> string list" where
  "SplitN2 [] sep = [[]]"
| "SplitN2 (c # cs) sep =
     (if prefix sep (c # cs) then [[], drop (length sep) (c # cs)]
      else (case SplitN2 cs sep of p # ps \<Rightarrow> (c # p) # ps | [] \<Rightarrow> [[c]]))"

definition parseEndpoint :: "string \<Rightarrow> gerror + string \<times> string" where
  "parseEndpoint ep =
     (let bad = Inl (Errorf ''Invalid endpoint: %v'' [ep]) in
      if HasPrefix (ToLower ep) ''unix://'' \<or> HasPrefix (ToLower ep) ''tcp://'' then
        (let s = SplitN2 ep ''://'' in if s ! 1 \<noteq> [] then Inr (s ! 0, s ! 1) else bad)
      else bad)"

definition ChmodMountPath :: "'w host \<Rightarrow> string \<Rightarrow> ('w, gerror option) go" where
  "ChmodMountPath H mountPath = h_Chmod H mountPath 0"

definition GetDeviceName :: "'w host \<Rightarrow> string \<Rightarrow> ('w, gerror + string \<times> int) go" where
  "GetDeviceName H mountPath = h_GetDeviceNameFromMount H mountPath"

text \<open>File modes are written in octal in the source: 0644 is 420, 0755 is 493.\<close>

definition MakeFile :: "'w host \<Rightarrow> string \<Rightarrow> ('w, gerror + unit) go" where
  "MakeFile H pathname = bnd (h_OpenCreate H pathname 420) (\<lambda>err. case err of
     Some e \<Rightarrow> if \<not> os_IsExist (Some e) then fail e else ok
   | None \<Rightarrow> ok)"

definition MakeDir :: "'w host \<Rightarrow> string \<Rightarrow> ('w, gerror + unit) go" where
  "MakeDir H pathname = bnd (h_MkdirAll H pathname 493) (\<lambda>err. case err of
     Some e \<Rightarrow> if \<not> os_IsExist (Some e) then fail e else ok
   | None \<Rightarrow> ok)"

definition ExistsPath :: "'w host \<Rightarrow> string \<Rightarrow> ('w, gerror + bool) go" where
  "ExistsPath H pathname = h_PathExists H pathname"

definition listContains :: "string \<Rightarrow> MountPoint list \<Rightarrow> MountPoint option" where
  "listContains mountPath xs = find (\<lambda>info. mp_Path info = mountPath) xs"

definition verifyMountOpts :: "string list \<Rightarrow> string \<Rightarrow> bool" where
  "verifyMountOpts opts desiredOpt = list_ex (\<lambda>opt. opt = desiredOpt) opts"

definition GetMounts :: "'w host \<Rightarrow> string \<Rightarrow> ('w, gerror + string list) go" where
  "GetMounts H volumeID =
     tryE (h_List H) (\<lambda>mountList.
       ret (Inr (map mp_Path (filter (\<lambda>mntInfo. Contains (mp_Path mntInfo) volumeID) mountList))))"

subsection \<open>Waiting for a volume\<close>

function waitReachable :: "'w host \<Rightarrow> string \<Rightarrow> string \<Rightarrow> nat \<Rightarrow> ('w, gerror + unit) go" where
  "waitReachable H volumeID targetPortal retries =
     bnd (h_Dial H targetPortal) (\<lambda>r. case r of
       Inr conn \<Rightarrow> andthen (h_CloseConn H conn) ok
     | Inl err \<Rightarrow> andthen (h_Sleep H VolumeWaitTimeout)
         (if VolumeWaitRetryCount \<le> retries + 1
          then fail (ErrorfE ''iSCSI Target not reachable for %s, TargetPortal %v, err:%v'' [volumeID, targetPortal] err)
          else waitReachable H volumeID targetPortal (retries + 1)))"
  by pat_completeness auto
termination
  by (relation "measure (\<lambda>(H, v, p, retries). VolumeWaitRetryCount - retries)") auto

declare waitReachable.simps [simp del]

definition WaitForVolumeToBeReachable :: "'w host \<Rightarrow> string \<Rightarrow> string \<Rightarrow> ('w, gerror + unit) go" where
  "WaitForVolumeToBeReachable H volumeID targetPortal = waitReachable H volumeID targetPortal 0"

definition serves :: "string \<Rightarrow> bool" where
  "serves volStatus = (volStatus = ''Healthy'' \<or> volStatus = ''Degraded'')"

function waitReady :: "'w kube \<Rightarrow> 'w host \<Rightarrow> utils_globals \<Rightarrow> string \<Rightarrow> nat \<Rightarrow> ('w nstate, gerror + unit) go" where
  "waitReady X H G volumeID retries =
     tryE (on_world (getVolStatus X G volumeID)) (\<lambda>volStatus.
       if serves volStatus then ok
       else if VolumeWaitRetryCount \<le> retries
       then fail (Errorf ''Volume %s is not ready: Replicas yet to connect to controller'' [volumeID])
       else andthen (setTransition volumeID WaitingForVolumeToBeReady)
         (andthen (on_world (h_Sleep H VolumeWaitTimeout)) (waitReady X H G volumeID (retries + 1))))"
  by pat_completeness auto
termination
  by (relation "measure (\<lambda>(X, H, G, v, retries). VolumeWaitRetryCount - retries)") auto

declare waitReady.simps [simp del]

definition WaitForVolumeToBeReady :: "'w kube \<Rightarrow> 'w host \<Rightarrow> utils_globals \<Rightarrow> string \<Rightarrow> ('w nstate, gerror + unit) go" where
  "WaitForVolumeToBeReady X H G volumeID = waitReady X H G volumeID 0"

definition IsVolumeReachable :: "'w host \<Rightarrow> string \<Rightarrow> string \<Rightarrow> ('w, bool \<times> gerror option) go" where
  "IsVolumeReachable H volumeID targetPortal = bnd (h_Dial H targetPortal) (\<lambda>r. case r of
     Inr conn \<Rightarrow> andthen (h_CloseConn H conn) (ret (True, None))
   | Inl err \<Rightarrow> ret (False, Some err))"

definition IsVolumeReady :: "'w kube \<Rightarrow> utils_globals \<Rightarrow> string \<Rightarrow> ('w, bool \<times> gerror option) go" where
  "IsVolumeReady X G volumeID = bnd (getVolStatus X G volumeID) (\<lambda>r. case r of
     Inl err \<Rightarrow> ret (False, Some err)
   | Inr volStatus \<Rightarrow> if serves volStatus then ret (True, None) else ret (False, None))"

definition WaitForVolumeReadyAndReachable ::
  "'w kube \<Rightarrow> 'w host \<Rightarrow> utils_globals \<Rightarrow> CStorVolumeAttachment \<Rightarrow> ('w nstate, gerror + unit) go" where
  "WaitForVolumeReadyAndReachable X H G vol =
     tryE (WaitForVolumeToBeReady X H G (cva_VolName vol)) (\<lambda>_.
       on_world (WaitForVolumeToBeReachable H (cva_VolName vol) (cva_TargetPortal vol)))"

subsection \<open>Remounting\<close>

text \<open>The errors of the two unmounts are dropped.\<close>

definition RemountVolume ::
  "'w kube \<Rightarrow> 'w host \<Rightarrow> utils_globals \<Rightarrow> bool \<Rightarrow> bool \<Rightarrow> CStorVolumeAttachment \<Rightarrow> ('w, gerror + unit) go" where
  "RemountVolume X H G stagingPathExists targetPathExists vol =
     bnd (IsVolumeReady X G (cva_VolName vol)) (\<lambda>(ready, err).
       if err \<noteq> None \<or> \<not> ready then fail (Errorf ''Volume %s is not ready'' [cva_VolName vol])
       else bnd (IsVolumeReachable H (cva_VolName vol) (cva_TargetPortal vol)) (\<lambda>(reachable, err).
         if err \<noteq> None \<or> \<not> reachable then fail (Errorf ''Volume %s is not reachable'' [cva_VolName vol])
         else
           bnd (if stagingPathExists then bnd (h_Unmount H (cva_StagingTargetPath vol)) (\<lambda>_. ret ()) else ret ()) (\<lambda>_.
           bnd (if targetPathExists then bnd (h_Unmount H (cva_TargetPath vol)) (\<lambda>_. ret ()) else ret ()) (\<lambda>_.
           tryE (from_err (h_Mount H (cva_DevicePath vol) (cva_StagingTargetPath vol) [] [''rw''])) (\<lambda>_.
             from_err (h_Mount H (cva_StagingTargetPath vol) (cva_TargetPath vol) [] [''bind'']))))))"

record remount_job =
  rj_stagingPathExists :: bool
  rj_targetPathExists :: bool
  rj_vol :: CStorVolumeAttachment

definition requestMount :: "string \<Rightarrow> ('w nstate, unit) go" where
  "requestMount v = andthen (setTransition v RemountUnderProgress)
     (modify (\<lambda>s. s\<lparr>ReqMountList := (ReqMountList s)(v \<mapsto> RemountUnderProgress)\<rparr>))"

text \<open>What the loop over the attachments does with one of them: whether its mounts are in good shape.\<close>

definition mountedWell :: "MountPoint list \<Rightarrow> CStorVolumeAttachment \<Rightarrow> bool" where
  "mountedWell mountList vol = (case listContains (cva_StagingTargetPath vol) mountList of
     Some stagingMountPoint \<Rightarrow> listContains (cva_TargetPath vol) mountList \<noteq> None \<and> verifyMountOpts (mp_Opts stagingMountPoint) ''rw''
   | None \<Rightarrow> False)"

definition remountJobFor :: "MountPoint list \<Rightarrow> CStorVolumeAttachment \<Rightarrow> remount_job" where
  "remountJobFor mountList vol = \<lparr>rj_stagingPathExists = (listContains (cva_StagingTargetPath vol) mountList \<noteq> None),
     rj_targetPathExists = (listContains (cva_TargetPath vol) mountList \<noteq> None), rj_vol = vol\<rparr>"

fun monitorItems :: "MountPoint list \<Rightarrow> CStorVolumeAttachment list \<Rightarrow> ('w nstate, bool \<times> remount_job list) go" where
  "monitorItems mountList [] = ret (False, [])"
| "monitorItems mountList (vol # vols) =
     (if cva_DeletionTimestamp vol \<noteq> None then bnd (monitorItems mountList vols) (\<lambda>(_, jobs). ret (True, jobs))
      else if cva_AccessType vol = ''block'' then monitorItems mountList vols
      else if cva_StagingTargetPath vol = [] \<or> cva_TargetPath vol = [] then monitorItems mountList vols
      else if mountedWell mountList vol then monitorItems mountList vols
      else bnd (asks (\<lambda>s. TransitionVolList s (cva_VolName vol))) (\<lambda>entry. case entry of
        Some _ \<Rightarrow> monitorItems mountList vols
      | None \<Rightarrow> andthen (requestMount (cva_VolName vol))
          (bnd (monitorItems mountList vols) (\<lambda>(cleanupRequired, jobs).
             ret (cleanupRequired, remountJobFor mountList vol # jobs)))))"

definition monitorTick :: "'w kube \<Rightarrow> 'w host \<Rightarrow> utils_globals \<Rightarrow> ('w nstate, bool \<times> remount_job list) go" where
  "monitorTick X H G =
     bnd (on_world (h_List H)) (\<lambda>r. case r of
       Inl _ \<Rightarrow> ret (False, [])
     | Inr mountList \<Rightarrow> bnd (on_world (GetVolListForNode X G)) (\<lambda>(csivolList, err). case err of
         Some _ \<Rightarrow> ret (False, [])
       | None \<Rightarrow> bnd (deref csivolList) (monitorItems mountList)))"

definition remountJob :: "'w kube \<Rightarrow> 'w host \<Rightarrow> utils_globals \<Rightarrow> remount_job \<Rightarrow> ('w nstate, unit) go" where
  "remountJob X H G j =
     (let name = cva_VolName (rj_vol j) in
      deferred (andthen (removeVolumeFromTransitionList name) (modify (\<lambda>s. s\<lparr>ReqMountList := (ReqMountList s)(name := None)\<rparr>)))
        (bnd (on_world (RemountVolume X H G (rj_stagingPathExists j) (rj_targetPathExists j) (rj_vol j))) (\<lambda>_. ret ())))"

subsection \<open>Cleaning up\<close>

text \<open>The list is read at most five times; the argument is the number of attempts left.\<close>

fun cleanupList :: "'w kube \<Rightarrow> 'w host \<Rightarrow> utils_globals \<Rightarrow> nat \<Rightarrow> ('w, CStorVolumeAttachment list perr) go" where
  "cleanupList X H G 0 = ret (None, None)"
| "cleanupList X H G (Suc k) =
     bnd (GetVolListForNode X G) (\<lambda>(csivolList, err). case err of
       None \<Rightarrow> ret (csivolList, None)
     | Some e \<Rightarrow> andthen (h_Sleep H 1) (if k = 0 then ret (csivolList, Some e) else cleanupList X H G k))"

fun cleanupItems :: "CStorVolumeAttachment list \<Rightarrow> ('w nstate, CStorVolumeAttachment list) go" where
  "cleanupItems [] = ret []"
| "cleanupItems (vol # vols) =
     (if cva_DeletionTimestamp vol = None then cleanupItems vols
      else andthen (setTransition (cva_VolName vol) UnmountUnderProgress)
        (bnd (cleanupItems vols) (\<lambda>jobs. ret (vol # jobs))))"

definition Cleanup :: "'w kube \<Rightarrow> 'w host \<Rightarrow> utils_globals \<Rightarrow> ('w nstate, gerror + CStorVolumeAttachment list) go" where
  "Cleanup X H G =
     tryP (on_world (cleanupList X H G 5)) (\<lambda>csivolList.
       bnd (cleanupItems csivolList) (\<lambda>jobs. ret (Inr jobs)))"

text \<open>The goroutine of one cleanup. The result of the update replaces \<open>vol\<close> also when the update
  failed, and the entry that is deleted is the one of that result.\<close>

definition cleanupJob :: "'w kube \<Rightarrow> 'w host \<Rightarrow> utils_globals \<Rightarrow> CStorVolumeAttachment \<Rightarrow> ('w nstate, unit) go" where
  "cleanupJob X H G vol =
     bnd (on_world (UnmountAndDetachDisk H vol (cva_StagingTargetPath vol))) (\<lambda>r.
     bnd (case r of
            Inr _ \<Rightarrow> bnd (on_world (UpdateCStorVolumeAttachmentCR X G (Some (vol\<lparr>cva_Finalizers := None\<rparr>)))) (\<lambda>(vol', err). ret vol')
          | Inl _ \<Rightarrow> ret (Some vol)) (\<lambda>vol'.
     bnd (deref vol') (\<lambda>v. removeVolumeFromTransitionList (cva_VolName v))))"

text \<open>One round of the loop of \<open>MonitorMounts\<close>: the jobs it starts.\<close>

datatype job = RemountJob remount_job | CleanupJob CStorVolumeAttachment

definition MonitorMounts_round :: "'w kube \<Rightarrow> 'w host \<Rightarrow> utils_globals \<Rightarrow> ('w nstate, job list) go" where
  "MonitorMounts_round X H G =
     bnd (monitorTick X H G) (\<lambda>(cleanupRequired, remounts).
       if cleanupRequired then bnd (Cleanup X H G) (\<lambda>r.
         ret (map RemountJob remounts @ (case r of Inr jobs \<Rightarrow> map CleanupJob jobs | Inl _ \<Rightarrow> [])))
       else ret (map RemountJob remounts))"

end
