(* ===== verification/Node_Service.thy ===== *)
theory Node_Service
  imports Node_Utils
begin

section \<open>The node service: pkg/driver/node.go, pkg/driver/node_utils.go\<close>

text \<open>
  The handlers of the CSI node service, whole. A handler that works on a volume enters it in the transition
  list first and leaves it by a deferred call (\<open>with_transition\<close>); what it does in between is its \<open>_body\<close>.
  \<open>status.Error(codes.Internal, err.Error())\<close> is \<open>internal err\<close>. The node's own id comes from two places in
  the code, the configuration of the driver (\<open>n_NodeID\<close>) and the environment (\<open>NodeIDENV\<close>), and they are
  kept apart here too. Octal file modes: 0750 is 488.
\<close>

datatype node_rpc = STAGE_UNSTAGE_VOLUME | EXPAND_VOLUME_NODE | GET_VOLUME_STATS

record node =
  n_NodeID :: string
  n_capabilities :: "node_rpc list"

record VolumeStatistics =
  availableBytes :: int64
  totalBytes :: int64
  usedBytes :: int64
  availableInodes :: int64
  totalInodes :: int64
  usedInodes :: int64

record NodeStageVolumeRequest =
  stg_VolumeId :: string
  stg_StagingTargetPath :: string
  stg_VolumeCapability :: "VolumeCapability option"

record NodeUnstageVolumeRequest =
  ust_VolumeId :: string
  ust_StagingTargetPath :: string

record NodePublishVolumeRequest =
  pub_VolumeId :: string
  pub_StagingTargetPath :: string
  pub_TargetPath :: string
  pub_VolumeCapability :: "VolumeCapability option"
  pub_Readonly :: bool

record NodeUnpublishVolumeRequest =
  upb_VolumeId :: string
  upb_TargetPath :: string

record NodeExpandVolumeRequest =
  nx_VolumeId :: string
  nx_VolumePath :: string
  nx_CapacityRange :: "int64 option"

record NodeGetVolumeStatsRequest =
  nst_VolumeId :: string
  nst_VolumePath :: string

datatype usage_unit = BYTES | INODES

record VolumeUsage =
  vu_Unit :: usage_unit
  vu_Available :: int64
  vu_Total :: int64
  vu_Used :: int64

text \<open>The generated getters on a capability that may be nil.\<close>

definition cap_AccessType :: "VolumeCapability option \<Rightarrow> access_type" where
  "cap_AccessType vc = (case vc of None \<Rightarrow> AccessNone | Some c \<Rightarrow> vc_AccessType c)"

definition cap_Mount :: "VolumeCapability option \<Rightarrow> MountVolume option" where
  "cap_Mount vc = (case vc of None \<Rightarrow> None | Some c \<Rightarrow> GetMount c)"

definition newNodeCapabilities :: "node_rpc list" where
  "newNodeCapabilities = [STAGE_UNSTAGE_VOLUME, EXPAND_VOLUME_NODE, GET_VOLUME_STATS]"

definition NewNode :: "string \<Rightarrow> node" where
  "NewNode nodeID = \<lparr>n_NodeID = nodeID, n_capabilities = newNodeCapabilities\<rparr>"

definition NodeGetCapabilities :: "node \<Rightarrow> ('w, gerror + node_rpc list) go" where
  "NodeGetCapabilities ns = ret (Inr (n_capabilities ns))"

definition TopologyNodeKey :: string where
  "TopologyNodeKey = ''topology.cstor.openebs.io/nodeName''"

text \<open>The labels of the node are written to; writing into a nil map panics.\<close>

definition NodeGetInfo :: "'w kube \<Rightarrow> node \<Rightarrow> ('w, gerror + string \<times> topology) go" where
  "NodeGetInfo X ns =
     tryP (the_result (node_Get (node_NewKubeClient X []) (n_NodeID ns))) (\<lambda>node.
       case node_Labels node of
         None \<Rightarrow> panic ''assignment to entry in nil map''
       | Some topology \<Rightarrow> ret (Inr (n_NodeID ns, AList.update TopologyNodeKey (n_NodeID ns) topology)))"

definition attachmentName :: "utils_globals \<Rightarrow> string \<Rightarrow> string" where
  "attachmentName G volumeID = volumeID @ ''-'' @ NodeIDENV G"

subsection \<open>Requests\<close>

definition validateNodeStageReq :: "NodeStageVolumeRequest \<Rightarrow> gerror + unit" where
  "validateNodeStageReq req =
     (if stg_VolumeCapability req = None
      then Inl (StatusError InvalidArgument (Errorf ''Volume capability missing in request'' []))
      else if length (stg_VolumeId req) = 0
      then Inl (StatusError InvalidArgument (Errorf ''Volume ID missing in request'' []))
      else Inr ())"

definition validateNodeUnStageReq :: "NodeUnstageVolumeRequest \<Rightarrow> gerror + unit" where
  "validateNodeUnStageReq req =
     (if ust_VolumeId req = []
      then Inl (StatusError InvalidArgument (Errorf ''Volume ID missing in request'' []))
      else if ust_StagingTargetPath req = []
      then Inl (StatusError InvalidArgument (Errorf ''Target path missing in request'' []))
      else Inr ())"

subsection \<open>Mounts of a volume\<close>

definition IsUnmountRequired :: "'w host \<Rightarrow> string \<Rightarrow> string \<Rightarrow> ('w, gerror + bool) go" where
  "IsUnmountRequired H volumeID targetPath =
     tryE (GetMounts H volumeID) (\<lambda>currentMounts.
       if length currentMounts = 0 then ret (Inr False)
       else ret (Inr (list_ex (\<lambda>mounts. Contains mounts targetPath) currentMounts)))"

definition VerifyIfMountRequired :: "'w host \<Rightarrow> string \<Rightarrow> string \<Rightarrow> ('w, gerror + bool) go" where
  "VerifyIfMountRequired H volumeID targetPath =
     tryE (GetMounts H volumeID) (\<lambda>currentMounts.
       case currentMounts of
         [] \<Rightarrow> ret (Inr True)
       | first # _ \<Rightarrow>
           if list_ex (\<lambda>mounts. Contains mounts targetPath) currentMounts then ret (Inr False)
           else tryE (iscsi_Unmount H first) (\<lambda>_. ret (Inr True)))"

subsection \<open>Staging\<close>

text \<open>The check of the attachments that exist for the volume.\<close>

fun checkAttachments :: "'w kube \<Rightarrow> string \<Rightarrow> string \<Rightarrow> CStorVolumeAttachment list \<Rightarrow> ('w, gerror + unit) go" where
  "checkAttachments X volumeID nodeID [] = ok"
| "checkAttachments X volumeID nodeID (csiVol # csiVols) =
     (if cva_Name csiVol = volumeID @ ''-'' @ nodeID then
        (if cva_DeletionTimestamp csiVol \<noteq> None
         then fail (Errorf ''Volume %s still mounted on node: %s'' [volumeID, nodeID])
         else checkAttachments X volumeID nodeID csiVols)
      else
        let oldNodeName = nget (cva_Labels csiVol) ''nodeID'' in
        if oldNodeName = nodeID then fail (Errorf ''Volume %s still mounted on node: %s'' [volumeID, oldNodeName])
        else bnd (IsNodeReady X oldNodeName) (\<lambda>r. case r of
          Inl err \<Rightarrow> if \<not> IsNotFound err
            then fail (Wrapf ''failed to get node %s details to know previous mounts'' [oldNodeName] err)
            else checkAttachments X volumeID nodeID csiVols
        | Inr isNodeReady \<Rightarrow> if isNodeReady
            then fail (Errorf ''Volume %s still mounted on node %s'' [volumeID, oldNodeName])
            else checkAttachments X volumeID nodeID csiVols))"

definition accessTypeName :: "access_type \<Rightarrow> string" where
  "accessTypeName a = (case a of AccessBlock \<Rightarrow> ''block'' | AccessMount _ \<Rightarrow> ''mount'' | AccessNone \<Rightarrow> [])"

definition attachment_chain :: "string \<Rightarrow> NodeStageVolumeRequest \<Rightarrow> cva_call list" where
  "attachment_chain nodeID req =
     [CvaName (stg_VolumeId req @ ''-'' @ nodeID),
      CvaLabels [(''nodeID'', nodeID), (''Volname'', stg_VolumeId req)],
      CvaVolName (stg_VolumeId req), CvaAccessType (accessTypeName (cap_AccessType (stg_VolumeCapability req))),
      CvaFSType (mount_FsType (cap_Mount (stg_VolumeCapability req))), CvaReadOnly False]"

text \<open>The second half: once the claim is bound, the old attachments go and the new one is created.\<close>

definition replaceAttachment ::
  "'w kube \<Rightarrow> 'w host \<Rightarrow> utils_globals \<Rightarrow> string \<Rightarrow> string \<Rightarrow> CStorVolumeAttachment \<Rightarrow> ('w nstate, gerror + unit) go" where
  "replaceAttachment X H G volumeID nodeID vol =
     tryE (map_err internal (on_world (IsCVCBound X G volumeID))) (\<lambda>isCVCBound.
       if \<not> isCVCBound then
         andthen (setTransition volumeID WaitingForCVCBound)
           (andthen (on_world (h_Sleep H 10)) (fail (Errorf ''Waiting for %s's CVC to be bound'' [volumeID])))
       else
         bnd (on_world (FetchAndUpdateISCSIDetails X G volumeID vol)) (\<lambda>(err, vol). case err of
           Some e \<Rightarrow> fail e
         | None \<Rightarrow>
           tryE (map_err internal (on_world (DeleteOldCStorVolumeAttachmentCRs X G volumeID nodeID))) (\<lambda>_.
           bnd (on_world (CreateCStorVolumeAttachmentCR X G vol nodeID)) (\<lambda>(err, _). case err of
             Some e \<Rightarrow> fail (internal e)
           | None \<Rightarrow> ok))))"

definition prepareVolumeForNode ::
  "'w kube \<Rightarrow> 'w host \<Rightarrow> utils_globals \<Rightarrow> node \<Rightarrow> NodeStageVolumeRequest \<Rightarrow> ('w nstate, gerror + unit) go" where
  "prepareVolumeForNode X H G ns req =
     (let volumeID = stg_VolumeId req; nodeID = n_NodeID ns in
      tryP (on_world (GetVolList X G volumeID)) (\<lambda>existingCSIVols.
      tryE (on_world (checkAttachments X volumeID nodeID existingCSIVols)) (\<lambda>_.
        case Build (fold cva_run (attachment_chain nodeID req) cva_NewBuilder) of
          Inl err \<Rightarrow> fail err
        | Inr vol \<Rightarrow> replaceAttachment X H G volumeID nodeID vol)))"

text \<open>\<open>strings.Split\<close> gives at least one part.\<close>

definition getTargetIP :: "string \<Rightarrow> string" where
  "getTargetIP url = Split url (CHR '':'') ! 0"

definition attachDisk :: "'w host \<Rightarrow> CStorVolumeAttachment \<Rightarrow> ('w, gerror + string) go" where
  "attachDisk H vol =
     bnd (h_Connect H \<lparr>conn_VolumeName = cva_VolName vol,
            conn_Targets = [(cva_Iqn vol, getTargetIP (cva_TargetPortal vol))], conn_Lun = 0,
            conn_Interface = ''default'', conn_DoDiscovery = True\<rparr>) (\<lambda>(devicePath, err). case err of
       Some e \<Rightarrow> fail e
     | None \<Rightarrow> if devicePath = [] then fail (Errorf ''connect reported success, but no path returned'' [])
         else ret (Inr devicePath))"

definition formatAndMount :: "'w host \<Rightarrow> NodeStageVolumeRequest \<Rightarrow> string \<Rightarrow> ('w, gerror + unit) go" where
  "formatAndMount H req devicePath =
     (let mntPath = stg_StagingTargetPath req in
      bnd (h_IsLikelyNotMountPoint H mntPath) (\<lambda>(notMnt, err).
      tryE (if err \<noteq> None \<and> \<not> os_IsNotExist err then from_err (h_MkdirAll H mntPath 488) else ok) (\<lambda>_.
        if \<not> notMnt then ok
        else from_err (h_FormatAndMount H devicePath mntPath (mount_FsType (cap_Mount (stg_VolumeCapability req)))
               (mount_Flags (cap_Mount (stg_VolumeCapability req)))))))"

definition byPath :: "CStorVolumeAttachment \<Rightarrow> string" where
  "byPath vol = Join [''/dev/disk/by-path/ip'', cva_TargetPortal vol, ''iscsi'', cva_Iqn vol, ''lun'', ''0''] ''-''"

text \<open>What staging does when a mount is required: record the path and the finalizer in the attachment, log
  in, and, unless the volume is a block volume, format and mount. When attaching fails the finalizer is
  taken back, and an error of that update is the one that is reported; when mounting fails it is taken back
  too, and an error of that update is dropped.\<close>

definition stageMount ::
  "'w kube \<Rightarrow> 'w host \<Rightarrow> utils_globals \<Rightarrow> NodeStageVolumeRequest \<Rightarrow> CStorVolumeAttachment \<Rightarrow> ('w nstate, gerror + unit) go" where
  "stageMount X H G req vol =
     (let volumeID = stg_VolumeId req; path = stg_StagingTargetPath req;
          vol1 = vol\<lparr>cva_StagingTargetPath := path, cva_Finalizers := Some [NodeIDENV G], cva_DevicePath := byPath vol\<rparr> in
      bnd (on_world (UpdateCStorVolumeAttachmentCR X G (Some vol1))) (\<lambda>(volp, err). case err of
        Some e \<Rightarrow> fail (internal e)
      | None \<Rightarrow>
        andthen (setTransition volumeID MountUnderProgress)
        (bnd (deref volp) (\<lambda>vol.
         bnd (on_world (attachDisk H vol)) (\<lambda>r. case r of
           Inl e \<Rightarrow> bnd (on_world (UpdateCStorVolumeAttachmentCR X G (Some (vol\<lparr>cva_Finalizers := None\<rparr>)))) (\<lambda>(_, err1). case err1 of
             Some e1 \<Rightarrow> fail (internal e1)
           | None \<Rightarrow> fail (internal e))
         | Inr devicePath \<Rightarrow>
           if cap_AccessType (stg_VolumeCapability req) = AccessBlock then ok
           else
             tryE (map_err internal (from_err (on_world (h_MkdirAll H path 488)))) (\<lambda>_.
             bnd (on_world (formatAndMount H req devicePath)) (\<lambda>r. case r of
               Inl e \<Rightarrow> andthen (on_world (UpdateCStorVolumeAttachmentCR X G (Some (vol\<lparr>cva_Finalizers := None\<rparr>)))) (fail (internal e))
             | Inr _ \<Rightarrow> andthen (setTransition volumeID Mounted) ok)))))))"

definition stageAttached ::
  "'w kube \<Rightarrow> 'w host \<Rightarrow> utils_globals \<Rightarrow> NodeStageVolumeRequest \<Rightarrow> CStorVolumeAttachment \<Rightarrow> ('w nstate, gerror + unit) go" where
  "stageAttached X H G req vol =
     tryE (map_err internal (WaitForVolumeReadyAndReachable X H G vol)) (\<lambda>_.
     tryE (map_err internal (on_world (VerifyIfMountRequired H (stg_VolumeId req) (stg_StagingTargetPath req)))) (\<lambda>isMountRequired.
       if isMountRequired then stageMount X H G req vol else ok))"

definition NodeStage_body ::
  "'w kube \<Rightarrow> 'w host \<Rightarrow> utils_globals \<Rightarrow> node \<Rightarrow> NodeStageVolumeRequest \<Rightarrow> ('w nstate, gerror + unit) go" where
  "NodeStage_body X H G ns req =
     tryE (map_err internal (prepareVolumeForNode X H G ns req)) (\<lambda>_.
     bnd (on_world (GetCStorVolumeAttachment X G (attachmentName G (stg_VolumeId req)))) (\<lambda>(vol, err). case err of
       Some e \<Rightarrow> fail (internal e)
     | None \<Rightarrow> bnd (deref vol) (stageAttached X H G req)))"

definition NodeStageVolume ::
  "'w kube \<Rightarrow> 'w host \<Rightarrow> utils_globals \<Rightarrow> node \<Rightarrow> NodeStageVolumeRequest \<Rightarrow> ('w nstate, gerror + unit) go" where
  "NodeStageVolume X H G ns req =
     tryE (ret (validateNodeStageReq req)) (\<lambda>_.
       with_transition (stg_VolumeId req) Uninitialized internal (NodeStage_body X H G ns req))"

subsection \<open>Unstaging\<close>

definition NodeUnstage_body ::
  "'w kube \<Rightarrow> 'w host \<Rightarrow> utils_globals \<Rightarrow> node \<Rightarrow> NodeUnstageVolumeRequest \<Rightarrow> ('w nstate, gerror + unit) go" where
  "NodeUnstage_body X H G ns req =
     (let volumeID = ust_VolumeId req; path = ust_StagingTargetPath req in
      bnd (on_world (GetCStorVolumeAttachment X G (attachmentName G volumeID))) (\<lambda>(volp, err). case err of
        Some e \<Rightarrow> if IsNotFound e then ok else fail (internal e)
      | None \<Rightarrow> bnd (deref volp) (\<lambda>vol.
        if cva_StagingTargetPath vol = [] then ok
        else
          andthen (setTransition volumeID UnmountUnderProgress)
          (tryE (map_err internal (on_world (UnmountAndDetachDisk H vol path))) (\<lambda>_.
           andthen (setTransition volumeID Unmounted)
           (bnd (on_world (UpdateCStorVolumeAttachmentCR X G
                  (Some (vol\<lparr>cva_Finalizers := None, cva_StagingTargetPath := []\<rparr>)))) (\<lambda>(_, err). case err of
              Some e \<Rightarrow> fail (internal e)
            | None \<Rightarrow> map_err internal (from_err (on_world
                (DeleteCStorVolumeAttachmentCR X G (volumeID @ ''-'' @ n_NodeID ns))))))))))) "

definition NodeUnstageVolume ::
  "'w kube \<Rightarrow> 'w host \<Rightarrow> utils_globals \<Rightarrow> node \<Rightarrow> NodeUnstageVolumeRequest \<Rightarrow> ('w nstate, gerror + unit) go" where
  "NodeUnstageVolume X H G ns req =
     tryE (ret (validateNodeUnStageReq req)) (\<lambda>_.
       with_transition (ust_VolumeId req) Uninitialized internal (NodeUnstage_body X H G ns req))"

subsection \<open>Publishing\<close>

text \<open>\<open>filepath.Clean\<close> and \<open>filepath.Dir\<close> on a Unix system.\<close>

fun clean_parts :: "bool \<Rightarrow> string list \<Rightarrow> string list \<Rightarrow> string list" where
  "clean_parts rooted [] out = rev out"
| "clean_parts rooted (p # ps) out =
     (if p = [] \<or> p = ''.'' then clean_parts rooted ps out
      else if p = ''..'' then
        (case out of
           [] \<Rightarrow> clean_parts rooted ps (if rooted then [] else [''..''])
         | t # rest \<Rightarrow> clean_parts rooted ps (if t = ''..'' then ''..'' # out else rest))
      else clean_parts rooted ps (p # out))"

definition path_Clean :: "string \<Rightarrow> string" where
  "path_Clean path =
     (let rooted = (case path of c # _ \<Rightarrow> c = CHR ''/'' | [] \<Rightarrow> False);
          out = (if rooted then ''/'' else []) @ Join (clean_parts rooted (Split path (CHR ''/'')) []) ''/'' in
      if out = [] then ''.'' else out)"

definition path_Dir :: "string \<Rightarrow> string" where
  "path_Dir path = path_Clean (rev (dropWhile (\<lambda>c. c \<noteq> CHR ''/'') (rev path)))"

definition GetDevicePath :: "'w kube \<Rightarrow> utils_globals \<Rightarrow> string \<Rightarrow> string \<Rightarrow> ('w, gerror + string) go" where
  "GetDevicePath X G devicePath volumeID =
     bnd (GetCStorVolumeAttachment X G (attachmentName G volumeID)) (\<lambda>(vol, err). case err of
       Some e \<Rightarrow> fail (internal e)
     | None \<Rightarrow> bnd (deref vol) (\<lambda>v. ret (Inr (cva_DevicePath v))))"

fun addFlags :: "string list \<Rightarrow> string list \<Rightarrow> string list" where
  "addFlags mountOptions [] = mountOptions"
| "addFlags mountOptions (f # fs) = addFlags (if f \<notin> set mountOptions then mountOptions @ [f] else mountOptions) fs"

definition defaultFsType :: string where
  "defaultFsType = ''ext4''"

text \<open>Mount, and remove the target when that fails. When the removal fails too, the two callers report
  different errors; \<open>pick\<close> chooses between the error of the mount and that of the removal.\<close>

definition mountOrRemove ::
  "'w host \<Rightarrow> string \<Rightarrow> string \<Rightarrow> string \<Rightarrow> string list \<Rightarrow> (gerror \<Rightarrow> gerror \<Rightarrow> gerror) \<Rightarrow> ('w, gerror + unit) go" where
  "mountOrRemove H source target fsType mountOptions pick =
     bnd (h_Mount H source target fsType mountOptions) (\<lambda>err. case err of
       Some e \<Rightarrow> bnd (h_Remove H target) (\<lambda>removeErr. case removeErr of
         Some re \<Rightarrow> fail (StatusError Internal (ErrorfE ''Could not remove mount target %q: %v'' [target] (pick e re)))
       | None \<Rightarrow> fail (StatusError Internal (ErrorfE ''Could not mount %q at %q: %v'' [source, target] e)))
     | None \<Rightarrow> ok)"

definition nodePublishVolumeForFileSystem ::
  "'w host \<Rightarrow> NodePublishVolumeRequest \<Rightarrow> string list \<Rightarrow> MountVolume option \<Rightarrow> ('w, gerror + unit) go" where
  "nodePublishVolumeForFileSystem H req mountOptions m =
     (let target = pub_TargetPath req; source = pub_StagingTargetPath req;
          opts = (case m of None \<Rightarrow> mountOptions | Some mv \<Rightarrow> addFlags mountOptions (mv_MountFlags mv));
          fsType = (if length (mount_FsType m) = 0 then defaultFsType else mount_FsType m) in
      tryE (map_err (\<lambda>e. StatusError Internal (ErrorfE ''Could not create dir {%q}, err: %v'' [target] e))
        (from_err (h_MkdirAll H target 0))) (\<lambda>_.
      tryE (map_err (\<lambda>e. StatusError Internal (ErrorfE ''Could not change mode of dir {%q}, err: %v'' [target] e))
        (from_err (h_Chmod H target 0))) (\<lambda>_.
      mountOrRemove H source target fsType opts (\<lambda>e removeErr. e))))"

definition nodePublishVolumeForBlock ::
  "'w kube \<Rightarrow> 'w host \<Rightarrow> utils_globals \<Rightarrow> NodePublishVolumeRequest \<Rightarrow> string list \<Rightarrow> ('w, gerror + unit) go" where
  "nodePublishVolumeForBlock X H G req mountOptions =
     (let target = pub_TargetPath req; volumeID = pub_VolumeId req; globalMountPath = path_Dir target in
      tryE (map_err (\<lambda>e. StatusError Internal (ErrorfE ''Failed to find device path %s. %v'' [target] e))
        (GetDevicePath X G target volumeID)) (\<lambda>source.
      tryE (map_err (\<lambda>e. StatusError Internal (ErrorfE ''Could not check if path exists %q: %v'' [globalMountPath] e))
        (ExistsPath H globalMountPath)) (\<lambda>pathExists.
      tryE (if \<not> pathExists then map_err (\<lambda>e. StatusError Internal (ErrorfE ''Could not create dir %q: %v'' [globalMountPath] e))
              (MakeDir H globalMountPath) else ok) (\<lambda>_.
      bnd (MakeFile H target) (\<lambda>r. case r of
        Inl e \<Rightarrow> bnd (h_Remove H target) (\<lambda>removeErr. case removeErr of
          Some re \<Rightarrow> fail (StatusError Internal (ErrorfE ''Could not remove mount target %q: %v'' [target] re))
        | None \<Rightarrow> fail (StatusError Internal (ErrorfE ''Could not create file %q: %v'' [target] e)))
      | Inr _ \<Rightarrow> mountOrRemove H source target [] mountOptions (\<lambda>e removeErr. removeErr))))))"

definition publishOptions :: "NodePublishVolumeRequest \<Rightarrow> string list" where
  "publishOptions req = [''bind''] @ (if pub_Readonly req then [''ro''] else [])"

definition NodePublish_body ::
  "'w kube \<Rightarrow> 'w host \<Rightarrow> utils_globals \<Rightarrow> node \<Rightarrow> NodePublishVolumeRequest \<Rightarrow> ('w nstate, gerror + unit) go" where
  "NodePublish_body X H G ns req =
     (let volumeID = pub_VolumeId req; mountOptions = publishOptions req in
      bnd (on_world (GetCStorVolumeAttachment X G (attachmentName G volumeID))) (\<lambda>(volp, err). case err of
        Some e \<Rightarrow> fail (internal e)
      | None \<Rightarrow> bnd (deref volp) (\<lambda>vol.
        bnd (on_world (UpdateCStorVolumeAttachmentCR X G (Some (vol\<lparr>cva_TargetPath := pub_TargetPath req\<rparr>)))) (\<lambda>(_, err). case err of
          Some e \<Rightarrow> fail (internal e)
        | None \<Rightarrow> (case cap_AccessType (pub_VolumeCapability req) of
            AccessBlock \<Rightarrow> on_world (nodePublishVolumeForBlock X H G req mountOptions)
          | AccessMount m \<Rightarrow> on_world (nodePublishVolumeForFileSystem H req mountOptions m)
          | AccessNone \<Rightarrow> ok)))))"

definition NodePublishVolume ::
  "'w kube \<Rightarrow> 'w host \<Rightarrow> utils_globals \<Rightarrow> node \<Rightarrow> NodePublishVolumeRequest \<Rightarrow> ('w nstate, gerror + unit) go" where
  "NodePublishVolume X H G ns req =
     with_transition (pub_VolumeId req) Uninitialized internal (NodePublish_body X H G ns req)"

definition NodeUnpublish_body ::
  "'w kube \<Rightarrow> 'w host \<Rightarrow> utils_globals \<Rightarrow> node \<Rightarrow> NodeUnpublishVolumeRequest \<Rightarrow> ('w nstate, gerror + unit) go" where
  "NodeUnpublish_body X H G ns req =
     (let volumeID = upb_VolumeId req; target = upb_TargetPath req in
      bnd (on_world (h_IsLikelyNotMountPoint H target)) (\<lambda>(notMnt, err).
        if err = None \<and> notMnt \<or> os_IsNotExist err then ok
        else
          tryE (map_err (\<lambda>e. StatusError Internal (ErrorfE ''Could not unmount %q: %v'' [target] e))
            (from_err (on_world (h_Unmount H target)))) (\<lambda>_.
          bnd (on_world (GetCStorVolumeAttachment X G (attachmentName G volumeID))) (\<lambda>(volp, err). case err of
            Some e \<Rightarrow> if IsNotFound e then ok else fail (internal e)
          | None \<Rightarrow> bnd (deref volp) (\<lambda>vol.
              bnd (on_world (UpdateCStorVolumeAttachmentCR X G (Some (vol\<lparr>cva_TargetPath := []\<rparr>)))) (\<lambda>(_, err). case err of
                Some e \<Rightarrow> fail (internal e)
              | None \<Rightarrow> ok))))))"

definition NodeUnpublishVolume ::
  "'w kube \<Rightarrow> 'w host \<Rightarrow> utils_globals \<Rightarrow> node \<Rightarrow> NodeUnpublishVolumeRequest \<Rightarrow> ('w nstate, gerror + unit) go" where
  "NodeUnpublishVolume X H G ns req =
     with_transition (upb_VolumeId req) Uninitialized internal (NodeUnpublish_body X H G ns req)"

subsection \<open>Expansion and statistics\<close>

definition expandError :: "string \<Rightarrow> gerror \<Rightarrow> gerror" where
  "expandError volumeID e = StatusError Internal (ErrorfE ''failed to handle NodeExpandVolumeRequest for %s, {%s}'' [volumeID] e)"

definition NodeExpand_body ::
  "'w kube \<Rightarrow> 'w host \<Rightarrow> utils_globals \<Rightarrow> node \<Rightarrow> NodeExpandVolumeRequest \<Rightarrow> ('w nstate, gerror + int64) go" where
  "NodeExpand_body X H G ns req =
     (let volumeID = nx_VolumeId req in
      bnd (on_world (GetCStorVolumeAttachment X G (attachmentName G volumeID))) (\<lambda>(volp, err). case err of
        Some e \<Rightarrow> fail (internal e)
      | None \<Rightarrow> bnd (deref volp) (\<lambda>vol.
        tryE (map_err (expandError volumeID) (on_world (iscsi_ResizeVolume H (nx_VolumePath req) vol))) (\<lambda>_.
          ret (Inr (case nx_CapacityRange req of Some b \<Rightarrow> b | None \<Rightarrow> 0))))))"

definition NodeExpandVolume ::
  "'w kube \<Rightarrow> 'w host \<Rightarrow> utils_globals \<Rightarrow> node \<Rightarrow> NodeExpandVolumeRequest \<Rightarrow> ('w nstate, gerror + int64) go" where
  "NodeExpandVolume X H G ns req =
     with_transition (nx_VolumeId req) ResizeInProgress (expandError (nx_VolumeId req)) (NodeExpand_body X H G ns req)"

definition GetStatistics :: "'w host \<Rightarrow> string \<Rightarrow> ('w, gerror + VolumeStatistics) go" where
  "GetStatistics H volumePath =
     tryE (h_Statfs H volumePath) (\<lambda>statfs. ret (Inr \<lparr>
       availableBytes = st_Bavail statfs * st_Bsize statfs,
       totalBytes = st_Blocks statfs * st_Bsize statfs,
       usedBytes = (st_Blocks statfs - st_Bfree statfs) * st_Bsize statfs,
       availableInodes = st_Ffree statfs,
       totalInodes = st_Files statfs,
       usedInodes = st_Files statfs - st_Ffree statfs\<rparr>))"

definition getBlockSizeBytes :: "'w host \<Rightarrow> string \<Rightarrow> ('w, gerror + int64) go" where
  "getBlockSizeBytes H devicePath =
     bnd (h_Command H ''blockdev'' [''--getsize64'', devicePath]) (\<lambda>(output, err). case err of
       Some e \<Rightarrow> fail (ErrorfE ''error when getting size of block volume at path %s: output: %s, err: %v'' [devicePath, output] e)
     | None \<Rightarrow> (let strOut = TrimSpace output in
         case Atoi strOut of
           None \<Rightarrow> fail (Errorf ''failed to parse size %s into int size, err: %s'' [strOut])
         | Some gotSizeBytes \<Rightarrow> ret (Inr (word_of_int gotSizeBytes))))"

text \<open>\<open>S_IFMT\<close> and \<open>S_IFBLK\<close> are 0xF000 and 0x6000.\<close>

definition IsBlockDevice :: "'w host \<Rightarrow> string \<Rightarrow> ('w, gerror + bool) go" where
  "IsBlockDevice H fullPath =
     tryE (h_StatMode H fullPath) (\<lambda>mode. ret (Inr (and mode 0xF000 = 0x6000)))"

definition NodeGetVolumeStats :: "'w host \<Rightarrow> NodeGetVolumeStatsRequest \<Rightarrow> ('w, gerror + VolumeUsage list) go" where
  "NodeGetVolumeStats H req =
     (let volumePath = nst_VolumePath req in
      if nst_VolumeId req = []
      then fail (StatusError InvalidArgument (Errorf ''NodeGetVolumeStats Volume ID must be provided'' []))
      else if volumePath = []
      then fail (StatusError InvalidArgument (Errorf ''NodeGetVolumeStats Volume Path must be provided'' []))
      else
        tryE (map_err (\<lambda>e. StatusError Internal (ErrorfE ''failed to check if volume path %q is mounted: %s'' [volumePath] e))
          (ExistsPath H volumePath)) (\<lambda>mounted.
        if \<not> mounted then fail (StatusError NotFound (Errorf ''volume path %q is not mounted'' [volumePath]))
        else
          tryE (map_err (\<lambda>e. StatusError Internal (ErrorfE ''failed to determine whether %s is block device: %v'' [volumePath] e))
            (IsBlockDevice H volumePath)) (\<lambda>isBlock.
          if isBlock then
            tryE (map_err (\<lambda>e. StatusError Internal (ErrorfE ''failed to get block capacity on path %s: %v'' [volumePath] e))
              (getBlockSizeBytes H volumePath)) (\<lambda>bcap.
              ret (Inr [\<lparr>vu_Unit = BYTES, vu_Available = 0, vu_Total = bcap, vu_Used = 0\<rparr>]))
          else
            tryE (map_err (\<lambda>e. StatusError Internal (ErrorfE ''failed to retrieve capacity statistics for volume path %q: %s'' [volumePath] e))
              (GetStatistics H volumePath)) (\<lambda>stats.
              ret (Inr [\<lparr>vu_Unit = BYTES, vu_Available = availableBytes stats, vu_Total = totalBytes stats, vu_Used = usedBytes stats\<rparr>,
                        \<lparr>vu_Unit = INODES, vu_Available = availableInodes stats, vu_Total = totalInodes stats, vu_Used = usedInodes stats\<rparr>])))))"

end
