(* ===== verification/Node_Frames.thy ===== *)
theory Node_Frames
  imports Node_Service Sample_Cluster
begin

section \<open>The transition list around the node handlers\<close>

text \<open>
  Every handler is an instance of \<open>framed_handler\<close>. Unstaging, publishing, unpublishing and expanding
  touch no volume but their own, whatever the cluster answers. Staging waits for the volume that the
  attachment names (\<open>WaitForVolumeReadyAndReachable\<close> writes the entry of \<open>vol.Spec.Volume.Name\<close>), so its
  frame rests on reading back the attachment that it created; this is the hypothesis \<open>names_kept\<close> on the
  API server.
\<close>

lemma pres_internal [pres_rules]: "prel R \<Longrightarrow> pres R m \<Longrightarrow> pres R (map_err internal m)"
  by (rule pres_map_err)

lemma pres_case_access [pres_rules]:
  "(x = AccessNone \<Longrightarrow> pres R a) \<Longrightarrow> (x = AccessBlock \<Longrightarrow> pres R b) \<Longrightarrow> (\<And>m. x = AccessMount m \<Longrightarrow> pres R (c m)) \<Longrightarrow>
   pres R (case x of AccessNone \<Rightarrow> a | AccessBlock \<Rightarrow> b | AccessMount m \<Rightarrow> c m)"
  by (cases x) auto

lemma only_unstage: "pres (only (ust_VolumeId req)) (NodeUnstage_body X H G ns req)"
  unfolding NodeUnstage_body_def by (intro pres_rules prel_only)

lemma only_publish: "pres (only (pub_VolumeId req)) (NodePublish_body X H G ns req)"
  unfolding NodePublish_body_def by (intro pres_rules prel_only)

lemma only_unpublish: "pres (only (upb_VolumeId req)) (NodeUnpublish_body X H G ns req)"
  unfolding NodeUnpublish_body_def by (intro pres_rules prel_only)

lemma only_expand: "pres (only (nx_VolumeId req)) (NodeExpand_body X H G ns req)"
  unfolding NodeExpand_body_def by (intro pres_rules prel_only)

interpretation unstage: framed_handler "NodeUnstageVolume X H G ns req" "validateNodeUnStageReq req" "ust_VolumeId req"
  Uninitialized internal "NodeUnstage_body X H G ns req" for X H G ns req
  by unfold_locales (simp_all add: NodeUnstageVolume_def only_unstage)

interpretation publish: framed_handler "NodePublishVolume X H G ns req" "Inr ()" "pub_VolumeId req"
  Uninitialized internal "NodePublish_body X H G ns req" for X H G ns req
  by unfold_locales (simp_all add: NodePublishVolume_def only_publish)

interpretation unpublish: framed_handler "NodeUnpublishVolume X H G ns req" "Inr ()" "upb_VolumeId req"
  Uninitialized internal "NodeUnpublish_body X H G ns req" for X H G ns req
  by unfold_locales (simp_all add: NodeUnpublishVolume_def only_unpublish)

interpretation expand: framed_handler "NodeExpandVolume X H G ns req" "Inr ()" "nx_VolumeId req"
  ResizeInProgress "expandError (nx_VolumeId req)" "NodeExpand_body X H G ns req" for X H G ns req
  by unfold_locales (simp_all add: NodeExpandVolume_def only_expand)

subsection \<open>Staging\<close>

lemma only_waitReady [pres_rules]: "pres (only v) (waitReady X H G v retries)"
proof (induction X H G v retries rule: waitReady.induct)
  case (1 X H G v retries)
  show ?case
    by (subst waitReady.simps) (intro pres_rules prel_only "1.IH"; simp)
qed

lemma only_wait: "pres (only (cva_VolName vol)) (WaitForVolumeReadyAndReachable X H G vol)"
  unfolding WaitForVolumeReadyAndReachable_def WaitForVolumeToBeReady_def by (intro pres_rules prel_only)

lemma only_replace [pres_rules]: "pres (only v) (replaceAttachment X H G v nodeID vol)"
  unfolding replaceAttachment_def by (intro pres_rules prel_only)

lemma only_prepare [pres_rules]: "pres (only (stg_VolumeId req)) (prepareVolumeForNode X H G ns req)"
  unfolding prepareVolumeForNode_def by (intro pres_rules prel_only)

lemma only_stageMount [pres_rules]: "pres (only (stg_VolumeId req)) (stageMount X H G req vol)"
  unfolding stageMount_def by (intro pres_rules prel_only)

text \<open>Reading an attachment right after creating one under that name gives one for the same volume.\<close>

definition names_kept :: "'w kube \<Rightarrow> utils_globals \<Rightarrow> bool" where
  "names_kept X G = (\<forall>c c' v s p t u w t'. r_Create (k_cva X) c (OpenEBSNamespace G) v s = (Return (p, None), t) \<longrightarrow>
     cva_defaultGetClientset X t = (Return (Some c', None), u) \<longrightarrow>
     r_Get (k_cva X) c' (OpenEBSNamespace G) (cva_Name v) u = (Return (Some w, None), t') \<longrightarrow> cva_VolName w = cva_VolName v)"

lemma on_world_run: "on_world m s = (r, s') \<longleftrightarrow> (\<exists>w. m (world s) = (r, w) \<and> s' = s\<lparr>world := w\<rparr>)"
  by (auto simp: on_world_def split: prod.splits)

lemma on_world_Return [simp]:
  "on_world m s = (Return r, s') \<longleftrightarrow> (\<exists>w. m (world s) = (Return r, w) \<and> s' = s\<lparr>world := w\<rparr>)"
  by (rule on_world_run)

text \<open>The attachment that staging creates.\<close>

definition attachment_for :: "string \<Rightarrow> NodeStageVolumeRequest \<Rightarrow> CStorVolume \<Rightarrow> Node \<Rightarrow> CStorVolumeAttachment" where
  "attachment_for nodeID req cv n = zero_CVA\<lparr>
     cva_Name := stg_VolumeId req @ ''-'' @ nodeID,
     cva_Labels := Some [(''nodeID'', nodeID), (''Volname'', stg_VolumeId req)],
     cva_VolName := stg_VolumeId req,
     cva_AccessType := accessTypeName (cap_AccessType (stg_VolumeCapability req)),
     cva_FSType := mount_FsType (cap_Mount (stg_VolumeCapability req)),
     cva_ReadOnly := False,
     cva_Iqn := cv_Iqn cv, cva_TargetPortal := cv_TargetPortal cv, cva_Lun := ''0'', cva_IscsiInterface := ''default'',
     cva_OwnerNodeID := nodeID,
     cva_OwnerReferences := [\<lparr>or_APIVersion = ''v1'', or_Kind = ''Node'', or_Name = node_Name n, or_UID = node_UID n\<rparr>]\<rparr>"

lemma attachment_chain_built:
  "Build (fold cva_run (attachment_chain nodeID req) cva_NewBuilder) = Inr v \<Longrightarrow>
   v = fold cva_apply (attachment_chain nodeID req) zero_CVA"
  by (simp only: cvab.chain_Build) (simp add: cva_NewBuilder_def)

lemma FetchAndUpdate_None:
  "FetchAndUpdateISCSIDetails X G v vol w = (Return (None, vol'), w') \<Longrightarrow>
   \<exists>cv. the_result (cv_Get (cv_kc X (OpenEBSNamespace G)) v) w = (Return (Some cv, None), w') \<and>
     vol' = vol\<lparr>cva_Iqn := cv_Iqn cv, cva_TargetPortal := cv_TargetPortal cv, cva_Lun := ''0'', cva_IscsiInterface := ''default''\<rparr>"
  by (auto simp: FetchAndUpdateISCSIDetails_def bnd_Return_iff deref_def cva_BuildFrom_def Let_def Build_def TargetLunID_def
      DefaultIscsiInterface_def cva_With_defs b_set_def split: option.splits if_splits)

lemma Create_None:
  "CreateCStorVolumeAttachmentCR X G vol nodeID w = (Return (None, vol'), w') \<Longrightarrow>
   \<exists>n t p. getNodeDetails X nodeID w = (Return (Some n, None), t) \<and>
     the_result (cva_Create (cva_kc X (OpenEBSNamespace G)) (Some (vol\<lparr>cva_OwnerNodeID := nodeID, cva_OwnerReferences :=
       [\<lparr>or_APIVersion = ''v1'', or_Kind = ''Node'', or_Name = node_Name n, or_UID = node_UID n\<rparr>]\<rparr>))) t = (Return (p, None), w')"
  by (auto simp: CreateCStorVolumeAttachmentCR_def bnd_Return_iff deref_def Let_def split: option.splits)

lemma chain_attachment_for:
  "(fold cva_apply (attachment_chain nodeID req) zero_CVA)\<lparr>cva_Iqn := cv_Iqn cv, cva_TargetPortal := cv_TargetPortal cv,
     cva_Lun := ''0'', cva_IscsiInterface := ''default'', cva_OwnerNodeID := nodeID, cva_OwnerReferences :=
       [\<lparr>or_APIVersion = ''v1'', or_Kind = ''Node'', or_Name = node_Name n, or_UID = node_UID n\<rparr>]\<rparr> = attachment_for nodeID req cv n"
  by (simp add: attachment_for_def attachment_chain_def onto_def zero_CVA_def gmerge_def)

lemma replaceAttachment_Inr:
  assumes "replaceAttachment X H G v nodeID vol s = (Return (Inr u), s')"
  shows "\<exists>w3 vol' w4 w5 vol''. IsCVCBound X G v (world s) = (Return (Inr True), w3) \<and>
     FetchAndUpdateISCSIDetails X G v vol w3 = (Return (None, vol'), w4) \<and>
     DeleteOldCStorVolumeAttachmentCRs X G v nodeID w4 = (Return (Inr ()), w5) \<and>
     CreateCStorVolumeAttachmentCR X G vol' nodeID w5 = (Return (None, vol''), world s')"
  using assms
  by (auto simp: replaceAttachment_def tryE_Inr_iff map_err_Inr_iff andthen_def bnd_Return_iff split: if_splits option.splits)

lemma prepare_Inr:
  assumes run: "prepareVolumeForNode X H G ns req s = (Return (Inr u), s')"
  shows "\<exists>vols w1 w2 w3 cv w4 w5 n w6 p.
    GetVolList X G (stg_VolumeId req) (world s) = (Return (Some vols, None), w1) \<and>
    checkAttachments X (stg_VolumeId req) (n_NodeID ns) vols w1 = (Return (Inr ()), w2) \<and>
    IsCVCBound X G (stg_VolumeId req) w2 = (Return (Inr True), w3) \<and>
    the_result (cv_Get (cv_kc X (OpenEBSNamespace G)) (stg_VolumeId req)) w3 = (Return (Some cv, None), w4) \<and>
    DeleteOldCStorVolumeAttachmentCRs X G (stg_VolumeId req) (n_NodeID ns) w4 = (Return (Inr ()), w5) \<and>
    getNodeDetails X (n_NodeID ns) w5 = (Return (Some n, None), w6) \<and>
    the_result (cva_Create (cva_kc X (OpenEBSNamespace G)) (Some (attachment_for (n_NodeID ns) req cv n))) w6 = (Return (p, None), world s')"
proof -
  let ?v = "stg_VolumeId req" and ?n = "n_NodeID ns"
  from run obtain vols w1 w2 where list: "GetVolList X G ?v (world s) = (Return (Some vols, None), w1)"
    and chk: "checkAttachments X ?v ?n vols w1 = (Return (Inr ()), w2)"
    and rest: "(case Build (fold cva_run (attachment_chain ?n req) cva_NewBuilder) of
      Inl err \<Rightarrow> fail err | Inr vol \<Rightarrow> replaceAttachment X H G ?v ?n vol) (s\<lparr>world := w2\<rparr>) = (Return (Inr u), s')"
    unfolding prepareVolumeForNode_def Let_def tryP_Inr_iff tryE_Inr_iff by auto
  obtain vol where b: "Build (fold cva_run (attachment_chain ?n req) cva_NewBuilder) = Inr vol"
    using rest by (cases "Build (fold cva_run (attachment_chain ?n req) cva_NewBuilder)") auto
  with rest have "replaceAttachment X H G ?v ?n vol (s\<lparr>world := w2\<rparr>) = (Return (Inr u), s')" by simp
  from replaceAttachment_Inr [OF this] obtain w3 vol' w4 w5 vol'' where
    w3: "IsCVCBound X G ?v w2 = (Return (Inr True), w3)"
    and f: "FetchAndUpdateISCSIDetails X G ?v vol w3 = (Return (None, vol'), w4)"
    and d: "DeleteOldCStorVolumeAttachmentCRs X G ?v ?n w4 = (Return (Inr ()), w5)"
    and c: "CreateCStorVolumeAttachmentCR X G vol' ?n w5 = (Return (None, vol''), world s')"
    by auto
  from FetchAndUpdate_None [OF f] Create_None [OF c] attachment_chain_built [OF b] list chk w3 d
  show ?thesis using chain_attachment_for by fastforce
qed

text \<open>The attachment that is read after the creation is for the volume of the request.\<close>

lemma read_back_name:
  assumes nk: "names_kept X G" and id: "NodeIDENV G = n_NodeID ns"
    and prep: "prepareVolumeForNode X H G ns req s = (Return (Inr u), t)"
    and get: "GetCStorVolumeAttachment X G (attachmentName G (stg_VolumeId req)) (world t) = (Return (Some w, None), w')"
  shows "cva_VolName w = stg_VolumeId req"
proof -
  from prepare_Inr [OF prep] obtain cv n w6 p where
    "the_result (cva_Create (cva_kc X (OpenEBSNamespace G)) (Some (attachment_for (n_NodeID ns) req cv n))) w6 = (Return (p, None), world t)"
    by blast
  then obtain c u where cr: "r_Create (k_cva X) c (OpenEBSNamespace G) (attachment_for (n_NodeID ns) req cv n) u = (Return (p, None), world t)"
    by (auto simp: cva_Create_fresh)
  have nm: "attachmentName G (stg_VolumeId req) = cva_Name (attachment_for (n_NodeID ns) req cv n)"
    by (simp add: attachmentName_def attachment_for_def id)
  have "attachmentName G (stg_VolumeId req) \<noteq> []" by (simp add: attachmentName_def)
  with get obtain c' t' where "cva_defaultGetClientset X (world t) = (Return (Some c', None), t')"
    "r_Get (k_cva X) c' (OpenEBSNamespace G) (attachmentName G (stg_VolumeId req)) t' = (Return (Some w, None), w')"
    by (auto simp: GetCStorVolumeAttachment_def cva_Get_fresh)
  with nk cr nm have "cva_VolName w = cva_VolName (attachment_for (n_NodeID ns) req cv n)"
    unfolding names_kept_def by metis
  then show ?thesis by (simp add: attachment_for_def)
qed

text \<open>The rules of \<open>pres\<close> at one state, for a continuation whose frame depends on what was read.\<close>

lemma frame_bnd:
  assumes "prel R" "pres R m" "\<And>x t. m s = (Return x, t) \<Longrightarrow> R t (snd (f x t))"
  shows "R s (snd (bnd m f s))"
proof (cases "m s")
  case (Pair r t)
  have "R s t" using assms(2) Pair by (rule presD')
  with assms(1,3) Pair show ?thesis by (cases r) (auto simp: bnd_def prel_def)
qed

lemma frame_tryE:
  assumes "prel R" "pres R m" "\<And>x t. m s = (Return (Inr x), t) \<Longrightarrow> R t (snd (f x t))"
  shows "R s (snd (tryE m f s))"
  unfolding tryE_def using assms(1)
  by (intro frame_bnd [OF assms(1,2)]) (auto split: sum.split simp: assms(3) prel_def)

lemma only_stageAttached:
  "cva_VolName vol = stg_VolumeId req \<Longrightarrow> pres (only (stg_VolumeId req)) (stageAttached X H G req vol)"
  unfolding stageAttached_def by (intro pres_rules prel_only) (metis only_wait)

lemma only_stage:
  assumes nk: "names_kept X G" and id: "NodeIDENV G = n_NodeID ns"
  shows "pres (only (stg_VolumeId req)) (NodeStage_body X H G ns req)"
proof (rule presI)
  let ?R = "only (stg_VolumeId req)"
  let ?get = "on_world (GetCStorVolumeAttachment X G (attachmentName G (stg_VolumeId req)))"
  let ?k = "\<lambda>(vol, err). case err of Some e \<Rightarrow> fail (internal e) | None \<Rightarrow> bnd (deref vol) (stageAttached X H G req)"
  fix s
  have "?R t (snd (bnd ?get ?k t))" if "map_err internal (prepareVolumeForNode X H G ns req) s = (Return (Inr x), t)" for x t
  proof (rule frame_bnd [OF prel_only only_on_world])
    fix y t'
    assume get: "?get t = (Return y, t')"
    obtain vol err where y: "y = (vol, err)" by (cases y)
    show "?R t' (snd (?k y t'))"
    proof (cases "\<exists>v. vol = Some v \<and> err = None")
      case True
      then obtain v where v: "y = (Some v, None)" using y by auto
      with that get have "cva_VolName v = stg_VolumeId req"
        by (auto simp: map_err_Inr_iff intro!: read_back_name [OF nk id])
      from presD [OF only_stageAttached [OF this]] show ?thesis by (simp add: v deref_def)
    qed (auto simp: y only_def deref_def split: option.split)
  qed
  then show "?R s (snd (NodeStage_body X H G ns req s))"
    unfolding NodeStage_body_def by (rule frame_tryE [OF prel_only pres_internal [OF prel_only only_prepare]])
qed

lemma stage_framed:
  "names_kept X G \<Longrightarrow> NodeIDENV G = n_NodeID ns \<Longrightarrow>
   framed_handler (NodeStageVolume X H G ns req) (validateNodeStageReq req) (stg_VolumeId req) Uninitialized internal
     (NodeStage_body X H G ns req)"
  by unfold_locales (simp_all add: NodeStageVolume_def only_stage)

subsection \<open>The properties\<close>

definition kept_lists :: "'w nstate \<Rightarrow> 'w nstate \<Rightarrow> bool" where
  "kept_lists s t = (TransitionVolList t = TransitionVolList s \<and> ReqMountList t = ReqMountList s)"

text \<open>C14: unstaging, publishing, unpublishing and expanding a volume leave the list of volumes in transition
  and the list of remount requests exactly as they found them, for every request, every answer of the cluster
  and the host, and every outcome: success, error, or panic in the middle of the handler.\<close>

theorem node_handlers_release:
  "kept_lists s (snd (NodeUnstageVolume X H G ns r1 s)) \<and> kept_lists s (snd (NodePublishVolume X H G ns r2 s)) \<and>
   kept_lists s (snd (NodeUnpublishVolume X H G ns r3 s)) \<and> kept_lists s (snd (NodeExpandVolume X H G ns r4 s))"
  by (simp add: kept_lists_def unstage.released publish.released unpublish.released expand.released)

text \<open>The concrete node of the witnesses: a bound claim, a healthy volume, the first node of the cluster.\<close>

definition sample_staging :: "cluster nstate" where
  "sample_staging = \<lparr>TransitionVolList = Map.empty, ReqMountList = Map.empty, world = sample_cluster\<lparr>
     cl_cvcs := [zero_CVC\<lparr>cvc_Name := ''v'', cvc_Namespace := ''openebs'', cvc_Phase := ''Bound''\<rparr>],
     cl_cvs := [zero_CV\<lparr>cv_Name := ''v'', cv_Namespace := ''openebs'', cv_Phase := ''Healthy'', cv_Iqn := ''iqn.v'',
       cv_TargetPortal := ''10.0.0.1:3260'', cv_Labels := Some [(''openebs.io/persistent-volume'', ''v'')]\<rparr>]\<rparr>\<rparr>"

definition sample_stage_req :: NodeStageVolumeRequest where
  "sample_stage_req = \<lparr>stg_VolumeId = ''v'', stg_StagingTargetPath = ''/staging/v'',
     stg_VolumeCapability = Some \<lparr>vc_AccessType = AccessMount (Some \<lparr>mv_FsType = ''ext4'', mv_MountFlags = []\<rparr>),
       vc_AccessMode = Some SINGLE_NODE_WRITER\<rparr>\<rparr>"

lemma sample_cva_clientset [simp]: "cva_defaultGetClientset sample_kube s = (Return (Some 3, None), s)"
proof -
  have "cva_defaultGetClientset sample_kube = ret (Some 3, None)"
    by (intro ext) code_simp
  then show ?thesis by simp
qed

lemma sample_cva_Get: "r_Get (k_cva sample_kube) c ns n s = (Return (store_get (\<lambda>x. (cva_Namespace x, cva_Name x)) zero_CVA (cl_cvas s) ns n), s)"
  by (simp add: sample_kube_def mk_api_def)

lemma sample_cva_Create:
  "r_Create (k_cva sample_kube) c ns x s = (Return (p, None), t) \<Longrightarrow>
   find (\<lambda>y. (cva_Namespace y, cva_Name y) = (ns, cva_Name x)) (cl_cvas s) = None \<and>
   cl_cvas t = cl_cvas s @ [x\<lparr>cva_Namespace := ns, cva_DeletionTimestamp := None\<rparr>]"
  by (auto simp: sample_kube_def mk_api_def split: if_splits)

lemma find_append_None: "find P xs = None \<Longrightarrow> find P (xs @ ys) = find P ys"
  by (induction xs) (auto split: if_splits)

lemma sample_names_kept: "names_kept sample_kube sample_globals"
  unfolding names_kept_def
  by (auto simp: sample_cva_Get store_get_def find_append_None dest!: sample_cva_Create split: option.splits)

text \<open>C15: staging a volume leaves both lists as it found them, on every outcome, provided that the attachment
  it reads after creating it is one for the same volume and the two sources of the node's name agree.
  Otherwise the waiting loop would leave behind an entry for another volume.\<close>

theorem NodeStage_releases:
  assumes "names_kept X G" and "NodeIDENV G = n_NodeID ns"
  shows "kept_lists s (snd (NodeStageVolume X H G ns req s))"
  using framed_handler.released [OF stage_framed [OF assms]] by (simp add: kept_lists_def)

theorem NodeStage_releases_witness:
  "fst (NodeStageVolume sample_kube sample_host sample_globals (NewNode ''n1'') sample_stage_req sample_staging) = Return (Inr ()) \<and>
   kept_lists sample_staging (snd (NodeStageVolume sample_kube sample_host sample_globals (NewNode ''n1'') sample_stage_req sample_staging))"
proof
  show "fst (NodeStageVolume sample_kube sample_host sample_globals (NewNode ''n1'') sample_stage_req sample_staging) = Return (Inr ())"
    by code_simp
  show "kept_lists sample_staging (snd (NodeStageVolume sample_kube sample_host sample_globals (NewNode ''n1'') sample_stage_req sample_staging))"
    by (rule NodeStage_releases [OF sample_names_kept]) (simp add: sample_globals_def NewNode_def)
qed

text \<open>C16: a volume that is in transition is refused: each of the five handlers answers a request that passes
  validation with an internal error naming the status, and changes nothing at all.\<close>

theorem node_handlers_busy:
  assumes "TransitionVolList s v = Some st"
  shows "(stg_VolumeId r0 = v \<longrightarrow> validateNodeStageReq r0 = Inr () \<longrightarrow>
       NodeStageVolume X H G ns r0 s = (Return (Inl (internal (Errorf ''Volume %s Busy, status: %v'' [v, show_status st]))), s)) \<and>
     (ust_VolumeId r1 = v \<longrightarrow> validateNodeUnStageReq r1 = Inr () \<longrightarrow>
       NodeUnstageVolume X H G ns r1 s = (Return (Inl (internal (Errorf ''Volume %s Busy, status: %v'' [v, show_status st]))), s)) \<and>
     (pub_VolumeId r2 = v \<longrightarrow>
       NodePublishVolume X H G ns r2 s = (Return (Inl (internal (Errorf ''Volume %s Busy, status: %v'' [v, show_status st]))), s)) \<and>
     (upb_VolumeId r3 = v \<longrightarrow>
       NodeUnpublishVolume X H G ns r3 s = (Return (Inl (internal (Errorf ''Volume %s Busy, status: %v'' [v, show_status st]))), s)) \<and>
     (nx_VolumeId r4 = v \<longrightarrow> NodeExpandVolume X H G ns r4 s =
       (Return (Inl (expandError v (Errorf ''Volume %s Busy, status: %v'' [v, show_status st]))), s))"
  using assms
  by (auto simp: NodeStageVolume_def with_transition_busy unstage.busy_refused publish.busy_refused unpublish.busy_refused expand.busy_refused)

theorem node_handlers_busy_witness:
  "NodeStageVolume sample_kube sample_host sample_globals (NewNode ''n1'') sample_stage_req
     (sample_staging\<lparr>TransitionVolList := [''v'' \<mapsto> UnmountUnderProgress]\<rparr>) =
   (Return (Inl (internal (Errorf ''Volume %s Busy, status: %v'' [''v'', ''UnmountUnderProgress'']))),
    sample_staging\<lparr>TransitionVolList := [''v'' \<mapsto> UnmountUnderProgress]\<rparr>)"
proof -
  let ?s = "sample_staging\<lparr>TransitionVolList := [''v'' \<mapsto> UnmountUnderProgress]\<rparr>"
  have "TransitionVolList ?s ''v'' = Some UnmountUnderProgress" by simp
  from conjunct1 [OF node_handlers_busy [OF this, of sample_stage_req sample_kube sample_host sample_globals "NewNode ''n1''"]]
  show ?thesis by (simp add: sample_stage_req_def validateNodeStageReq_def show_status_def)
qed

end
