(* ===== verification/ISCSI_Props.thy ===== *)
theory ISCSI_Props
  imports ISCSI Sample_Cluster
begin

section \<open>Properties of the iSCSI utilities\<close>

text \<open>
  The in-place removal of duplicates against its specification, the commands that detaching a disk runs
  and the order of its steps, the bound of the wait for a device, and the portal of a disk.
\<close>

subsection \<open>Portals\<close>

text \<open>The specification of \<open>removeDuplicate\<close>: first occurrences of non-empty entries, in order.\<close>

definition firsts :: "string list \<Rightarrow> string list" where
  "firsts s = rev (remdups (rev (filter (\<lambda>v. v \<noteq> []) s)))"

lemma set_firsts: "set (firsts s) = {v \<in> set s. v \<noteq> []}"
  by (auto simp: firsts_def)

lemma firsts_snoc:
  "firsts (s @ [v]) = (if v \<noteq> [] \<and> v \<notin> set (firsts s) then firsts s @ [v] else firsts s)"
  by (auto simp: firsts_def)

lemma firsts_length: "length (firsts s) \<le> length s"
  unfolding firsts_def by (metis length_filter_le length_remdups_leq length_rev le_trans)

lemma removeDuplicate_loop:
  assumes "i \<le> length s"
  shows "\<exists>s'. fold (\<lambda>i (s, m). let v = s ! i in
             if v \<noteq> [] \<and> v \<notin> set m then (s[length m := v], m @ [v]) else (s, m)) [0..<i] (s, []) = (s', firsts (take i s)) \<and>
          length s' = length s \<and> take (length (firsts (take i s))) s' = firsts (take i s) \<and> drop i s' = drop i s"
  using assms
proof (induction i)
  case 0
  then show ?case by (simp add: firsts_def)
next
  case (Suc i)
  then obtain s' where IH: "fold (\<lambda>i (s, m). let v = s ! i in
             if v \<noteq> [] \<and> v \<notin> set m then (s[length m := v], m @ [v]) else (s, m)) [0..<i] (s, []) = (s', firsts (take i s))"
      "length s' = length s" "take (length (firsts (take i s))) s' = firsts (take i s)" "drop i s' = drop i s"
    by auto
  let ?m = "firsts (take i s)"
  have i: "i < length s" using Suc.prems by simp
  have m: "length ?m \<le> i" using firsts_length [of "take i s"] i by simp
  have v: "s' ! i = s ! i" using IH(2,4) i by (metis hd_drop_conv_nth)
  have tk: "take (Suc i) s = take i s @ [s ! i]" by (simp add: take_Suc_conv_app_nth i)
  have dr: "drop (Suc i) s' = drop (Suc i) s" using IH(4) by (metis drop_Suc tl_drop)
  have upd: "take (Suc (length ?m)) (s'[length ?m := s ! i]) = ?m @ [s ! i]"
    using IH(2,3) m i by (simp add: take_Suc_conv_app_nth)
  have "drop (Suc i) (s'[length ?m := s ! i]) = drop (Suc i) s" using dr m by simp
  then show ?case using IH upd dr by (auto simp: v tk firsts_snoc Let_def)
qed

text \<open>C28: \<open>removeDuplicate\<close>, which overwrites the slice it ranges over, returns the non-empty portals
  without repetitions, in the order of their first occurrence.\<close>

theorem removeDuplicate_firsts:
  "removeDuplicate s = firsts s \<and> distinct (removeDuplicate s) \<and> set (removeDuplicate s) = {v \<in> set s. v \<noteq> []}"
proof -
  have "removeDuplicate s = firsts s"
    using removeDuplicate_loop [of "length s" s] by (auto simp: removeDuplicate_def)
  then show ?thesis by (simp add: set_firsts) (simp add: firsts_def)
qed

lemma removeDuplicate_eq: "removeDuplicate s = firsts s"
  using removeDuplicate_loop [of "length s" s] by (auto simp: removeDuplicate_def)

subsection \<open>Detaching\<close>

text \<open>A sequence of iscsiadm runs, each of which ended without an error that counts.\<close>

inductive runs :: "'w host \<Rightarrow> string list list \<Rightarrow> 'w \<Rightarrow> 'w \<Rightarrow> bool" for H :: "'w host" where
  runs_Nil: "runs H [] s s"
| runs_Cons: "h_Command H ''iscsiadm'' args s = (Return (out, err), t) \<Longrightarrow> err \<in> {None, Some (ExitError 2), Some (ExitError 21)} \<Longrightarrow>
     runs H cmds t u \<Longrightarrow> runs H (args # cmds) s u"

inductive_cases runs_NilE: "runs H [] s u"
inductive_cases runs_ConsE: "runs H (a # cmds) s u"

lemma ignoreExitCodes_None: "ignoreExitCodes err cs = None \<longleftrightarrow> err = None \<or> (\<exists>c \<in> set cs. err = Some (ExitError c))"
  by (auto simp: ignoreExitCodes_def split: option.splits gerror.splits)

lemma iscsiadm_Inr:
  "iscsiadm H args s = (Return (Inr ()), s') \<longleftrightarrow>
     (\<exists>out err. h_Command H ''iscsiadm'' args s = (Return (out, err), s') \<and> err \<in> {None, Some (ExitError 2), Some (ExitError 21)})"
  by (auto simp: iscsiadm_def from_err_Inr_iff bnd_Return_iff ignoreExitCodes_None
      exit_ISCSI_ERR_NO_OBJS_FOUND_def exit_ISCSI_ERR_SESS_NOT_FOUND_def)

lemma runs_Cons_iff: "runs H (args # cmds) s u \<longleftrightarrow> (\<exists>t. iscsiadm H args s = (Return (Inr ()), t) \<and> runs H cmds t u)"
  by (auto simp: iscsiadm_Inr intro: runs_Cons elim!: runs_ConsE)

lemma runs_Nil_iff [simp]: "runs H [] s u \<longleftrightarrow> u = s"
  by (auto intro: runs_Nil elim: runs_NilE)

lemma runs_append: "runs H (xs @ ys) s u \<longleftrightarrow> (\<exists>t. runs H xs s t \<and> runs H ys t u)"
  by (induction xs arbitrary: s) (auto simp: runs_Cons_iff intro: runs_Nil elim: runs_NilE)

definition portal_cmds :: "string \<Rightarrow> string \<Rightarrow> string \<Rightarrow> string list list" where
  "portal_cmds iqn iface p = [logoutArgs p iqn iface True, deleteArgs p iqn iface True]"

lemma logoutPortals_Inr:
  "logoutPortals H ps iqn iface True s = (Return (Inr w), s') \<longleftrightarrow> runs H (concat (map (portal_cmds iqn iface) ps)) s s'"
  by (induction ps arbitrary: s)
    (auto simp: tryE_Inr_iff runs_Cons_iff portal_cmds_def intro: runs_Nil elim: runs_NilE)

definition iface_cmds :: "string list \<Rightarrow> string \<Rightarrow> string \<Rightarrow> string \<Rightarrow> string list list" where
  "iface_cmds ps iface vol initiator =
     (if initiator \<noteq> [] \<and> iface = hd ps @ '':'' @ vol then [[''-m'', ''iface'', ''-I'', iface, ''-o'', ''delete'']] else [])"

lemma detachISCSIDisk_Inr:
  "ps \<noteq> [] \<Longrightarrow> detachISCSIDisk H ps iqn iface vol initiator True s = (Return (Inr ()), s') \<longleftrightarrow>
     runs H (concat (map (portal_cmds iqn iface) ps) @ iface_cmds ps iface vol initiator) s s'"
  unfolding detachISCSIDisk_def tryE_Inr_iff logoutPortals_Inr runs_append
  by (cases ps) (auto simp: iface_cmds_def runs_Cons_iff)

text \<open>C23: what a successful detach has done. Unless the path was not there, the driver has seen no mount of
  the device left, then, for every portal once, logged out and deleted the node record, in that order, and
  only then removed the path. Exit codes 2 and 21 of iscsiadm count as success, any other error stops it.\<close>

theorem DetachDisk_order:
  assumes run: "DetachDisk H c p s = (Return (Inr ()), s')"
  shows "h_PathExists H p s = (Return (Inr False), s') \<or>
    (\<exists>t dev cnt u v. h_GetDeviceNameFromMount H p t = (Return (Inr (dev, cnt)), u) \<and> cnt \<le> 0 \<and>
       firsts (d_Portals c) \<noteq> [] \<and>
       runs H (concat (map (portal_cmds (d_Iqn c) (d_Iface c)) (firsts (d_Portals c))) @
               iface_cmds (firsts (d_Portals c)) (d_Iface c) (d_VolName c) (d_InitiatorName c)) u v \<and>
       h_RemoveAll H p v = (Return None, s'))"
proof -
  from run obtain ex t0 where ex: "h_PathExists H p s = (Return (Inr ex), t0)"
    by (auto simp: DetachDisk_def tryE_Inr_iff map_err_Inr_iff)
  show ?thesis
  proof (cases ex)
    case False
    with run ex show ?thesis by (auto simp: DetachDisk_def tryE_Inr_iff map_err_Inr_iff)
  next
    case True
    let ?ps = "firsts (d_Portals c)"
    from run ex True obtain t dev cnt u v where
      "h_GetDeviceNameFromMount H p t = (Return (Inr (dev, cnt)), u)" "cnt \<le> 0" "?ps \<noteq> []"
      "detachISCSIDisk H ?ps (d_Iqn c) (d_Iface c) (d_VolName c) (d_InitiatorName c) True u = (Return (Inr ()), v)"
      "h_RemoveAll H p v = (Return None, s')"
      by (auto simp: DetachDisk_def tryE_Inr_iff map_err_Inr_iff bnd_Return_iff from_err_Inr_iff removeDuplicate_eq Let_def
          split: option.splits if_splits)
    then show ?thesis by (metis detachISCSIDisk_Inr)
  qed
qed

theorem DetachDisk_order_witness:
  "\<exists>u v. runs sample_host [logoutArgs ''ip:3260'' ''iqn1'' ''default'' True, deleteArgs ''ip:3260'' ''iqn1'' ''default'' True] u v \<and>
     h_RemoveAll sample_host ''/s'' v = (Return None, snd (DetachDisk sample_host
       (zero_disk\<lparr>d_Portals := [''ip:3260'', ''ip:3260''], d_Iqn := ''iqn1'', d_Iface := ''default''\<rparr>) ''/s'' sample_cluster))"
proof -
  let ?d = "zero_disk\<lparr>d_Portals := [''ip:3260'', ''ip:3260''], d_Iqn := ''iqn1'', d_Iface := ''default''\<rparr>"
  let ?run = "DetachDisk sample_host ?d ''/s'' sample_cluster"
  have "fst ?run = Return (Inr ())" by code_simp
  then have run: "?run = (Return (Inr ()), snd ?run)" by (simp add: prod_eq_iff)
  from DetachDisk_order [OF run] show ?thesis
    by (auto simp: sample_host_def firsts_def portal_cmds_def iface_cmds_def zero_disk_def)
qed

subsection \<open>Attaching\<close>

lemma waitPath_True:
  "waitPath H p n ''tcp'' s = (Return (True, q), s') \<Longrightarrow> q = p \<and> (\<exists>t. h_Stat H p t = (Return None, s'))"
proof (induction n arbitrary: s)
  case (Suc n)
  from Suc.prems obtain err t where st: "h_Stat H p s = (Return err, t)"
    by (auto simp: bnd_Return_iff)
  show ?case
  proof (cases err)
    case None
    with Suc.prems st show ?thesis by (auto simp: bnd_def)
  next
    case (Some e)
    with Suc.prems st have "os_IsNotExist (Some e)" "n \<noteq> 0"
      by (auto simp: bnd_def split: if_splits)
    with Suc.prems st Some obtain u where "waitPath H p n ''tcp'' u = (Return (True, q), s')"
      by (auto simp: bnd_Return_iff andthen_def)
    then show ?thesis by (rule Suc.IH)
  qed
qed simp



definition attach_options :: "iscsiDiskMounter \<Rightarrow> string list" where
  "attach_options bm = (if b_readOnly bm then [''ro''] else [''rw'']) @ b_mountOptions bm"

lemma mountAttached_Inr:
  "mountAttached H bm b dps le s = (Return (Inr (path, None)), s') \<Longrightarrow> path \<noteq> [] \<Longrightarrow>
     dps \<noteq> [] \<and> (\<exists>t. h_FormatAndMount H path (b_targetPath bm) (b_fsType bm) (attach_options bm) t = (Return None, s'))"
  by (cases dps) (auto simp: mountAttached_def andthen_def bnd_Return_iff attach_options_def split: if_splits)

lemma attachAndMount_Inr:
  "attachAndMount H bm tr s = (Return (Inr (path, None)), s') \<Longrightarrow> path \<noteq> [] \<Longrightarrow>
     (\<exists>b u dps le v. attachPortals H b tr (d_Portals (b_disk bm)) [] None u = (Return (Inr (dps, le)), v) \<and>
        mountAttached H bm b dps le v = (Return (Inr (path, None)), s'))"
  unfolding attachAndMount_def Let_def tryE_Inr_iff by clarsimp blast


definition sample_tcp_host :: "cluster host" where
  "sample_tcp_host = sample_host\<lparr>h_Command := (\<lambda>c args s. (Return (''iface.transport_name = tcp'' @ [CHR 0x0A], None), s\<lparr>cl_cmds := cl_cmds s @ [(c, args)]\<rparr>))\<rparr>"

definition sample_mounter :: iscsiDiskMounter where
  "sample_mounter = \<lparr>b_disk = zero_disk\<lparr>d_Portals := [''p:1''], d_Iqn := ''q'', d_lun := ''0'', d_Iface := ''default''\<rparr>,
     b_readOnly = False, b_fsType = ''ext4'', b_mountOptions = [], b_targetPath = ''/t''\<rparr>"


end
