(* ===== verification/Node_Props.thy ===== *)
theory Node_Props
  imports Node_Frames ISCSI_Props
begin

section \<open>What the node handlers guarantee\<close>

text \<open>
  Staging, unstaging, publishing, and the helpers they use. The statements invert a successful run: they
  say which calls to the cluster and the host it made, in which order and with which arguments.
\<close>

subsection \<open>One node at a time\<close>

text \<open>A node counts as gone when it is reported not ready or not found.\<close>

definition seen_gone :: "'w kube \<Rightarrow> string \<Rightarrow> bool" where
  "seen_gone X n = (\<exists>t r t'. IsNodeReady X n t = (Return r, t') \<and> (case r of Inr ready \<Rightarrow> \<not> ready | Inl e \<Rightarrow> IsNotFound e))"

definition may_replace :: "'w kube \<Rightarrow> string \<Rightarrow> string \<Rightarrow> CStorVolumeAttachment \<Rightarrow> bool" where
  "may_replace X v n a =
     (if cva_Name a = v @ ''-'' @ n then cva_DeletionTimestamp a = None
      else nget (cva_Labels a) ''nodeID'' \<noteq> n \<and> seen_gone X (nget (cva_Labels a) ''nodeID''))"

lemma checkAttachments_Inr:
  "checkAttachments X v n vols w = (Return (Inr u), w') \<Longrightarrow> \<forall>a \<in> set vols. may_replace X v n a"
proof (induction vols arbitrary: w)
  case (Cons a vols)
  let ?o = "nget (cva_Labels a) ''nodeID''"
  show ?case
  proof (cases "cva_Name a = v @ ''-'' @ n")
    case True
    with Cons show ?thesis by (auto simp: may_replace_def split: if_splits)
  next
    case False
    with Cons.prems obtain r t where o: "?o \<noteq> n" and r: "IsNodeReady X ?o w = (Return r, t)"
      by (auto simp: Let_def bnd_Return_iff split: if_splits)
    have gone: "(case r of Inr ready \<Rightarrow> \<not> ready | Inl e \<Rightarrow> IsNotFound e) \<and>
        checkAttachments X v n vols t = (Return (Inr u), w')"
      using Cons.prems False o r by (auto simp: Let_def bnd_def split: sum.splits if_splits)
    with r have "may_replace X v n a" using False o by (auto simp: seen_gone_def may_replace_def)
    moreover have "\<forall>a \<in> set vols. may_replace X v n a" using gone Cons.IH by blast
    ultimately show ?thesis by simp
  qed
qed simp

lemma NodeStage_Inr:
  assumes "NodeStageVolume X H G ns req s = (Return (Inr u), s')"
  shows "stg_VolumeCapability req \<noteq> None \<and> stg_VolumeId req \<noteq> [] \<and> TransitionVolList s (stg_VolumeId req) = None \<and>
    (\<exists>t. NodeStage_body X H G ns req (s\<lparr>TransitionVolList := (TransitionVolList s)(stg_VolumeId req \<mapsto> Uninitialized)\<rparr>) =
       (Return (Inr u), t) \<and> world s' = world t)"
  using assms by (auto simp: NodeStageVolume_def validateNodeStageReq_def split: if_splits dest!: with_transition_Inr)

lemma DeleteOld_Inr:
  "DeleteOldCStorVolumeAttachmentCRs X G v n w = (Return (Inr u), w') \<Longrightarrow>
   \<exists>old t t'. GetVolList X G v w = (Return (Some old, None), t) \<and> deletes X G (map cva_Name old) t t'"
  unfolding DeleteOldCStorVolumeAttachmentCRs_def tryP_Inr_iff tryE_Inr_iff by (auto simp: markForDeletion_Inr)



subsection \<open>What staging has done\<close>

lemma waitReady_Inr:
  "waitReady X H G v k s = (Return (Inr u), s') \<Longrightarrow> \<exists>w st. getVolStatus X G v w = (Return (Inr st), world s') \<and> serves st"
proof (induction X H G v k arbitrary: s rule: waitReady.induct)
  case (1 X H G v k)
  from "1.prems" obtain st t where st: "on_world (getVolStatus X G v) s = (Return (Inr st), t)"
    by (subst (asm) waitReady.simps) (auto simp: tryE_Inr_iff)
  show ?case
  proof (cases "serves st")
    case True
    with "1.prems" st show ?thesis
      by (subst (asm) waitReady.simps) (auto simp: tryE_def bnd_def intro!: exI [of _ "world s"] exI [of _ st])
  next
    case False
    with "1.prems" st obtain t' where "\<not> VolumeWaitRetryCount \<le> k" "waitReady X H G v (k + 1) t' = (Return (Inr u), s')"
      by (subst (asm) waitReady.simps) (auto simp: tryE_def bnd_def andthen_def setTransition_def split: if_splits prod.splits outcome.splits)
    with "1.IH" False show ?thesis by blast
  qed
qed

lemma waitReachable_Inr:
  "waitReachable H v p k w = (Return (Inr u), w') \<Longrightarrow>
   \<exists>t conn t'. h_Dial H p t = (Return (Inr conn), t') \<and> h_CloseConn H conn t' = (Return (), w')"
proof (induction H v p k arbitrary: w rule: waitReachable.induct)
  case (1 H v p k)
  from "1.prems" obtain r t where r: "h_Dial H p w = (Return r, t)"
    by (subst (asm) waitReachable.simps) (auto simp: bnd_Return_iff)
  show ?case
  proof (cases r)
    case (Inr conn)
    with "1.prems" r show ?thesis
      by (subst (asm) waitReachable.simps) (auto simp: bnd_Return_iff andthen_def)
  next
    case (Inl e)
    with "1.prems" r obtain t' where "\<not> VolumeWaitRetryCount \<le> k + 1" "waitReachable H v p (k + 1) t' = (Return (Inr u), w')"
      by (subst (asm) waitReachable.simps) (auto simp: bnd_Return_iff andthen_def split: if_splits)
    with "1.IH" Inl show ?thesis by blast
  qed
qed

definition reachable :: "'w host \<Rightarrow> string \<Rightarrow> bool" where
  "reachable H p = (\<exists>t conn t'. h_Dial H p t = (Return (Inr conn), t'))"

definition serving :: "'w kube \<Rightarrow> utils_globals \<Rightarrow> string \<Rightarrow> bool" where
  "serving X G v = (\<exists>w st w'. getVolStatus X G v w = (Return (Inr st), w') \<and> serves st)"

lemma wait_Inr:
  "WaitForVolumeReadyAndReachable X H G vol s = (Return (Inr u), s') \<Longrightarrow>
   serving X G (cva_VolName vol) \<and> reachable H (cva_TargetPortal vol)"
  unfolding WaitForVolumeReadyAndReachable_def WaitForVolumeToBeReady_def WaitForVolumeToBeReachable_def tryE_Inr_iff serving_def reachable_def
  by (auto dest!: waitReady_Inr waitReachable_Inr)

text \<open>The staging path is mounted: it was a mount point, or the device was formatted and mounted there with
  the file system and the flags of the request.\<close>

definition mounted_at :: "'w host \<Rightarrow> NodeStageVolumeRequest \<Rightarrow> string \<Rightarrow> 'w \<Rightarrow> bool" where
  "mounted_at H req dev w' =
     ((\<exists>t err t'. h_IsLikelyNotMountPoint H (stg_StagingTargetPath req) t = (Return (False, err), t')) \<or>
      (\<exists>t. h_FormatAndMount H dev (stg_StagingTargetPath req) (mount_FsType (cap_Mount (stg_VolumeCapability req)))
         (mount_Flags (cap_Mount (stg_VolumeCapability req))) t = (Return None, w')))"

lemma formatAndMount_Inr:
  assumes "formatAndMount H req dev w = (Return (Inr u), w')"
  shows "mounted_at H req dev w'"
proof -
  from assms obtain notMnt err t where "h_IsLikelyNotMountPoint H (stg_StagingTargetPath req) w = (Return (notMnt, err), t)"
    by (auto simp: formatAndMount_def Let_def bnd_Return_iff)
  with assms show ?thesis
    by (cases notMnt) (auto simp: formatAndMount_def Let_def bnd_def tryE_Inr_iff from_err_Inr_iff mounted_at_def)
qed

lemma attachDisk_Inr:
  "attachDisk H vol w = (Return (Inr dev), w') \<Longrightarrow>
   dev \<noteq> [] \<and> h_Connect H \<lparr>conn_VolumeName = cva_VolName vol, conn_Targets = [(cva_Iqn vol, getTargetIP (cva_TargetPortal vol))],
     conn_Lun = 0, conn_Interface = ''default'', conn_DoDiscovery = True\<rparr> w = (Return (dev, None), w')"
  by (auto simp: attachDisk_def bnd_Return_iff split: option.splits if_splits)

lemma stageMount_Inr:
  assumes "stageMount X H G req vol s = (Return (Inr u), s')"
  shows "\<exists>vol' w dev w1 w2. UpdateCStorVolumeAttachmentCR X G (Some (vol\<lparr>cva_StagingTargetPath := stg_StagingTargetPath req,
       cva_Finalizers := Some [NodeIDENV G], cva_DevicePath := byPath vol\<rparr>)) (world s) = (Return (Some vol', None), w) \<and>
     attachDisk H vol' w = (Return (Inr dev), w1) \<and>
     (cap_AccessType (stg_VolumeCapability req) = AccessBlock \<or> mounted_at H req dev (world s'))"
proof -
  let ?v = "vol\<lparr>cva_StagingTargetPath := stg_StagingTargetPath req, cva_Finalizers := Some [NodeIDENV G], cva_DevicePath := byPath vol\<rparr>"
  from assms obtain vol' w where up: "UpdateCStorVolumeAttachmentCR X G (Some ?v) (world s) = (Return (Some vol', None), w)"
    unfolding stageMount_def Let_def bnd_Return_iff
    by (auto simp: bnd_Return_iff andthen_def deref_def split: option.splits)
  with assms obtain dev w1 where at: "attachDisk H vol' w = (Return (Inr dev), w1)"
    unfolding stageMount_def Let_def
    by (auto simp: bnd_def andthen_def deref_def setTransition_def on_world_def split: prod.splits outcome.splits sum.splits option.splits)
  have "cap_AccessType (stg_VolumeCapability req) = AccessBlock \<or> (\<exists>w2. formatAndMount H req dev w2 = (Return (Inr ()), world s'))"
    using assms up at unfolding stageMount_def Let_def
    by (auto simp: bnd_def andthen_def tryE_def map_err_def from_err_def deref_def setTransition_def on_world_def
        split: prod.splits outcome.splits sum.splits option.splits if_splits)
  with up at show ?thesis by (blast dest: formatAndMount_Inr)
qed

lemma VerifyIfMountRequired_False:
  assumes "VerifyIfMountRequired H v p w = (Return (Inr False), w')"
  shows "\<exists>mounts m. h_List H w = (Return (Inr mounts), w') \<and> m \<in> set mounts \<and> Contains (mp_Path m) v \<and> Contains (mp_Path m) p"
proof -
  from assms obtain mounts t where l: "h_List H w = (Return (Inr mounts), t)"
    by (auto simp: VerifyIfMountRequired_def GetMounts_def tryE_Inr_iff)
  let ?cur = "map mp_Path (filter (\<lambda>m. Contains (mp_Path m) v) mounts)"
  have "t = w' \<and> list_ex (\<lambda>m. Contains m p) ?cur"
    using assms l by (cases ?cur) (auto simp: VerifyIfMountRequired_def GetMounts_def tryE_def bnd_def
      split: if_splits prod.splits outcome.splits sum.splits)
  with l show ?thesis by (auto simp: list_ex_iff)
qed



subsection \<open>Unstaging\<close>

text \<open>C20: the order of unstaging. When it succeeds, then the attachment is gone already, or it has no
  staging path, or the disk was unmounted and logged out first, then the finalizer and the staging path
  were taken out of the attachment, and only then the attachment of this node was deleted.\<close>

theorem NodeUnstage_order:
  assumes run: "NodeUnstageVolume X H G ns req s = (Return (Inr u), s')"
  shows "\<exists>p err w. GetCStorVolumeAttachment X G (attachmentName G (ust_VolumeId req)) (world s) = (Return (p, err), w) \<and>
    (case err of
       Some e \<Rightarrow> IsNotFound e \<and> world s' = w
     | None \<Rightarrow> \<exists>vol. p = Some vol \<and>
         (if cva_StagingTargetPath vol = [] then world s' = w
          else \<exists>w1 q w2. UnmountAndDetachDisk H vol (ust_StagingTargetPath req) w = (Return (Inr ()), w1) \<and>
            UpdateCStorVolumeAttachmentCR X G (Some (vol\<lparr>cva_Finalizers := None, cva_StagingTargetPath := []\<rparr>)) w1 = (Return (q, None), w2) \<and>
            DeleteCStorVolumeAttachmentCR X G (ust_VolumeId req @ ''-'' @ n_NodeID ns) w2 = (Return None, world s')))"
proof -
  let ?s = "s\<lparr>TransitionVolList := (TransitionVolList s)(ust_VolumeId req \<mapsto> Uninitialized)\<rparr>"
  from unstage.success_body [OF run] obtain t where
    body: "NodeUnstage_body X H G ns req ?s = (Return (Inr u), t)" and t: "world s' = world t" by blast
  from body obtain p err w where
    get: "GetCStorVolumeAttachment X G (attachmentName G (ust_VolumeId req)) (world s) = (Return (p, err), w)"
    by (auto simp: NodeUnstage_body_def Let_def bnd_Return_iff)
  show ?thesis
  proof (cases err)
    case (Some e)
    with get body t show ?thesis
      by (auto simp: NodeUnstage_body_def Let_def bnd_def on_world_def split: if_splits)
  next
    case None
    with get body obtain vol where p: "p = Some vol"
      by (cases p) (auto simp: NodeUnstage_body_def Let_def bnd_def on_world_def deref_def)
    let ?rest = "andthen (setTransition (ust_VolumeId req) UnmountUnderProgress)
          (tryE (map_err internal (on_world (UnmountAndDetachDisk H vol (ust_StagingTargetPath req)))) (\<lambda>_.
           andthen (setTransition (ust_VolumeId req) Unmounted)
           (bnd (on_world (UpdateCStorVolumeAttachmentCR X G
                  (Some (vol\<lparr>cva_Finalizers := None, cva_StagingTargetPath := []\<rparr>)))) (\<lambda>(_, err). case err of
              Some e \<Rightarrow> fail (internal e)
            | None \<Rightarrow> map_err internal (from_err (on_world
                (DeleteCStorVolumeAttachmentCR X G (ust_VolumeId req @ ''-'' @ n_NodeID ns))))))))"
    from get body None p have "(if cva_StagingTargetPath vol = [] then ok else ?rest) (?s\<lparr>world := w\<rparr>) = (Return (Inr u), t)"
      by (simp add: NodeUnstage_body_def Let_def bnd_def on_world_def deref_def)
    with get None p t show ?thesis
      by (auto simp: bnd_Return_iff andthen_def setTransition_def tryE_Inr_iff map_err_Inr_iff from_err_Inr_iff
          split: if_splits option.splits)
  qed
qed

definition sample_staged :: "cluster nstate" where
  "sample_staged = snd (NodeStageVolume sample_kube sample_host sample_globals (NewNode ''n1'') sample_stage_req sample_staging)"

definition sample_unstage_req :: NodeUnstageVolumeRequest where
  "sample_unstage_req = \<lparr>ust_VolumeId = ''v'', ust_StagingTargetPath = ''/staging/v''\<rparr>"

theorem NodeUnstage_order_witness:
  "\<exists>w2. DeleteCStorVolumeAttachmentCR sample_kube sample_globals ''v-n1'' w2 =
     (Return None, world (snd (NodeUnstageVolume sample_kube sample_host sample_globals (NewNode ''n1'') sample_unstage_req sample_staged)))"
proof -
  let ?run = "NodeUnstageVolume sample_kube sample_host sample_globals (NewNode ''n1'') sample_unstage_req sample_staged"
  let ?get = "GetCStorVolumeAttachment sample_kube sample_globals (attachmentName sample_globals (ust_VolumeId sample_unstage_req)) (world sample_staged)"
  have "fst ?run = Return (Inr ())" by code_simp
  then have run: "?run = (Return (Inr ()), snd ?run)" by (simp add: prod_eq_iff)
  have get: "case fst ?get of Return (Some v, None) \<Rightarrow> cva_StagingTargetPath v \<noteq> [] | _ \<Rightarrow> False" by code_simp
  from NodeUnstage_order [OF run] get show ?thesis
    by (auto simp: sample_unstage_req_def NewNode_def split: option.splits if_splits)
qed

subsection \<open>Publishing\<close>

lemma addFlags_spec:
  "distinct opts \<Longrightarrow> opts \<noteq> [] \<Longrightarrow>
   distinct (addFlags opts fs) \<and> hd (addFlags opts fs) = hd opts \<and> set (addFlags opts fs) = set opts \<union> set fs"
proof (induction fs arbitrary: opts)
  case (Cons f fs)
  then show ?case using Cons.IH [of "opts @ [f]"] Cons.IH [of opts] by auto
qed simp

lemma mountOrRemove_Inr [res_iff]:
  "mountOrRemove H source target fs opts pick w = (Return (Inr u), w') \<longleftrightarrow> h_Mount H source target fs opts w = (Return None, w')"
  by (auto simp: mountOrRemove_def bnd_Return_iff split: option.splits)

text \<open>C21: publishing a file system. When it succeeds, the target path was recorded in the attachment, and the
  last thing that happened is a mount of the staging path at the target path, with the file system of the
  request or ext4. Its options begin with bind, have no duplicates, and are bind, ro for a read-only
  request, and the flags of the request, nothing else.\<close>

theorem NodePublish_mounts:
  assumes run: "NodePublishVolume X H G ns req s = (Return (Inr u), s')"
    and cap: "cap_AccessType (pub_VolumeCapability req) = AccessMount m"
  shows "\<exists>vol w p w1 w2 opts.
     GetCStorVolumeAttachment X G (attachmentName G (pub_VolumeId req)) (world s) = (Return (Some vol, None), w) \<and>
     UpdateCStorVolumeAttachmentCR X G (Some (vol\<lparr>cva_TargetPath := pub_TargetPath req\<rparr>)) w = (Return (p, None), w1) \<and>
     h_Mount H (pub_StagingTargetPath req) (pub_TargetPath req) (if mount_FsType m = [] then ''ext4'' else mount_FsType m) opts w2 =
       (Return None, world s') \<and>
     hd opts = ''bind'' \<and> distinct opts \<and>
     set opts = {''bind''} \<union> (if pub_Readonly req then {''ro''} else {}) \<union> set (mount_Flags m)"
proof -
  let ?o = "case m of None \<Rightarrow> publishOptions req | Some mv \<Rightarrow> addFlags (publishOptions req) (mv_MountFlags mv)"
  have o: "hd ?o = ''bind'' \<and> distinct ?o \<and> set ?o = {''bind''} \<union> (if pub_Readonly req then {''ro''} else {}) \<union> set (mount_Flags m)"
    using addFlags_spec [of "publishOptions req"]
    by (auto simp: publishOptions_def mount_Flags_def split: option.split)
  from publish.success_body [OF run] obtain t where t: "world s' = world t" and
    "NodePublish_body X H G ns req (s\<lparr>TransitionVolList := (TransitionVolList s)(pub_VolumeId req \<mapsto> Uninitialized)\<rparr>) = (Return (Inr u), t)"
    by blast
  then obtain vol w p w1 where
    "GetCStorVolumeAttachment X G (attachmentName G (pub_VolumeId req)) (world s) = (Return (Some vol, None), w)"
    "UpdateCStorVolumeAttachmentCR X G (Some (vol\<lparr>cva_TargetPath := pub_TargetPath req\<rparr>)) w = (Return (p, None), w1)"
    "nodePublishVolumeForFileSystem H req (publishOptions req) m w1 = (Return (Inr u), world t)"
    using cap by (auto simp: NodePublish_body_def Let_def bnd_Return_iff deref_def split: option.splits)
  moreover from this(3) obtain w2 where "h_Mount H (pub_StagingTargetPath req) (pub_TargetPath req)
      (if mount_FsType m = [] then ''ext4'' else mount_FsType m) ?o w2 = (Return None, world t)"
    unfolding nodePublishVolumeForFileSystem_def defaultFsType_def Let_def by (auto simp: tryE_Inr_iff mountOrRemove_Inr)
  ultimately show ?thesis using o t by metis
qed

definition sample_publish_req :: NodePublishVolumeRequest where
  "sample_publish_req = \<lparr>pub_VolumeId = ''v'', pub_StagingTargetPath = ''/staging/v'', pub_TargetPath = ''/pods/1'',
     pub_VolumeCapability = Some \<lparr>vc_AccessType = AccessMount (Some \<lparr>mv_FsType = [], mv_MountFlags = [''noatime'', ''bind'']\<rparr>),
       vc_AccessMode = Some SINGLE_NODE_WRITER\<rparr>, pub_Readonly = True\<rparr>"

theorem NodePublish_mounts_witness:
  "\<exists>w2 opts. h_Mount sample_host ''/staging/v'' ''/pods/1'' ''ext4'' opts w2 = (Return None,
       world (snd (NodePublishVolume sample_kube sample_host sample_globals (NewNode ''n1'') sample_publish_req sample_staged))) \<and>
     hd opts = ''bind'' \<and> set opts = {''bind'', ''ro'', ''noatime''}"
proof -
  let ?run = "NodePublishVolume sample_kube sample_host sample_globals (NewNode ''n1'') sample_publish_req sample_staged"
  have "fst ?run = Return (Inr ())" by code_simp
  then have run: "?run = (Return (Inr ()), snd ?run)" by (simp add: prod_eq_iff)
  have cap: "cap_AccessType (pub_VolumeCapability sample_publish_req) = AccessMount (Some \<lparr>mv_FsType = [], mv_MountFlags = [''noatime'', ''bind'']\<rparr>)"
    by (simp add: sample_publish_req_def cap_AccessType_def)
  have eq: "{''bind''} \<union> {''ro''} \<union> {''noatime'', ''bind''} = {''bind'', ''ro'', ''noatime''}" by auto
  from NodePublish_mounts [OF run cap] obtain w2 opts where
    "h_Mount sample_host ''/staging/v'' ''/pods/1'' ''ext4'' opts w2 = (Return None, world (snd ?run))" "hd opts = ''bind''"
    "set opts = {''bind''} \<union> {''ro''} \<union> {''noatime'', ''bind''}"
    by (auto simp: sample_publish_req_def mount_FsType_def mount_Flags_def)
  then show ?thesis unfolding eq by blast
qed

subsection \<open>Waiting\<close>

text \<open>A count that a computation raises by at most a given amount: here the seconds spent asleep.\<close>

definition costs :: "('s \<Rightarrow> nat) \<Rightarrow> nat \<Rightarrow> ('s, 'a) go \<Rightarrow> bool" where
  "costs count n m = (\<forall>s. count (snd (m s)) \<le> count s + n)"

lemma costs_mono: "costs count a m \<Longrightarrow> a \<le> b \<Longrightarrow> costs count b m"
  by (auto simp: costs_def) (meson add_le_cancel_left le_trans)

lemma costs_bnd: "costs count a m \<Longrightarrow> (\<And>x. costs count b (f x)) \<Longrightarrow> costs count (a + b) (bnd m f)"
  unfolding costs_def bnd_def
  by (auto split: prod.split outcome.split) (smt (verit) add.assoc add_le_mono1 le_add1 le_trans snd_conv)+

lemma costs_ret: "costs count 0 (ret x)"
  by (simp add: costs_def)

lemma costs_andthen: "costs count a m \<Longrightarrow> costs count b k \<Longrightarrow> costs count (a + b) (andthen m k)"
  by (simp add: andthen_def costs_bnd)

lemma costs_tryE: "costs count a m \<Longrightarrow> (\<And>x. costs count b (f x)) \<Longrightarrow> costs count (a + b) (tryE m f)"
  unfolding tryE_def by (rule costs_bnd) (auto split: sum.split intro: costs_mono [OF costs_ret])

lemma costs_on_world: "costs count a m \<Longrightarrow> costs (\<lambda>s. count (world s)) a (on_world m)"
  by (auto simp: costs_def on_world_def split: prod.split) (metis snd_conv)

text \<open>Time passes on a host only in sleeps, and not in reading the cluster.\<close>

definition timed :: "'w kube \<Rightarrow> 'w host \<Rightarrow> utils_globals \<Rightarrow> ('w \<Rightarrow> nat) \<Rightarrow> bool" where
  "timed X H G clock = ((\<forall>p. costs clock 0 (h_Dial H p)) \<and> (\<forall>c. costs clock 0 (h_CloseConn H c)) \<and>
     (\<forall>n. costs clock n (h_Sleep H n)) \<and> (\<forall>v. costs clock 0 (getVolStatus X G v)))"

lemma waitReachable_costs:
  "timed X H G clock \<Longrightarrow> k < VolumeWaitRetryCount \<Longrightarrow>
   costs clock (VolumeWaitTimeout * (VolumeWaitRetryCount - k)) (waitReachable H v p k)"
proof (induction H v p k rule: waitReachable.induct)
  case (1 H v p k)
  let ?n = "VolumeWaitTimeout * (VolumeWaitRetryCount - k - 1)"
  have sum: "VolumeWaitTimeout + ?n = VolumeWaitTimeout * (VolumeWaitRetryCount - k)"
    using "1.prems" by (simp add: Suc_diff_Suc flip: mult_Suc_right)
  have again: "costs clock ?n (if VolumeWaitRetryCount \<le> k + 1 then fail e else waitReachable H v p (k + 1))" for e
    using 1 by (auto intro: costs_mono [OF costs_ret])
  have h: "costs clock VolumeWaitTimeout (h_Sleep H VolumeWaitTimeout)" "costs clock 0 (h_CloseConn H c)" "costs clock 0 (h_Dial H p)" for c
    using "1.prems" by (auto simp: timed_def)
  have close: "costs clock (VolumeWaitTimeout + ?n) (andthen (h_CloseConn H c) ok)" for c
    by (rule costs_mono [OF costs_andthen [OF h(2) costs_ret]]) simp
  have "costs clock (0 + (VolumeWaitTimeout + ?n)) (waitReachable H v p k)"
    by (subst waitReachable.simps, rule costs_bnd [OF h(3)]) (split sum.split, intro conjI allI impI close costs_andthen [OF h(1) again])
  then show ?case by (simp only: sum add_0)
qed

lemma waitReady_costs:
  "timed X H G clock \<Longrightarrow> costs (\<lambda>s. clock (world s)) (VolumeWaitTimeout * (VolumeWaitRetryCount - k)) (waitReady X H G v k)"
proof (induction X H G v k rule: waitReady.induct)
  case (1 X H G v k)
  let ?c = "\<lambda>s. clock (world s)"
  have r: "costs ?c 0 (on_world (getVolStatus X G v))" "costs ?c VolumeWaitTimeout (on_world (h_Sleep H VolumeWaitTimeout))"
    using "1.prems" by (auto simp: timed_def intro: costs_on_world)
  have t: "costs ?c 0 (setTransition v WaitingForVolumeToBeReady)"
    by (simp add: costs_def setTransition_def)
  have "costs ?c (0 + VolumeWaitTimeout * (VolumeWaitRetryCount - k)) (waitReady X H G v k)"
  proof (subst waitReady.simps, rule costs_tryE [OF r(1)])
    fix st
    have "costs ?c (0 + (VolumeWaitTimeout + VolumeWaitTimeout * (VolumeWaitRetryCount - (k + 1))))
       (andthen (setTransition v WaitingForVolumeToBeReady) (andthen (on_world (h_Sleep H VolumeWaitTimeout)) (waitReady X H G v (k + 1))))"
      if "\<not> serves st" "\<not> VolumeWaitRetryCount \<le> k"
      using 1 that by (intro costs_andthen t r(2)) auto
    moreover have "VolumeWaitTimeout + VolumeWaitTimeout * (VolumeWaitRetryCount - (k + 1)) = VolumeWaitTimeout * (VolumeWaitRetryCount - k)"
      if "\<not> VolumeWaitRetryCount \<le> k" using that by (simp add: Suc_diff_Suc flip: mult_Suc_right)
    ultimately show "costs ?c (VolumeWaitTimeout * (VolumeWaitRetryCount - k)) (if serves st then ok
       else if VolumeWaitRetryCount \<le> k
       then fail (Errorf ''Volume %s is not ready: Replicas yet to connect to controller'' [v])
       else andthen (setTransition v WaitingForVolumeToBeReady)
         (andthen (on_world (h_Sleep H VolumeWaitTimeout)) (waitReady X H G v (k + 1))))"
      by (auto intro: costs_mono [OF costs_ret])
  qed
  then show ?case by simp
qed


lemma sample_cv_List:
  "pres (\<lambda>s t. t = s) (the_result (cv_List (cv_kc sample_kube ns) opts))"
proof -
  have "cv_defaultGetClientset sample_kube = ret (Some 3, None)" by (intro ext) code_simp
  then show ?thesis
    by (simp add: pres_def cv_List_def cv_getClientOrCached_def fresh_with_client [OF cv_kc_fresh] cv_defaultList_def call_fn_def deref_def)
      (simp add: sample_kube_def mk_api_def)
qed

lemma sample_timed: "timed sample_kube sample_host sample_globals cl_clock"
proof -
  have "prel (\<lambda>s t. t = (s :: cluster))" by (simp add: prel_def)
  then have "pres (\<lambda>s t. t = s) (getVolStatus sample_kube sample_globals v)" for v
    unfolding getVolStatus_def Let_def by (intro pres_tryP pres_case_list pres_ret sample_cv_List)
  then show ?thesis by (simp add: timed_def costs_def sample_host_def pres_def)
qed


subsection \<open>Endpoints\<close>

lemma tolower_eq:
  assumes "\<not> (65 \<le> (of_char d :: nat) \<and> (of_char d :: nat) \<le> 90)" "\<not> (97 \<le> (of_char d :: nat) \<and> (of_char d :: nat) \<le> 122)"
  shows "tolower c = d \<longleftrightarrow> c = d"
proof (cases "65 \<le> (of_char c :: nat) \<and> (of_char c :: nat) \<le> 90")
  case True
  have "(of_char (char_of (of_char c + 32 :: nat)) :: nat) = of_char c + 32"
    using True by (simp add: of_char_of)
  then have "tolower c \<noteq> d" using True assms(2) by (auto simp: tolower_def)
  then show ?thesis using True assms(1) by auto
qed (auto simp: tolower_def Let_def)

lemma tolower_sep: "tolower c = CHR '':'' \<longleftrightarrow> c = CHR '':''" "tolower c = CHR ''/'' \<longleftrightarrow> c = CHR ''/''"
  by (rule tolower_eq; simp)+

lemma map_tolower_sep: "map tolower xs = ''://'' \<longleftrightarrow> xs = ''://''"
  by (auto simp: map_eq_Cons_conv tolower_sep)

lemma SplitN2_first: "CHR '':'' \<notin> set a \<Longrightarrow> SplitN2 (a @ ''://'' @ b) ''://'' = [a, b]"
  by (induction a) auto

lemma scheme_no_colon: "map tolower a = s \<Longrightarrow> CHR '':'' \<notin> set s \<Longrightarrow> CHR '':'' \<notin> set a"
  by (auto simp: tolower_sep) (metis image_eqI tolower_sep(1))

lemma HasPrefix_scheme:
  "HasPrefix (ToLower ep) (s @ ''://'') \<longleftrightarrow> (\<exists>a b. ep = a @ ''://'' @ b \<and> ToLower a = s)"
proof
  assume "HasPrefix (ToLower ep) (s @ ''://'')"
  then obtain r where "map tolower ep = s @ ''://'' @ r" by (auto simp: HasPrefix_def ToLower_def prefix_def)
  from iffD1 [OF map_eq_append_conv this] obtain a c where ac: "ep = a @ c" "map tolower a = s" "map tolower c = ''://'' @ r"
    by (elim exE conjE) simp
  from iffD1 [OF map_eq_append_conv ac(3)] obtain m b where "c = m @ b" "map tolower m = ''://''"
    by (elim exE conjE) simp
  with ac have "ep = a @ m @ b" "map tolower a = s" "map tolower m = ''://''" by simp_all
  then show "\<exists>a b. ep = a @ ''://'' @ b \<and> ToLower a = s" by (auto simp: map_tolower_sep ToLower_def)
next
  assume "\<exists>a b. ep = a @ ''://'' @ b \<and> ToLower a = s"
  moreover have "map tolower ''://'' = ''://''" by (rule iffD2 [OF map_tolower_sep refl])
  ultimately show "HasPrefix (ToLower ep) (s @ ''://'')"
    by (auto simp: HasPrefix_def ToLower_def prefix_def)
qed

lemma SplitN2_scheme: "ToLower a \<in> {''unix'', ''tcp''} \<Longrightarrow> SplitN2 (a @ ''://'' @ b) ''://'' = [a, b]"
  using scheme_no_colon [of a] by (intro SplitN2_first) (auto simp: ToLower_def)

lemma parseEndpoint_scheme:
  assumes "ToLower a \<in> {''unix'', ''tcp''}"
  shows "parseEndpoint (a @ ''://'' @ b) =
    (if b \<noteq> [] then Inr (a, b) else Inl (Errorf ''Invalid endpoint: %v'' [a @ ''://'' @ b]))"
proof -
  have "HasPrefix (ToLower (a @ ''://'' @ b)) ''unix://'' \<or> HasPrefix (ToLower (a @ ''://'' @ b)) ''tcp://''"
    using HasPrefix_scheme [of "a @ ''://'' @ b" "''unix''"] HasPrefix_scheme [of "a @ ''://'' @ b" "''tcp''"] assms by auto
  then show ?thesis using SplitN2_scheme [OF assms, of b] unfolding parseEndpoint_def Let_def by simp
qed

text \<open>C29: the endpoints the driver listens on. An endpoint is accepted exactly when it is a scheme, \<open>://\<close> and a
  non-empty address, where the scheme is unix or tcp in any case of letters, and it is split there; the
  scheme is returned as it was written.\<close>

theorem parseEndpoint_iff:
  "parseEndpoint ep = Inr (a, b) \<longleftrightarrow> ep = a @ ''://'' @ b \<and> ToLower a \<in> {''unix'', ''tcp''} \<and> b \<noteq> []"
proof (cases "\<exists>a b. ep = a @ ''://'' @ b \<and> ToLower a \<in> {''unix'', ''tcp''}")
  case True
  then obtain a' b' where ep: "ep = a' @ ''://'' @ b'" "ToLower a' \<in> {''unix'', ''tcp''}" by blast
  then show ?thesis
    using parseEndpoint_scheme [OF ep(2), of b'] SplitN2_scheme
    by (metis (no_types, lifting) Inl_Inr_False list.inject prod.inject sum.inject(2))
next
  case False
  then have "\<not> HasPrefix (ToLower ep) ''unix://''" "\<not> HasPrefix (ToLower ep) ''tcp://''"
    using HasPrefix_scheme [of ep "''unix''"] HasPrefix_scheme [of ep "''tcp''"] by auto
  with False show ?thesis by (auto simp: parseEndpoint_def)
qed

subsection \<open>Statistics\<close>

lemma unat_mult_le:
  fixes a b c :: int64
  assumes "unat a \<le> unat b" "unat b * unat c < 2 ^ 63"
  shows "unat (a * c) = unat a * unat c"
proof -
  have "unat a * unat c < 2 ^ 63" using mult_le_mono1 [OF assms(1)] assms(2) by (rule le_less_trans)
  then have "unat a * unat c < 2 ^ LENGTH(64)" by simp
  then show ?thesis by (rule unat_mult_lem [THEN iffD1])
qed



end
