(* ===== verification/Transition.thy ===== *)
theory Transition
  imports Node_Frames "HOL-Library.Sublist"
begin

section \<open>Handlers, remounts and cleanups side by side\<close>

text \<open>
  The node service as a transition system. Its state is the lists with the world, and the tasks that run:
  a handler working on a volume, a remount started by the monitor, a cleanup. The steps are the operations
  of the code on the lists, each of which holds the lock: a handler entering a volume, marking a status,
  leaving; a round of the monitor (\<open>monitorTick\<close>), a round of \<open>Cleanup\<close>, the end of a remount and of a
  cleanup. In between the world changes in any way. The flag of the relation says whether \<open>Cleanup\<close> runs.
\<close>

subsection \<open>One round of the monitor\<close>

definition needs_remount :: "MountPoint list \<Rightarrow> CStorVolumeAttachment \<Rightarrow> bool" where
  "needs_remount mountList vol = (cva_DeletionTimestamp vol = None \<and> cva_AccessType vol \<noteq> ''block'' \<and>
     cva_StagingTargetPath vol \<noteq> [] \<and> cva_TargetPath vol \<noteq> [] \<and> \<not> mountedWell mountList vol)"

text \<open>The attachments a round starts remounts for, given the volumes in transition.\<close>

fun to_remount :: "MountPoint list \<Rightarrow> string set \<Rightarrow> CStorVolumeAttachment list \<Rightarrow> CStorVolumeAttachment list" where
  "to_remount mountList busy [] = []"
| "to_remount mountList busy (vol # vols) =
     (if needs_remount mountList vol \<and> cva_VolName vol \<notin> busy
      then vol # to_remount mountList (insert (cva_VolName vol) busy) vols
      else to_remount mountList busy vols)"

definition enter_all :: "string list \<Rightarrow> cva_status \<Rightarrow> (string \<rightharpoonup> cva_status) \<Rightarrow> (string \<rightharpoonup> cva_status)" where
  "enter_all vs st m = (\<lambda>v. if v \<in> set vs then Some st else m v)"

lemma enter_all_Nil [simp]: "enter_all [] st m = m"
  by (simp add: enter_all_def)

lemma enter_all_Cons [simp]: "enter_all vs st (m(v \<mapsto> st)) = enter_all (v # vs) st m"
  by (auto simp: enter_all_def)

lemma monitorItems_run:
  "monitorItems mountList vols s =
     (let ws = to_remount mountList (dom (TransitionVolList s)) vols; names = map cva_VolName ws in
      (Return (list_ex (\<lambda>v. cva_DeletionTimestamp v \<noteq> None) vols, map (remountJobFor mountList) ws),
       s\<lparr>TransitionVolList := enter_all names RemountUnderProgress (TransitionVolList s),
         ReqMountList := enter_all names RemountUnderProgress (ReqMountList s)\<rparr>))"
proof (induction vols arbitrary: s)
  case (Cons vol vols)
  let ?s = "s\<lparr>TransitionVolList := (TransitionVolList s)(cva_VolName vol \<mapsto> RemountUnderProgress),
     ReqMountList := (ReqMountList s)(cva_VolName vol \<mapsto> RemountUnderProgress)\<rparr>"
  show ?case
  proof (cases "needs_remount mountList vol \<and> TransitionVolList s (cva_VolName vol) = None")
    case True
    then have d: "cva_VolName vol \<notin> dom (TransitionVolList s)" by (simp add: domIff)
    have dom: "dom (TransitionVolList ?s) = insert (cva_VolName vol) (dom (TransitionVolList s))" by simp
    have "monitorItems mountList (vol # vols) s = (case monitorItems mountList vols ?s of
        (Return (c, jobs), t) \<Rightarrow> (Return (c, remountJobFor mountList vol # jobs), t) | (Panic p, t) \<Rightarrow> (Panic p, t))"
      using True by (simp add: needs_remount_def bnd_def andthen_def requestMount_def setTransition_def
          split: prod.split outcome.split)
    with True d show ?thesis
      unfolding Cons.IH [of ?s] dom by (simp add: Let_def needs_remount_def)
  next
    case False
    then show ?thesis
      using Cons.IH [of s] by (auto simp: needs_remount_def bnd_def Let_def domIff split: option.split)
  qed
qed simp

lemma to_remount_spec:
  "set (to_remount ml busy vols) \<subseteq> {v \<in> set vols. needs_remount ml v} \<and>
   distinct (map cva_VolName (to_remount ml busy vols)) \<and>
   cva_VolName ` set (to_remount ml busy vols) \<inter> busy = {} \<and>
   (\<forall>v \<in> set vols. needs_remount ml v \<longrightarrow> cva_VolName v \<in> busy \<union> cva_VolName ` set (to_remount ml busy vols))"
proof (induction vols arbitrary: busy)
  case (Cons v vols)
  show ?case
    using Cons.IH [of busy] Cons.IH [of "insert (cva_VolName v) busy"] by (auto simp: image_iff)
qed simp

text \<open>C19: a round of the monitor over the attachments of the node always completes. It asks for a cleanup
  exactly when some attachment is being deleted. It starts at most one remount per volume, only for volumes
  that were not in transition, and only for attachments that are staged and published, are no block volumes
  and are not mounted read-write; every such volume is in transition afterwards. The volumes of the new
  remounts are entered in both lists, and no other entry changes.\<close>

theorem monitor_round:
  "\<exists>ws. monitorItems mountList vols s =
     (Return (list_ex (\<lambda>v. cva_DeletionTimestamp v \<noteq> None) vols, map (remountJobFor mountList) ws),
      s\<lparr>TransitionVolList := enter_all (map cva_VolName ws) RemountUnderProgress (TransitionVolList s),
        ReqMountList := enter_all (map cva_VolName ws) RemountUnderProgress (ReqMountList s)\<rparr>) \<and>
    distinct (map cva_VolName ws) \<and> set ws \<subseteq> {v \<in> set vols. needs_remount mountList v} \<and>
    cva_VolName ` set ws \<inter> dom (TransitionVolList s) = {} \<and>
    cva_VolName ` {v \<in> set vols. needs_remount mountList v} \<subseteq> dom (TransitionVolList s) \<union> cva_VolName ` set ws"
  using monitorItems_run [of mountList vols s] to_remount_spec [of mountList "dom (TransitionVolList s)" vols]
  by (auto simp: Let_def)

subsection \<open>The system\<close>

datatype task = Handling string | Remounting remount_job | Cleaning CStorVolumeAttachment

fun task_volume :: "task \<Rightarrow> string" where
  "task_volume (Handling v) = v"
| "task_volume (Remounting j) = cva_VolName (rj_vol j)"
| "task_volume (Cleaning vol) = cva_VolName vol"

record 'w sys =
  lists :: "'w nstate"
  tasks :: "task list"

inductive step :: "'w kube \<Rightarrow> 'w host \<Rightarrow> utils_globals \<Rightarrow> bool \<Rightarrow> 'w sys \<Rightarrow> 'w sys \<Rightarrow> bool"
  for X :: "'w kube" and H :: "'w host" and G :: utils_globals and cleaning :: bool where
  enter: "addVolumeToTransitionList v st s = (Return (Inr ()), s') \<Longrightarrow>
     step X H G cleaning \<lparr>lists = s, tasks = T\<rparr> \<lparr>lists = s', tasks = Handling v # T\<rparr>"
| mark: "Handling v \<in> set T \<Longrightarrow> setTransition v st s = (Return (), s') \<Longrightarrow>
     step X H G cleaning \<lparr>lists = s, tasks = T\<rparr> \<lparr>lists = s', tasks = T\<rparr>"
| leave: "Handling v \<in> set T \<Longrightarrow> removeVolumeFromTransitionList v s = (Return (), s') \<Longrightarrow>
     step X H G cleaning \<lparr>lists = s, tasks = T\<rparr> \<lparr>lists = s', tasks = remove1 (Handling v) T\<rparr>"
| outside: "step X H G cleaning \<lparr>lists = s, tasks = T\<rparr> \<lparr>lists = s\<lparr>world := w\<rparr>, tasks = T\<rparr>"
| monitor: "monitorTick X H G s = (Return (c, jobs), s') \<Longrightarrow>
     step X H G cleaning \<lparr>lists = s, tasks = T\<rparr> \<lparr>lists = s', tasks = map Remounting jobs @ T\<rparr>"
| remounted: "Remounting j \<in> set T \<Longrightarrow> remountJob X H G j s = (r, s') \<Longrightarrow>
     step X H G cleaning \<lparr>lists = s, tasks = T\<rparr> \<lparr>lists = s', tasks = remove1 (Remounting j) T\<rparr>"
| cleanup: "cleaning \<Longrightarrow> Cleanup X H G s = (Return (Inr vols), s') \<Longrightarrow>
     step X H G cleaning \<lparr>lists = s, tasks = T\<rparr> \<lparr>lists = s', tasks = map Cleaning vols @ T\<rparr>"
| cleaned: "cleaning \<Longrightarrow> Cleaning vol \<in> set T \<Longrightarrow> cleanupJob X H G vol s = (Return (), s') \<Longrightarrow>
     step X H G cleaning \<lparr>lists = s, tasks = T\<rparr> \<lparr>lists = s', tasks = remove1 (Cleaning vol) T\<rparr>"

inductive_cases stepE: "step X H G cleaning c d"

definition startup :: "'w \<Rightarrow> 'w sys" where
  "startup w = \<lparr>lists = \<lparr>TransitionVolList = Map.empty, ReqMountList = Map.empty, world = w\<rparr>, tasks = []\<rparr>"

abbreviation steps :: "'w kube \<Rightarrow> 'w host \<Rightarrow> utils_globals \<Rightarrow> bool \<Rightarrow> 'w sys \<Rightarrow> 'w sys \<Rightarrow> bool" where
  "steps X H G cleaning \<equiv> (step X H G cleaning)\<^sup>*\<^sup>*"

subsection \<open>Without cleanups\<close>

definition is_remount :: "task \<Rightarrow> bool" where
  "is_remount t = (case t of Remounting _ \<Rightarrow> True | _ \<Rightarrow> False)"

definition exclusive :: "'w sys \<Rightarrow> bool" where
  "exclusive c = (distinct (map task_volume (tasks c)) \<and>
     dom (TransitionVolList (lists c)) = task_volume ` set (tasks c) \<and>
     dom (ReqMountList (lists c)) = task_volume ` {t \<in> set (tasks c). is_remount t} \<and>
     (\<forall>t \<in> set (tasks c). \<forall>vol. t \<noteq> Cleaning vol))"

lemma image_remove1:
  assumes "distinct (map f T)" "t \<in> set T"
  shows "f ` {x \<in> set (remove1 t T). P x} = f ` {x \<in> set T. P x} - {f t}"
proof -
  have "distinct T" using assms(1) by (simp add: distinct_map)
  then have "set (remove1 t T) = set T - {t}" by simp
  moreover have "f x \<noteq> f t" if "x \<in> set T" "x \<noteq> t" for x
    using assms that by (auto simp: distinct_map inj_on_def)
  ultimately show ?thesis by auto
qed

lemma distinct_map_remove1: "distinct (map f T) \<Longrightarrow> distinct (map f (remove1 t T))"
  by (induction T) (auto dest: notin_set_remove1 simp: image_iff)

lemma monitorTick_run:
  assumes "monitorTick X H G s = (Return (c, jobs), s')"
  shows "\<exists>ml ws w. jobs = map (remountJobFor ml) ws \<and> distinct (map cva_VolName ws) \<and>
     cva_VolName ` set ws \<inter> dom (TransitionVolList s) = {} \<and>
     s' = s\<lparr>world := w, TransitionVolList := enter_all (map cva_VolName ws) RemountUnderProgress (TransitionVolList s),
        ReqMountList := enter_all (map cva_VolName ws) RemountUnderProgress (ReqMountList s)\<rparr>"
proof -
  have "(\<exists>w. jobs = [] \<and> s' = s\<lparr>world := w\<rparr>) \<or>
      (\<exists>w ml vols. monitorItems ml vols (s\<lparr>world := w\<rparr>) = (Return (c, jobs), s'))"
  proof -
    from assms obtain r w where r: "h_List H (world s) = (Return r, w)"
      by (auto simp: monitorTick_def bnd_Return_iff)
    show ?thesis
    proof (cases r)
      case (Inl e)
      with assms r show ?thesis by (auto simp: monitorTick_def bnd_def on_world_def)
    next
      case (Inr ml)
      with assms r obtain l e w' where g: "GetVolListForNode X G w = (Return (l, e), w')"
        by (auto simp: monitorTick_def bnd_Return_iff on_world_run)
      with assms r Inr show ?thesis
        by (cases e; cases l) (auto simp: monitorTick_def bnd_def on_world_def deref_def)
    qed
  qed
  then show ?thesis
  proof (elim disjE exE conjE)
    fix w assume "jobs = []" "s' = s\<lparr>world := w\<rparr>"
    then show ?thesis by (intro exI [of _ "[]"]) auto
  next
    fix w ml vols assume "monitorItems ml vols (s\<lparr>world := w\<rparr>) = (Return (c, jobs), s')"
    with to_remount_spec [of ml "dom (TransitionVolList s)" vols] show ?thesis
      by (intro exI [of _ ml] exI [of _ "to_remount ml (dom (TransitionVolList s)) vols"] exI [of _ w])
        (auto simp: monitorItems_run Let_def)
  qed
qed

lemma dom_enter_all: "dom (enter_all vs st m) = set vs \<union> dom m"
  by (auto simp: enter_all_def split: if_splits)

lemma remountJob_lists:
  "remountJob X H G j s = (r, s') \<Longrightarrow>
   TransitionVolList s' = (TransitionVolList s)(cva_VolName (rj_vol j) := None) \<and>
   ReqMountList s' = (ReqMountList s)(cva_VolName (rj_vol j) := None)"
  by (auto simp: remountJob_def Let_def deferred_def bnd_def andthen_def removeVolumeFromTransitionList_def on_world_def
      split: prod.splits outcome.splits)

lemma remount_volume [simp]: "task_volume (Remounting (remountJobFor ml vol)) = cva_VolName vol"
  by (simp add: remountJobFor_def)

lemma exclusive_drop:
  assumes ex: "exclusive \<lparr>lists = s, tasks = T\<rparr>" and t: "t \<in> set T"
    and lists: "dom (TransitionVolList s') = dom (TransitionVolList s) - {task_volume t}"
      "dom (ReqMountList s') = dom (ReqMountList s) - {task_volume t}"
  shows "exclusive \<lparr>lists = s', tasks = remove1 t T\<rparr>"
proof -
  have d: "distinct (map task_volume T)" using ex by (simp add: exclusive_def)
  have "task_volume ` set (remove1 t T) = task_volume ` set T - {task_volume t}"
    using image_remove1 [OF d t, of "\<lambda>_. True"] by simp
  moreover have "task_volume ` {x \<in> set (remove1 t T). is_remount x} = task_volume ` {x \<in> set T. is_remount x} - {task_volume t}"
    by (rule image_remove1 [OF d t])
  ultimately show ?thesis
    using ex lists by (simp add: exclusive_def distinct_map_remove1) (meson notin_set_remove1)
qed

lemma exclusive_step:
  assumes "step X H G False c d" and ex: "exclusive c"
  shows "exclusive d"
  using assms(1)
proof (cases rule: step.cases)
  case (enter v st s s' T)
  then have "TransitionVolList s v = None" "s' = s\<lparr>TransitionVolList := (TransitionVolList s)(v \<mapsto> st)\<rparr>"
    by (auto simp: addVolumeToTransitionList_def bnd_Return_iff andthen_def setTransition_def split: option.splits)
  with ex enter show ?thesis by (auto simp: exclusive_def is_remount_def domIff)
next
  case (mark v T st s s')
  then have "v \<in> dom (TransitionVolList s)"
    using ex by (auto simp: exclusive_def image_iff) (metis task_volume.simps(1))
  then have "dom (TransitionVolList s') = dom (TransitionVolList s)" "ReqMountList s' = ReqMountList s"
    using mark by (auto simp: setTransition_def split: if_splits)
  with ex mark show ?thesis by (simp add: exclusive_def)
next
  case (leave v T s s')
  have "v \<notin> dom (ReqMountList s)"
  proof
    assume "v \<in> dom (ReqMountList s)"
    then obtain t where t: "t \<in> set T" "is_remount t" "task_volume t = task_volume (Handling v)"
      using ex leave(1) unfolding exclusive_def by auto
    moreover have "inj_on task_volume (set T)" using ex leave(1) by (simp add: exclusive_def distinct_map)
    ultimately have "t = Handling v" using leave(3) by (meson inj_onD)
    with t show False by (simp add: is_remount_def)
  qed
  with leave ex show ?thesis
    by (auto intro!: exclusive_drop simp: removeVolumeFromTransitionList_def split: if_splits)
next
  case (outside s T w)
  with ex show ?thesis by (simp add: exclusive_def)
next
  case (monitor s c' jobs s' T)
  from monitorTick_run [OF monitor(3)] obtain ml ws w where m: "jobs = map (remountJobFor ml) ws" "distinct (map cva_VolName ws)"
    "cva_VolName ` set ws \<inter> dom (TransitionVolList s) = {}"
    "dom (TransitionVolList s') = cva_VolName ` set ws \<union> dom (TransitionVolList s)"
    "dom (ReqMountList s') = cva_VolName ` set ws \<union> dom (ReqMountList s)"
    by (auto simp: dom_enter_all)
  let ?N = "map Remounting jobs"
  have names: "map task_volume ?N = map cva_VolName ws" by (simp add: m(1) comp_def remountJobFor_def)
  then have img: "task_volume ` set ?N = cva_VolName ` set ws" by (metis set_map)
  have rem: "{t \<in> set (?N @ T). is_remount t} = set ?N \<union> {t \<in> set T. is_remount t}"
    by (auto simp: is_remount_def)
  from ex have ex': "distinct (map task_volume T)" "dom (TransitionVolList s) = task_volume ` set T"
    "dom (ReqMountList s) = task_volume ` {t \<in> set T. is_remount t}" "\<forall>t \<in> set T. \<forall>vol. t \<noteq> Cleaning vol"
    by (simp_all add: exclusive_def monitor(1))
  have "distinct (map task_volume (?N @ T))"
    unfolding map_append distinct_append names using ex'(1,2) m(2,3) by simp
  moreover have "dom (TransitionVolList s') = task_volume ` set (?N @ T)"
    by (simp only: m(4) ex'(2) set_append image_Un img)
  moreover have "dom (ReqMountList s') = task_volume ` {t \<in> set (?N @ T). is_remount t}"
    by (simp only: m(5) ex'(3) rem image_Un img)
  moreover have "\<forall>t \<in> set (?N @ T). \<forall>vol. t \<noteq> Cleaning vol" using ex'(4) by auto
  ultimately show ?thesis unfolding monitor(2) exclusive_def sys.simps by (intro conjI)
next
  case (remounted j T s r s')
  with remountJob_lists [OF remounted(4)] ex show ?thesis
    by (auto intro!: exclusive_drop split: if_splits)
qed simp_all

text \<open>C4: mutual exclusion, as long as no \<open>Cleanup\<close> runs. In every state the node service can reach from its
  start, at most one task works on a volume, the list of volumes in transition names exactly the volumes
  that a task works on, and the list of remount requests exactly those that are being remounted.\<close>

theorem exclusion_without_cleanup:
  assumes "steps X H G False (startup w) c"
  shows "exclusive c"
  using assms
proof (induction rule: rtranclp_induct)
  case base
  show ?case by (simp add: exclusive_def startup_def)
next
  case (step c d)
  then show ?case by (blast intro: exclusive_step)
qed

theorem exclusion_without_cleanup_witness:
  "exclusive \<lparr>lists = \<lparr>TransitionVolList = [''v'' \<mapsto> Uninitialized], ReqMountList = Map.empty, world = sample_cluster\<rparr>,
     tasks = [Handling ''v'']\<rparr>"
proof -
  let ?d = "\<lparr>lists = \<lparr>TransitionVolList = [''v'' \<mapsto> Uninitialized], ReqMountList = Map.empty, world = sample_cluster\<rparr>,
     tasks = [Handling ''v'']\<rparr>"
  have "addVolumeToTransitionList ''v'' Uninitialized (lists (startup sample_cluster)) = (Return (Inr ()), lists ?d)"
    by (simp add: addVolumeToTransitionList_def startup_def bnd_def andthen_def setTransition_def)
  then have "step sample_kube sample_host sample_globals False (startup sample_cluster) ?d"
    using enter [of "''v''" Uninitialized "lists (startup sample_cluster)" "lists ?d" sample_kube sample_host sample_globals False "[]"]
    by (simp add: startup_def)
  then show ?thesis by (blast intro: exclusion_without_cleanup)
qed

subsection \<open>Whole handlers as runs of the system\<close>

lemma nstate_eqI: "TransitionVolList t = TransitionVolList (s :: 'w nstate) \<Longrightarrow> ReqMountList t = ReqMountList s \<Longrightarrow> t = s\<lparr>world := world t\<rparr>"
  by (cases s, cases t) simp

context framed_handler
begin

text \<open>An uninterrupted run of the handler is a run of the system that ends with the tasks it began with.\<close>

lemma handler_steps: "steps X H G cleaning \<lparr>lists = s, tasks = T\<rparr> \<lparr>lists = snd (handler s), tasks = T\<rparr>"
proof (cases "check = Inr () \<and> TransitionVolList s volume = None")
  case True
  let ?s1 = "s\<lparr>TransitionVolList := (TransitionVolList s)(volume \<mapsto> status)\<rparr>"
  let ?t = "snd (handler s)"
  have t: "?t = s\<lparr>world := world ?t\<rparr>" using released by (intro nstate_eqI) auto
  have "addVolumeToTransitionList volume status s = (Return (Inr ()), ?s1)"
    using True by (simp add: addVolumeToTransitionList_def bnd_def andthen_def setTransition_def)
  then have "steps X H G cleaning \<lparr>lists = s, tasks = T\<rparr> \<lparr>lists = ?s1, tasks = Handling volume # T\<rparr>"
    by (intro r_into_rtranclp enter)
  also have "step X H G cleaning \<lparr>lists = ?s1, tasks = Handling volume # T\<rparr> \<lparr>lists = ?s1\<lparr>world := world ?t\<rparr>, tasks = Handling volume # T\<rparr>"
    by (rule outside)
  also (rtranclp.rtrancl_into_rtrancl) have "step X H G cleaning \<lparr>lists = ?s1\<lparr>world := world ?t\<rparr>, tasks = Handling volume # T\<rparr> \<lparr>lists = ?t, tasks = T\<rparr>"
  proof -
    have "(TransitionVolList s)(volume := None) = TransitionVolList s" using True by auto
    then have "removeVolumeFromTransitionList volume (?s1\<lparr>world := world ?t\<rparr>) = (Return (), ?t)"
      using t by (simp add: removeVolumeFromTransitionList_def)
    then show ?thesis
      using leave [of volume "Handling volume # T" "?s1\<lparr>world := world ?t\<rparr>" ?t X H G cleaning] by simp
  qed
  finally (rtranclp.rtrancl_into_rtrancl) show ?thesis .
next
  case False
  then have "snd (handler s) = s"
    by (cases check; cases "TransitionVolList s volume") (auto simp: rejected busy_refused)
  then show ?thesis by simp
qed

end



subsection \<open>With cleanups\<close>

text \<open>An attachment that is being deleted, as the cluster would hold it.\<close>

definition doomed :: CStorVolumeAttachment where
  "doomed = zero_CVA\<lparr>cva_Name := ''v-n1'', cva_Namespace := ''openebs'', cva_VolName := ''v'', cva_DeletionTimestamp := Some 1,
     cva_Labels := Some [(''nodeID'', ''n1''), (''Volname'', ''v'')], cva_TargetPortal := ''10.0.0.1:3260''\<rparr>"

definition doomed_cluster :: cluster where
  "doomed_cluster = sample_cluster\<lparr>cl_cvas := [doomed]\<rparr>"

definition doomed_state :: "cluster nstate" where
  "doomed_state = \<lparr>TransitionVolList = Map.empty, ReqMountList = Map.empty, world = doomed_cluster\<rparr>"

lemma startup_doomed: "startup doomed_cluster = \<lparr>lists = doomed_state, tasks = []\<rparr>"
  by (simp add: startup_def doomed_state_def)

lemma run_step:
  "steps X H G b c d \<Longrightarrow> step X H G b d e \<Longrightarrow> steps X H G b c e"
  by (rule rtranclp.rtrancl_into_rtrancl)

lemma by_snd: "fst p = r \<Longrightarrow> p = (r, snd p)"
  by (cases p) simp

text \<open>C17: with \<open>Cleanup\<close>, mutual exclusion is lost. \<open>Cleanup\<close> overwrites the entry of a volume without looking
  whether it is taken, and the goroutine it starts deletes it: while one handler works on a volume whose
  attachment is being deleted, a second handler for the same volume is let in.\<close>

theorem cleanup_breaks_exclusion:
  "\<exists>c. steps sample_kube sample_host sample_globals True (startup doomed_cluster) c \<and> tasks c = [Handling ''v'', Handling ''v'']"
proof -
  let ?X = sample_kube and ?H = sample_host and ?G = sample_globals
  let ?s1 = "snd (addVolumeToTransitionList ''v'' Uninitialized doomed_state)"
  let ?s2 = "snd (Cleanup ?X ?H ?G ?s1)"
  let ?s3 = "snd (cleanupJob ?X ?H ?G doomed ?s2)"
  let ?s4 = "snd (addVolumeToTransitionList ''v'' Uninitialized ?s3)"
  have 1: "addVolumeToTransitionList ''v'' Uninitialized doomed_state = (Return (Inr ()), ?s1)" by (rule by_snd) code_simp
  have 2: "Cleanup ?X ?H ?G ?s1 = (Return (Inr [doomed]), ?s2)" by (rule by_snd) code_simp
  have 3: "cleanupJob ?X ?H ?G doomed ?s2 = (Return (), ?s3)" by (rule by_snd) code_simp
  have 4: "addVolumeToTransitionList ''v'' Uninitialized ?s3 = (Return (Inr ()), ?s4)" by (rule by_snd) code_simp
  have "steps ?X ?H ?G True (startup doomed_cluster) \<lparr>lists = ?s1, tasks = [Handling ''v'']\<rparr>"
    unfolding startup_doomed by (rule r_into_rtranclp, rule enter, rule 1)
  moreover have "step ?X ?H ?G True \<lparr>lists = ?s1, tasks = [Handling ''v'']\<rparr> \<lparr>lists = ?s2, tasks = [Cleaning doomed, Handling ''v'']\<rparr>"
    using cleanup [OF TrueI 2, of "[Handling ''v'']"] by simp
  moreover have "step ?X ?H ?G True \<lparr>lists = ?s2, tasks = [Cleaning doomed, Handling ''v'']\<rparr> \<lparr>lists = ?s3, tasks = [Handling ''v'']\<rparr>"
    using cleaned [OF TrueI _ 3, of "[Cleaning doomed, Handling ''v'']"] by simp
  moreover have "step ?X ?H ?G True \<lparr>lists = ?s3, tasks = [Handling ''v'']\<rparr> \<lparr>lists = ?s4, tasks = [Handling ''v'', Handling ''v'']\<rparr>"
    by (rule enter, rule 4)
  ultimately have "steps ?X ?H ?G True (startup doomed_cluster) \<lparr>lists = ?s4, tasks = [Handling ''v'', Handling ''v'']\<rparr>"
    by (meson run_step)
  then show ?thesis by (metis sys.select_convs(2))
qed

text \<open>C18: a cleanup can leave its volume busy for ever. When the update of the attachment fails, the goroutine
  goes on with the object the failed call returned, and deletes the entry of that object's volume: no task is
  left, but the volume is still in the list, and every later request for it is refused.\<close>

theorem cleanup_leaves_busy:
  "\<exists>c. steps sample_kube sample_host sample_globals True (startup doomed_cluster) c \<and> tasks c = [] \<and>
     TransitionVolList (lists c) ''v'' = Some UnmountUnderProgress"
proof -
  let ?X = sample_kube and ?H = sample_host and ?G = sample_globals
  let ?s1 = "snd (Cleanup ?X ?H ?G doomed_state)"
  let ?s2 = "?s1\<lparr>world := sample_cluster\<rparr>"
  let ?s3 = "snd (cleanupJob ?X ?H ?G doomed ?s2)"
  have 1: "Cleanup ?X ?H ?G doomed_state = (Return (Inr [doomed]), ?s1)" by (rule by_snd) code_simp
  have 3: "cleanupJob ?X ?H ?G doomed ?s2 = (Return (), ?s3)" by (rule by_snd) code_simp
  have 4: "TransitionVolList ?s3 ''v'' = Some UnmountUnderProgress" by code_simp
  have "steps ?X ?H ?G True (startup doomed_cluster) \<lparr>lists = ?s1, tasks = [Cleaning doomed]\<rparr>"
    unfolding startup_doomed using cleanup [OF TrueI 1, of "[]"] by (intro r_into_rtranclp) simp
  moreover have "step ?X ?H ?G True \<lparr>lists = ?s1, tasks = [Cleaning doomed]\<rparr> \<lparr>lists = ?s2, tasks = [Cleaning doomed]\<rparr>"
    by (rule outside)
  moreover have "step ?X ?H ?G True \<lparr>lists = ?s2, tasks = [Cleaning doomed]\<rparr> \<lparr>lists = ?s3, tasks = []\<rparr>"
    using cleaned [OF TrueI _ 3, of "[Cleaning doomed]"] by simp
  ultimately have "steps ?X ?H ?G True (startup doomed_cluster) \<lparr>lists = ?s3, tasks = []\<rparr>"
    by (meson run_step)
  with 4 show ?thesis by (metis sys.select_convs)
qed

end
