(* ===== verification/Core_Clients.thy ===== *)
theory Core_Clients
  imports Kube_Client
begin

section \<open>Namespace and service clients: pkg/kubernetes/namespace and pkg/kubernetes/service\<close>

text \<open>
  The clients for the two core resources that the provisioner touches beside volumes and nodes. The API of
  the generated clientset for the resource is the argument \<open>A\<close>, and the encoder of \<open>encoding/json\<close> the
  arguments \<open>json_svc\<close> and \<open>json_svcs\<close>. A nil pointer to a namespace is \<open>None\<close>. Namespaces are cluster
  scoped. The service package has no kubeconfig path, and returns the error of its clientset unwrapped.
\<close>

record Namespace =
  ns_Name :: string
  ns_Labels :: gomap

record Service =
  svc_Name :: string
  svc_Namespace :: string
  svc_Labels :: gomap
  svc_ClusterIP :: string

type_synonym 'w ns_Kubeclient = "('w, Namespace) Kubeclient"
type_synonym 'w ns_api = "('w, Namespace) resource_api"
type_synonym 'w svc_Kubeclient = "('w, Service) Kubeclient"
type_synonym 'w svc_api = "('w, Service) resource_api"

subsection \<open>Namespaces\<close>

definition ns_withDefaults :: "'w kube \<Rightarrow> 'w ns_api \<Rightarrow> 'w ns_Kubeclient \<Rightarrow> 'w ns_Kubeclient" where
  "ns_withDefaults X A k = k
     \<lparr>kc_getClientset := or_default (kc_getClientset k) (Clientset (client_New X [])),
      kc_getClientsetForPath := or_default (kc_getClientsetForPath k)
        (\<lambda>kubeConfigPath. Clientset (client_New X [client_WithKubeConfigPath kubeConfigPath])),
      kc_get := or_default (kc_get k) (\<lambda>cli name _. call_fn cli (\<lambda>c. r_Get A c [] name)),
      kc_del := or_default (kc_del k) (\<lambda>cli name _ deleteOpts. call_fn cli (\<lambda>c. call_fn deleteOpts (\<lambda>d. r_Delete A c [] name d))),
      kc_create := or_default (kc_create k) (\<lambda>cli namespace _. call_fn cli (\<lambda>c. r_Create A c [] namespace))\<rparr>"

definition ns_NewKubeClient ::
  "'w kube \<Rightarrow> 'w ns_api \<Rightarrow> ('w ns_Kubeclient \<Rightarrow> 'w ns_Kubeclient) list \<Rightarrow> 'w ns_Kubeclient" where
  "ns_NewKubeClient X A opts = ns_withDefaults X A (fold (\<lambda>op k. op k) opts zero_Kubeclient)"

definition ns_getClientsetOrCached :: "'w ns_Kubeclient \<Rightarrow> ('w, Namespace, nat perr) kmethod" where
  "ns_getClientsetOrCached = clientOrCached (Wrapf ''failed to get clientset'' [])"

interpretation nscc: cached_client ns_getClientsetOrCached
  unfolding ns_getClientsetOrCached_def by unfold_locales (rule clientOrCached_laws; assumption)+

definition ns_Get :: "'w ns_Kubeclient \<Rightarrow> string \<Rightarrow> ('w, Namespace, Namespace perr) kmethod" where
  "ns_Get k name =
     (if TrimSpace name = [] then ret ((None, Some (Errorf ''failed to get namespace: missing namespace name'' [])), k)
      else with_client ns_getClientsetOrCached k
        (\<lambda>e. (None, Some (Wrapf ''failed to get namespace {%s}'' [name] e)))
        (\<lambda>cli k. call_fn (kc_get k) (\<lambda>f. f cli name [])))"

definition ns_Delete :: "'w ns_Kubeclient \<Rightarrow> string \<Rightarrow> string option \<Rightarrow> ('w, Namespace, gerror option) kmethod" where
  "ns_Delete k name deleteOpts =
     (if TrimSpace name = [] then ret (Some (Errorf ''failed to delete namespace: missing namespace name'' []), k)
      else with_client ns_getClientsetOrCached k
        (\<lambda>e. Some (Wrapf ''failed to delete namespace {%s}'' [name] e))
        (\<lambda>cli k. call_fn (kc_del k) (\<lambda>f. f cli name [] deleteOpts)))"

definition ns_Create :: "'w ns_Kubeclient \<Rightarrow> Namespace option \<Rightarrow> ('w, Namespace, Namespace perr) kmethod" where
  "ns_Create k namespace = (case namespace of
     None \<Rightarrow> ret ((None, Some (Errorf ''failed to create namespace: nil namespace object'' [])), k)
   | Some namespace \<Rightarrow> with_client ns_getClientsetOrCached k
        (\<lambda>e. (None, Some (Wrapf ''failed to create namespace {%s}'' [ns_Name namespace] e)))
        (\<lambda>cli k. call_fn (kc_create k) (\<lambda>f. f cli namespace [])))"

subsection \<open>Services\<close>

text \<open>The default delete overwrites the propagation policy of the options it is given; nil options are
  dereferenced.\<close>

definition svc_withDefaults :: "'w kube \<Rightarrow> 'w svc_api \<Rightarrow> 'w svc_Kubeclient \<Rightarrow> 'w svc_Kubeclient" where
  "svc_withDefaults X A k = k
     \<lparr>kc_getClientset := or_default (kc_getClientset k)
        (bnd (Config (client_New X [])) (\<lambda>(config, err). case err of
           Some e \<Rightarrow> ret (None, Some e)
         | None \<Rightarrow> k_NewForConfig X config)),
      kc_get := or_default (kc_get k) (\<lambda>cli name namespace. call_fn cli (\<lambda>c. r_Get A c namespace name)),
      kc_list := or_default (kc_list k) (\<lambda>cli namespace opts. call_fn cli (\<lambda>c. r_List A c namespace opts)),
      kc_del := or_default (kc_del k) (\<lambda>cli name namespace opts. call_fn opts (\<lambda>_.
        call_fn cli (\<lambda>c. r_Delete A c namespace name ''Foreground'')))\<rparr>"

definition svc_NewKubeclient ::
  "'w kube \<Rightarrow> 'w svc_api \<Rightarrow> ('w svc_Kubeclient \<Rightarrow> 'w svc_Kubeclient) list \<Rightarrow> 'w svc_Kubeclient" where
  "svc_NewKubeclient X A opts = svc_withDefaults X A (fold (\<lambda>op k. op k) opts zero_Kubeclient)"

definition svc_getClientOrCached :: "'w svc_Kubeclient \<Rightarrow> ('w, Service, nat perr) kmethod" where
  "svc_getClientOrCached k = (case kc_clientset k of
     Some c \<Rightarrow> ret ((Some c, None), k)
   | None \<Rightarrow> bnd (call_fn (kc_getClientset k) (\<lambda>f. f)) (\<lambda>(c, err). case err of
       Some e \<Rightarrow> ret ((None, Some e), k)
     | None \<Rightarrow> ret ((c, None), k\<lparr>kc_clientset := c\<rparr>)))"

interpretation svccc: cached_client svc_getClientOrCached
  by unfold_locales (auto simp: svc_getClientOrCached_def bnd_Return_iff split: option.splits)

definition svc_Get :: "'w svc_Kubeclient \<Rightarrow> string \<Rightarrow> ('w, Service, Service perr) kmethod" where
  "svc_Get k name = with_client svc_getClientOrCached k (\<lambda>e. (None, Some e))
     (\<lambda>cli k. call_fn (kc_get k) (\<lambda>f. f cli name (kc_namespace k)))"

definition svc_List :: "'w svc_Kubeclient \<Rightarrow> ListOptions \<Rightarrow> ('w, Service, Service list perr) kmethod" where
  "svc_List k opts = with_client svc_getClientOrCached k (\<lambda>e. (None, Some e))
     (\<lambda>cli k. call_fn (kc_list k) (\<lambda>f. f cli (kc_namespace k) opts))"

definition svc_Delete :: "'w svc_Kubeclient \<Rightarrow> string \<Rightarrow> string option \<Rightarrow> ('w, Service, gerror option) kmethod" where
  "svc_Delete k name options = with_client svc_getClientOrCached k Some
     (\<lambda>cli k. call_fn (kc_del k) (\<lambda>f. f cli name (kc_namespace k) options))"

text \<open>The encoder takes the pointer, nil included.\<close>

definition raw :: "('a option \<Rightarrow> gerror + string) \<Rightarrow> ('w, 'o, 'a perr) kmethod \<Rightarrow> ('w, 'o, string perr) kmethod" where
  "raw marshal m = bnd m (\<lambda>((v, err), k). case err of
     Some e \<Rightarrow> ret ((None, Some e), k)
   | None \<Rightarrow> ret (case marshal v of Inl e \<Rightarrow> (None, Some e) | Inr bytes \<Rightarrow> (Some bytes, None), k))"

definition svc_GetRaw ::
  "(Service option \<Rightarrow> gerror + string) \<Rightarrow> 'w svc_Kubeclient \<Rightarrow> string \<Rightarrow> ('w, Service, string perr) kmethod" where
  "svc_GetRaw json_svc k name = raw json_svc (svc_Get k name)"

definition svc_ListRaw ::
  "(Service list option \<Rightarrow> gerror + string) \<Rightarrow> 'w svc_Kubeclient \<Rightarrow> ListOptions \<Rightarrow> ('w, Service, string perr) kmethod" where
  "svc_ListRaw json_svcs k opts = raw json_svcs (svc_List k opts)"

end
