(* ===== verification/PersistentVolume.thy ===== *)
theory PersistentVolume
  imports PVC_Client VolumeConfig_Build List_Builders
begin

section \<open>Persistent volumes: pkg/kubernetes/persistentvolume\<close>

text \<open>
  build.go (the builder), buildlist.go with persistentvolume.go (list builder and predicates) and
  kubernetes.go (the client), and \<open>FetchPVDetails\<close> of pkg/utils/kubernetes.go. Persistent volumes are
  cluster scoped. The API of the generated clientset is the argument \<open>A\<close>. The list builders hold the API
  objects themselves: the wrapper around a pointer is nil in no list that is built from API objects.
\<close>

text \<open>A node affinity is the list of its terms; a term is a list of requirements: key, operator, values.\<close>

type_synonym node_selector = "(string \<times> string \<times> string list) list list"

record PersistentVolume =
  pv_Name :: string
  pv_Annotations :: "gomap option"
  pv_Labels :: "gomap option"
  pv_ReclaimPolicy :: string
  pv_VolumeMode :: "string option"
  pv_AccessModes :: "string list"
  pv_Capacity :: "quantity option"
  pv_HostPath :: "(string \<times> string) option"
  pv_NodeAffinity :: "node_selector option"

definition zero_PV :: PersistentVolume where
  "zero_PV = \<lparr>pv_Name = [], pv_Annotations = None, pv_Labels = None, pv_ReclaimPolicy = [], pv_VolumeMode = None,
     pv_AccessModes = [], pv_Capacity = None, pv_HostPath = None, pv_NodeAffinity = None\<rparr>"

subsection \<open>The builder\<close>

type_synonym pv_Builder = "PersistentVolume Builder"

definition pv_NewBuilder :: pv_Builder where
  "pv_NewBuilder = \<lparr>b_object = zero_PV, b_errs = []\<rparr>"

definition pv_WithName :: "string \<Rightarrow> pv_Builder \<Rightarrow> pv_Builder" where
  "pv_WithName name b =
     (if length name = 0 then b_msg ''failed to build PV object: missing PV name'' b
      else b_set (\<lambda>ob. ob\<lparr>pv_Name := name\<rparr>) b)"

definition pv_WithAnnotations :: "gomap \<Rightarrow> pv_Builder \<Rightarrow> pv_Builder" where
  "pv_WithAnnotations annotations b =
     (if length annotations = 0 then b_msg ''failed to build PV object: missing annotations'' b
      else b_set (\<lambda>ob. ob\<lparr>pv_Annotations := Some annotations\<rparr>) b)"

definition pv_WithLabels :: "gomap \<Rightarrow> pv_Builder \<Rightarrow> pv_Builder" where
  "pv_WithLabels labels b =
     (if length labels = 0 then b_msg ''failed to build PV object: missing labels'' b
      else b_set (\<lambda>ob. ob\<lparr>pv_Labels := Some labels\<rparr>) b)"

definition pv_WithReclaimPolicy :: "string \<Rightarrow> pv_Builder \<Rightarrow> pv_Builder" where
  "pv_WithReclaimPolicy reclaimPolicy b = b_set (\<lambda>ob. ob\<lparr>pv_ReclaimPolicy := reclaimPolicy\<rparr>) b"

definition pv_WithVolumeMode :: "string \<Rightarrow> pv_Builder \<Rightarrow> pv_Builder" where
  "pv_WithVolumeMode volumeMode b = b_set (\<lambda>ob. ob\<lparr>pv_VolumeMode := Some volumeMode\<rparr>) b"

definition pv_WithAccessModes :: "string list \<Rightarrow> pv_Builder \<Rightarrow> pv_Builder" where
  "pv_WithAccessModes accessMode b =
     (if length accessMode = 0 then b_msg ''failed to build PV object: missing accessmodes'' b
      else b_set (\<lambda>ob. ob\<lparr>pv_AccessModes := accessMode\<rparr>) b)"

definition pv_WithCapacityQty :: "quantity \<Rightarrow> pv_Builder \<Rightarrow> pv_Builder" where
  "pv_WithCapacityQty resCapacity b = b_set (\<lambda>ob. ob\<lparr>pv_Capacity := Some resCapacity\<rparr>) b"

definition pv_WithCapacity :: "(string \<Rightarrow> gerror + quantity) \<Rightarrow> string \<Rightarrow> pv_Builder \<Rightarrow> pv_Builder" where
  "pv_WithCapacity pq capacity b = (case pq capacity of
     Inl err \<Rightarrow> b_err (Wrapf ''failed to build PV object: failed to parse capacity {%s}'' [capacity] err) b
   | Inr resCapacity \<Rightarrow> pv_WithCapacityQty resCapacity b)"

definition pv_WithHostDirectory :: "string \<Rightarrow> pv_Builder \<Rightarrow> pv_Builder" where
  "pv_WithHostDirectory path b =
     (if length path = 0 then b_msg ''failed to build PV object: missing PV path'' b
      else b_set (\<lambda>ob. ob\<lparr>pv_HostPath := Some (path, ''DirectoryOrCreate'')\<rparr>) b)"

definition hostname_affinity :: "string \<Rightarrow> node_selector" where
  "hostname_affinity nodeName = [[(''kubernetes.io/hostname'', ''In'', [nodeName])]]"

definition pv_WithNodeAffinity :: "string \<Rightarrow> pv_Builder \<Rightarrow> pv_Builder" where
  "pv_WithNodeAffinity nodeName b =
     (if length nodeName = 0 then b_msg ''failed to build PV object: missing PV node name'' b
      else b_set (\<lambda>ob. ob\<lparr>pv_NodeAffinity := Some (hostname_affinity nodeName)\<rparr>) b)"

datatype pv_call =
    PvName string | PvAnnotations gomap | PvLabels gomap | PvReclaimPolicy string | PvVolumeMode string
  | PvAccessModes "string list" | PvCapacity string | PvCapacityQty quantity | PvHostDirectory string | PvNodeAffinity string

fun pv_run :: "(string \<Rightarrow> gerror + quantity) \<Rightarrow> pv_call \<Rightarrow> pv_Builder \<Rightarrow> pv_Builder" where
  "pv_run pq (PvName x) = pv_WithName x"
| "pv_run pq (PvAnnotations x) = pv_WithAnnotations x"
| "pv_run pq (PvLabels x) = pv_WithLabels x"
| "pv_run pq (PvReclaimPolicy x) = pv_WithReclaimPolicy x"
| "pv_run pq (PvVolumeMode x) = pv_WithVolumeMode x"
| "pv_run pq (PvAccessModes x) = pv_WithAccessModes x"
| "pv_run pq (PvCapacity x) = pv_WithCapacity pq x"
| "pv_run pq (PvCapacityQty x) = pv_WithCapacityQty x"
| "pv_run pq (PvHostDirectory x) = pv_WithHostDirectory x"
| "pv_run pq (PvNodeAffinity x) = pv_WithNodeAffinity x"

fun pv_valid :: "(string \<Rightarrow> gerror + quantity) \<Rightarrow> pv_call \<Rightarrow> bool" where
  "pv_valid pq (PvName x) = (x \<noteq> [])"
| "pv_valid pq (PvAnnotations x) = (x \<noteq> [])"
| "pv_valid pq (PvLabels x) = (x \<noteq> [])"
| "pv_valid pq (PvAccessModes x) = (x \<noteq> [])"
| "pv_valid pq (PvCapacity x) = (case pq x of Inr _ \<Rightarrow> True | Inl _ \<Rightarrow> False)"
| "pv_valid pq (PvHostDirectory x) = (x \<noteq> [])"
| "pv_valid pq (PvNodeAffinity x) = (x \<noteq> [])"
| "pv_valid pq _ = True"

fun pv_apply :: "(string \<Rightarrow> gerror + quantity) \<Rightarrow> pv_call \<Rightarrow> PersistentVolume \<Rightarrow> PersistentVolume" where
  "pv_apply pq (PvName x) ob = ob\<lparr>pv_Name := x\<rparr>"
| "pv_apply pq (PvAnnotations x) ob = ob\<lparr>pv_Annotations := Some x\<rparr>"
| "pv_apply pq (PvLabels x) ob = ob\<lparr>pv_Labels := Some x\<rparr>"
| "pv_apply pq (PvReclaimPolicy x) ob = ob\<lparr>pv_ReclaimPolicy := x\<rparr>"
| "pv_apply pq (PvVolumeMode x) ob = ob\<lparr>pv_VolumeMode := Some x\<rparr>"
| "pv_apply pq (PvAccessModes x) ob = ob\<lparr>pv_AccessModes := x\<rparr>"
| "pv_apply pq (PvCapacity x) ob = (case pq x of Inr q \<Rightarrow> ob\<lparr>pv_Capacity := Some q\<rparr> | Inl _ \<Rightarrow> ob)"
| "pv_apply pq (PvCapacityQty x) ob = ob\<lparr>pv_Capacity := Some x\<rparr>"
| "pv_apply pq (PvHostDirectory x) ob = ob\<lparr>pv_HostPath := Some (x, ''DirectoryOrCreate'')\<rparr>"
| "pv_apply pq (PvNodeAffinity x) ob = ob\<lparr>pv_NodeAffinity := Some (hostname_affinity x)\<rparr>"

lemmas pv_With_defs = pv_WithName_def pv_WithAnnotations_def pv_WithLabels_def pv_WithReclaimPolicy_def pv_WithVolumeMode_def
  pv_WithAccessModes_def pv_WithCapacity_def pv_WithCapacityQty_def pv_WithHostDirectory_def pv_WithNodeAffinity_def

lemma pv_run_valid: "pv_valid pq c \<Longrightarrow> pv_run pq c b = b_set (pv_apply pq c) b"
  by (cases c) (auto simp: pv_With_defs b_set_def split: sum.splits)

lemma pv_run_invalid: "\<not> pv_valid pq c \<Longrightarrow> \<exists>e. b_errs (pv_run pq c b) = b_errs b @ [e]"
  by (cases c) (auto simp: pv_With_defs split: sum.splits)

interpretation pvb: error_builder "pv_run pq" "\<lambda>c _. pv_valid pq c" "pv_apply pq" for pq
  by unfold_locales (simp_all add: pv_run_valid pv_run_invalid)

lemma pvb_valids [simp]: "pvb.valids pq cs ob = list_all (pv_valid pq) cs"
  by (induction cs arbitrary: ob) auto

subsection \<open>Lists\<close>

record pv_ListBuilder =
  plb_list :: "PersistentVolume list option"
  plb_filters :: "PersistentVolume predicate list option"
  plb_errs :: "gerror list"

definition pv_NewListBuilder :: pv_ListBuilder where
  "pv_NewListBuilder = \<lparr>plb_list = Some [], plb_filters = None, plb_errs = []\<rparr>"

definition pv_ListBuilderForAPIObjects :: "PersistentVolume list option \<Rightarrow> pv_ListBuilder" where
  "pv_ListBuilderForAPIObjects pvs =
     (let b = \<lparr>plb_list = Some [], plb_filters = None, plb_errs = []\<rparr> in
      case pvs of
        None \<Rightarrow> b\<lparr>plb_errs := plb_errs b @ [Errorf ''failed to build pv list: missing api list'' []]\<rparr>
      | Some Items \<Rightarrow> b\<lparr>plb_list := Some (slice_list (plb_list b) @ Items)\<rparr>)"

definition pv_ListBuilderForObjects :: "PersistentVolume list option \<Rightarrow> pv_ListBuilder" where
  "pv_ListBuilderForObjects pvs =
     (let b = \<lparr>plb_list = None, plb_filters = None, plb_errs = []\<rparr> in
      case pvs of
        None \<Rightarrow> b\<lparr>plb_errs := plb_errs b @ [Errorf ''failed to build pv list: missing object list'' []]\<rparr>
      | Some items \<Rightarrow> b\<lparr>plb_list := Some items\<rparr>)"

definition pv_ContainsName :: "string \<Rightarrow> PersistentVolume predicate" where
  "pv_ContainsName name p = Contains (pv_Name p) name"

fun pv_all :: "PersistentVolume predicate list \<Rightarrow> PersistentVolume \<Rightarrow> bool" where
  "pv_all [] p = True"
| "pv_all (pred # l) p = (if \<not> pred p then False else pv_all l p)"

definition pv_WithFilter :: "PersistentVolume predicate list \<Rightarrow> pv_ListBuilder \<Rightarrow> pv_ListBuilder" where
  "pv_WithFilter pred b = b\<lparr>plb_filters := append_slice (plb_filters b) pred\<rparr>"

text \<open>A builder without errors has a list; the loop over a nil one would dereference it.\<close>

definition pv_ListItems :: "pv_ListBuilder \<Rightarrow> gerror + PersistentVolume list option" where
  "pv_ListItems b =
     (if 0 < length (plb_errs b) then Inl (ErrorfE ''failed to list pv: %+v'' [] (ErrList (plb_errs b)))
      else if length (slice_list (plb_filters b)) = 0 then Inr (plb_list b)
      else Inr (Some (keep_all (pv_all (slice_list (plb_filters b))) (slice_list (plb_list b)) [])))"

definition pv_ToAPIList :: "PersistentVolume list \<Rightarrow> PersistentVolume list" where
  "pv_ToAPIList items = fold (\<lambda>pvc plist. plist @ [pvc]) items []"

definition pv_APIList :: "pv_ListBuilder \<Rightarrow> gerror + PersistentVolume list" where
  "pv_APIList b = (case pv_ListItems b of Inl err \<Rightarrow> Inl err | Inr l \<Rightarrow> Inr (pv_ToAPIList (slice_list l)))"

definition pv_Len :: "pv_ListBuilder \<Rightarrow> nat \<times> gerror option" where
  "pv_Len b = (case pv_ListItems b of Inl err \<Rightarrow> (0, Some err) | Inr l \<Rightarrow> (length (slice_list l), None))"

lemma pv_all_list_all: "pv_all ps = (\<lambda>x. list_all (\<lambda>p. p x) ps)"
  by (rule ext) (induction ps; simp)

lemma pv_ToAPIList_id: "pv_ToAPIList items = items"
proof -
  have "fold (\<lambda>x plist. plist @ [x]) items acc = acc @ items" for acc
    by (induction items arbitrary: acc) auto
  then show ?thesis by (simp add: pv_ToAPIList_def)
qed

lemma pv_filters_fold:
  "slice_list (plb_filters (fold pv_WithFilter pss b)) = slice_list (plb_filters b) @ concat pss \<and>
   plb_list (fold pv_WithFilter pss b) = plb_list b \<and> plb_errs (fold pv_WithFilter pss b) = plb_errs b"
  by (induction pss arbitrary: b) (auto simp: pv_WithFilter_def)

text \<open>C40: persistent volumes. A chain of builder calls on a new volume succeeds exactly when each call is
  valid, and then gives the fold of the field updates; an API list filtered by any number of groups of
  predicates gives exactly the volumes that satisfy all of them, in order, with their number; and a missing
  API list is an error whatever the filters.\<close>

theorem pv_builders:
  "(Build (fold (pv_run pq) cs pv_NewBuilder) = Inr x \<longleftrightarrow> list_all (pv_valid pq) cs \<and> x = fold (pv_apply pq) cs zero_PV) \<and>
   pv_APIList (fold pv_WithFilter pss (pv_ListBuilderForAPIObjects (Some vs))) =
     Inr (filter (\<lambda>v. list_all (\<lambda>p. p v) (concat pss)) vs) \<and>
   pv_Len (fold pv_WithFilter pss (pv_ListBuilderForAPIObjects (Some vs))) =
     (length (filter (\<lambda>v. list_all (\<lambda>p. p v) (concat pss)) vs), None) \<and>
   pv_APIList (fold pv_WithFilter pss (pv_ListBuilderForAPIObjects None)) =
     Inl (ErrorfE ''failed to list pv: %+v'' [] (ErrList [Errorf ''failed to build pv list: missing api list'' []]))"
proof (intro conjI)
  show "Build (fold (pv_run pq) cs pv_NewBuilder) = Inr x \<longleftrightarrow> list_all (pv_valid pq) cs \<and> x = fold (pv_apply pq) cs zero_PV"
    by (simp add: pvb.chain_Build pv_NewBuilder_def)
  have items: "pv_ListItems (fold pv_WithFilter pss (pv_ListBuilderForAPIObjects (Some vs))) =
      Inr (Some (filter (\<lambda>v. list_all (\<lambda>p. p v) (concat pss)) vs))"
  proof (cases "concat pss = []")
    case True
    then show ?thesis
      by (simp add: pv_ListItems_def pv_filters_fold pv_ListBuilderForAPIObjects_def del: concat_eq_Nil_conv)
  next
    case False
    then show ?thesis
      by (simp add: pv_ListItems_def pv_filters_fold pv_ListBuilderForAPIObjects_def keep_all_filter pv_all_list_all
          del: concat_eq_Nil_conv)
  qed
  show "pv_APIList (fold pv_WithFilter pss (pv_ListBuilderForAPIObjects (Some vs))) =
     Inr (filter (\<lambda>v. list_all (\<lambda>p. p v) (concat pss)) vs)"
    by (simp add: pv_APIList_def items pv_ToAPIList_id)
  show "pv_Len (fold pv_WithFilter pss (pv_ListBuilderForAPIObjects (Some vs))) =
     (length (filter (\<lambda>v. list_all (\<lambda>p. p v) (concat pss)) vs), None)"
    by (simp add: pv_Len_def items)
  show "pv_APIList (fold pv_WithFilter pss (pv_ListBuilderForAPIObjects None)) =
     Inl (ErrorfE ''failed to list pv: %+v'' [] (ErrList [Errorf ''failed to build pv list: missing api list'' []]))"
    by (simp add: pv_APIList_def pv_ListItems_def pv_filters_fold pv_ListBuilderForAPIObjects_def)
qed

subsection \<open>The client\<close>

type_synonym 'w pv_Kubeclient = "('w, PersistentVolume) Kubeclient"
type_synonym 'w pv_api = "('w, PersistentVolume) resource_api"

definition pv_withDefaults :: "'w kube \<Rightarrow> 'w pv_api \<Rightarrow> 'w pv_Kubeclient \<Rightarrow> 'w pv_Kubeclient" where
  "pv_withDefaults X A k = k
     \<lparr>kc_getClientset := or_default (kc_getClientset k) (Clientset (client_New X [])),
      kc_getClientsetForPath := or_default (kc_getClientsetForPath k)
        (\<lambda>kubeConfigPath. Clientset (client_New X [client_WithKubeConfigPath kubeConfigPath])),
      kc_get := or_default (kc_get k) (\<lambda>cli name _. call_fn cli (\<lambda>c. r_Get A c [] name)),
      kc_list := or_default (kc_list k) (\<lambda>cli _ opts. call_fn cli (\<lambda>c. r_List A c [] opts)),
      kc_del := or_default (kc_del k) (\<lambda>cli name _ deleteOpts. call_fn cli (\<lambda>c. call_fn deleteOpts (\<lambda>d. r_Delete A c [] name d))),
      kc_delCollection := or_default (kc_delCollection k)
        (\<lambda>cli _ listOpts deleteOpts. call_fn cli (\<lambda>c. call_fn deleteOpts (\<lambda>d. r_DeleteCollection A c [] listOpts d))),
      kc_create := or_default (kc_create k) (\<lambda>cli pv _. call_fn cli (\<lambda>c. r_Create A c [] pv))\<rparr>"

definition pv_NewKubeClient :: "'w kube \<Rightarrow> 'w pv_api \<Rightarrow> ('w pv_Kubeclient \<Rightarrow> 'w pv_Kubeclient) list \<Rightarrow> 'w pv_Kubeclient" where
  "pv_NewKubeClient X A opts = pv_withDefaults X A (fold (\<lambda>op k. op k) opts zero_Kubeclient)"

definition pv_getClientsetOrCached :: "'w pv_Kubeclient \<Rightarrow> ('w, PersistentVolume, nat perr) kmethod" where
  "pv_getClientsetOrCached = clientOrCached (Wrapf ''failed to get clientset'' [])"

interpretation pvcl: cached_client pv_getClientsetOrCached
  unfolding pv_getClientsetOrCached_def by unfold_locales (rule clientOrCached_laws; assumption)+

definition pv_Get :: "'w pv_Kubeclient \<Rightarrow> string \<Rightarrow> ('w, PersistentVolume, PersistentVolume perr) kmethod" where
  "pv_Get k name =
     (if TrimSpace name = [] then ret ((None, Some (Errorf ''failed to get pv: missing pv name'' [])), k)
      else with_client pv_getClientsetOrCached k
        (\<lambda>e. (None, Some (Wrapf ''failed to get pv {%s}'' [name] e)))
        (\<lambda>cli k. call_fn (kc_get k) (\<lambda>f. f cli name [])))"

definition pv_List :: "'w pv_Kubeclient \<Rightarrow> ListOptions \<Rightarrow> ('w, PersistentVolume, PersistentVolume list perr) kmethod" where
  "pv_List k opts = with_client pv_getClientsetOrCached k
     (\<lambda>e. (None, Some (Wrapf (''failed to list pv listoptions: '%v'' @ [CHR 0x27]) [lo_LabelSelector opts] e)))
     (\<lambda>cli k. call_fn (kc_list k) (\<lambda>f. f cli [] opts))"

definition pv_Delete :: "'w pv_Kubeclient \<Rightarrow> string \<Rightarrow> string option \<Rightarrow> ('w, PersistentVolume, gerror option) kmethod" where
  "pv_Delete k name deleteOpts =
     (if TrimSpace name = [] then ret (Some (Errorf ''failed to delete pvc: missing pv name'' []), k)
      else with_client pv_getClientsetOrCached k
        (\<lambda>e. Some (Wrapf ''failed to delete pv {%s}'' [name] e))
        (\<lambda>cli k. call_fn (kc_del k) (\<lambda>f. f cli name [] deleteOpts)))"

definition pv_Create :: "'w pv_Kubeclient \<Rightarrow> PersistentVolume \<Rightarrow> ('w, PersistentVolume, PersistentVolume perr) kmethod" where
  "pv_Create k pv = with_client pv_getClientsetOrCached k
     (\<lambda>e. (None, Some (Wrapf ''failed to create pv: %s'' [pv_Name pv] e)))
     (\<lambda>cli k. call_fn (kc_create k) (\<lambda>f. f cli pv []))"

definition pv_DeleteCollection :: "'w pv_Kubeclient \<Rightarrow> ListOptions \<Rightarrow> string option \<Rightarrow> ('w, PersistentVolume, gerror option) kmethod" where
  "pv_DeleteCollection k listOpts deleteOpts = with_client pv_getClientsetOrCached k
     (\<lambda>e. Some (Wrapf ''failed to delete the collection of pvs'' [] e))
     (\<lambda>cli k. call_fn (kc_delCollection k) (\<lambda>f. f cli [] listOpts deleteOpts))"

definition FetchPVDetails :: "'w kube \<Rightarrow> 'w pv_api \<Rightarrow> string \<Rightarrow> ('w, PersistentVolume perr) go" where
  "FetchPVDetails X A name = the_result (pv_Get (pv_NewKubeClient X A []) name)"

end
