(* ===== verification/Driver.thy ===== *)
theory Driver
  imports Controller Node_Service Core_Clients PersistentVolume
begin

section \<open>The process: configuration, version, identity service, gRPC server and start-up\<close>

text \<open>
  pkg/config/config.go, pkg/version/version.go, pkg/driver/identity.go, pkg/driver/service.go,
  pkg/utils/server.go with \<open>logGRPC\<close> of pkg/utils/utils.go, and cmd/main.go.

  What lies outside the repository is the record \<open>proc_api\<close>: reading a file, running git, listening,
  the loop of the gRPC server (which returns when the server is stopped), stopping it, the analytics library,
  and the command line (\<open>cobra\<close>: given the defaults of the flags, an error, or the configuration to run with,
  or nothing to run, as for a request for help).
  \<open>logrus.Fatal\<close> ends the process; like a panic nothing runs after it, so it is a \<open>Panic\<close> that carries the
  format of the message. A goroutine that a function starts is returned with its result. The services hold a pointer to
  the driver, of which they read only the configuration; it does not change once \<open>New\<close> is called.
\<close>

subsection \<open>Configuration and version\<close>

record config_Config =
  DriverName :: string
  PluginType :: string
  cfg_Version :: string
  Endpoint :: string
  NodeID :: string
  RestURL :: string

definition Default :: config_Config where
  "Default = \<lparr>DriverName = [], PluginType = [], cfg_Version = [], Endpoint = [], NodeID = [], RestURL = []\<rparr>"

text \<open>The values that the flags of cmd/main.go give to a command line without options.\<close>

definition main_flags :: "config_Config \<Rightarrow> config_Config" where
  "main_flags config = config\<lparr>RestURL := [], NodeID := ''node1'', cfg_Version := [], Endpoint := ''unix://csi/csi.sock'',
     DriverName := ''cstor.csi.openebs.io'', PluginType := ''csi-plugin''\<rparr>"

text \<open>The variables of the version package, which the linker fills in.\<close>

record version_vars =
  GitCommit :: string
  Version :: string

datatype service = IdentityService config_Config | ControllerService controller | NodeService node

record 'w proc_api =
  p_ReadFile :: "string \<Rightarrow> ('w, gerror + string) go"
  p_Output :: "string \<Rightarrow> string list \<Rightarrow> ('w, gerror + string) go"
  p_Listen :: "string \<Rightarrow> string \<Rightarrow> ('w, gerror + nat) go"
  p_Serve :: "nat \<Rightarrow> service list \<Rightarrow> ('w, unit) go"
  p_RegisterVersionGetter :: "('w, string) go \<Rightarrow> ('w, unit) go"
  p_SendInstall :: "string \<Rightarrow> ('w, unit) go"
  p_GracefulStop :: "service list \<Rightarrow> ('w, unit) go"
  p_Stop :: "service list \<Rightarrow> ('w, unit) go"
  p_Execute :: "config_Config \<Rightarrow> ('w, gerror + config_Config option) go"

definition versionFile :: string where
  "versionFile = ''/src/github.com/openebs/cstor-csi/VERSION''"

text \<open>\<open>filepath.Join\<close> of one element is empty for an empty element and its clean form otherwise.\<close>

definition version_Get :: "environ \<Rightarrow> 'w proc_api \<Rightarrow> version_vars \<Rightarrow> ('w, string) go" where
  "version_Get env P V =
     (if Version V \<noteq> [] then ret (Version V)
      else bnd (p_ReadFile P (path_Clean (os_Getenv env ''GOPATH'' @ versionFile))) (\<lambda>r. case r of
        Inl err \<Rightarrow> ret []
      | Inr vBytes \<Rightarrow> ret (TrimSpace vBytes)))"

definition version_Current :: "environ \<Rightarrow> 'w proc_api \<Rightarrow> version_vars \<Rightarrow> ('w, string) go" where
  "version_Current env P V = version_Get env P V"

definition GetGitCommit :: "'w proc_api \<Rightarrow> version_vars \<Rightarrow> ('w, string) go" where
  "GetGitCommit P V =
     (if GitCommit V \<noteq> [] then ret (GitCommit V)
      else bnd (p_Output P ''git'' [''rev-parse'', ''--verify'', ''HEAD'']) (\<lambda>r. case r of
        Inl err \<Rightarrow> ret []
      | Inr out \<Rightarrow> ret (TrimSpace out)))"

text \<open>The slice expression \<open>[0:7]\<close> panics on a shorter string.\<close>

definition slice7 :: "string \<Rightarrow> ('w, string) go" where
  "slice7 x = (if length x < 7 then panic ''slice bounds out of range'' else ret (take 7 x))"

definition GetVersionDetails :: "environ \<Rightarrow> 'w proc_api \<Rightarrow> version_vars \<Rightarrow> ('w, string) go" where
  "GetVersionDetails env P V =
     bnd (version_Get env P V) (\<lambda>v. bnd (GetGitCommit P V) (\<lambda>c. bnd (slice7 c) (\<lambda>short.
       ret (Join [v, short] ''-''))))"

definition Verbose :: "environ \<Rightarrow> 'w proc_api \<Rightarrow> version_vars \<Rightarrow> ('w, string) go" where
  "Verbose env P V =
     bnd (version_Get env P V) (\<lambda>v. bnd (GetGitCommit P V) (\<lambda>c. bnd (slice7 c) (\<lambda>short.
       ret (Join [v, short] ''-''))))"

subsection \<open>The identity service\<close>

datatype plugin_capability = CONTROLLER_SERVICE | VOLUME_ACCESSIBILITY_CONSTRAINTS

definition GetPluginInfo ::
  "environ \<Rightarrow> 'w proc_api \<Rightarrow> version_vars \<Rightarrow> config_Config \<Rightarrow> ('w, gerror + string \<times> string) go" where
  "GetPluginInfo env P V config =
     (if DriverName config = [] then fail (StatusError Unavailable (Errorf ''missing driver name'' []))
      else if cfg_Version config = [] then fail (StatusError Unavailable (Errorf ''missing driver version'' []))
      else bnd (version_Current env P V) (\<lambda>v. ret (Inr (DriverName config, v))))"

definition Probe :: "('w, gerror + unit) go" where
  "Probe = ok"

definition GetPluginCapabilities :: "('w, gerror + plugin_capability list) go" where
  "GetPluginCapabilities = ret (Inr [CONTROLLER_SERVICE, VOLUME_ACCESSIBILITY_CONSTRAINTS])"

subsection \<open>The gRPC server: pkg/utils/server.go\<close>

text \<open>\<open>server\<close> holds the services registered with the grpc server once it exists.\<close>

record nonBlockingGRPCServer =
  wg :: nat
  server :: "service list option"

definition NewNonBlockingGRPCServer :: nonBlockingGRPCServer where
  "NewNonBlockingGRPCServer = \<lparr>wg = 0, server = None\<rparr>"

datatype goroutine =
    Serve string "config_Config option" "controller option" "node option"
  | MonitorMounts
  | CleanupVolume CStorVolumeAttachment
  | PingCheck string string

definition Start ::
  "string \<Rightarrow> config_Config option \<Rightarrow> controller option \<Rightarrow> node option \<Rightarrow> nonBlockingGRPCServer \<Rightarrow> nonBlockingGRPCServer \<times> goroutine list" where
  "Start endpoint ids cs ns s = (s\<lparr>wg := wg s + 1\<rparr>, [Serve endpoint ids cs ns])"

text \<open>\<open>Wait\<close> returns when the counter is zero and blocks otherwise.\<close>

definition Wait :: "nonBlockingGRPCServer \<Rightarrow> unit option" where
  "Wait s = (if wg s = 0 then Some () else None)"

text \<open>Both stops are methods of the grpc server, which is nil until \<open>serve\<close> has made it.\<close>

definition Stop :: "'w proc_api \<Rightarrow> nonBlockingGRPCServer \<Rightarrow> ('w, unit) go" where
  "Stop P s = bnd (deref (server s)) (p_GracefulStop P)"

definition ForceStop :: "'w proc_api \<Rightarrow> nonBlockingGRPCServer \<Rightarrow> ('w, unit) go" where
  "ForceStop P s = bnd (deref (server s)) (p_Stop P)"

definition fatal :: "string \<Rightarrow> ('w, 'a) go" where
  "fatal msg = panic (''exit status 1: '' @ msg)"

definition registered :: "config_Config option \<Rightarrow> controller option \<Rightarrow> node option \<Rightarrow> service list" where
  "registered ids cs ns =
     (case ids of Some c \<Rightarrow> [IdentityService c] | None \<Rightarrow> []) @
     (case cs of Some c \<Rightarrow> [ControllerService c] | None \<Rightarrow> []) @
     (case ns of Some n \<Rightarrow> [NodeService n] | None \<Rightarrow> [])"

text \<open>A stale socket is cleared off; that it is not there is no error.\<close>

definition removeStale :: "'w host \<Rightarrow> string \<Rightarrow> ('w, unit) go" where
  "removeStale H addr = bnd (h_Remove H addr) (\<lambda>err. case err of
     Some e \<Rightarrow> if \<not> os_IsNotExist (Some e) then fatal ''Failed to remove %s, error: %s'' else ret ()
   | None \<Rightarrow> ret ())"

definition listenAndServe ::
  "'w proc_api \<Rightarrow> nonBlockingGRPCServer \<Rightarrow> string \<Rightarrow> string \<Rightarrow> config_Config option \<Rightarrow> controller option \<Rightarrow> node option \<Rightarrow>
   ('w, nonBlockingGRPCServer) go" where
  "listenAndServe P s proto addr ids cs ns =
     bnd (p_Listen P proto addr) (\<lambda>r. case r of
       Inl e \<Rightarrow> fatal ''Failed to listen: %v''
     | Inr listener \<Rightarrow> andthen (p_Serve P listener (registered ids cs ns))
         (ret (s\<lparr>server := Some (registered ids cs ns)\<rparr>)))"

definition serve ::
  "'w host \<Rightarrow> 'w proc_api \<Rightarrow> nonBlockingGRPCServer \<Rightarrow> string \<Rightarrow> config_Config option \<Rightarrow> controller option \<Rightarrow> node option \<Rightarrow>
   ('w, nonBlockingGRPCServer) go" where
  "serve H P s endpoint ids cs ns = (case parseEndpoint endpoint of
     Inl err \<Rightarrow> fatal ''%s''
   | Inr (proto, addr0) \<Rightarrow>
       (let addr = (if proto = ''unix'' then ''/'' @ addr0 else addr0) in
        andthen (if proto = ''unix'' then removeStale H addr else ret ())
          (listenAndServe P s proto addr ids cs ns)))"

text \<open>The interceptor around every call. Requests and responses of the methods that are polled are not
  logged, errors always are; what is returned is what the handler returned.\<close>

datatype log_line = LogReq string | LogError gerror | LogResp string

definition quiet :: "string \<Rightarrow> bool" where
  "quiet fullMethod = (Contains fullMethod ''NodeGetCapabilities'' \<or> Contains fullMethod ''NodeGetVolumeStats'' \<or>
     Contains fullMethod ''ControllerGetCapabilities'' \<or> Contains fullMethod ''GetPluginInfo'' \<or>
     Contains fullMethod ''GetPluginCapabilities'' \<or> Contains fullMethod ''Probe'')"

definition logGRPC :: "string \<Rightarrow> ('s, gerror + 'r) go \<Rightarrow> ('s, (gerror + 'r) \<times> log_line list) go" where
  "logGRPC fullMethod handler =
     (let before = (if \<not> quiet fullMethod then [LogReq fullMethod] else []) in
      bnd handler (\<lambda>r. case r of
        Inl err \<Rightarrow> ret (r, before @ [LogError err])
      | Inr resp \<Rightarrow> ret (r, before @ (if \<not> quiet fullMethod then [LogResp fullMethod] else []))))"

subsection \<open>The driver: pkg/driver/service.go and cmd/main.go\<close>

record CSIDriver =
  d_config :: config_Config
  d_ids :: "config_Config option"
  d_ns :: "node option"
  d_cs :: "controller option"
  d_cap :: "access_mode list"

definition GetVolumeCapabilityAccessModes :: "access_mode list" where
  "GetVolumeCapabilityAccessModes = fold (\<lambda>vcam vcams. vcams @ [vcam]) [SINGLE_NODE_WRITER] []"

definition New ::
  "'w kube \<Rightarrow> 'w host \<Rightarrow> utils_globals \<Rightarrow> config_Config \<Rightarrow> ('w nstate, CSIDriver \<times> goroutine list) go" where
  "New X H G config =
     (let driver = \<lparr>d_config = config, d_ids = None, d_ns = None, d_cs = None, d_cap = GetVolumeCapabilityAccessModes\<rparr> in
      bnd (if PluginType config = ''controller'' then ret (driver\<lparr>d_cs := Some NewController\<rparr>, [])
           else if PluginType config = ''node'' then bnd (Cleanup X H G) (\<lambda>r. case r of
             Inl err \<Rightarrow> fatal ''%s''
           | Inr vols \<Rightarrow> ret (driver\<lparr>d_ns := Some (NewNode (NodeID config))\<rparr>,
               map CleanupVolume vols @ (if os_Getenv (k_env X) ''REMOUNT'' = ''true'' then [MonitorMounts] else [])))
           else ret (driver, []))
        (\<lambda>(driver, jobs). ret (driver\<lparr>d_ids := Some config\<rparr>, jobs)))"

definition Ping :: string where "Ping = ''ping''"
definition DefaultCASType :: string where "DefaultCASType = ''cstor''"

text \<open>\<open>Run\<close> up to its call of \<open>Wait\<close>: the server it waits for and the goroutines it started.\<close>

definition Run_to_Wait ::
  "environ \<Rightarrow> 'w proc_api \<Rightarrow> version_vars \<Rightarrow> CSIDriver \<Rightarrow> ('w, nonBlockingGRPCServer \<times> goroutine list) go" where
  "Run_to_Wait env P V d =
     (let (s, started) = Start (Endpoint (d_config d)) (d_ids d) (d_cs d) (d_ns d) NewNonBlockingGRPCServer in
      if d_cs d \<noteq> None \<and> Truthy env OpenEBSEnableAnalytics
      then andthen (p_RegisterVersionGetter P (GetVersionDetails env P V))
        (andthen (p_SendInstall P DefaultCASType) (ret (s, started @ [PingCheck DefaultCASType Ping])))
      else ret (s, started))"

definition run_to_Wait ::
  "'w kube \<Rightarrow> 'w host \<Rightarrow> 'w proc_api \<Rightarrow> version_vars \<Rightarrow> utils_globals \<Rightarrow> config_Config \<Rightarrow>
   ('w nstate, CSIDriver \<times> nonBlockingGRPCServer \<times> goroutine list) go" where
  "run_to_Wait X H P V G config =
     bnd (if cfg_Version config = [] then bnd (on_world (version_Current (k_env X) P V)) (\<lambda>v. ret (config\<lparr>cfg_Version := v\<rparr>))
          else ret config) (\<lambda>config.
     andthen (on_world (version_Current (k_env X) P V))
     (andthen (on_world (GetGitCommit P V))
     (bnd (New X H G config) (\<lambda>(d, jobs).
        bnd (on_world (Run_to_Wait (k_env X) P V d)) (\<lambda>(s, started). ret (d, s, jobs @ started))))))"

text \<open>\<open>main\<close>: the run function is called from within the execution of the command, which gives it the
  configuration that the flags have written.\<close>

definition main_to_Wait ::
  "'w kube \<Rightarrow> 'w host \<Rightarrow> 'w proc_api \<Rightarrow> version_vars \<Rightarrow> utils_globals \<Rightarrow>
   ('w nstate, (CSIDriver \<times> nonBlockingGRPCServer \<times> goroutine list) option) go" where
  "main_to_Wait X H P V G =
     bnd (on_world (p_Execute P (main_flags Default))) (\<lambda>r. case r of
       Inl err \<Rightarrow> fatal ''%s''
     | Inr None \<Rightarrow> ret None
     | Inr (Some config) \<Rightarrow> bnd (run_to_Wait X H P V G config) (\<lambda>x. ret (Some x)))"

end
