(* ===== verification/Driver_Props.thy ===== *)
theory Driver_Props
  imports Driver Node_Props Transition
begin

section \<open>What the process serves\<close>

text \<open>
  The services that a configuration gives, the socket they are served on, and the process as a transition
  system: the main goroutine waits for the server, which runs beside it with the other goroutines.
\<close>

subsection \<open>Start-up\<close>

lemma or_fatal_Return_iff [simp]:
  "(case r of Inl e \<Rightarrow> fatal msg | Inr x \<Rightarrow> f x) s = (Return y, s') \<longleftrightarrow> (\<exists>x. r = Inr x \<and> f x s = (Return y, s'))"
  by (cases r) (simp_all add: fatal_def)

lemma New_Return:
  assumes "New X H G c s = (Return (d, jobs), s')"
  shows "d_config d = c \<and> d_ids d = Some c \<and>
    d_cs d = (if PluginType c = ''controller'' then Some NewController else None) \<and>
    d_ns d = (if PluginType c = ''node'' then Some (NewNode (NodeID c)) else None) \<and>
    (MonitorMounts \<in> set jobs \<longleftrightarrow> PluginType c = ''node'' \<and> os_Getenv (k_env X) ''REMOUNT'' = ''true'') \<and>
    set jobs \<subseteq> insert MonitorMounts (range CleanupVolume)"
  using assms unfolding New_def Let_def
  by (auto simp: bnd_Return_iff split: if_splits)

lemma Run_to_Wait_Return:
  assumes "Run_to_Wait env P V d s = (Return (sv, started), s')"
  shows "sv = \<lparr>wg = 1, server = None\<rparr> \<and>
    started = Serve (Endpoint (d_config d)) (d_ids d) (d_cs d) (d_ns d) #
      (if d_cs d \<noteq> None \<and> Truthy env OpenEBSEnableAnalytics then [PingCheck DefaultCASType Ping] else [])"
  using assms unfolding Run_to_Wait_def Start_def NewNonBlockingGRPCServer_def Let_def
  by (auto simp: bnd_Return_iff andthen_def split: if_splits)

lemma on_world_Return_iff:
  "on_world m s = (Return r, s') \<longleftrightarrow> (\<exists>w. m (world s) = (Return r, w) \<and> s' = s\<lparr>world := w\<rparr>)"
  by (auto simp: on_world_def split: prod.splits)

lemma run_to_Wait_split:
  assumes "run_to_Wait X H P V G c s = (Return (d, sv, jobs), s')"
  obtains v t jobs1 t' env' started where "New X H G (c\<lparr>cfg_Version := v\<rparr>) t = (Return (d, jobs1), t')"
    "Run_to_Wait (k_env X) P V d (world t') = (Return (sv, started), env')" "jobs = jobs1 @ started"
    "cfg_Version c \<noteq> [] \<longrightarrow> v = cfg_Version c"
proof -
  from assms obtain c' s1 t jobs1 t' started where
    c': "(if cfg_Version c = [] then bnd (on_world (version_Current (k_env X) P V)) (\<lambda>v. ret (c\<lparr>cfg_Version := v\<rparr>)) else ret c) s =
      (Return c', s1)" and
    new: "New X H G c' t = (Return (d, jobs1), t')" and
    run: "on_world (Run_to_Wait (k_env X) P V d) t' = (Return (sv, started), s')" and jobs: "jobs = jobs1 @ started"
    unfolding run_to_Wait_def andthen_def by (fastforce simp: bnd_Return_iff)
  from c' obtain v where v: "c' = c\<lparr>cfg_Version := v\<rparr>" "cfg_Version c \<noteq> [] \<longrightarrow> v = cfg_Version c"
    by (fastforce simp: bnd_Return_iff split: if_splits)
  from run obtain env' where "Run_to_Wait (k_env X) P V d (world t') = (Return (sv, started), env')"
    by (auto simp: on_world_Return_iff)
  from that [OF new [unfolded v(1)] this jobs v(2)] show thesis .
qed

text \<open>C31: what the process sets up. When the start-up of \<open>run\<close> succeeds, the driver has the configuration of the
  flags with the version filled in, the identity service always, the controller service exactly for the
  plugin type controller, the node service, for its node, exactly for the type node. It started the server
  with just these services at the endpoint, the mount monitor exactly for a node whose \<open>REMOUNT\<close> is
  \<open>true\<close>, and the analytics ping exactly for a controller with analytics enabled.\<close>

theorem driver_starts:
  assumes "run_to_Wait X H P V G c s = (Return (d, sv, jobs), s')"
  shows "(\<exists>v. d_config d = c\<lparr>cfg_Version := v\<rparr> \<and> (cfg_Version c \<noteq> [] \<longrightarrow> v = cfg_Version c)) \<and>
    d_ids d = Some (d_config d) \<and>
    d_cs d = (if PluginType c = ''controller'' then Some NewController else None) \<and>
    d_ns d = (if PluginType c = ''node'' then Some (NewNode (NodeID c)) else None) \<and>
    filter (\<lambda>g. \<exists>e i cs n. g = Serve e i cs n) jobs = [Serve (Endpoint c) (d_ids d) (d_cs d) (d_ns d)] \<and>
    (MonitorMounts \<in> set jobs \<longleftrightarrow> PluginType c = ''node'' \<and> os_Getenv (k_env X) ''REMOUNT'' = ''true'') \<and>
    (PingCheck DefaultCASType Ping \<in> set jobs \<longleftrightarrow>
       PluginType c = ''controller'' \<and> Truthy (k_env X) OpenEBSEnableAnalytics)"
proof -
  from assms obtain v t jobs1 t' env' started where
    new: "New X H G (c\<lparr>cfg_Version := v\<rparr>) t = (Return (d, jobs1), t')" and
    run: "Run_to_Wait (k_env X) P V d (world t') = (Return (sv, started), env')" and
    jobs: "jobs = jobs1 @ started" and v: "cfg_Version c \<noteq> [] \<longrightarrow> v = cfg_Version c"
    by (rule run_to_Wait_split)
  note N = New_Return [OF new] and R = Run_to_Wait_Return [OF run]
  have no_serve: "filter (\<lambda>g. \<exists>e i cs n. g = Serve e i cs n) jobs1 = []"
    using N by (auto simp: filter_empty_conv)
  have no_ping: "PingCheck DefaultCASType Ping \<notin> set jobs1"
    using N by auto
  show ?thesis
    using N R v no_serve no_ping by (auto simp: jobs)
qed

text \<open>A process whose version is linked in and whose server stops at once, on the sample cluster.\<close>

definition sample_proc :: "cluster proc_api" where
  "sample_proc = \<lparr>p_ReadFile = (\<lambda>_. ret (Inl (OsNotExist ''VERSION''))), p_Output = (\<lambda>_ _. ret (Inl (ExitError 128))),
     p_Listen = (\<lambda>network _. ret (if network = ''unix'' then Inr 7 else Inl (OsError ''unknown network''))),
     p_Serve = (\<lambda>_ _. ret ()), p_RegisterVersionGetter = (\<lambda>_. ret ()), p_SendInstall = (\<lambda>_. ret ()),
     p_GracefulStop = (\<lambda>_. ret ()), p_Stop = (\<lambda>_. ret ()), p_Execute = (\<lambda>c. ret (Inr (Some c)))\<rparr>"

definition sample_version :: version_vars where
  "sample_version = \<lparr>GitCommit = ''0123456789'', Version = ''3.5.0''\<rparr>"

definition sample_config :: config_Config where
  "sample_config = (main_flags Default)\<lparr>PluginType := ''node''\<rparr>"

definition sample_start :: "(CSIDriver \<times> nonBlockingGRPCServer \<times> goroutine list) outcome \<times> cluster nstate" where
  "sample_start = run_to_Wait sample_kube sample_host sample_proc sample_version sample_globals sample_config
     (lists (startup sample_cluster))"

lemma sample_start_Return: "fst sample_start =
    Return (\<lparr>d_config = sample_config\<lparr>cfg_Version := ''3.5.0''\<rparr>, d_ids = Some (sample_config\<lparr>cfg_Version := ''3.5.0''\<rparr>),
        d_ns = Some (NewNode ''node1''), d_cs = None, d_cap = [SINGLE_NODE_WRITER]\<rparr>,
      \<lparr>wg = 1, server = None\<rparr>,
      [Serve ''unix://csi/csi.sock'' (Some (sample_config\<lparr>cfg_Version := ''3.5.0''\<rparr>)) None (Some (NewNode ''node1''))])"
  by code_simp

theorem driver_starts_witness:
  "\<exists>d sv jobs s'. sample_start = (Return (d, sv, jobs), s') \<and> d_cs d = None \<and> d_ns d = Some (NewNode ''node1'') \<and>
     MonitorMounts \<notin> set jobs"
proof -
  obtain d sv jobs s' where start: "sample_start = (Return (d, sv, jobs), s')"
    using by_snd [OF sample_start_Return] by auto
  from driver_starts [OF start [unfolded sample_start_def]]
  have "d_cs d = None" "d_ns d = Some (NewNode ''node1'')" "MonitorMounts \<notin> set jobs"
    by (simp_all add: sample_config_def main_flags_def sample_kube_def os_Getenv_def)
  with start show ?thesis by blast
qed

subsection \<open>The socket\<close>

lemma registered_simps [simp]:
  "registered (Some c) None None = [IdentityService c]"
  "registered (Some c) (Some ct) None = [IdentityService c, ControllerService ct]"
  "registered (Some c) None (Some n) = [IdentityService c, NodeService n]"
  by (simp_all add: registered_def)

lemma ToLower_schemes: "ToLower ''unix'' = ''unix''" "ToLower ''UNIX'' = ''unix''"
  by code_simp+

lemma serve_endpoint:
  assumes "addr \<noteq> []"
  shows "serve H P s (''unix://'' @ addr) ids cs ns = andthen (removeStale H (''/'' @ addr)) (listenAndServe P s ''unix'' (''/'' @ addr) ids cs ns)"
    and "serve H P s (''UNIX://'' @ addr) ids cs ns = andthen (ret ()) (listenAndServe P s ''UNIX'' addr ids cs ns)"
  using parseEndpoint_scheme [of "''unix''" addr] parseEndpoint_scheme [of "''UNIX''" addr] assms
  by (simp_all add: serve_def ToLower_schemes Let_def)

lemma removeStale_Return_iff:
  "removeStale H addr w = (Return u, w') \<longleftrightarrow> (\<exists>err. h_Remove H addr w = (Return err, w') \<and> (err = None \<or> os_IsNotExist err))"
  by (auto simp: removeStale_def bnd_Return_iff fatal_def split: option.splits if_splits)

lemma listenAndServe_Return_iff:
  "listenAndServe P s proto addr ids cs ns w = (Return s', w') \<longleftrightarrow>
     (\<exists>l w2. p_Listen P proto addr w = (Return (Inr l), w2) \<and> p_Serve P l (registered ids cs ns) w2 = (Return (), w') \<and>
        s' = s\<lparr>server := Some (registered ids cs ns)\<rparr>)"
  by (auto simp: listenAndServe_def andthen_def bnd_Return_iff)

text \<open>C32: serving on a Unix socket. The server at \<open>unix://\<close> and an address gets as far as serving exactly when
  the path, the address under the root, could be removed or was not there and could then be listened on;
  the services it serves are those that were given. With the scheme in capitals, which the parser accepts,
  nothing is removed and the listener is asked for a network of that name.\<close>

theorem serve_unix:
  assumes "addr \<noteq> []"
  shows "(serve H P s (''unix://'' @ addr) ids cs ns w = (Return s', w') \<longleftrightarrow>
      (\<exists>err w1 l w2. h_Remove H (''/'' @ addr) w = (Return err, w1) \<and> (err = None \<or> os_IsNotExist err) \<and>
         p_Listen P ''unix'' (''/'' @ addr) w1 = (Return (Inr l), w2) \<and>
         p_Serve P l (registered ids cs ns) w2 = (Return (), w') \<and> s' = s\<lparr>server := Some (registered ids cs ns)\<rparr>)) \<and>
    (serve H P s (''UNIX://'' @ addr) ids cs ns w = (Return s', w') \<longleftrightarrow>
      (\<exists>l w2. p_Listen P ''UNIX'' addr w = (Return (Inr l), w2) \<and>
         p_Serve P l (registered ids cs ns) w2 = (Return (), w') \<and> s' = s\<lparr>server := Some (registered ids cs ns)\<rparr>))"
  unfolding serve_endpoint(1) [OF assms] serve_endpoint(2) [OF assms]
  by (auto simp: removeStale_Return_iff listenAndServe_Return_iff andthen_def bnd_Return_iff)

theorem serve_unix_witness:
  "(\<exists>w'. serve sample_host sample_proc NewNonBlockingGRPCServer ''unix://csi.sock'' None None None sample_cluster =
     (Return (NewNonBlockingGRPCServer\<lparr>server := Some []\<rparr>), w')) \<and>
   \<not> (\<exists>s' w'. serve sample_host sample_proc NewNonBlockingGRPCServer ''UNIX://csi.sock'' None None None sample_cluster =
     (Return s', w'))"
  using serve_unix [of "''csi.sock''" sample_host sample_proc NewNonBlockingGRPCServer None None None sample_cluster]
  by (simp add: sample_proc_def sample_host_def registered_def ret_def)

subsection \<open>The running process\<close>

text \<open>
  The main goroutine waits in \<open>Wait\<close>. Beside it the server goroutine may come to its end, or end the process;
  the other goroutines change the world, start and end, or crash the process. The code calls \<open>Done\<close> nowhere.
\<close>

datatype main_state = Waiting | Exited nat

record 'w proc =
  pr_main :: main_state
  pr_server :: nonBlockingGRPCServer
  pr_running :: "goroutine list"
  pr_world :: 'w

inductive proc_step :: "'w host \<Rightarrow> 'w proc_api \<Rightarrow> 'w proc \<Rightarrow> 'w proc \<Rightarrow> bool" for H :: "'w host" and P :: "'w proc_api" where
  served: "Serve endpoint ids cs ns \<in> set gs \<Longrightarrow> serve H P sv endpoint ids cs ns w = (Return sv', w') \<Longrightarrow>
     proc_step H P \<lparr>pr_main = Waiting, pr_server = sv, pr_running = gs, pr_world = w\<rparr>
       \<lparr>pr_main = Waiting, pr_server = sv', pr_running = remove1 (Serve endpoint ids cs ns) gs, pr_world = w'\<rparr>"
| unserved: "Serve endpoint ids cs ns \<in> set gs \<Longrightarrow> serve H P sv endpoint ids cs ns w = (Panic msg, w') \<Longrightarrow>
     proc_step H P \<lparr>pr_main = Waiting, pr_server = sv, pr_running = gs, pr_world = w\<rparr>
       \<lparr>pr_main = Exited 1, pr_server = sv, pr_running = gs, pr_world = w'\<rparr>"
| beside: "filter (\<lambda>g. \<exists>e i cs n. g = Serve e i cs n) gs' = filter (\<lambda>g. \<exists>e i cs n. g = Serve e i cs n) gs \<Longrightarrow>
     proc_step H P \<lparr>pr_main = Waiting, pr_server = sv, pr_running = gs, pr_world = w\<rparr>
       \<lparr>pr_main = Waiting, pr_server = sv, pr_running = gs', pr_world = w'\<rparr>"
| crashed: "proc_step H P \<lparr>pr_main = Waiting, pr_server = sv, pr_running = gs, pr_world = w\<rparr>
     \<lparr>pr_main = Exited 2, pr_server = sv, pr_running = gs, pr_world = w'\<rparr>"
| waited: "Wait sv = Some () \<Longrightarrow>
     proc_step H P \<lparr>pr_main = Waiting, pr_server = sv, pr_running = gs, pr_world = w\<rparr>
       \<lparr>pr_main = Exited 0, pr_server = sv, pr_running = gs, pr_world = w\<rparr>"

lemma serve_keeps_wg: "serve H P sv endpoint ids cs ns w = (Return sv', w') \<Longrightarrow> wg sv' = wg sv"
  by (auto simp: serve_def Let_def andthen_def bnd_Return_iff listenAndServe_Return_iff split: prod.split_asm)

lemma proc_step_waits:
  "proc_step H P p q \<Longrightarrow> wg (pr_server p) = 1 \<and> pr_main p \<noteq> Exited 0 \<Longrightarrow> wg (pr_server q) = 1 \<and> pr_main q \<noteq> Exited 0"
  by (induction rule: proc_step.induct) (auto simp: Wait_def dest: serve_keeps_wg)

text \<open>C33: the process does not end by itself. After a successful start-up, whatever the goroutines do, \<open>Wait\<close>
  never returns: a stopped server leaves the process waiting, and the exit with status 0 that \<open>run\<close> ends with
  is never reached. The process ends only by a fatal error or a crash.\<close>

theorem run_never_exits_0:
  assumes "run_to_Wait X H P V G c s = (Return (d, sv, jobs), s')"
    and "(proc_step H P)\<^sup>*\<^sup>* \<lparr>pr_main = Waiting, pr_server = sv, pr_running = jobs, pr_world = world s'\<rparr> q"
  shows "Wait (pr_server q) = None \<and> pr_main q \<noteq> Exited 0"
proof -
  from assms(1) have "wg sv = 1"
    by (rule run_to_Wait_split) (auto dest!: Run_to_Wait_Return)
  from assms(2) this have "wg (pr_server q) = 1 \<and> pr_main q \<noteq> Exited 0"
    by (induction rule: rtranclp_induct) (use proc_step_waits in fastforce)+
  then show ?thesis by (simp add: Wait_def)
qed

theorem run_never_exits_0_witness:
  "\<exists>d sv jobs s' q. sample_start = (Return (d, sv, jobs), s') \<and> pr_running q = [] \<and>
     proc_step sample_host sample_proc \<lparr>pr_main = Waiting, pr_server = sv, pr_running = jobs, pr_world = world s'\<rparr> q \<and>
     Wait (pr_server q) = None \<and> pr_main q \<noteq> Exited 0"
proof -
  let ?c = "Some (sample_config\<lparr>cfg_Version := ''3.5.0''\<rparr>)" and ?n = "Some (NewNode ''node1'')"
  let ?ep = "''unix://csi/csi.sock''"
  obtain d sv s' where start: "sample_start = (Return (d, sv, [Serve ?ep ?c None ?n]), s')"
    using by_snd [OF sample_start_Return] by auto
  obtain w' where "serve sample_host sample_proc sv ?ep ?c None ?n (world s') = (Return (sv\<lparr>server := Some (registered ?c None ?n)\<rparr>), w')"
    using serve_endpoint(1) [of "''csi/csi.sock''" sample_host sample_proc sv ?c None ?n]
    by (simp add: sample_proc_def sample_host_def listenAndServe_def removeStale_def andthen_def ret_def bnd_def)
  from proc_step.served [OF _ this, of "[Serve ?ep ?c None ?n]"]
  have st: "proc_step sample_host sample_proc
      \<lparr>pr_main = Waiting, pr_server = sv, pr_running = [Serve ?ep ?c None ?n], pr_world = world s'\<rparr>
      \<lparr>pr_main = Waiting, pr_server = sv\<lparr>server := Some (registered ?c None ?n)\<rparr>, pr_running = [], pr_world = w'\<rparr>"
    by simp
  define q where "q = \<lparr>pr_main = Waiting, pr_server = sv\<lparr>server := Some (registered ?c None ?n)\<rparr>, pr_running = [], pr_world = w'\<rparr>"
  from st have "proc_step sample_host sample_proc
      \<lparr>pr_main = Waiting, pr_server = sv, pr_running = [Serve ?ep ?c None ?n], pr_world = world s'\<rparr> q" by (simp add: q_def)
  with run_never_exits_0 [OF start [unfolded sample_start_def] r_into_rtranclp [of "proc_step sample_host sample_proc", OF this]] start
  show ?thesis by (intro exI [of _ d] exI [of _ sv] exI [of _ "[Serve ?ep ?c None ?n]"] exI [of _ s'] exI [of _ q]) (simp add: q_def)
qed

end
