(* ===== verification/Go_Hoare.thy ===== *)
theory Go_Hoare
  imports Node_Service
begin

section \<open>Invariants of the world\<close>

text \<open>
  A calculus for invariants that depend on what the code writes. \<open>kept I m\<close> says that \<open>m\<close> takes states with
  \<open>I\<close> to states with \<open>I\<close>, whatever its outcome; it is the calculus of \<open>pres\<close> for the relation \<open>inv I\<close>.
  \<open>keeps I m Q\<close> says in addition that a returned value satisfies \<open>Q\<close>. The predicates \<open>host_keeps\<close>,
  \<open>kube_keeps\<close>, \<open>cva_reads\<close>, \<open>cva_writes\<close> and \<open>cva_deletes\<close> say of the outside what a property of the node
  service needs: calls of the host and reads of the cluster keep \<open>I\<close>; attachments that are read while \<open>I\<close> holds
  satisfy \<open>good\<close>; and writing attachments that satisfy \<open>good\<close> keeps \<open>I\<close>.
\<close>

named_theorems keep_rules \<open>invariants kept by the calls to the outside and by the helpers\<close>

definition inv :: "('s \<Rightarrow> bool) \<Rightarrow> 's \<Rightarrow> 's \<Rightarrow> bool" where
  "inv I s t = (I s \<longrightarrow> I t)"

abbreviation kept :: "('s \<Rightarrow> bool) \<Rightarrow> ('s, 'a) go \<Rightarrow> bool" where
  "kept I m \<equiv> pres (inv I) m"

definition keeps :: "('s \<Rightarrow> bool) \<Rightarrow> ('s, 'a) go \<Rightarrow> ('a \<Rightarrow> bool) \<Rightarrow> bool" where
  "keeps I m Q = (\<forall>s. I s \<longrightarrow> I (snd (m s)) \<and> (\<forall>x. fst (m s) = Return x \<longrightarrow> Q x))"

lemma prel_inv [simp, keep_rules]: "prel (inv I)"
  by (auto simp: prel_def inv_def)

lemma keptD: "kept I m \<Longrightarrow> I s \<Longrightarrow> I (snd (m s))"
  by (simp add: pres_def inv_def)

lemma keeps_kept: "keeps I m Q \<Longrightarrow> kept I m"
  by (auto simp: keeps_def pres_def inv_def)

lemma keepsD: "keeps I m Q \<Longrightarrow> I s \<Longrightarrow> m s = (Return x, s') \<Longrightarrow> I s' \<and> Q x"
  by (metis keeps_def fst_conv snd_conv)

lemma keepsI: "(\<And>s r s'. I s \<Longrightarrow> m s = (r, s') \<Longrightarrow> I s' \<and> (\<forall>x. r = Return x \<longrightarrow> Q x)) \<Longrightarrow> keeps I m Q"
  unfolding keeps_def by (metis prod.collapse)

lemma kept_keeps: "kept I m \<Longrightarrow> keeps I m (\<lambda>_. True)"
  by (auto simp: keeps_def pres_def inv_def)

lemma keeps_post: "keeps I m P \<Longrightarrow> (\<And>x. P x \<Longrightarrow> Q x) \<Longrightarrow> keeps I m Q"
  by (auto simp: keeps_def)

lemma keeps_ret: "Q x \<Longrightarrow> keeps I (ret x) Q"
  by (simp add: keeps_def)

lemma keeps_panic: "keeps I (panic p) Q"
  by (simp add: keeps_def)

lemma keeps_bnd: "keeps I m P \<Longrightarrow> (\<And>x. P x \<Longrightarrow> keeps I (f x) Q) \<Longrightarrow> keeps I (bnd m f) Q"
  unfolding keeps_def bnd_def by (force split: prod.split outcome.split)

lemma kept_bndQ: "keeps I m P \<Longrightarrow> (\<And>x. P x \<Longrightarrow> kept I (f x)) \<Longrightarrow> kept I (bnd m f)"
  by (rule keeps_kept [OF keeps_bnd [OF _ kept_keeps]])

lemma keeps_the_result: "keeps I m (\<lambda>(r, k). Q r) \<Longrightarrow> keeps I (the_result m) Q"
  unfolding the_result_def by (erule keeps_bnd) (auto intro: keeps_ret)

text \<open>A pointer returned with no error points to an object that satisfies \<open>Q\<close>.\<close>

definition on_ok :: "('a \<Rightarrow> bool) \<Rightarrow> 'a perr \<Rightarrow> bool" where
  "on_ok Q r = (\<forall>x. r = (Some x, None) \<longrightarrow> Q x)"

lemma on_ok_simps [simp]: "on_ok Q (p, Some e)" "on_ok Q (None, err)" "on_ok Q (Some x, None) = Q x"
  by (auto simp: on_ok_def)

lemma kept_tryPQ: "keeps I m (on_ok Q) \<Longrightarrow> (\<And>x. Q x \<Longrightarrow> kept I (f x)) \<Longrightarrow> kept I (tryP m f)"
  unfolding tryP_def
  by (rule kept_bndQ, assumption) (auto simp: deref_def on_ok_def intro!: pres_ret pres_panic split: option.split prod.split)

lemma kept_tryEQ: "keeps I m (\<lambda>r. \<forall>x. r = Inr x \<longrightarrow> Q x) \<Longrightarrow> (\<And>x. Q x \<Longrightarrow> kept I (f x)) \<Longrightarrow> kept I (tryE m f)"
  unfolding tryE_def by (rule kept_bndQ, assumption) (auto intro!: pres_ret split: sum.split)

lemma kept_with_client:
  assumes "kept I g" "fresh k g" "\<And>c. keeps I (call c (k\<lparr>kc_clientset := c\<rparr>)) Q" "\<And>e. Q (onerr (wrap e))"
  shows "keeps I (the_result (with_client (clientOrCached wrap) k onerr call)) Q"
  unfolding fresh_with_client [OF assms(2)]
  by (rule keeps_bnd [OF kept_keeps [OF assms(1)]]) (auto intro!: assms(3,4) keeps_ret split: option.split)

lemma keeps_call_fn: "(\<And>x. f = Some x \<Longrightarrow> keeps I (k x) Q) \<Longrightarrow> keeps I (call_fn f k) Q"
  by (cases f) (auto simp: keeps_def)

text \<open>From the world to the state of the node service.\<close>

abbreviation (input) of_world :: "('w \<Rightarrow> bool) \<Rightarrow> 'w nstate \<Rightarrow> bool" where
  "of_world I \<equiv> \<lambda>s. I (world s)"

lemma keeps_on_world: "keeps I m Q \<Longrightarrow> keeps (of_world I) (on_world m) Q"
  unfolding keeps_def on_world_def by (auto split: prod.split)

lemma kept_on_world [keep_rules]: "kept I m \<Longrightarrow> kept (of_world I) (on_world m)"
  by (rule keeps_kept [OF keeps_on_world [OF kept_keeps]])

lemma kept_transitions [keep_rules]:
  "kept (of_world I) (setTransition v st)" "kept (of_world I) (removeVolumeFromTransitionList v)"
  "kept (of_world I) (requestMount v)"
  by (simp_all add: pres_def inv_def setTransition_def removeVolumeFromTransitionList_def requestMount_def andthen_def bnd_def)

lemma kept_with_transition [keep_rules]: "kept (of_world I) body \<Longrightarrow> kept (of_world I) (with_transition v st wrap body)"
  unfolding with_transition_def addVolumeToTransitionList_def
  by (intro pres_rules prel_inv keep_rules)

subsection \<open>The outside\<close>

definition host_keeps :: "('w \<Rightarrow> bool) \<Rightarrow> 'w host \<Rightarrow> bool" where
  "host_keeps I H = (kept I (h_List H) \<and> (\<forall>p. kept I (h_IsLikelyNotMountPoint H p)) \<and>
     (\<forall>d p f os. kept I (h_Mount H d p f os) \<and> kept I (h_FormatAndMount H d p f os)) \<and>
     (\<forall>p. kept I (h_Unmount H p) \<and> kept I (h_GetDeviceNameFromMount H p) \<and> kept I (h_PathExists H p)) \<and>
     (\<forall>p m. kept I (h_MkdirAll H p m) \<and> kept I (h_Chmod H p m) \<and> kept I (h_OpenCreate H p m)) \<and>
     (\<forall>p. kept I (h_Remove H p) \<and> kept I (h_RemoveAll H p) \<and> kept I (h_StatMode H p) \<and> kept I (h_Statfs H p)) \<and>
     (\<forall>c args. kept I (h_Command H c args)) \<and> (\<forall>p. kept I (h_Dial H p)) \<and> (\<forall>c. kept I (h_CloseConn H c)) \<and>
     (\<forall>c. kept I (h_Connect H c)) \<and> (\<forall>n. kept I (h_Sleep H n)))"

lemma host_keepsD [keep_rules]:
  assumes "host_keeps I H"
  shows "kept I (h_List H)" "kept I (h_IsLikelyNotMountPoint H p)" "kept I (h_Mount H d p f os)"
    "kept I (h_FormatAndMount H d p f os)" "kept I (h_Unmount H p)" "kept I (h_GetDeviceNameFromMount H p)"
    "kept I (h_PathExists H p)" "kept I (h_MkdirAll H p m)" "kept I (h_Chmod H p m)" "kept I (h_OpenCreate H p m)"
    "kept I (h_Remove H p)" "kept I (h_RemoveAll H p)" "kept I (h_StatMode H p)" "kept I (h_Statfs H p)"
    "kept I (h_Command H cmd args)" "kept I (h_Dial H p)" "kept I (h_CloseConn H c)" "kept I (h_Connect H cn)"
    "kept I (h_Sleep H n)"
  using assms unfolding host_keeps_def by blast+

definition kube_keeps :: "('w \<Rightarrow> bool) \<Rightarrow> 'w kube \<Rightarrow> bool" where
  "kube_keeps I X = (kept I (k_InClusterConfig X) \<and> (\<forall>m p. kept I (k_BuildConfigFromFlags X m p)) \<and>
     (\<forall>c. kept I (k_NewForConfig X c) \<and> kept I (k_openebs_NewForConfig X c)) \<and>
     (\<forall>c ns n. kept I (r_Get (k_cva X) c ns n) \<and> kept I (r_Get (k_cv X) c ns n) \<and>
        kept I (r_Get (k_cvc X) c ns n) \<and> kept I (r_Get (k_node X) c ns n)) \<and>
     (\<forall>c ns os. kept I (r_List (k_cva X) c ns os) \<and> kept I (r_List (k_cv X) c ns os) \<and> kept I (r_List (k_node X) c ns os)) \<and>
     (\<forall>n. kept I (k_Sleep X n)))"

lemma kube_keepsD [keep_rules]:
  assumes "kube_keeps I X"
  shows "kept I (k_InClusterConfig X)" "kept I (k_BuildConfigFromFlags X m p)" "kept I (k_NewForConfig X cf)"
    "kept I (k_openebs_NewForConfig X cf)" "kept I (r_Get (k_cva X) c ns n)" "kept I (r_Get (k_cv X) c ns n)"
    "kept I (r_Get (k_cvc X) c ns n)" "kept I (r_Get (k_node X) c ns n)" "kept I (r_List (k_cva X) c ns os)"
    "kept I (r_List (k_cv X) c ns os)" "kept I (r_List (k_node X) c ns os)" "kept I (k_Sleep X k)"
  using assms unfolding kube_keeps_def by blast+

text \<open>Attachments: what a read returns satisfies \<open>good\<close>; what is written has to.\<close>

definition cva_reads :: "('w \<Rightarrow> bool) \<Rightarrow> (CStorVolumeAttachment \<Rightarrow> bool) \<Rightarrow> 'w kube \<Rightarrow> bool" where
  "cva_reads I good X = ((\<forall>c ns n. keeps I (r_Get (k_cva X) c ns n) (on_ok good)) \<and>
     (\<forall>c ns os. keeps I (r_List (k_cva X) c ns os) (on_ok (\<lambda>vols. \<forall>v \<in> set vols. good v))))"

definition cva_updates :: "('w \<Rightarrow> bool) \<Rightarrow> (CStorVolumeAttachment \<Rightarrow> bool) \<Rightarrow> 'w kube \<Rightarrow> bool" where
  "cva_updates I good X = (\<forall>c ns v. good v \<longrightarrow> keeps I (r_Update (k_cva X) c ns v) (on_ok good))"

definition cva_creates :: "('w \<Rightarrow> bool) \<Rightarrow> (CStorVolumeAttachment \<Rightarrow> bool) \<Rightarrow> 'w kube \<Rightarrow> bool" where
  "cva_creates I good X = (\<forall>c ns v. good v \<longrightarrow> kept I (r_Create (k_cva X) c ns v))"

definition cva_deletes :: "('w \<Rightarrow> bool) \<Rightarrow> 'w kube \<Rightarrow> bool" where
  "cva_deletes I X = (\<forall>c ns n d. kept I (r_Delete (k_cva X) c ns n d))"

subsection \<open>Clients\<close>

lemma kept_Config [keep_rules]:
  assumes X: "kube_keeps I X"
  shows "kept I (GetConfigForPathOrDirect (client_New X []))"
  unfolding GetConfigForPathOrDirect_def ConfigForPath_def Config_def getConfigFromENV_def client_New_def client_withDefaults_def
    zero_Client_def
  by (simp add: Let_def pres_if pres_ret kube_keepsD [OF X])

lemma default_clientset: "c_getKubernetesClientset (client_New X []) = Some (k_NewForConfig X)"
  by (simp add: client_New_def client_withDefaults_def zero_Client_def)

lemma kept_Clientset [keep_rules]: "kube_keeps I X \<Longrightarrow> kept I (Clientset (client_New X []))"
  unfolding Clientset_def default_clientset call_fn_simps by (intro pres_rules prel_inv keep_rules)

lemma kept_openebs_clientsets [keep_rules]:
  "kube_keeps I X \<Longrightarrow> kept I (cva_defaultGetClientset X)"
  "kube_keeps I X \<Longrightarrow> kept I (cv_defaultGetClientset X)"
  "kube_keeps I X \<Longrightarrow> kept I (cvc_defaultGetClientset X)"
  unfolding cva_defaultGetClientset_def cv_defaultGetClientset_def cvc_defaultGetClientset_def GetConfig_def option.case
  by (intro pres_rules prel_inv keep_rules; assumption)+

lemmas attachment_client_defs = cva_Get_def cva_List_def cva_Create_def cva_Update_def cva_Delete_def cva_getClientOrCached_def
  cva_defaultGet_def cva_defaultList_def cva_defaultCreate_def cva_defaultUpdate_def cva_defaultDel_def

lemma keeps_cva_Get:
  assumes "kube_keeps I X" "cva_reads I good X"
  shows "keeps I (the_result (cva_Get (cva_kc X ns) name)) (on_ok good)"
  using assms(2) unfolding cva_Get_def cva_getClientOrCached_def the_result_if
  by (auto simp: cva_reads_def cva_defaultGet_def
      intro!: keeps_ret kept_with_client [OF kept_openebs_clientsets(1) cva_kc_fresh] keeps_call_fn assms(1))

lemma keeps_cva_List:
  assumes "kube_keeps I X" "cva_reads I good X"
  shows "keeps I (the_result (cva_List (cva_kc X ns) opts)) (on_ok (\<lambda>vols. \<forall>v \<in> set vols. good v))"
  using assms(2) unfolding cva_List_def cva_getClientOrCached_def
  by (auto simp: cva_reads_def cva_defaultList_def
      intro!: kept_with_client [OF kept_openebs_clientsets(1) cva_kc_fresh] keeps_call_fn assms(1))

lemma keeps_cva_Update:
  assumes "kube_keeps I X" "cva_updates I good X" "good v"
  shows "keeps I (the_result (cva_Update (cva_kc X ns) (Some v))) (on_ok good)"
  using assms(2,3) unfolding cva_Update_def cva_getClientOrCached_def option.case
  by (auto simp: cva_updates_def cva_defaultUpdate_def
      intro!: kept_with_client [OF kept_openebs_clientsets(1) cva_kc_fresh] keeps_call_fn assms(1))

lemma kept_client:
  "kept I g \<Longrightarrow> fresh k g \<Longrightarrow> (\<And>c. kept I (call c (k\<lparr>kc_clientset := c\<rparr>))) \<Longrightarrow>
   kept I (the_result (with_client (clientOrCached wrap) k onerr call))"
  by (rule keeps_kept [OF kept_with_client]) (auto intro: kept_keeps)

lemma kept_cva_Create:
  assumes "kube_keeps I X" "cva_creates I good X" "good v"
  shows "kept I (the_result (cva_Create (cva_kc X ns) (Some v)))"
  using assms(2,3) unfolding cva_Create_def cva_getClientOrCached_def option.case
  by (auto simp: cva_creates_def cva_defaultCreate_def
      intro!: kept_client [OF kept_openebs_clientsets(1) cva_kc_fresh] pres_call_fn assms(1))

lemma kept_cva_Delete:
  assumes "kube_keeps I X" "cva_deletes I X"
  shows "kept I (the_result (cva_Delete (cva_kc X ns) name))"
  using assms(2) unfolding cva_Delete_def cva_getClientOrCached_def the_result_if
  by (auto simp: cva_deletes_def cva_defaultDel_def
      intro!: pres_ret kept_client [OF kept_openebs_clientsets(1) cva_kc_fresh] pres_call_fn assms(1))

lemma kept_cva_reads [keep_rules]:
  assumes "kube_keeps I X"
  shows "kept I (the_result (cva_Get (cva_kc X ns) name))" "kept I (the_result (cva_List (cva_kc X ns) opts))"
  using assms unfolding cva_Get_def cva_List_def cva_getClientOrCached_def the_result_if
  by (auto simp: cva_defaultGet_def cva_defaultList_def
      intro!: pres_ret kept_client [OF kept_openebs_clientsets(1) cva_kc_fresh] pres_call_fn kube_keepsD)

lemma kept_cv_reads [keep_rules]:
  assumes "kube_keeps I X"
  shows "kept I (the_result (cv_Get (cv_kc X ns) name))" "kept I (the_result (cv_List (cv_kc X ns) opts))"
  using assms unfolding cv_Get_def cv_List_def cv_getClientOrCached_def the_result_if
  by (auto simp: cv_defaultGet_def cv_defaultList_def
      intro!: pres_ret kept_client [OF kept_openebs_clientsets(2) cv_kc_fresh] pres_call_fn kube_keepsD)

lemma kept_cvc_Get [keep_rules]:
  assumes "kube_keeps I X"
  shows "kept I (the_result (cvc_Get (cvc_kc X ns) name))"
  using assms unfolding cvc_Get_def cvc_getClientOrCached_def the_result_if
  by (auto simp: cvc_defaultGet_def
      intro!: pres_ret kept_client [OF kept_openebs_clientsets(3) cvc_kc_fresh] pres_call_fn kube_keepsD)

lemma kept_node_Get [keep_rules]:
  assumes "kube_keeps I X"
  shows "kept I (the_result (node_Get (node_NewKubeClient X []) name))"
  using assms unfolding node_Get_def node_getClientsetOrCached_def the_result_if
  by (auto intro!: pres_ret kept_client [OF kept_Clientset node_kc_fresh] pres_call_fn kube_keepsD)

end
