(* ===== verification/Node_Invariants.thy ===== *)
theory Node_Invariants
  imports Go_Hoare Node_Frames
begin

section \<open>What the node service keeps of the cluster\<close>

text \<open>
  The calculus of \<open>Go_Hoare\<close> applied to the node service. \<open>surroundings I good X H\<close> collects what is asked
  of the outside, \<open>edits_closed good\<close> what is asked of \<open>good\<close>: it survives the changes that the handlers make
  to an attachment they have read, and holds of the attachments that staging builds. Then every handler and
  every background job keeps \<open>I\<close>, on every outcome.
\<close>

definition surroundings :: "('w \<Rightarrow> bool) \<Rightarrow> (CStorVolumeAttachment \<Rightarrow> bool) \<Rightarrow> 'w kube \<Rightarrow> 'w host \<Rightarrow> bool" where
  "surroundings I good X H = (host_keeps I H \<and> kube_keeps I X \<and> cva_reads I good X \<and> cva_updates I good X \<and>
     cva_deletes I X)"

definition stageable :: "NodeStageVolumeRequest \<Rightarrow> CStorVolume \<Rightarrow> bool" where
  "stageable req cv = (stg_VolumeId req \<noteq> [] \<and> cap_AccessType (stg_VolumeCapability req) \<noteq> AccessNone \<and>
     (mount_FsType (cap_Mount (stg_VolumeCapability req)) \<noteq> [] \<or> cap_AccessType (stg_VolumeCapability req) = AccessBlock) \<and>
     cv_Iqn cv \<noteq> [] \<and> cv_TargetPortal cv \<noteq> [])"

definition edits_closed :: "(CStorVolumeAttachment \<Rightarrow> bool) \<Rightarrow> bool" where
  "edits_closed good = ((\<forall>v p. good v \<longrightarrow> good (v\<lparr>cva_TargetPath := p\<rparr>)) \<and>
     (\<forall>v. good v \<longrightarrow> good (v\<lparr>cva_Finalizers := None\<rparr>)) \<and>
     (\<forall>v. good v \<longrightarrow> good (v\<lparr>cva_Finalizers := None, cva_StagingTargetPath := []\<rparr>)) \<and>
     (\<forall>v p f. good v \<longrightarrow> good (v\<lparr>cva_StagingTargetPath := p, cva_Finalizers := Some [f], cva_DevicePath := byPath v\<rparr>)))"

definition creations_good :: "string \<Rightarrow> (CStorVolumeAttachment \<Rightarrow> bool) \<Rightarrow> bool" where
  "creations_good nodeID good = (\<forall>req cv n. stageable req cv \<longrightarrow> good (attachment_for nodeID req cv n))"

lemma keeps_from: "kept I m \<Longrightarrow> (\<And>s x t. m s = (Return x, t) \<Longrightarrow> Q x) \<Longrightarrow> keeps I m Q"
  unfolding keeps_def by (metis keptD prod.collapse)

subsection \<open>Helpers that write no attachment\<close>

lemma kept_getNodeDetails [keep_rules]: "kube_keeps I X \<Longrightarrow> kept I (getNodeDetails X name)"
  unfolding getNodeDetails_def by (rule kept_node_Get)

lemma kept_IsNodeReady [keep_rules]: "kube_keeps I X \<Longrightarrow> kept I (IsNodeReady X name)"
  unfolding IsNodeReady_def by (intro pres_rules prel_inv keep_rules)

lemma kept_checkAttachments [keep_rules]: "kube_keeps I X \<Longrightarrow> kept I (checkAttachments X v n vols)"
proof (induction vols)
  case (Cons w vols)
  then show ?case by (simp add: Let_def pres_if pres_ret kept_IsNodeReady pres_bnd split: sum.split)
qed (simp add: pres_ret)

lemma kept_cluster_helpers [keep_rules]:
  assumes "kube_keeps I X"
  shows "kept I (GetVolList X G v)" "kept I (GetVolListForNode X G)" "kept I (GetCStorVolumeAttachment X G name)"
    "kept I (IsCVCBound X G v)" "kept I (FetchAndUpdateISCSIDetails X G v vol)" "kept I (getVolStatus X G v)"
    "kept I (GetDevicePath X G p v)" "kept I (IsVolumeReady X G v)"
  unfolding GetVolList_def GetVolListForNode_def GetCStorVolumeAttachment_def IsCVCBound_def FetchAndUpdateISCSIDetails_def
    getVolStatus_def GetDevicePath_def IsVolumeReady_def Let_def
  by (intro pres_rules prel_inv keep_rules assms)+

lemma kept_waitReachable [keep_rules]: "host_keeps I H \<Longrightarrow> kept I (waitReachable H v p k)"
proof (induction H v p k rule: waitReachable.induct)
  case (1 H v p k)
  then show ?case
    by (subst waitReachable.simps) (intro pres_rules prel_inv keep_rules "1.IH"; simp)
qed

lemma kept_waitReady [keep_rules]:
  "kube_keeps I X \<Longrightarrow> host_keeps I H \<Longrightarrow> kept (of_world I) (waitReady X H G v k)"
proof (induction X H G v k rule: waitReady.induct)
  case (1 X H G v k)
  then show ?case
    by (subst waitReady.simps) (intro pres_rules prel_inv keep_rules "1.IH"; simp)
qed

lemma kept_wait [keep_rules]:
  "kube_keeps I X \<Longrightarrow> host_keeps I H \<Longrightarrow> kept (of_world I) (WaitForVolumeReadyAndReachable X H G vol)"
  unfolding WaitForVolumeReadyAndReachable_def WaitForVolumeToBeReady_def WaitForVolumeToBeReachable_def
  by (intro pres_rules prel_inv keep_rules)

lemma kept_iscsiadm [keep_rules]: "host_keeps I H \<Longrightarrow> kept I (iscsiadm H args)" "host_keeps I H \<Longrightarrow> kept I (run_command H cmd args)"
  unfolding iscsiadm_def run_command_def by (intro pres_rules prel_inv keep_rules; assumption)+

lemma kept_logoutPortals [keep_rules]: "host_keeps I H \<Longrightarrow> kept I (logoutPortals H portals iqn iface found)"
  by (induction portals) (auto intro!: pres_rules keep_rules)

lemma kept_detach [keep_rules]: "host_keeps I H \<Longrightarrow> kept I (detachISCSIDisk H portals iqn iface v i found)"
  unfolding detachISCSIDisk_def by (intro pres_rules prel_inv keep_rules)

lemma kept_unmounts [keep_rules]:
  assumes "host_keeps I H"
  shows "kept I (DetachDisk H c p)" "kept I (UnmountDisk H p)"
  unfolding DetachDisk_def UnmountDisk_def by (intro pres_rules prel_inv keep_rules assms)+

lemma kept_UnmountAndDetach [keep_rules]: "host_keeps I H \<Longrightarrow> kept I (UnmountAndDetachDisk H vol p)"
  unfolding UnmountAndDetachDisk_def by (rule kept_unmounts)

lemma kept_resizeMounted [keep_rules]: "host_keeps I H \<Longrightarrow> kept I (resizeMounted H p vol ms)"
  by (induction ms) (auto simp: ReScan_def ResizeExt4_def ResizeXFS_def intro!: pres_rules keep_rules)

lemma kept_host_helpers [keep_rules]:
  assumes "host_keeps I H"
  shows "kept I (VerifyIfMountRequired H v p)" "kept I (attachDisk H vol)" "kept I (formatAndMount H req p)"
    "kept I (mountOrRemove H src tgt f os pick)" "kept I (nodePublishVolumeForFileSystem H preq os m)"
    "kept I (iscsi_ResizeVolume H p vol)" "kept I (ExistsPath H p)" "kept I (MakeDir H p)" "kept I (MakeFile H p)"
    "kept I (IsVolumeReachable H v p)"
  unfolding VerifyIfMountRequired_def GetMounts_def iscsi_Unmount_def attachDisk_def formatAndMount_def mountOrRemove_def
    nodePublishVolumeForFileSystem_def iscsi_ResizeVolume_def ExistsPath_def MakeDir_def MakeFile_def IsVolumeReachable_def Let_def
  by (intro pres_rules prel_inv keep_rules assms)+

lemma kept_publishBlock [keep_rules]:
  "kube_keeps I X \<Longrightarrow> host_keeps I H \<Longrightarrow> kept I (nodePublishVolumeForBlock X H G req os)"
  unfolding nodePublishVolumeForBlock_def Let_def by (intro pres_rules prel_inv keep_rules)

lemma kept_RemountVolume [keep_rules]:
  "kube_keeps I X \<Longrightarrow> host_keeps I H \<Longrightarrow> kept I (RemountVolume X H G a b vol)"
  unfolding RemountVolume_def by (intro pres_rules prel_inv keep_rules)

lemma kept_cleanupList [keep_rules]: "kube_keeps I X \<Longrightarrow> host_keeps I H \<Longrightarrow> kept I (cleanupList X H G k)"
  by (induction k) (auto intro!: pres_rules keep_rules)

lemma kept_monitorItems [keep_rules]: "kept (of_world I) (monitorItems ms vols)"
  by (induction vols) (simp_all only: monitorItems.simps, (intro pres_rules prel_inv keep_rules; assumption)+)

lemma kept_cleanupItems [keep_rules]: "kept (of_world I) (cleanupItems vols)"
  by (induction vols) (simp_all only: cleanupItems.simps, (intro pres_rules prel_inv keep_rules; assumption)+)

subsection \<open>Replacing attachments\<close>

lemma kept_deletions [keep_rules]:
  assumes "kube_keeps I X" "cva_deletes I X"
  shows "kept I (markForDeletion X G nodeID vols c)" "kept I (DeleteCStorVolumeAttachmentCR X G name)"
  using assms
  by (induction vols arbitrary: c) (auto simp: DeleteCStorVolumeAttachmentCR_def intro!: pres_rules kept_cva_Delete)

lemma kept_waitForDeletion [keep_rules]: "kube_keeps I X \<Longrightarrow> kept I (waitForDeletion X G name k)"
  by (induction k) (auto intro!: pres_rules keep_rules)

lemma kept_DeleteOld [keep_rules]:
  "kube_keeps I X \<Longrightarrow> cva_deletes I X \<Longrightarrow> kept I (DeleteOldCStorVolumeAttachmentCRs X G v n)"
  unfolding DeleteOldCStorVolumeAttachmentCRs_def by (intro pres_rules prel_inv keep_rules)

definition owned_by :: "string \<Rightarrow> Node \<Rightarrow> CStorVolumeAttachment \<Rightarrow> CStorVolumeAttachment" where
  "owned_by nodeID n vol = vol\<lparr>cva_OwnerNodeID := nodeID, cva_OwnerReferences :=
     [\<lparr>or_APIVersion = ''v1'', or_Kind = ''Node'', or_Name = node_Name n, or_UID = node_UID n\<rparr>]\<rparr>"

lemma kept_CreateCR:
  assumes "kube_keeps I X" "cva_creates I good X" "\<And>n. good (owned_by nodeID n vol)"
  shows "kept I (CreateCStorVolumeAttachmentCR X G vol nodeID)"
  using assms(3) unfolding CreateCStorVolumeAttachmentCR_def Let_def owned_by_def
  by (intro pres_rules prel_inv kept_getNodeDetails kept_cva_Create [OF assms(1,2)] assms(1)) simp

lemma keeps_UpdateCR:
  "kube_keeps I X \<Longrightarrow> cva_updates I good X \<Longrightarrow> good v \<Longrightarrow> keeps I (UpdateCStorVolumeAttachmentCR X G (Some v)) (on_ok good)"
  unfolding UpdateCStorVolumeAttachmentCR_def by (rule keeps_cva_Update)

lemma keeps_GetCR:
  "kube_keeps I X \<Longrightarrow> cva_reads I good X \<Longrightarrow> keeps I (GetCStorVolumeAttachment X G name) (on_ok good)"
  unfolding GetCStorVolumeAttachment_def by (rule keeps_cva_Get)

definition with_target :: "CStorVolume \<Rightarrow> CStorVolumeAttachment \<Rightarrow> CStorVolumeAttachment" where
  "with_target cv vol = vol\<lparr>cva_Iqn := cv_Iqn cv, cva_TargetPortal := cv_TargetPortal cv, cva_Lun := ''0'', cva_IscsiInterface := ''default''\<rparr>"

lemma Fetch_target:
  "FetchAndUpdateISCSIDetails X G v vol w = (Return (None, vol'), w') \<Longrightarrow>
   \<exists>cv. cv_Iqn cv \<noteq> [] \<and> cv_TargetPortal cv \<noteq> [] \<and> vol' = with_target cv vol"
  by (auto simp: FetchAndUpdateISCSIDetails_def bnd_Return_iff deref_def cva_BuildFrom_def Let_def Build_def TargetLunID_def
      DefaultIscsiInterface_def cva_With_defs b_set_def with_target_def split: option.splits if_splits)

lemma keeps_Fetch:
  "kube_keeps I X \<Longrightarrow> keeps I (FetchAndUpdateISCSIDetails X G v vol)
     (\<lambda>(err, vol'). err = None \<longrightarrow> (\<exists>cv. cv_Iqn cv \<noteq> [] \<and> cv_TargetPortal cv \<noteq> [] \<and> vol' = with_target cv vol))"
  by (rule keeps_from [OF kept_cluster_helpers(5)]) (auto dest: Fetch_target)

subsection \<open>Handlers and jobs\<close>

lemma surroundingsD:
  assumes "surroundings I good X H"
  shows "host_keeps I H" "kube_keeps I X" "cva_reads I good X" "cva_updates I good X" "cva_deletes I X"
  using assms by (simp_all add: surroundings_def)

lemma attachment_stages:
  assumes "creations_good nodeID good" and b: "Build (fold cva_run (attachment_chain nodeID req) cva_NewBuilder) = Inr vol"
    and cv: "cv_Iqn cv \<noteq> []" "cv_TargetPortal cv \<noteq> []"
  shows "good (owned_by nodeID n (with_target cv vol))"
proof -
  have "owned_by nodeID n (with_target cv vol) = attachment_for nodeID req cv n"
    using attachment_chain_built [OF b] chain_attachment_for by (simp add: owned_by_def with_target_def)
  moreover from b have "cvab.valids (attachment_chain nodeID req) zero_CVA"
    unfolding cvab.chain_Build by (simp add: cva_NewBuilder_def)
  then have "stageable req cv"
    using cv by (cases "cap_AccessType (stg_VolumeCapability req)")
      (auto simp: attachment_chain_def stageable_def accessTypeName_def)
  ultimately show ?thesis using assms(1) by (simp add: creations_good_def)
qed

abbreviation recreate ::
  "'w kube \<Rightarrow> utils_globals \<Rightarrow> string \<Rightarrow> string \<Rightarrow> CStorVolumeAttachment \<Rightarrow> ('w nstate, gerror + unit) go" where
  "recreate X G v nodeID vol \<equiv> tryE (map_err internal (on_world (DeleteOldCStorVolumeAttachmentCRs X G v nodeID))) (\<lambda>_.
     bnd (on_world (CreateCStorVolumeAttachmentCR X G vol nodeID)) (\<lambda>(err, _). case err of
       Some e \<Rightarrow> fail (internal e) | None \<Rightarrow> ok))"

lemma kept_replace:
  assumes sur: "surroundings I good X H"
    and new: "\<And>cv. cv_Iqn cv \<noteq> [] \<Longrightarrow> cv_TargetPortal cv \<noteq> [] \<Longrightarrow> kept (of_world I) (recreate X G v nodeID (with_target cv vol))"
  shows "kept (of_world I) (replaceAttachment X H G v nodeID vol)"
  unfolding replaceAttachment_def
proof (intro pres_tryE pres_if prel_inv)
  note S = surroundingsD [OF sur]
  show "kept (of_world I) (bnd (on_world (FetchAndUpdateISCSIDetails X G v vol)) (\<lambda>(err, vol). case err of
      Some e \<Rightarrow> fail e | None \<Rightarrow> recreate X G v nodeID vol))"
    by (rule kept_bndQ [OF keeps_on_world [OF keeps_Fetch [OF S(2)]]])
      (auto intro!: new pres_ret split: option.split)
qed (intro pres_rules prel_inv keep_rules surroundingsD [OF sur])+

lemma kept_prepare:
  assumes sur: "surroundings I good X H"
    and new: "\<And>vol cv. Build (fold cva_run (attachment_chain (n_NodeID ns) req) cva_NewBuilder) = Inr vol \<Longrightarrow>
      cv_Iqn cv \<noteq> [] \<Longrightarrow> cv_TargetPortal cv \<noteq> [] \<Longrightarrow>
      kept (of_world I) (recreate X G (stg_VolumeId req) (n_NodeID ns) (with_target cv vol))"
  shows "kept (of_world I) (prepareVolumeForNode X H G ns req)"
  unfolding prepareVolumeForNode_def Let_def
  by (intro pres_rules prel_inv keep_rules kept_replace [OF sur] new surroundingsD [OF sur])

lemma kept_recreate:
  assumes sur: "surroundings I good X H" and cr: "cva_creates I good X" and ec: "creations_good nodeID good"
    and b: "Build (fold cva_run (attachment_chain nodeID req) cva_NewBuilder) = Inr vol"
    and cv: "cv_Iqn cv \<noteq> []" "cv_TargetPortal cv \<noteq> []"
  shows "kept (of_world I) (recreate X G v nodeID (with_target cv vol))"
  by (intro pres_rules prel_inv keep_rules kept_CreateCR [OF surroundingsD(2) [OF sur] cr] attachment_stages [OF ec b cv]
      surroundingsD [OF sur])

lemma kept_reading:
  assumes "keeps I m (on_ok good)" "\<And>e. kept (of_world I) (A e)" "\<And>v. good v \<Longrightarrow> kept (of_world I) (F v)"
  shows "kept (of_world I) (bnd (on_world m) (\<lambda>(volp, err). case err of Some e \<Rightarrow> A e | None \<Rightarrow> bnd (deref volp) F))"
  by (rule kept_bndQ [OF keeps_on_world [OF assms(1)]])
    (auto simp: deref_def on_ok_def intro!: assms(2,3) pres_panic split: option.split)

lemma kept_UpdateCR:
  "surroundings I good X H \<Longrightarrow> good v \<Longrightarrow> kept I (UpdateCStorVolumeAttachmentCR X G (Some v))"
  by (rule keeps_kept [OF keeps_UpdateCR [where good = good]]) (auto simp: surroundings_def)

lemma edits_closedD:
  assumes "edits_closed good" "good v"
  shows "good (v\<lparr>cva_TargetPath := p\<rparr>)" "good (v\<lparr>cva_Finalizers := None\<rparr>)"
    "good (v\<lparr>cva_Finalizers := None, cva_StagingTargetPath := []\<rparr>)"
    "good (v\<lparr>cva_StagingTargetPath := p, cva_Finalizers := Some [f], cva_DevicePath := byPath v\<rparr>)"
  using assms by (simp_all add: edits_closed_def)

lemma kept_stageMount:
  assumes sur: "surroundings I good X H" and ec: "edits_closed good" and v: "good vol"
  shows "kept (of_world I) (stageMount X H G req vol)"
  unfolding stageMount_def Let_def
proof (rule kept_bndQ [OF keeps_on_world [OF keeps_UpdateCR [OF surroundingsD(2,4) [OF sur]]]], goal_cases)
  case 1
  show ?case by (rule edits_closedD(4) [OF ec v])
next
  case (2 x)
  note S = surroundingsD [OF sur] kept_UpdateCR [OF sur edits_closedD(2) [OF ec]]
  show ?case
  proof (cases x)
    case (Pair volp err)
    show ?thesis
    proof (cases "err = None \<and> volp \<noteq> None")
      case True
      then obtain w where w: "x = (Some w, None)" "good w" using 2 Pair by auto
      show ?thesis unfolding w(1) prod.case option.case deref_def bnd_ret
        by (intro pres_rules prel_inv keep_rules S w(2))
    next
      case False
      then show ?thesis
        by (auto simp: Pair deref_def intro!: pres_ret pres_andthen pres_panic keep_rules split: option.split)
    qed
  qed
qed

lemma kept_stage:
  assumes sur: "surroundings I good X H" and ec: "edits_closed good"
    and prep: "kept (of_world I) (prepareVolumeForNode X H G ns req)"
  shows "kept (of_world I) (NodeStageVolume X H G ns req)"
proof -
  note S = surroundingsD [OF sur]
  have att: "kept (of_world I) (stageAttached X H G req v)" if "good v" for v
    unfolding stageAttached_def by (intro pres_rules prel_inv keep_rules S kept_stageMount [OF sur ec that])
  have "kept (of_world I) (NodeStage_body X H G ns req)"
    unfolding NodeStage_body_def
    by (rule pres_tryE) (intro pres_rules prel_inv prep kept_reading [OF keeps_GetCR [OF S(2,3)]] att; assumption)+
  then show ?thesis unfolding NodeStageVolume_def by (intro pres_rules prel_inv keep_rules)
qed

lemma kept_unstage:
  assumes sur: "surroundings I good X H" and ec: "edits_closed good"
  shows "kept (of_world I) (NodeUnstageVolume X H G ns req)"
proof -
  note S = surroundingsD [OF sur] kept_UpdateCR [OF sur edits_closedD(3) [OF ec]]
  have "kept (of_world I) (NodeUnstage_body X H G ns req)"
    unfolding NodeUnstage_body_def Let_def
    by (rule kept_reading [OF keeps_GetCR [OF S(2,3)]]) (intro pres_rules prel_inv keep_rules S; assumption)+
  then show ?thesis unfolding NodeUnstageVolume_def by (intro pres_rules prel_inv keep_rules)
qed

lemma kept_publish:
  assumes sur: "surroundings I good X H" and ec: "edits_closed good"
  shows "kept (of_world I) (NodePublishVolume X H G ns req)"
proof -
  note S = surroundingsD [OF sur] kept_UpdateCR [OF sur edits_closedD(1) [OF ec]]
  have "kept (of_world I) (NodePublish_body X H G ns req)"
    unfolding NodePublish_body_def Let_def
    by (rule kept_reading [OF keeps_GetCR [OF S(2,3)]]) (intro pres_rules prel_inv keep_rules S; assumption)+
  then show ?thesis unfolding NodePublishVolume_def by (intro pres_rules prel_inv keep_rules)
qed

lemma kept_unpublish:
  assumes sur: "surroundings I good X H" and ec: "edits_closed good"
  shows "kept (of_world I) (NodeUnpublishVolume X H G ns req)"
proof -
  note S = surroundingsD [OF sur] kept_UpdateCR [OF sur edits_closedD(1) [OF ec]]
  have rd: "kept (of_world I) (bnd (on_world (GetCStorVolumeAttachment X G nm)) (\<lambda>(volp, err). case err of
      Some e \<Rightarrow> if IsNotFound e then ok else fail (internal e)
    | None \<Rightarrow> bnd (deref volp) (\<lambda>vol.
        bnd (on_world (UpdateCStorVolumeAttachmentCR X G (Some (vol\<lparr>cva_TargetPath := []\<rparr>)))) (\<lambda>(_, err). case err of
          Some e \<Rightarrow> fail (internal e) | None \<Rightarrow> ok))))" for nm
    by (rule kept_reading [OF keeps_GetCR [OF S(2,3)]]) (intro pres_rules prel_inv keep_rules S; assumption)+
  have "kept (of_world I) (NodeUnpublish_body X H G ns req)"
    unfolding NodeUnpublish_body_def Let_def by (intro rd pres_rules prel_inv keep_rules S)
  then show ?thesis unfolding NodeUnpublishVolume_def by (intro pres_rules prel_inv keep_rules)
qed

lemma kept_expand: "surroundings I good X H \<Longrightarrow> kept (of_world I) (NodeExpandVolume X H G ns req)"
  unfolding NodeExpandVolume_def NodeExpand_body_def Let_def
  by (intro pres_rules prel_inv keep_rules surroundingsD(1,2); assumption)

text \<open>The background jobs: a round starts jobs on attachments it has read.\<close>

fun job_attachment :: "job \<Rightarrow> CStorVolumeAttachment" where
  "job_attachment (RemountJob j) = rj_vol j"
| "job_attachment (CleanupJob v) = v"

fun run_job :: "'w kube \<Rightarrow> 'w host \<Rightarrow> utils_globals \<Rightarrow> job \<Rightarrow> ('w nstate, unit) go" where
  "run_job X H G (RemountJob j) = remountJob X H G j"
| "run_job X H G (CleanupJob v) = cleanupJob X H G v"

lemma keeps_list:
  "kube_keeps I X \<Longrightarrow> cva_reads I good X \<Longrightarrow> keeps I (GetVolListForNode X G) (on_ok (\<lambda>vols. \<forall>v \<in> set vols. good v))"
  unfolding GetVolListForNode_def by (rule keeps_cva_List)

lemma keeps_andthen: "kept I m \<Longrightarrow> keeps I k Q \<Longrightarrow> keeps I (andthen m k) Q"
  unfolding andthen_def by (rule keeps_bnd [OF kept_keeps])

lemma keeps_cleanupList:
  assumes "surroundings I good X H"
  shows "keeps I (cleanupList X H G k) (on_ok (\<lambda>vols. \<forall>v \<in> set vols. good v))"
proof (induction k)
  case (Suc k)
  note S = surroundingsD [OF assms]
  show ?case
    unfolding cleanupList.simps
    by (intro keeps_bnd [OF keeps_list [OF S(2,3)]])
      (auto simp: Suc.IH split: option.split intro!: keeps_ret keeps_andthen host_keepsD [OF S(1)])
qed (simp only: cleanupList.simps keeps_ret on_ok_simps)

lemma cleanupItems_keeps: "\<forall>v \<in> set vols. good v \<Longrightarrow> keeps (of_world I) (cleanupItems vols) (\<lambda>jobs. \<forall>v \<in> set jobs. good v)"
proof (rule keeps_from [OF kept_cleanupItems])
  show "\<forall>v \<in> set vols. good v \<Longrightarrow> cleanupItems vols s = (Return jobs, t) \<Longrightarrow> \<forall>v \<in> set jobs. good v"
    for s :: "'a nstate" and jobs t
    by (induction vols arbitrary: s jobs) (auto simp: bnd_Return_iff andthen_def split: if_splits)
qed

lemma monitorItems_keeps:
  "\<forall>v \<in> set vols. good v \<Longrightarrow> keeps (of_world I) (monitorItems ms vols) (\<lambda>(c, jobs). \<forall>j \<in> set jobs. good (rj_vol j))"
proof (rule keeps_from [OF kept_monitorItems])
  show "\<forall>v \<in> set vols. good v \<Longrightarrow> monitorItems ms vols s = (Return x, t) \<Longrightarrow> case x of (c, jobs) \<Rightarrow> \<forall>j \<in> set jobs. good (rj_vol j)"
    for s :: "'a nstate" and x t
    by (induction vols arbitrary: s x)
      (fastforce simp: bnd_Return_iff andthen_def remountJobFor_def split: if_splits option.splits)+
qed

lemma keeps_monitorTick:
  assumes sur: "surroundings I good X H"
  shows "keeps (of_world I) (monitorTick X H G) (\<lambda>(c, jobs). \<forall>j \<in> set jobs. good (rj_vol j))"
proof -
  note S = surroundingsD [OF sur]
  show ?thesis
    unfolding monitorTick_def
    by (intro keeps_bnd [OF kept_keeps [OF kept_on_world [OF host_keepsD(1) [OF S(1)]]]])
      (auto simp: deref_def on_ok_def split: sum.split option.split
        intro!: keeps_ret keeps_bnd [OF keeps_on_world [OF keeps_list [OF S(2,3)]]] monitorItems_keeps keeps_panic)
qed

lemma keeps_Cleanup:
  assumes sur: "surroundings I good X H"
  shows "keeps (of_world I) (Cleanup X H G) (\<lambda>r. \<forall>vols. r = Inr vols \<longrightarrow> (\<forall>v \<in> set vols. good v))"
  unfolding Cleanup_def tryP_def
  by (rule keeps_bnd [OF keeps_on_world [OF keeps_cleanupList [OF sur]]])
    (auto simp: deref_def on_ok_def split: option.split
      intro!: keeps_ret keeps_panic keeps_bnd [OF cleanupItems_keeps [where good = good]])

theorem keeps_round:
  assumes sur: "surroundings I good X H"
  shows "keeps (of_world I) (MonitorMounts_round X H G) (\<lambda>jobs. \<forall>j \<in> set jobs. good (job_attachment j))"
  unfolding MonitorMounts_round_def
  by (rule keeps_bnd [OF keeps_monitorTick [OF sur]])
    (auto split: sum.split intro!: keeps_ret keeps_bnd [OF keeps_Cleanup [OF sur]])

lemma kept_job:
  assumes sur: "surroundings I good X H" and ec: "edits_closed good" and j: "good (job_attachment j)"
  shows "kept (of_world I) (run_job X H G j)"
proof -
  note S = surroundingsD [OF sur] kept_UpdateCR [OF sur edits_closedD(2) [OF ec]]
  show ?thesis
    using j by (cases j) (auto simp: remountJob_def cleanupJob_def Let_def inv_def intro!: pres_rules keep_rules S)
qed

end
