(* ===== verification/Controller_Invariants.thy ===== *)
theory Controller_Invariants
  imports Node_Invariants Controller
begin

section \<open>What the controller service keeps of the cluster\<close>

text \<open>
  The controller writes volume configurations and runs snapshot commands; it writes no attachment. So it
  keeps every property of the world that these calls keep (\<open>controller_keeps\<close>), whatever they answer.
\<close>

definition controller_keeps :: "('w \<Rightarrow> bool) \<Rightarrow> 'w kube \<Rightarrow> 'w snap_api \<Rightarrow> 'w ctl_api \<Rightarrow> bool" where
  "controller_keeps I X N T = (kube_keeps I X \<and>
     (\<forall>c ns v. kept I (r_Create (k_cvc X) c ns v)) \<and> (\<forall>c ns n p. kept I (r_Delete (k_cvc X) c ns n p)) \<and>
     (\<forall>c ns n p sub. kept I (r_Patch (k_cvc X) c ns n p sub)) \<and> (\<forall>c ns n. kept I (r_Get (k_pvc X) c ns n)) \<and>
     (\<forall>a. kept I (sn_Dial N a)) \<and> (\<forall>c. kept I (sn_Close N c)) \<and>
     (\<forall>c q. kept I (sn_RunCreate N c q) \<and> kept I (sn_RunDelete N c q)) \<and>
     (\<forall>e. kept I (ct_Send T e)) \<and> kept I (ct_Now T))"

lemma controller_keepsD [keep_rules]:
  assumes "controller_keeps I X N T"
  shows "kube_keeps I X" "kept I (r_Create (k_cvc X) c ns v)" "kept I (r_Delete (k_cvc X) c ns n p)"
    "kept I (r_Patch (k_cvc X) c ns n q sub)" "kept I (r_Get (k_pvc X) c ns n)" "kept I (sn_Dial N a)"
    "kept I (sn_Close N conn)" "kept I (sn_RunCreate N conn sq)" "kept I (sn_RunDelete N conn sq)"
    "kept I (ct_Send T e)" "kept I (ct_Now T)"
  using assms unfolding controller_keeps_def by blast+

subsection \<open>Clients\<close>

lemma kept_cvc_writes:
  assumes "controller_keeps I X N T"
  shows "kept I (the_result (cvc_Create (cvc_kc X ns) (Some v)))" "kept I (the_result (cvc_Delete (cvc_kc X ns) name))"
  using assms unfolding cvc_Create_def cvc_Delete_def cvc_getClientOrCached_def the_result_if option.case
  by (auto simp: cvc_defaultCreate_def cvc_defaultDel_def
      intro!: pres_ret kept_client [OF kept_openebs_clientsets(3) cvc_kc_fresh] pres_call_fn controller_keepsD)

lemma kept_cvc_Patch:
  assumes "controller_keeps I X N T"
  shows "kept I (the_result (cvc_Patch (cvc_kc X ns) old new sub))"
  using assms unfolding cvc_Patch_def cvc_getClientOrCached_def
  by (auto simp: cvc_defaultPatch_def split: option.split prod.split
      intro!: pres_rules kept_client [OF kept_openebs_clientsets(3) cvc_kc_fresh] controller_keepsD)

lemma kept_pvc_Get:
  assumes "controller_keeps I X N T"
  shows "kept I (the_result (pvc_Get (WithNamespace ns (pvc_NewKubeClient X [])) name))"
  using assms unfolding pvc_Get_eq by (auto intro!: pres_rules kept_Clientset controller_keepsD)

lemma kept_node_List:
  assumes "kube_keeps I X"
  shows "kept I (the_result (node_List (node_NewKubeClient X []) opts))"
  using assms unfolding node_List_eq by (auto intro!: pres_rules kept_Clientset kube_keepsD)

subsection \<open>Handlers\<close>

lemma kept_MustParse [keep_rules]: "kept I (MustParse X str)"
  unfolding MustParse_def by (intro pres_rules prel_inv)

lemma kept_sources [keep_rules]:
  shows "kept I (GetVolumeSourceDetails sid)" "kept I (provision_labels c sid)"
  unfolding provision_labels_def GetVolumeSourceDetails_def by (intro pres_rules prel_inv)+

lemma pres_case_source [pres_rules]:
  "(\<And>a. x = SourceSnapshot a \<Longrightarrow> pres R (f a)) \<Longrightarrow> (\<And>a. x = SourceVolume a \<Longrightarrow> pres R (g a)) \<Longrightarrow>
   pres R (case x of SourceSnapshot a \<Rightarrow> f a | SourceVolume a \<Rightarrow> g a)"
  by (cases x) auto

lemma kept_resources:
  assumes K: "controller_keeps I X N T"
  shows "kept I (GetVolume X G v)" "kept I (getCVC X G v)" "kept I (IsSourceAvailable X G sid)" "kept I (DeleteVolumeCVC X G v)"
    "kept I (GetCStorVolume X G v)" "kept I (GetVolumeIP X G v)" "kept I (sendEventOrIgnore X T a b c d e f)"
    "kept I (getAccessibilityRequirements X topo)" "kept I (checkSource X G src)"
  unfolding GetVolume_def getCVC_def IsSourceAvailable_def DeleteVolumeCVC_def GetCStorVolume_def GetVolumeIP_def sendEventOrIgnore_def
    getAccessibilityRequirements_def getNode_def checkSource_def
  by (intro pres_rules prel_inv keep_rules kept_node_List kept_cvc_writes [OF K] controller_keepsD [OF K])+

lemma kept_provision:
  assumes K: "controller_keeps I X N T"
  shows "kept I (ProvisionVolume X G sz v r c sid n p pvc pvcns)"
  unfolding ProvisionVolume_def provision_annotations_def Let_def
  by (intro pres_rules prel_inv keep_rules kept_cvc_writes [OF K] kept_pvc_Get [OF K])

lemma kept_resize_steps:
  assumes K: "controller_keeps I X N T"
  shows "kept I (updateCVCSize X G cvc q)" "kept I (waitAndReverifyResizeStatus X G v q)"
  unfolding updateCVCSize_def waitAndReverifyResizeStatus_def Let_def
  by (intro pres_rules prel_inv keep_rules kept_resources(2) [OF K] kept_cvc_Patch [OF K] controller_keepsD(1) [OF K])+

lemma kept_resize:
  assumes K: "controller_keeps I X N T"
  shows "kept I (ResizeVolume X G v sz)"
  unfolding ResizeVolume_def handleResize_def Let_def
  by (intro pres_rules prel_inv kept_MustParse kept_resources(2) [OF K] kept_resize_steps [OF K])

lemma kept_snapshots:
  assumes K: "controller_keeps I X N T"
  shows "kept I (utils_CreateSnapshot X N G v n)" "kept I (utils_DeleteSnapshot X N G v n)"
  unfolding utils_CreateSnapshot_def utils_DeleteSnapshot_def snapshot_CreateSnapshot_def snapshot_DestroySnapshot_def
  by (intro pres_rules prel_inv keep_rules kept_resources [OF K] controller_keepsD [OF K])+

text \<open>The requests of the service; of the answer only the error is kept, so that all have one type.\<close>

definition failure :: "('s, gerror + 'a) go \<Rightarrow> ('s, gerror option) go" where
  "failure m = bnd m (\<lambda>r. ret (case r of Inl e \<Rightarrow> Some e | Inr _ \<Rightarrow> None))"

lemma kept_failure: "kept I m \<Longrightarrow> kept I (failure m)"
  unfolding failure_def by (intro pres_rules prel_inv)

datatype controller_request =
    CreateVolumeR CreateVolumeRequest | DeleteVolumeR string | ExpandVolumeR string "int64 option"
  | CreateSnapshotR string string | DeleteSnapshotR string | GetVolumeR string

fun serve_controller ::
  "'w kube \<Rightarrow> 'w snap_api \<Rightarrow> 'w ctl_api \<Rightarrow> utils_globals \<Rightarrow> controller_request \<Rightarrow> ('w, gerror option) go" where
  "serve_controller X N T G (CreateVolumeR req) = failure (CreateVolume X T G NewController req)"
| "serve_controller X N T G (DeleteVolumeR v) = failure (DeleteVolume X T G NewController v)"
| "serve_controller X N T G (ExpandVolumeR v cap) = failure (ControllerExpandVolume X G v cap)"
| "serve_controller X N T G (CreateSnapshotR v n) = failure (CreateSnapshot X N T G v n)"
| "serve_controller X N T G (DeleteSnapshotR sid) = failure (DeleteSnapshot X N G sid)"
| "serve_controller X N T G (GetVolumeR v) = failure (ControllerGetVolume X T G v)"

lemma kept_controller:
  assumes K: "controller_keeps I X N T"
  shows "kept I (serve_controller X N T G rq)"
proof (cases rq)
  case (CreateVolumeR req)
  then show ?thesis
    unfolding CreateVolumeR serve_controller.simps CreateVolume_def Let_def
    by (intro pres_rules prel_inv keep_rules kept_failure kept_resources [OF K] kept_provision [OF K])
next
  case (DeleteVolumeR v)
  then show ?thesis
    unfolding DeleteVolumeR serve_controller.simps DeleteVolume_def
    by (intro pres_rules prel_inv keep_rules kept_failure kept_resources [OF K])
qed (simp_all only: serve_controller.simps ControllerExpandVolume_def CreateSnapshot_def DeleteSnapshot_def ControllerGetVolume_def Let_def,
    (intro pres_rules prel_inv keep_rules kept_failure kept_resources [OF K] kept_resize [OF K] kept_snapshots [OF K] controller_keepsD [OF K])+)

end
