(* ===== verification/Fleet.thy ===== *)
theory Fleet
  imports Controller_Invariants Controller_Props Node_Props
begin

section \<open>The driver on a cluster\<close>

text \<open>
  The whole driver: one controller and a node service on each of several nodes, sharing one cluster. The
  state is the cluster with the hosts (the world), the lists of each node service, and the background jobs
  that are under way. A step is a request served by a node service or by the controller, a round of a
  monitor, a background job, or the restart of a node service; requests are served one at a time here, in
  any order and number. \<open>attachment_server\<close> states of the API server what its documentation says of creating,
  reading, updating and deleting the attachments; \<open>stored w (ns, name)\<close> is the attachment in the store.
\<close>

datatype node_request =
    StageR NodeStageVolumeRequest | UnstageR NodeUnstageVolumeRequest | PublishR NodePublishVolumeRequest
  | UnpublishR NodeUnpublishVolumeRequest | NodeExpandR NodeExpandVolumeRequest

fun serve_node ::
  "'w kube \<Rightarrow> 'w host \<Rightarrow> utils_globals \<Rightarrow> node \<Rightarrow> node_request \<Rightarrow> ('w nstate, gerror option) go" where
  "serve_node X H G ns (StageR req) = failure (NodeStageVolume X H G ns req)"
| "serve_node X H G ns (UnstageR req) = failure (NodeUnstageVolume X H G ns req)"
| "serve_node X H G ns (PublishR req) = failure (NodePublishVolume X H G ns req)"
| "serve_node X H G ns (UnpublishR req) = failure (NodeUnpublishVolume X H G ns req)"
| "serve_node X H G ns (NodeExpandR req) = failure (NodeExpandVolume X H G ns req)"

record 'w fleet =
  fl_world :: 'w
  fl_lists :: "string \<Rightarrow> (string \<rightharpoonup> cva_status) \<times> (string \<rightharpoonup> cva_status)"
  fl_jobs :: "(string \<times> job) list"

definition at_node :: "string \<Rightarrow> 'w fleet \<Rightarrow> 'w nstate" where
  "at_node n f = \<lparr>TransitionVolList = fst (fl_lists f n), ReqMountList = snd (fl_lists f n), world = fl_world f\<rparr>"

definition put_node :: "string \<Rightarrow> 'w nstate \<Rightarrow> 'w fleet \<Rightarrow> 'w fleet" where
  "put_node n s f = f\<lparr>fl_world := world s, fl_lists := (fl_lists f)(n := (TransitionVolList s, ReqMountList s))\<rparr>"

definition globals :: "string \<Rightarrow> string \<Rightarrow> utils_globals" where
  "globals ons n = \<lparr>OpenEBSNamespace = ons, NodeIDENV = n\<rparr>"

inductive fleet_step ::
  "'w kube \<Rightarrow> (string \<Rightarrow> 'w host) \<Rightarrow> 'w snap_api \<Rightarrow> 'w ctl_api \<Rightarrow> string \<Rightarrow> string set \<Rightarrow> 'w fleet \<Rightarrow> 'w fleet \<Rightarrow> bool"
  for X :: "'w kube" and H :: "string \<Rightarrow> 'w host" and N :: "'w snap_api" and T :: "'w ctl_api" and ons :: string
    and nodes :: "string set" where
  serve: "n \<in> nodes \<Longrightarrow> serve_node X (H n) (globals ons n) (NewNode n) rq (at_node n f) = (r, s) \<Longrightarrow>
     fleet_step X H N T ons nodes f (put_node n s f)"
| round: "n \<in> nodes \<Longrightarrow> MonitorMounts_round X (H n) (globals ons n) (at_node n f) = (r, s) \<Longrightarrow>
     fleet_step X H N T ons nodes f
       (put_node n s f\<lparr>fl_jobs := (case r of Return jobs \<Rightarrow> map (Pair n) jobs | Panic _ \<Rightarrow> []) @ fl_jobs f\<rparr>)"
| job: "(n, j) \<in> set (fl_jobs f) \<Longrightarrow> run_job X (H n) (globals ons n) j (at_node n f) = (r, s) \<Longrightarrow>
     fleet_step X H N T ons nodes f (put_node n s f\<lparr>fl_jobs := remove1 (n, j) (fl_jobs f)\<rparr>)"
| control: "serve_controller X N T (globals ons []) rq (fl_world f) = (r, w) \<Longrightarrow>
     fleet_step X H N T ons nodes f (f\<lparr>fl_world := w\<rparr>)"
| restart: "fleet_step X H N T ons nodes f (f\<lparr>fl_lists := (fl_lists f)(n := (Map.empty, Map.empty)),
     fl_jobs := filter (\<lambda>(m, _). m \<noteq> n) (fl_jobs f)\<rparr>)"

abbreviation fleet_steps where
  "fleet_steps X H N T ons nodes \<equiv> (fleet_step X H N T ons nodes)\<^sup>*\<^sup>*"

definition fleet_start :: "'w \<Rightarrow> 'w fleet" where
  "fleet_start w = \<lparr>fl_world = w, fl_lists = (\<lambda>_. (Map.empty, Map.empty)), fl_jobs = []\<rparr>"

subsection \<open>Invariants\<close>

definition fleet_ok :: "('w \<Rightarrow> bool) \<Rightarrow> (CStorVolumeAttachment \<Rightarrow> bool) \<Rightarrow> 'w fleet \<Rightarrow> bool" where
  "fleet_ok I good f = (I (fl_world f) \<and> (\<forall>(n, j) \<in> set (fl_jobs f). good (job_attachment j)))"

lemma fleet_world [simp]:
  "world (at_node n f) = fl_world f" "fl_world (put_node n s f) = world s" "fl_jobs (put_node n s f) = fl_jobs f"
  by (simp_all add: at_node_def put_node_def)

lemma kept_serve_node:
  assumes sur: "surroundings I good X H" and ec: "edits_closed good"
    and prep: "\<And>req. kept (of_world I) (prepareVolumeForNode X H G ns req)"
  shows "kept (of_world I) (serve_node X H G ns rq)"
  by (cases rq) (simp_all add: kept_failure kept_stage [OF sur ec prep] kept_unstage [OF sur ec] kept_publish [OF sur ec]
      kept_unpublish [OF sur ec] kept_expand [OF sur])

theorem fleet_invariant:
  assumes run: "fleet_steps X H N T ons nodes f g" and init: "fleet_ok I good f"
    and sur: "\<And>n. surroundings I good X (H n)" and ec: "edits_closed good" and ctl: "controller_keeps I X N T"
    and prep: "\<And>n req. n \<in> nodes \<Longrightarrow> kept (of_world I) (prepareVolumeForNode X (H n) (globals ons n) (NewNode n) req)"
  shows "fleet_ok I good g"
  using run init
proof (induction rule: rtranclp_induct)
  case (step g h)
  note ok = step.IH [OF step.prems]
  from step.hyps(2) show ?case
  proof (cases rule: fleet_step.cases)
    case (serve n rq r s)
    have "I (world s)"
      using keptD [OF kept_serve_node [OF sur ec prep [OF serve(2)]], of "at_node n g" rq] ok serve(3) by (simp add: fleet_ok_def)
    with ok show ?thesis by (simp add: serve(1) fleet_ok_def)
  next
    case (round n r s)
    have k: "keeps (of_world I) (MonitorMounts_round X (H n) (globals ons n)) (\<lambda>jobs. \<forall>j \<in> set jobs. good (job_attachment j))"
      by (rule keeps_round [OF sur])
    have "I (world s)"
      using keptD [OF keeps_kept [OF k], of "at_node n g"] ok round(3) by (simp add: fleet_ok_def)
    moreover have "r = Return jobs \<Longrightarrow> \<forall>j \<in> set jobs. good (job_attachment j)" for jobs
      using keepsD [OF k, of "at_node n g" jobs s] ok round(3) by (simp add: fleet_ok_def)
    ultimately show ?thesis using ok by (auto simp: round(1) fleet_ok_def split: outcome.split)
  next
    case (job n j r s)
    have "good (job_attachment j)" using ok job(2) by (auto simp: fleet_ok_def)
    from keptD [OF kept_job [OF sur ec this], of "at_node n g"] ok job(3)
    have "I (world s)" by (metis fleet_ok_def fleet_world(1) snd_conv)
    with ok show ?thesis by (auto simp: job(1) fleet_ok_def dest: notin_set_remove1)
  next
    case (control rq r w)
    have "I w"
      using keptD [OF kept_controller [OF ctl], of "fl_world g"] ok control(2) by (metis fleet_ok_def snd_conv)
    with ok show ?thesis by (simp add: control(1) fleet_ok_def)
  next
    case (restart n)
    with ok show ?thesis by (auto simp: fleet_ok_def)
  qed
qed

subsection \<open>The attachments of the API server\<close>

type_synonym attachments = "string \<times> string \<rightharpoonup> CStorVolumeAttachment"
type_synonym 'w store = "'w \<Rightarrow> attachments"

text \<open>An object is stored as it is sent, but for its namespace and its deletion mark, which are the server's.\<close>

definition stored_as :: "CStorVolumeAttachment \<Rightarrow> CStorVolumeAttachment \<Rightarrow> bool" where
  "stored_as v v' = (v' = v\<lparr>cva_Namespace := cva_Namespace v', cva_DeletionTimestamp := cva_DeletionTimestamp v'\<rparr>)"

text \<open>The attachments that a selector of the form \<open>key=value\<close> has to find.\<close>

definition selected :: "string \<Rightarrow> CStorVolumeAttachment \<Rightarrow> bool" where
  "selected sel v = (\<exists>k. let x = nget (cva_Labels v) k in sel = k @ ''='' @ x \<and> valid_label k \<and> valid_label x \<and> x \<noteq> [])"

definition store_reads :: "'w store \<Rightarrow> 'w kube \<Rightarrow> bool" where
  "store_reads stored X =
     ((\<forall>w ns n v. stored w (ns, n) = Some v \<longrightarrow> cva_Name v = n) \<and>
      (\<forall>c ns n w v w'. r_Get (k_cva X) c ns n w = (Return (Some v, None), w') \<longrightarrow> v \<in> ran (stored w)) \<and>
      (\<forall>c ns opts w vs w'. r_List (k_cva X) c ns opts w = (Return (Some vs, None), w') \<longrightarrow> set vs \<subseteq> ran (stored w) \<and>
        (\<forall>n v. stored w (ns, n) = Some v \<longrightarrow> selected (lo_LabelSelector opts) v \<longrightarrow> v \<in> set vs)))"

definition store_creates :: "'w store \<Rightarrow> 'w kube \<Rightarrow> bool" where
  "store_creates stored X = (\<forall>c ns v w r w'. r_Create (k_cva X) c ns v w = (r, w') \<longrightarrow> stored w' = stored w \<or>
     valid_labels (cva_Labels v) \<and> (\<exists>v'. stored_as v v' \<and> stored w' = (stored w)((ns, cva_Name v) \<mapsto> v')))"

text \<open>An update replaces an object, or removes it when it is marked and its last finalizer goes. It cannot take
  the mark away. A deletion removes the object or marks it.\<close>

definition updated :: "string \<Rightarrow> CStorVolumeAttachment \<Rightarrow> attachments \<Rightarrow> attachments \<Rightarrow> bool" where
  "updated ns v L L' = (L' = L \<or> L' = L((ns, cva_Name v) := None) \<or>
     (\<exists>u v'. L (ns, cva_Name v) = Some u \<and> stored_as v v' \<and> L' = L((ns, cva_Name v) \<mapsto> v') \<and>
        (cva_DeletionTimestamp u \<noteq> None \<longrightarrow> cva_DeletionTimestamp v' \<noteq> None)))"

definition deleted :: "string \<Rightarrow> string \<Rightarrow> attachments \<Rightarrow> attachments \<Rightarrow> bool" where
  "deleted ns n L L' = (L' = L((ns, n) := None) \<or>
     (\<exists>u t. L (ns, n) = Some u \<and> L' = L((ns, n) \<mapsto> u\<lparr>cva_DeletionTimestamp := Some t\<rparr>)))"

definition store_updates :: "'w store \<Rightarrow> 'w kube \<Rightarrow> bool" where
  "store_updates stored X = (\<forall>c ns v w r w'. r_Update (k_cva X) c ns v w = (r, w') \<longrightarrow>
     updated ns v (stored w) (stored w') \<and> (\<forall>x. r = Return (Some x, None) \<longrightarrow> stored_as v x))"

definition store_deletes :: "'w store \<Rightarrow> 'w kube \<Rightarrow> bool" where
  "store_deletes stored X = (\<forall>c ns n p w r w'. r_Delete (k_cva X) c ns n p w = (r, w') \<longrightarrow>
     deleted ns n (stored w) (stored w') \<or> (r \<noteq> Return None \<and> stored w' = stored w))"

definition attachment_server ::
  "'w store \<Rightarrow> 'w kube \<Rightarrow> (string \<Rightarrow> 'w host) \<Rightarrow> 'w snap_api \<Rightarrow> 'w ctl_api \<Rightarrow> bool" where
  "attachment_server stored X H N T = (store_reads stored X \<and> store_creates stored X \<and> store_updates stored X \<and>
     store_deletes stored X \<and>
     (\<forall>L. (\<forall>n. host_keeps (\<lambda>w. stored w = L) (H n)) \<and> controller_keeps (\<lambda>w. stored w = L) X N T))"

lemma kept_of_store: "(\<And>L. kept (\<lambda>w. stored w = L) m) \<Longrightarrow> kept (\<lambda>w. P (stored w)) m"
  unfolding pres_def inv_def by metis

lemma host_of_store:
  assumes h: "\<And>L. host_keeps (\<lambda>w. stored w = L) H"
  shows "host_keeps (\<lambda>w. P (stored w)) H"
  unfolding host_keeps_def by (intro conjI allI kept_of_store [of stored _ P] host_keepsD [OF h])

lemma controller_of_store:
  assumes c: "\<And>L. controller_keeps (\<lambda>w. stored w = L) X N T"
  shows "controller_keeps (\<lambda>w. P (stored w)) X N T"
  unfolding controller_keeps_def kube_keeps_def
  by (intro conjI allI kept_of_store [of stored _ P] controller_keepsD [OF c] kube_keepsD [OF controller_keepsD(1) [OF c]])

lemma server_keeps:
  assumes "attachment_server stored X H N T"
  shows "host_keeps (\<lambda>w. P (stored w)) (H n)" "controller_keeps (\<lambda>w. P (stored w)) X N T" "kube_keeps (\<lambda>w. P (stored w)) X"
proof -
  show "host_keeps (\<lambda>w. P (stored w)) (H n)"
    using assms by (intro host_of_store [of stored _ P]) (simp add: attachment_server_def)
  show "controller_keeps (\<lambda>w. P (stored w)) X N T"
    using assms by (intro controller_of_store [of stored _ _ _ P]) (simp add: attachment_server_def)
  then show "kube_keeps (\<lambda>w. P (stored w)) X" by (rule controller_keepsD(1))
qed

subsection \<open>Properties of the store that the driver keeps\<close>

text \<open>What a property of the store needs: it gives \<open>good\<close> for everything stored, and survives updates by
  objects that are \<open>good\<close>, and deletions.\<close>

definition store_inv :: "(attachments \<Rightarrow> bool) \<Rightarrow> (CStorVolumeAttachment \<Rightarrow> bool) \<Rightarrow> bool" where
  "store_inv P good = ((\<forall>L v. P L \<longrightarrow> v \<in> ran L \<longrightarrow> good v) \<and>
     (\<forall>v v'. good v \<longrightarrow> stored_as v v' \<longrightarrow> good v') \<and>
     (\<forall>ns v L L'. P L \<longrightarrow> good v \<longrightarrow> updated ns v L L' \<longrightarrow> P L') \<and>
     (\<forall>ns n L L'. P L \<longrightarrow> deleted ns n L L' \<longrightarrow> P L'))"

lemma store_readsD:
  assumes "store_reads stored X"
  shows "stored w (ns, n) = Some v \<Longrightarrow> cva_Name v = n"
    "r_Get (k_cva X) c ns n w = (Return (Some v, None), w') \<Longrightarrow> v \<in> ran (stored w)"
    "r_List (k_cva X) c ns opts w = (Return (Some vs, None), w') \<Longrightarrow> set vs \<subseteq> ran (stored w)"
    "r_List (k_cva X) c ns opts w = (Return (Some vs, None), w') \<Longrightarrow> stored w (ns, n) = Some v \<Longrightarrow>
       selected (lo_LabelSelector opts) v \<Longrightarrow> v \<in> set vs"
  using assms unfolding store_reads_def by blast+

lemma surroundings_of_store:
  assumes srv: "attachment_server stored X H N T" and inv: "store_inv P good"
  shows "surroundings (\<lambda>w. P (stored w)) good X (H n)"
proof -
  let ?I = "\<lambda>w. P (stored w)"
  note K = server_keeps [OF srv, of P]
  have laws: "store_reads stored X" "store_updates stored X" "store_deletes stored X"
    using srv by (simp_all add: attachment_server_def)
  have "keeps ?I (r_Get (k_cva X) c ns nm) (on_ok good)" for c ns nm
  proof (rule keepsI)
    fix s r s'
    assume s: "?I s" "r_Get (k_cva X) c ns nm s = (r, s')"
    then have "?I s'" using keptD [OF kube_keepsD(5) [OF K(3)]] by (metis snd_conv)
    moreover have "r = Return (Some v, None) \<Longrightarrow> good v" for v
      using store_readsD(2) [OF laws(1)] s inv unfolding store_inv_def by blast
    ultimately show "?I s' \<and> (\<forall>x. r = Return x \<longrightarrow> on_ok good x)"
      by (simp add: on_ok_def)
  qed
  moreover have "keeps ?I (r_List (k_cva X) c ns opts) (on_ok (\<lambda>vols. \<forall>v \<in> set vols. good v))" for c ns opts
  proof (rule keepsI)
    fix s r s'
    assume s: "?I s" "r_List (k_cva X) c ns opts s = (r, s')"
    then have "?I s'" using keptD [OF kube_keepsD(9) [OF K(3)]] by (metis snd_conv)
    moreover have "r = Return (Some vs, None) \<Longrightarrow> \<forall>v \<in> set vs. good v" for vs
      using store_readsD(3) [OF laws(1)] s inv unfolding store_inv_def by blast
    ultimately show "?I s' \<and> (\<forall>x. r = Return x \<longrightarrow> on_ok (\<lambda>vols. \<forall>v \<in> set vols. good v) x)"
      by (simp add: on_ok_def)
  qed
  moreover have "keeps ?I (r_Update (k_cva X) c ns v) (on_ok good)" if "good v" for c ns v
    using laws(2) inv that unfolding on_ok_def store_updates_def store_inv_def by (intro keepsI) blast
  moreover have "kept ?I (r_Delete (k_cva X) c ns nm p)" for c ns nm p
  proof (intro presI, unfold inv_def, intro impI)
    fix s
    assume s: "?I s"
    obtain r s' where "r_Delete (k_cva X) c ns nm p s = (r, s')" by (cases "r_Delete (k_cva X) c ns nm p s")
    with s laws(3) inv show "?I (snd (r_Delete (k_cva X) c ns nm p s))"
      unfolding store_deletes_def store_inv_def by (metis snd_conv)
  qed
  ultimately show ?thesis
    using K by (simp add: surroundings_def cva_reads_def cva_updates_def cva_deletes_def)
qed

subsection \<open>Well-typed attachments\<close>

definition well_typed :: "CStorVolumeAttachment \<Rightarrow> bool" where
  "well_typed v = (cva_VolName v \<noteq> [] \<and> cva_Name v = cva_VolName v @ ''-'' @ cva_OwnerNodeID v \<and>
     nget (cva_Labels v) ''nodeID'' = cva_OwnerNodeID v \<and> nget (cva_Labels v) ''Volname'' = cva_VolName v \<and>
     (cva_AccessType v = ''block'' \<or> cva_AccessType v = ''mount'' \<and> cva_FSType v \<noteq> []) \<and>
     cva_Iqn v \<noteq> [] \<and> cva_TargetPortal v \<noteq> [] \<and> cva_Lun v = ''0'' \<and> cva_IscsiInterface v = ''default'' \<and>
     (cva_DevicePath v = [] \<or> cva_DevicePath v = byPath v) \<and>
     map or_Kind (cva_OwnerReferences v) = [''Node''])"

definition of_nodes :: "string set \<Rightarrow> CStorVolumeAttachment \<Rightarrow> bool" where
  "of_nodes nodes v = (well_typed v \<and> cva_OwnerNodeID v \<in> nodes)"

definition typed :: "string set \<Rightarrow> attachments \<Rightarrow> bool" where
  "typed nodes L = (\<forall>v \<in> ran L. of_nodes nodes v)"

lemma stored_as_fields:
  assumes "stored_as v v'"
  shows "of_nodes nodes v' = of_nodes nodes v" "cva_Name v' = cva_Name v" "cva_VolName v' = cva_VolName v"
    "cva_OwnerNodeID v' = cva_OwnerNodeID v"
proof -
  from assms obtain ns t where "v' = v\<lparr>cva_Namespace := ns, cva_DeletionTimestamp := t\<rparr>" by (auto simp: stored_as_def)
  then show "of_nodes nodes v' = of_nodes nodes v" "cva_Name v' = cva_Name v" "cva_VolName v' = cva_VolName v"
    "cva_OwnerNodeID v' = cva_OwnerNodeID v"
    by (simp_all add: of_nodes_def well_typed_def byPath_def)
qed

lemma mark_of_nodes [simp]: "of_nodes nodes (v\<lparr>cva_DeletionTimestamp := t\<rparr>) = of_nodes nodes v"
  by (simp add: of_nodes_def well_typed_def byPath_def)

lemma edits_of_nodes: "edits_closed (of_nodes nodes)"
  by (auto simp: edits_closed_def of_nodes_def well_typed_def byPath_def)

lemma creations_of_nodes: "nodeID \<in> nodes \<Longrightarrow> creations_good nodeID (of_nodes nodes)"
  by (auto simp: creations_good_def of_nodes_def well_typed_def stageable_def attachment_for_def zero_CVA_def accessTypeName_def
      nget_def gget_def split: access_type.split)

lemma ran_update: "v \<in> ran (L(k \<mapsto> u)) \<Longrightarrow> v = u \<or> v \<in> ran L" "v \<in> ran (L(k := None)) \<Longrightarrow> v \<in> ran L"
  by (auto simp: ran_def split: if_splits)

lemma typed_changes:
  assumes "typed nodes L"
  shows "of_nodes nodes v \<Longrightarrow> updated ns v L L' \<Longrightarrow> typed nodes L'" "deleted ns n L L' \<Longrightarrow> typed nodes L'"
    "of_nodes nodes v \<Longrightarrow> stored_as v v' \<Longrightarrow> typed nodes (L(k \<mapsto> v'))"
  using assms
  by (auto simp: typed_def updated_def deleted_def stored_as_fields dest!: ran_update intro: ranI)

lemma typed_store: "store_inv (typed nodes) (of_nodes nodes)"
  unfolding store_inv_def
proof (intro conjI allI impI)
  show "typed nodes L \<Longrightarrow> v \<in> ran L \<Longrightarrow> of_nodes nodes v" for L v by (simp add: typed_def)
  show "of_nodes nodes v \<Longrightarrow> stored_as v v' \<Longrightarrow> of_nodes nodes v'" for v v' by (simp add: stored_as_fields)
qed (erule (2) typed_changes(1), erule (1) typed_changes(2))

lemma creates_typed:
  assumes "attachment_server stored X H N T"
  shows "cva_creates (\<lambda>w. typed nodes (stored w)) (of_nodes nodes) X"
  unfolding cva_creates_def
proof (intro allI impI presI, unfold inv_def, intro impI)
  fix c ns v w
  assume "of_nodes nodes v" "typed nodes (stored w)"
  moreover have "stored (snd (r_Create (k_cva X) c ns v w)) = stored w \<or>
      (\<exists>v'. stored_as v v' \<and> stored (snd (r_Create (k_cva X) c ns v w)) = (stored w)((ns, cva_Name v) \<mapsto> v'))"
    using assms unfolding attachment_server_def store_creates_def by (metis prod.collapse)
  ultimately show "typed nodes (stored (snd (r_Create (k_cva X) c ns v w)))" by (auto intro: typed_changes(3))
qed

subsection \<open>One attachment in use per volume\<close>

text \<open>The attachments of a volume in a namespace that are not being deleted.\<close>

definition live :: "string \<Rightarrow> string \<Rightarrow> attachments \<Rightarrow> string set" where
  "live ns vol L = {n. \<exists>v. L (ns, n) = Some v \<and> cva_DeletionTimestamp v = None \<and> cva_VolName v = vol}"

definition single :: "string \<Rightarrow> attachments \<Rightarrow> bool" where
  "single ns L = (\<forall>vol. \<forall>a \<in> live ns vol L. \<forall>b \<in> live ns vol L. a = b)"

definition keyed :: "attachments \<Rightarrow> bool" where
  "keyed L = (\<forall>ns n v. L (ns, n) = Some v \<longrightarrow> cva_Name v = n)"

text \<open>The name of an attachment is that of the volume, a dash, and that of the node. It says which volume is
  meant when no node's name ends in a dash and the name of a node.\<close>

definition unambiguous :: "string set \<Rightarrow> bool" where
  "unambiguous nodes = (\<forall>a \<in> nodes. \<forall>b \<in> nodes. \<not> suffix (CHR ''-'' # b) a)"

lemma dash_inj:
  assumes "u @ ''-'' @ a = v @ ''-'' @ b" "\<not> suffix (CHR ''-'' # b) a" "\<not> suffix (CHR ''-'' # a) b"
  shows "u = v \<and> a = b"
proof -
  from assms(1) obtain us where
    "u = v @ us \<and> us @ CHR ''-'' # a = CHR ''-'' # b \<or> u @ us = v \<and> CHR ''-'' # a = us @ CHR ''-'' # b"
    by (auto simp: append_eq_append_conv2)
  then show ?thesis
    using assms(2,3) by (cases us) (auto simp: suffix_def)
qed

lemma same_volume:
  assumes "unambiguous nodes" "of_nodes nodes u" "of_nodes nodes v" "cva_Name u = cva_Name v"
  shows "cva_VolName u = cva_VolName v"
  using assms dash_inj [of "cva_VolName u" "cva_OwnerNodeID u" "cva_VolName v" "cva_OwnerNodeID v"]
  by (auto simp: of_nodes_def well_typed_def unambiguous_def)

lemma single_mono: "single ns L \<Longrightarrow> (\<And>vol. live ns vol L' \<subseteq> live ns vol L) \<Longrightarrow> single ns L'"
  unfolding single_def by blast

lemma live_fewer: "live ns vol (L(k := None)) \<subseteq> live ns vol L"
  by (auto simp: live_def split: if_splits)

lemma live_updated:
  assumes un: "unambiguous nodes" and L: "typed nodes L" "keyed L" and v: "of_nodes nodes v" and up: "updated ns' v L L'"
  shows "live ns vol L' \<subseteq> live ns vol L"
proof -
  consider "L' = L" | "L' = L((ns', cva_Name v) := None)"
    | u v' where "L (ns', cva_Name v) = Some u" "stored_as v v'" "L' = L((ns', cva_Name v) \<mapsto> v')"
        "cva_DeletionTimestamp u \<noteq> None \<longrightarrow> cva_DeletionTimestamp v' \<noteq> None"
    using up by (auto simp: updated_def)
  then show ?thesis
  proof cases
    case (3 u v')
    then have "cva_VolName u = cva_VolName v"
      using L v by (intro same_volume [OF un]) (auto simp: typed_def keyed_def intro: ranI)
    with 3 show ?thesis by (auto simp: live_def stored_as_fields split: if_splits)
  qed (auto simp: live_fewer)
qed

lemma live_deleted: "deleted ns n L L' \<Longrightarrow> live ns vol L' \<subseteq> live ns vol L - {n}" "deleted ns' n L L' \<Longrightarrow> live ns vol L' \<subseteq> live ns vol L"
  by (auto simp: deleted_def live_def split: if_splits)

lemma keyed_changes:
  assumes "keyed L"
  shows "updated ns v L L' \<Longrightarrow> keyed L'" "deleted ns n L L' \<Longrightarrow> keyed L'" "stored_as v v' \<Longrightarrow> keyed (L((ns, cva_Name v) \<mapsto> v'))"
  using assms by (auto simp: keyed_def updated_def deleted_def stored_as_fields split: if_splits)

definition one_each :: "string \<Rightarrow> string set \<Rightarrow> attachments \<Rightarrow> bool" where
  "one_each ns nodes L = (typed nodes L \<and> keyed L \<and> single ns L)"

lemma one_each_changes:
  assumes un: "unambiguous nodes" and L: "one_each ns nodes L"
  shows "of_nodes nodes v \<Longrightarrow> updated ns' v L L' \<Longrightarrow> one_each ns nodes L'" "deleted ns' n L L' \<Longrightarrow> one_each ns nodes L'"
proof -
  have P: "typed nodes L" "keyed L" "single ns L" using L by (simp_all add: one_each_def)
  show "one_each ns nodes L'" if "of_nodes nodes v" "updated ns' v L L'"
    unfolding one_each_def
    by (intro conjI typed_changes(1) [OF P(1) that] keyed_changes(1) [OF P(2) that(2)]
        single_mono [OF P(3) live_updated [OF un P(1,2) that]])
  show "one_each ns nodes L'" if "deleted ns' n L L'"
    unfolding one_each_def
    by (intro conjI typed_changes(2) [OF P(1) that] keyed_changes(2) [OF P(2) that] single_mono [OF P(3) live_deleted(2) [OF that]])
qed

lemma one_each_store: "unambiguous nodes \<Longrightarrow> store_inv (one_each ns nodes) (of_nodes nodes)"
  unfolding store_inv_def
proof (intro conjI allI impI)
  show "one_each ns nodes L \<Longrightarrow> v \<in> ran L \<Longrightarrow> of_nodes nodes v" for L v by (simp add: one_each_def typed_def)
  show "of_nodes nodes v \<Longrightarrow> stored_as v v' \<Longrightarrow> of_nodes nodes v'" for v v' by (simp add: stored_as_fields)
qed (erule (3) one_each_changes(1), erule (2) one_each_changes(2))

subsection \<open>Recreating an attachment\<close>

lemma server_still:
  assumes "attachment_server stored X H N T"
  shows "cva_defaultGetClientset X w = (r, w') \<Longrightarrow> stored w' = stored w"
    "getNodeDetails X n w = (r2, w') \<Longrightarrow> stored w' = stored w"
    "waitForDeletion X G nm k w = (r3, w') \<Longrightarrow> stored w' = stored w"
    "r_List (k_cva X) c ns opts w = (r4, w') \<Longrightarrow> stored w' = stored w"
proof -
  note K = server_keeps(3) [OF assms, of "\<lambda>L. L = stored w"]
  show "cva_defaultGetClientset X w = (r, w') \<Longrightarrow> stored w' = stored w"
    using keptD [OF kept_openebs_clientsets(1) [OF K], of w] by simp
  show "getNodeDetails X n w = (r2, w') \<Longrightarrow> stored w' = stored w"
    using keptD [OF kept_getNodeDetails [OF K], of w n] by simp
  show "waitForDeletion X G nm k w = (r3, w') \<Longrightarrow> stored w' = stored w"
    using keptD [OF kept_waitForDeletion [OF K], of w G nm k] by simp
  show "r_List (k_cva X) c ns opts w = (r4, w') \<Longrightarrow> stored w' = stored w"
    using keptD [OF kube_keepsD(9) [OF K], of w c ns opts] by simp
qed

text \<open>After the old attachments were deleted successfully, none of the volume is in use.\<close>

lemma deletes_live:
  assumes srv: "attachment_server stored X H N T"
  shows "deletes X G names w w' \<Longrightarrow> live (OpenEBSNamespace G) vol (stored w') \<subseteq> live (OpenEBSNamespace G) vol (stored w) - set names"
proof (induction rule: deletes.induct)
  case (deletes_Cons n s t ns u)
  let ?ns = "OpenEBSNamespace G"
  from deletes_Cons.hyps(1) have "n \<noteq> []" by (auto simp: cva_Delete_def the_result_if)
  with deletes_Cons.hyps(1) obtain c s' where s': "cva_defaultGetClientset X s = (Return (Some c, None), s')"
    "r_Delete (k_cva X) c ?ns n ''Foreground'' s' = (Return None, t)"
    by (auto simp: cva_Delete_fresh)
  then have "deleted ?ns n (stored s') (stored t)"
    using srv unfolding attachment_server_def store_deletes_def by blast
  then have "deleted ?ns n (stored s) (stored t)" using server_still(1) [OF srv s'(1)] by simp
  from live_deleted(1) [OF this] deletes_Cons.IH show ?case by auto
qed simp

lemma DeleteOld_live:
  assumes srv: "attachment_server stored X H N T" and ok: "one_each (OpenEBSNamespace G) nodes (stored w)"
    and v: "valid_label v" "v \<noteq> []"
    and run: "DeleteOldCStorVolumeAttachmentCRs X G v nodeID w = (Return (Inr u), w')"
  shows "live (OpenEBSNamespace G) v (stored w') = {}"
proof -
  let ?ns = "OpenEBSNamespace G"
  from run obtain old t t' nm where get: "GetVolList X G v w = (Return (Some old, None), t)"
    and del: "markForDeletion X G nodeID old [] t = (Return (Inr nm), t')"
    and w': "stored w' = stored t'"
    unfolding DeleteOldCStorVolumeAttachmentCRs_def tryP_Inr_iff tryE_Inr_iff
    by (auto simp: andthen_def bnd_Return_iff split: if_splits dest: server_still(3) [OF srv])
  from get obtain c s where s: "cva_defaultGetClientset X w = (Return (Some c, None), s)"
    and l: "r_List (k_cva X) c ?ns (selector (VOLNAME @ ''='' @ v)) s = (Return (Some old, None), t)"
    by (auto simp: GetVolList_def cva_List_fresh)
  have eq: "stored s = stored w" "stored t = stored w"
    using server_still(1) [OF srv s] server_still(4) [OF srv l] by simp_all
  have "live ?ns v (stored w) \<subseteq> set (map cva_Name old)"
  proof
    fix n
    assume "n \<in> live ?ns v (stored w)"
    then obtain x where x: "stored w (?ns, n) = Some x" "cva_VolName x = v" by (auto simp: live_def)
    with ok have "of_nodes nodes x" "cva_Name x = n" by (auto simp: one_each_def typed_def keyed_def intro: ranI)
    then have "selected (VOLNAME @ ''='' @ v) x"
      using x v by (auto simp: selected_def of_nodes_def well_typed_def VOLNAME_def valid_label_def intro!: exI [of _ "''Volname''"])
    then have "x \<in> set old"
      using store_readsD(4) [OF _ l, of stored n x] srv x eq by (simp add: attachment_server_def selector_def)
    with \<open>cva_Name x = n\<close> show "n \<in> set (map cva_Name old)" by auto
  qed
  moreover have "deletes X G (map cva_Name old) t t'" using del by (simp add: markForDeletion_Inr)
  ultimately show ?thesis using deletes_live [OF srv, of G "map cva_Name old" t t' v] eq w' by auto
qed

lemma create_one:
  assumes P: "one_each ns nodes L" and v: "of_nodes nodes v" "stored_as v v'" and free: "live ns (cva_VolName v) L = {}"
  shows "one_each ns nodes (L((ns, cva_Name v) \<mapsto> v'))"
proof -
  let ?L = "L((ns, cva_Name v) \<mapsto> v')"
  have "cva_VolName v' = cva_VolName v" using v(2) by (rule stored_as_fields)
  then have "live ns vol ?L \<subseteq> (if vol = cva_VolName v then insert (cva_Name v) (live ns vol L) else live ns vol L)" for vol
    by (auto simp: live_def)
  with free have "live ns (cva_VolName v) ?L \<subseteq> {cva_Name v}" "vol \<noteq> cva_VolName v \<Longrightarrow> live ns vol ?L \<subseteq> live ns vol L" for vol
    by (metis, metis)
  then have "single ns ?L"
    using P unfolding one_each_def single_def by (metis singletonD subsetD)
  with P v show ?thesis by (simp add: one_each_def typed_changes(3) keyed_changes(3))
qed

text \<open>Creating an attachment leaves the store alone or adds the attachment.\<close>

definition created :: "'w store \<Rightarrow> string \<Rightarrow> CStorVolumeAttachment \<Rightarrow> 'w \<Rightarrow> 'w \<Rightarrow> bool" where
  "created stored ns v s t = (stored t = stored s \<or>
     valid_labels (cva_Labels v) \<and> (\<exists>v'. stored_as v v' \<and> stored t = (stored s)((ns, cva_Name v) \<mapsto> v')))"

lemma prel_created: "prel (created stored ns v)"
  unfolding prel_def created_def by (auto simp: fun_upd_upd)

lemma pres_cva_Create:
  assumes srv: "attachment_server stored X H N T"
  shows "pres (created stored ns v) (the_result (cva_Create (cva_kc X ns) (Some v)))"
proof -
  have cs: "pres (created stored ns v) (cva_defaultGetClientset X)"
    unfolding pres_def created_def by (metis prod.collapse server_still(1) [OF srv])
  have cr: "pres (created stored ns v) (r_Create (k_cva X) c ns v)" for c
    using srv unfolding pres_def created_def attachment_server_def store_creates_def by (metis prod.collapse)
  show ?thesis
    unfolding cva_Create_def cva_getClientOrCached_def option.case fresh_with_client [OF cva_kc_fresh]
    by (simp add: cva_defaultCreate_def) (intro pres_rules prel_created cs cr)
qed

lemma CreateCR_one:
  assumes srv: "attachment_server stored X H N T" and P: "one_each (OpenEBSNamespace G) nodes (stored w)"
    and v: "\<And>n. of_nodes nodes (owned_by nodeID n vol)"
    and free: "valid_labels (cva_Labels vol) \<Longrightarrow> live (OpenEBSNamespace G) (cva_VolName vol) (stored w) = {}"
  shows "one_each (OpenEBSNamespace G) nodes (stored (snd (CreateCStorVolumeAttachmentCR X G vol nodeID w)))"
proof -
  let ?ns = "OpenEBSNamespace G"
  obtain r t where g: "getNodeDetails X nodeID w = (r, t)" by (cases "getNodeDetails X nodeID w")
  note t = server_still(2) [OF srv g]
  show ?thesis
  proof (cases "\<exists>n. r = Return (Some n, None)")
    case True
    then obtain n where r: "r = Return (Some n, None)" by blast
    let ?v = "owned_by nodeID n vol" and ?cr = "the_result (cva_Create (cva_kc X ?ns) (Some (owned_by nodeID n vol)))"
    have "snd (CreateCStorVolumeAttachmentCR X G vol nodeID w) = snd (?cr t)"
      using g r by (simp add: CreateCStorVolumeAttachmentCR_def bnd_def deref_def Let_def owned_by_def
          split: prod.split outcome.split)
    moreover have "created stored ?ns ?v t (snd (?cr t))" by (rule presD [OF pres_cva_Create [OF srv]])
    moreover have "cva_VolName ?v = cva_VolName vol" "cva_Labels ?v = cva_Labels vol" by (simp_all add: owned_by_def)
    ultimately show ?thesis
      using create_one [OF P v [of n]] free P t unfolding created_def by auto
  next
    case False
    then have "stored (snd (CreateCStorVolumeAttachmentCR X G vol nodeID w)) = stored t"
      using g by (auto simp: CreateCStorVolumeAttachmentCR_def bnd_def deref_def Let_def split: prod.split outcome.split option.split)
    with P t show ?thesis by simp
  qed
qed

lemma kept_recreate_one:
  assumes srv: "attachment_server stored X H N T" and un: "unambiguous nodes" and n: "nodeID \<in> nodes"
    and b: "Build (fold cva_run (attachment_chain nodeID req) cva_NewBuilder) = Inr vol"
    and cv: "cv_Iqn cv \<noteq> []" "cv_TargetPortal cv \<noteq> []"
  shows "kept (of_world (\<lambda>w. one_each (OpenEBSNamespace G) nodes (stored w)))
    (recreate X G (stg_VolumeId req) nodeID (with_target cv vol))"
    (is "kept (of_world ?I) _")
proof (rule presI)
  fix s
  let ?m = "map_err internal (on_world (DeleteOldCStorVolumeAttachmentCRs X G (stg_VolumeId req) nodeID))"
  let ?v = "with_target cv vol"
  have sur: "surroundings ?I (of_nodes nodes) X (H nm)" for nm by (rule surroundings_of_store [OF srv one_each_store [OF un]])
  have vol: "vol = fold cva_apply (attachment_chain nodeID req) zero_CVA" by (rule attachment_chain_built [OF b])
  have name: "cva_VolName ?v = stg_VolumeId req"
    "cva_Labels ?v = Some [(''nodeID'', nodeID), (''Volname'', stg_VolumeId req)]"
    unfolding vol by (simp_all add: attachment_chain_def with_target_def onto_def zero_CVA_def gmerge_def)
  have good: "of_nodes nodes (owned_by nodeID n ?v)" for n
    by (rule attachment_stages [OF creations_of_nodes [OF n] b cv])
  have "stg_VolumeId req \<noteq> []" using good name by (auto simp: of_nodes_def well_typed_def owned_by_def)
  then have new: "?I (snd (CreateCStorVolumeAttachmentCR X G ?v nodeID (world t)))"
    if "?I (world s)" "?m s = (Return (Inr x), t)" "?I (world t)" for x t
    using that DeleteOld_live [OF srv that(1), of "stg_VolumeId req" nodeID]
    by (intro CreateCR_one [OF srv _ good]) (auto simp: map_err_Inr_iff name valid_labels_def)
  show "Go_Hoare.inv (of_world ?I) s (snd (recreate X G (stg_VolumeId req) nodeID ?v s))"
  proof (cases "?I (world s)")
    case True
    show ?thesis
    proof (rule frame_tryE [OF prel_inv])
      show "kept (of_world ?I) ?m"
        by (intro pres_rules prel_inv keep_rules surroundingsD [OF sur])
      fix x t
      assume m: "?m s = (Return (Inr x), t)"
      show "Go_Hoare.inv (of_world ?I) t (snd (bnd (on_world (CreateCStorVolumeAttachmentCR X G ?v nodeID)) (\<lambda>(err, _). case err of
          Some e \<Rightarrow> fail (internal e) | None \<Rightarrow> ok) t))"
        using new [OF True m] unfolding inv_def bnd_def on_world_def by (auto split: prod.split outcome.split option.split)
    qed
  qed (simp add: inv_def)
qed

end
