(* ===== verification/Fleet_Props.thy ===== *)
theory Fleet_Props
  imports Fleet
begin

section \<open>Properties of the driver on a cluster\<close>

text \<open>
  The two invariants of \<open>Fleet\<close> for every reachable state, with the in-memory cluster as the server of the
  witnesses: it satisfies every law that \<open>attachment_server\<close> states.
\<close>

subsection \<open>The in-memory cluster as the server\<close>

definition sample_store :: "cluster store" where
  "sample_store w = (\<lambda>(ns, n). find (\<lambda>v. (cva_Namespace v, cva_Name v) = (ns, n)) (cl_cvas w))"

lemma find_Some_set: "find P xs = Some x \<Longrightarrow> x \<in> set xs \<and> P x"
  by (induction xs) (auto split: if_splits)

lemma find_map_upd:
  "find P xs = Some u \<Longrightarrow> (\<And>y. P y \<Longrightarrow> P (f y)) \<Longrightarrow> find P (map (\<lambda>y. if P y then f y else y) xs) = Some (f u)"
  by (induction xs) (auto split: if_splits)

lemma find_map_other: "(\<And>y. P y \<Longrightarrow> \<not> Q y \<and> \<not> Q (f y)) \<Longrightarrow> find Q (map (\<lambda>y. if P y then f y else y) xs) = find Q xs"
  by (induction xs) auto

lemma find_filter_other: "(\<And>y. Q y \<Longrightarrow> P y) \<Longrightarrow> find Q (filter P xs) = find Q xs"
  by (induction xs) auto

lemma find_filter_none: "(\<And>y. Q y \<Longrightarrow> \<not> P y) \<Longrightarrow> find Q (filter P xs) = None"
  by (induction xs) auto

lemma has_selector_selected:
  assumes "selected sel v"
  shows "has_selector (cva_Labels v) sel"
proof -
  obtain k where k: "sel = k @ CHR ''='' # nget (cva_Labels v) k" "valid_label k" "valid_label (nget (cva_Labels v) k)"
    "nget (cva_Labels v) k \<noteq> []"
    using assms by (auto simp: selected_def Let_def)
  then have "CHR ''='' \<notin> set k" "CHR ''='' \<notin> set (nget (cva_Labels v) k)" by (auto simp: valid_label_def list_all_iff)
  then have "Split sel (CHR ''='') = [k, nget (cva_Labels v) k]" by (subst k(1)) (simp add: Split_append_sep)
  with k(4) show ?thesis
    by (auto simp: has_selector_def nget_def gget_def split: option.splits)
qed

lemma sample_store_Some:
  "sample_store w k = Some v \<longleftrightarrow> find (\<lambda>y. (cva_Namespace y, cva_Name y) = k) (cl_cvas w) = Some v"
  by (cases k) (simp add: sample_store_def)

lemma sample_store_key: "sample_store w k = Some v \<Longrightarrow> v \<in> set (cl_cvas w) \<and> k = (cva_Namespace v, cva_Name v)"
  unfolding sample_store_Some by (auto dest!: find_Some_set)

lemma sample_store_reads: "store_reads sample_store sample_kube"
  unfolding store_reads_def
proof (intro conjI allI impI)
  show "cva_Name v = n" if "sample_store w (ns, n) = Some v" for w ns n v
    using sample_store_key [OF that] by simp
  show "v \<in> ran (sample_store w)" if "r_Get (k_cva sample_kube) c ns n w = (Return (Some v, None), w')" for c ns n w v w'
    using that by (auto simp: sample_cva_Get store_get_def sample_store_Some intro!: ranI [of _ "(ns, n)"] split: option.splits)
  fix c ns opts w vs w'
  assume "r_List (k_cva sample_kube) c ns opts w = (Return (Some vs, None), w')"
  then have vs: "vs = filter (\<lambda>x. sample_store w (cva_Namespace x, cva_Name x) = Some x \<and> (ns = [] \<or> cva_Namespace x = ns) \<and>
      has_selector (cva_Labels x) (lo_LabelSelector opts)) (cl_cvas w)"
    by (auto simp: sample_kube_def mk_api_def sample_store_Some)
  then show "set vs \<subseteq> ran (sample_store w)" by (auto intro: ranI)
  show "v \<in> set vs" if "sample_store w (ns, n) = Some v" "selected (lo_LabelSelector opts) v" for n v
    using that sample_store_key [OF that(1)] by (auto simp: vs has_selector_selected)
qed

lemma sample_cva_Create_eq:
  "r_Create (k_cva sample_kube) c ns v w =
     (if (cva_Namespace v \<noteq> ns \<and> cva_Namespace v \<noteq> []) \<or> \<not> valid_labels (cva_Labels v)
      then (Return (Some zero_CVA, Some (ApiError (ReasonOther ''BadRequest'') (cva_Name v))), w)
      else if sample_store w (ns, cva_Name v) \<noteq> None
      then (Return (Some zero_CVA, Some (ApiError ReasonAlreadyExists (cva_Name v))), w)
      else (Return (Some (v\<lparr>cva_Namespace := ns, cva_DeletionTimestamp := None\<rparr>), None),
        w\<lparr>cl_cvas := cl_cvas w @ [v\<lparr>cva_Namespace := ns, cva_DeletionTimestamp := None\<rparr>]\<rparr>))"
  by (simp add: sample_kube_def mk_api_def sample_store_def)

lemma sample_store_creates: "store_creates sample_store sample_kube"
  unfolding store_creates_def
proof (intro allI impI)
  fix c ns v w r w'
  assume run: "r_Create (k_cva sample_kube) c ns v w = (r, w')"
  let ?v = "v\<lparr>cva_Namespace := ns, cva_DeletionTimestamp := None\<rparr>"
  show "sample_store w' = sample_store w \<or> valid_labels (cva_Labels v) \<and>
      (\<exists>v'. stored_as v v' \<and> sample_store w' = (sample_store w)((ns, cva_Name v) \<mapsto> v'))"
  proof (cases "w' = w")
    case False
    then have new: "valid_labels (cva_Labels v)" "sample_store w (ns, cva_Name v) = None" "w' = w\<lparr>cl_cvas := cl_cvas w @ [?v]\<rparr>"
      using run unfolding sample_cva_Create_eq by (metis Pair_inject)+
    have "sample_store w' = (sample_store w)((ns, cva_Name v) \<mapsto> ?v)"
    proof
      fix k
      have "find P (xs @ [x]) = (case find P xs of None \<Rightarrow> if P x then Some x else None | Some y \<Rightarrow> Some y)"
        for P and xs :: "CStorVolumeAttachment list" and x
        by (induction xs) auto
      with new(2) show "sample_store w' k = ((sample_store w)((ns, cva_Name v) \<mapsto> ?v)) k"
        unfolding new(3) by (cases k) (auto simp: sample_store_def split: option.split)
    qed
    with new(1) show ?thesis by (auto simp: stored_as_def intro!: exI [of _ ?v])
  qed simp
qed

lemma sample_store_updates: "store_updates sample_store sample_kube"
  unfolding store_updates_def
proof (intro allI impI)
  fix c ns v w r w'
  assume run: "r_Update (k_cva sample_kube) c ns v w = (r, w')"
  let ?k = "(ns, cva_Name v)" and ?f = "\<lambda>y. v\<lparr>cva_DeletionTimestamp := cva_DeletionTimestamp y\<rparr>"
  let ?P = "\<lambda>y. (cva_Namespace y, cva_Name y) = (ns, cva_Name v)"
  consider "w' = w" "\<And>x. r \<noteq> Return (Some x, None)"
    | u where "cva_Namespace v = ns" "sample_store w ?k = Some u" "r = Return (Some (?f u), None)"
      "w' = w\<lparr>cl_cvas := map (\<lambda>y. if ?P y then ?f y else y) (cl_cvas w)\<rparr>"
    using run by (auto simp: sample_kube_def mk_api_def sample_store_def split: if_splits option.splits)
  then show "updated ns v (sample_store w) (sample_store w') \<and> (\<forall>x. r = Return (Some x, None) \<longrightarrow> stored_as v x)"
  proof cases
    case (2 u)
    have "sample_store w' = (sample_store w)(?k \<mapsto> ?f u)"
    proof
      fix k
      show "sample_store w' k = ((sample_store w)(?k \<mapsto> ?f u)) k"
      proof (cases "k = ?k")
        case True
        have "find ?P (map (\<lambda>y. if ?P y then ?f y else y) (cl_cvas w)) = Some (?f u)"
          using 2 by (intro find_map_upd) (auto simp: sample_store_def)
        with True 2(4) show ?thesis by (simp add: sample_store_def)
      next
        case False
        then show ?thesis
          using 2(1) unfolding 2(4) by (cases k) (auto simp: sample_store_def intro!: find_map_other)
      qed
    qed
    moreover have "stored_as v (?f u)" using 2(1) by (simp add: stored_as_def)
    ultimately have "updated ns v (sample_store w) (sample_store w')"
      using 2(2) unfolding updated_def by (intro disjI2 exI [of _ u] exI [of _ "?f u"]) simp
    with \<open>stored_as v (?f u)\<close> 2(3) show ?thesis by simp
  qed (simp add: updated_def)
qed

lemma sample_store_deletes: "store_deletes sample_store sample_kube"
  unfolding store_deletes_def
proof (intro allI impI)
  fix c ns n p w r w'
  assume run: "r_Delete (k_cva sample_kube) c ns n p w = (r, w')"
  then consider "w' = w" "r \<noteq> Return None" | "w' = w\<lparr>cl_cvas := filter (\<lambda>y. (cva_Namespace y, cva_Name y) \<noteq> (ns, n)) (cl_cvas w)\<rparr>"
    by (auto simp: sample_kube_def mk_api_def split: if_splits)
  then show "deleted ns n (sample_store w) (sample_store w') \<or> (r \<noteq> Return None \<and> sample_store w' = sample_store w)"
  proof cases
    case 2
    have "sample_store w' = (sample_store w)((ns, n) := None)"
    proof
      fix k
      show "sample_store w' k = ((sample_store w)((ns, n) := None)) k"
        unfolding 2 by (cases k) (auto simp: sample_store_def intro!: find_filter_none find_filter_other)
    qed
    then show ?thesis by (simp add: deleted_def)
  qed simp
qed

lemma sample_host_still: "host_keeps (\<lambda>w. sample_store w = L) sample_host"
  unfolding host_keeps_def by (simp add: pres_def inv_def sample_host_def sample_store_def)

lemma sample_controller_still: "controller_keeps (\<lambda>w. sample_store w = L) sample_kube sample_snap sample_ctl"
  unfolding controller_keeps_def kube_keeps_def
  by (auto simp: pres_def inv_def sample_kube_def mk_api_def sample_snap_def sample_ctl_def sample_store_def split: option.split)

lemma sample_server: "attachment_server sample_store sample_kube (\<lambda>_. sample_host) sample_snap sample_ctl"
  by (simp add: attachment_server_def sample_store_reads sample_store_creates sample_store_updates sample_store_deletes
      sample_host_still sample_controller_still)

text \<open>The run of the witnesses: the volume is staged on the node \<open>n2\<close>, which the cluster then reports as not
  ready, and staged on \<open>n1\<close>, which takes it over.\<close>

definition sample_fleet :: "cluster fleet" where
  "sample_fleet = fleet_start (world sample_staging)"

definition fleet_serve :: "string \<Rightarrow> node_request \<Rightarrow> cluster fleet \<Rightarrow> cluster fleet" where
  "fleet_serve n rq f =
     put_node n (snd (serve_node sample_kube sample_host (globals ''openebs'' n) (NewNode n) rq (at_node n f))) f"

definition sample_moved :: "cluster fleet" where
  "sample_moved = fleet_serve ''n1'' (StageR sample_stage_req) (fleet_serve ''n2'' (StageR sample_stage_req) sample_fleet)"

definition sample_nodes :: "string set" where
  "sample_nodes = {''n1'', ''n2''}"

lemma fleet_serve_step:
  "n \<in> sample_nodes \<Longrightarrow>
   fleet_step sample_kube (\<lambda>_. sample_host) sample_snap sample_ctl ''openebs'' sample_nodes f (fleet_serve n rq f)"
  unfolding fleet_serve_def by (rule fleet_step.serve [OF _ surjective_pairing])

lemma sample_moved_run:
  "fleet_steps sample_kube (\<lambda>_. sample_host) sample_snap sample_ctl ''openebs'' sample_nodes sample_fleet sample_moved"
  unfolding sample_moved_def
proof (rule rtranclp.rtrancl_into_rtrancl [OF r_into_rtranclp])
  show "fleet_step sample_kube (\<lambda>_. sample_host) sample_snap sample_ctl ''openebs'' sample_nodes sample_fleet
      (fleet_serve ''n2'' (StageR sample_stage_req) sample_fleet)"
    by (rule fleet_serve_step) (simp add: sample_nodes_def)
qed (rule fleet_serve_step, simp add: sample_nodes_def)

lemma sample_moved_attachments:
  "list_all (\<lambda>v. cva_DeletionTimestamp v = None) (cl_cvas (fl_world sample_moved))"
  by code_simp

lemma sample_start_empty: "sample_store (world sample_staging) = Map.empty"
  by (auto simp: sample_store_def sample_staging_def sample_cluster_def)

lemma sample_moved_stored: "\<exists>v. sample_store (fl_world sample_moved) (''openebs'', ''v-n1'') = Some v"
proof -
  have "sample_store (fl_world sample_moved) (''openebs'', ''v-n1'') \<noteq> None" by code_simp
  then show ?thesis by blast
qed

subsection \<open>The properties\<close>

text \<open>C5: every attachment of the cluster is well typed, whatever is asked of the driver. In every state that the
  controller, the node services and their background jobs reach from a cluster whose attachments are well typed
  (one with none, to begin with), each stored attachment is named after its volume and its node, has the two labels
  that the driver searches by, an access type that is \<open>block\<close>, or \<open>mount\<close> with a file system, a complete iSCSI
  address, no device path or the one made of that address, and is owned by a node object; and its node is one of
  those that run the driver.\<close>

theorem attachments_typed:
  assumes srv: "attachment_server stored X H N T" and init: "\<forall>v \<in> ran (stored w). well_typed v \<and> cva_OwnerNodeID v \<in> nodes"
    and run: "fleet_steps X H N T ons nodes (fleet_start w) f" and at: "stored (fl_world f) (ns, n) = Some v"
  shows "well_typed v \<and> cva_OwnerNodeID v \<in> nodes"
proof -
  let ?I = "\<lambda>w. typed nodes (stored w)"
  have sur: "surroundings ?I (of_nodes nodes) X (H n)" for n by (rule surroundings_of_store [OF srv typed_store])
  have "fleet_ok ?I (of_nodes nodes) f"
  proof (rule fleet_invariant [OF run _ sur edits_of_nodes server_keeps(2) [OF srv]])
    show "fleet_ok ?I (of_nodes nodes) (fleet_start w)"
      using init by (simp add: fleet_ok_def fleet_start_def typed_def of_nodes_def)
    show "kept (of_world ?I) (prepareVolumeForNode X (H n) (globals ons n) (NewNode n) req)" if "n \<in> nodes" for n req
      by (rule kept_prepare [OF sur kept_recreate [OF sur creates_typed [OF srv]]])
        (auto simp: NewNode_def intro: creations_of_nodes that)
  qed
  with at show ?thesis by (auto simp: fleet_ok_def typed_def of_nodes_def intro: ranI)
qed

theorem attachments_typed_witness:
  "\<exists>v. sample_store (fl_world sample_moved) (''openebs'', ''v-n1'') = Some v \<and> well_typed v \<and> cva_OwnerNodeID v \<in> {''n1'', ''n2''}"
proof -
  obtain v where v: "sample_store (fl_world sample_moved) (''openebs'', ''v-n1'') = Some v" using sample_moved_stored by blast
  have "well_typed v \<and> cva_OwnerNodeID v \<in> sample_nodes"
    by (rule attachments_typed [OF sample_server _ sample_moved_run [unfolded sample_fleet_def] v]) (simp add: sample_start_empty)
  with v show ?thesis by (simp add: sample_nodes_def)
qed

text \<open>C2: a volume is attached to one node at a time. In every state that the driver reaches while requests are
  served one after another, no volume has two attachments that are not being deleted, provided that none had to
  begin with and that no node's name ends in a dash and the name of another node. The attachments of a volume are
  those of its namespace with the name of the volume in their specification.\<close>

theorem one_attachment_per_volume:
  assumes srv: "attachment_server stored X H N T" and un: "unambiguous nodes"
    and init: "\<forall>v \<in> ran (stored w). well_typed v \<and> cva_OwnerNodeID v \<in> nodes" "single ons (stored w)"
    and run: "fleet_steps X H N T ons nodes (fleet_start w) f"
    and a: "stored (fl_world f) (ons, a) = Some u" "cva_DeletionTimestamp u = None"
    and b: "stored (fl_world f) (ons, b) = Some v" "cva_DeletionTimestamp v = None" and vol: "cva_VolName u = cva_VolName v"
  shows "a = b"
proof -
  let ?I = "\<lambda>w. one_each ons nodes (stored w)"
  have sur: "surroundings ?I (of_nodes nodes) X (H n)" for n by (rule surroundings_of_store [OF srv one_each_store [OF un]])
  have "fleet_ok ?I (of_nodes nodes) f"
  proof (rule fleet_invariant [OF run _ sur edits_of_nodes server_keeps(2) [OF srv]])
    have "keyed (stored w)" using srv by (auto simp: keyed_def attachment_server_def dest: store_readsD(1))
    with init show "fleet_ok ?I (of_nodes nodes) (fleet_start w)"
      by (simp add: fleet_ok_def fleet_start_def one_each_def typed_def of_nodes_def)
    show "kept (of_world ?I) (prepareVolumeForNode X (H n) (globals ons n) (NewNode n) req)" if "n \<in> nodes" for n req
      using kept_recreate_one [OF srv un that, where G = "globals ons n"]
      by (intro kept_prepare [OF sur]) (simp add: NewNode_def globals_def)
  qed
  then have "single ons (stored (fl_world f))" by (simp add: fleet_ok_def one_each_def)
  with a b vol show ?thesis by (auto simp: single_def live_def)
qed

lemma sample_unambiguous: "unambiguous sample_nodes"
  by (simp add: unambiguous_def sample_nodes_def suffix_to_prefix)

theorem one_attachment_per_volume_witness:
  "\<exists>v. sample_store (fl_world sample_moved) (''openebs'', ''v-n1'') = Some v \<and> cva_DeletionTimestamp v = None \<and>
     (\<forall>b u. sample_store (fl_world sample_moved) (''openebs'', b) = Some u \<and> cva_DeletionTimestamp u = None \<and>
        cva_VolName u = cva_VolName v \<longrightarrow> b = ''v-n1'')"
proof -
  have ok: "\<forall>v \<in> ran (sample_store (world sample_staging)). well_typed v \<and> cva_OwnerNodeID v \<in> sample_nodes"
    "single ''openebs'' (sample_store (world sample_staging))"
    by (simp_all add: sample_start_empty single_def live_def)
  obtain v where v: "sample_store (fl_world sample_moved) (''openebs'', ''v-n1'') = Some v" using sample_moved_stored by blast
  then have "v \<in> set (cl_cvas (fl_world sample_moved))" by (auto dest: sample_store_key)
  then have "cva_DeletionTimestamp v = None"
    using sample_moved_attachments by (simp add: list_all_iff)
  moreover from v this have "b = ''v-n1''"
    if "sample_store (fl_world sample_moved) (''openebs'', b) = Some u" "cva_DeletionTimestamp u = None" "cva_VolName u = cva_VolName v" for b u
    using one_attachment_per_volume [OF sample_server sample_unambiguous ok sample_moved_run [unfolded sample_fleet_def] that(1,2) v] that(3)
    by simp
  ultimately show ?thesis using v by blast
qed

subsection \<open>Requests that overlap\<close>

text \<open>The steps of staging up to the creation, one at a time, for the interleaving of two nodes: the check of the
  existing attachments, the deletion of the old ones, and the creation of the new one.\<close>

definition stage_check :: "string \<Rightarrow> (cluster, gerror + unit) go" where
  "stage_check n = tryP (GetVolList sample_kube (globals ''openebs'' n) ''v'') (checkAttachments sample_kube ''v'' n)"

definition stage_delete :: "string \<Rightarrow> (cluster, gerror + unit) go" where
  "stage_delete n = DeleteOldCStorVolumeAttachmentCRs sample_kube (globals ''openebs'' n) ''v'' n"

definition stage_create :: "string \<Rightarrow> (cluster, gerror option) go" where
  "stage_create n =
     bnd (FetchAndUpdateISCSIDetails sample_kube (globals ''openebs'' n) ''v''
            (b_object (fold cva_run (attachment_chain n sample_stage_req) cva_NewBuilder))) (\<lambda>(err, vol). case err of
       Some e \<Rightarrow> ret (Some e)
     | None \<Rightarrow> bnd (CreateCStorVolumeAttachmentCR sample_kube (globals ''openebs'' n) vol n) (\<lambda>(err, _). ret err))"

text \<open>Nothing makes the check and the creation one step across nodes. When two nodes stage the same volume at
  the same time, both checks pass, each deletes what the other has not created yet, and the volume ends with two
  attachments in use: the restriction of the invariant to requests that do not overlap is needed.\<close>

theorem staging_race:
  "case tryE (stage_check ''n1'') (\<lambda>_. tryE (stage_check ''n2'') (\<lambda>_. tryE (stage_delete ''n1'') (\<lambda>_.
      tryE (stage_delete ''n2'') (\<lambda>_. tryE (from_err (stage_create ''n1'')) (\<lambda>_. from_err (stage_create ''n2'')))))) (world sample_staging) of
     (r, w) \<Rightarrow> r = Return (Inr ()) \<and>
       map (\<lambda>v. (cva_Name v, cva_VolName v, cva_DeletionTimestamp v)) (cl_cvas w) = [(''v-n1'', ''v'', None), (''v-n2'', ''v'', None)]"
  by code_simp

end
