(* ===== verification/Remount.thy ===== *)
theory Remount
  imports Node_Props Node_Invariants
begin

section \<open>Remounting\<close>

text \<open>
  What a remount of the monitor does to the mounts of a volume, and two places where the mounts that the driver
  makes or removes are not those that were asked for.
\<close>

lemma IsVolumeReady_True:
  "IsVolumeReady X G v w = (Return (True, None), w') \<longleftrightarrow> (\<exists>st. getVolStatus X G v w = (Return (Inr st), w') \<and> serves st)"
  by (auto simp: IsVolumeReady_def bnd_def split: prod.split outcome.split sum.split if_splits)

lemma IsVolumeReachable_True:
  "IsVolumeReachable H v p w = (Return (True, None), w') \<longleftrightarrow>
     (\<exists>conn t. h_Dial H p w = (Return (Inr conn), t) \<and> h_CloseConn H conn t = (Return (), w'))"
  by (auto simp: IsVolumeReachable_def bnd_def andthen_def split: prod.split outcome.split sum.split)

text \<open>An unmount that is done only when the path was in the list of mounts, and whose error is dropped.\<close>

definition unmounted_if :: "'w host \<Rightarrow> bool \<Rightarrow> string \<Rightarrow> 'w \<Rightarrow> 'w \<Rightarrow> bool" where
  "unmounted_if H b p w w' = (if b then \<exists>err. h_Unmount H p w = (Return err, w') else w' = w)"

lemma unmount_step:
  "bnd (if b then bnd (h_Unmount H p) (\<lambda>_. ret ()) else ret ()) (\<lambda>_. k) w = (Return y, w') \<longleftrightarrow>
     (\<exists>t. unmounted_if H b p w t \<and> k t = (Return y, w'))"
  by (auto simp: unmounted_if_def bnd_Return_iff)

lemma guarded_Inr:
  "bnd m (\<lambda>(b, err). if err \<noteq> None \<or> \<not> b then fail e else k) w = (Return (Inr u), w') \<longleftrightarrow>
     (\<exists>t. m w = (Return (True, None), t) \<and> k t = (Return (Inr u), w'))"
  by (auto simp: bnd_def split: prod.split outcome.split)


subsection \<open>Mounts that were not asked for\<close>

text \<open>A volume is published read-only, its staging mount turns read-only, as a file system does after an error,
  and the monitor finds it: its remount leaves the target bound without the read-only option.\<close>

definition sample_published :: "cluster nstate" where
  "sample_published = snd (NodePublishVolume sample_kube sample_host sample_globals (NewNode ''n1'') sample_publish_req sample_staged)"

definition turned_ro :: "string \<Rightarrow> cluster nstate \<Rightarrow> cluster nstate" where
  "turned_ro p s = s\<lparr>world := (world s)\<lparr>cl_mounts :=
     map (\<lambda>m. if mp_Path m = p then m\<lparr>mp_Opts := [''ro'']\<rparr> else m) (cl_mounts (world s))\<rparr>\<rparr>"

definition options_at :: "string \<Rightarrow> cluster nstate \<Rightarrow> string list option" where
  "options_at p s = map_option mp_Opts (listContains p (cl_mounts (world s)))"

definition monitored :: "cluster nstate \<Rightarrow> cluster nstate" where
  "monitored s = (case MonitorMounts_round sample_kube sample_host sample_globals s of
     (Return jobs, t) \<Rightarrow> fold (\<lambda>j u. snd (run_job sample_kube sample_host sample_globals j u)) jobs t | (Panic _, t) \<Rightarrow> t)"

theorem remount_drops_options:
  "options_at ''/pods/1'' sample_published = Some [''bind'', ''ro'', ''noatime''] \<and>
   options_at ''/pods/1'' (monitored (turned_ro ''/staging/v'' sample_published)) = Some [''bind'']"
proof
  show "options_at ''/pods/1'' sample_published = Some [''bind'', ''ro'', ''noatime'']" by code_simp
  show "options_at ''/pods/1'' (monitored (turned_ro ''/staging/v'' sample_published)) = Some [''bind'']" by code_simp
qed

text \<open>The mounts of a volume are those whose path has its id somewhere in it. Staging a volume whose id begins the
  id of another one unmounts the other one.\<close>

theorem staging_unmounts_namesake:
  "VerifyIfMountRequired sample_host ''pvc-1'' ''/csi/pvc-1/globalmount''
     (sample_cluster\<lparr>cl_mounts := [\<lparr>mp_Device = ''/dev/sdb'', mp_Path = ''/csi/pvc-10/globalmount'', mp_Opts = [''rw'']\<rparr>]\<rparr>) =
   (Return (Inr True), sample_cluster)"
  by code_simp

end
