(* ===== verification/ISCSI_Config.thy ===== *)
theory ISCSI_Config
  imports ISCSI_Props Node_Service
begin

section \<open>The saved configuration of a disk: pkg/iscsi/iscsi_util.go, iscsi.go, iscsi_extra_utils.go\<close>

text \<open>
  \<open>persistISCSI\<close> writes the configuration of a disk as JSON into the directory where the disk is mounted, and
  \<open>loadISCSI\<close> reads it back into a disk of which only the name is known, the one that
  \<open>getISCSIDiskUnmounter\<close> makes for a request. Files are calls on the world and the package
  \<open>encoding/json\<close> is a pair of functions; it sees the exported fields of the struct only (\<open>json_exported\<close>).
\<close>

record 'w files =
  fs_Create :: "string \<Rightarrow> ('w, gerror + nat) go"
  fs_Open :: "string \<Rightarrow> ('w, gerror + nat) go"
  fs_Write :: "nat \<Rightarrow> string \<Rightarrow> ('w, gerror option) go"
  fs_Read :: "nat \<Rightarrow> ('w, gerror + string) go"
  fs_Close :: "nat \<Rightarrow> ('w, unit) go"
  js_Encode :: "iscsiDisk \<Rightarrow> gerror + string"
  js_Decode :: "string \<Rightarrow> iscsiDisk \<Rightarrow> gerror option \<times> iscsiDisk"
  js_Unmarshal :: "string \<Rightarrow> gerror + gomap"

definition parseSecret :: "'w files \<Rightarrow> string \<Rightarrow> gomap" where
  "parseSecret F secretParams = (case js_Unmarshal F secretParams of Inl err \<Rightarrow> [] | Inr secret \<Rightarrow> secret)"

definition getISCSIDiskUnmounter :: "NodeUnpublishVolumeRequest \<Rightarrow> iscsiDisk" where
  "getISCSIDiskUnmounter req = zero_disk\<lparr>d_VolName := upb_VolumeId req\<rparr>"

text \<open>\<open>path.Join\<close> of a directory and a file name that is not empty.\<close>

definition path_Join :: "string \<Rightarrow> string \<Rightarrow> string" where
  "path_Join dir file = path_Clean (if dir = [] then file else dir @ ''/'' @ file)"

definition configFile :: "string \<Rightarrow> iscsiDisk \<Rightarrow> string" where
  "configFile mnt conf = path_Join mnt (d_VolName conf @ ''.json'')"

definition persistISCSI :: "'w files \<Rightarrow> iscsiDisk \<Rightarrow> string \<Rightarrow> ('w, gerror + unit) go" where
  "persistISCSI F conf mnt =
     (let file = configFile mnt conf in
      bnd (fs_Create F file) (\<lambda>r. case r of
        Inl err \<Rightarrow> fail (ErrorfE ''iscsi: create %s err %s'' [file] err)
      | Inr fp \<Rightarrow> deferred (fs_Close F fp)
          (case js_Encode F conf of
             Inl err \<Rightarrow> fail (ErrorfE ''iscsi: encode err: %v'' [] err)
           | Inr enc \<Rightarrow> bnd (fs_Write F fp enc) (\<lambda>err. case err of
               Some e \<Rightarrow> fail (ErrorfE ''iscsi: encode err: %v'' [] e)
             | None \<Rightarrow> ok))))"

text \<open>The disk is filled in place: it is returned with the error. What was decoded before an error stays.\<close>

definition loadISCSI :: "'w files \<Rightarrow> iscsiDisk \<Rightarrow> string \<Rightarrow> ('w, gerror option \<times> iscsiDisk) go" where
  "loadISCSI F conf mnt =
     (let file = configFile mnt conf in
      bnd (fs_Open F file) (\<lambda>r. case r of
        Inl err \<Rightarrow> ret (Some (ErrorfE ''iscsi: open %s err %s'' [file] err), conf)
      | Inr fp \<Rightarrow> deferred (fs_Close F fp)
          (bnd (fs_Read F fp) (\<lambda>r. case r of
             Inl err \<Rightarrow> ret (Some (ErrorfE ''iscsi: decode err: %v'' [] err), conf)
           | Inr enc \<Rightarrow> (case js_Decode F enc conf of
               (Some err, conf') \<Rightarrow> ret (Some (ErrorfE ''iscsi: decode err: %v'' [] err), conf')
             | (None, conf') \<Rightarrow> ret (None, conf'))))))"

subsection \<open>Round trip\<close>

definition exported :: "iscsiDisk \<Rightarrow> iscsiDisk \<Rightarrow> iscsiDisk" where
  "exported b c = c\<lparr>d_Portals := d_Portals b, d_Iqn := d_Iqn b, d_Iface := d_Iface b, d_InitiatorName := d_InitiatorName b,
     d_VolName := d_VolName b\<rparr>"

definition json_exported :: "'w files \<Rightarrow> bool" where
  "json_exported F = (\<forall>b enc c. js_Encode F b = Inr enc \<longrightarrow> js_Decode F enc c = (None, exported b c))"

text \<open>A file that was created, written and closed is there with what was written.\<close>

definition files_kept :: "'w files \<Rightarrow> bool" where
  "files_kept F = (\<forall>file w fp w1 enc w2. fs_Create F file w = (Return (Inr fp), w1) \<longrightarrow> fs_Write F fp enc w1 = (Return None, w2) \<longrightarrow>
     (\<exists>fp' w4. fs_Open F file (snd (fs_Close F fp w2)) = (Return (Inr fp'), w4) \<and> fst (fs_Read F fp' w4) = Return (Inr enc)))"

definition closes :: "'w files \<Rightarrow> bool" where
  "closes F = (\<forall>fp w. fst (fs_Close F fp w) = Return ())"

text \<open>What detaching reads of a disk is what the file holds.\<close>

lemma exported_fields [simp]:
  "d_Portals (exported b c) = d_Portals b" "d_Iqn (exported b c) = d_Iqn b" "d_Iface (exported b c) = d_Iface b"
  "d_InitiatorName (exported b c) = d_InitiatorName b" "d_VolName (exported b c) = d_VolName b"
  "d_lun (exported b c) = d_lun c" "d_chapDiscovery (exported b c) = d_chapDiscovery c"
  "d_chapSession (exported b c) = d_chapSession c" "d_secret (exported b c) = d_secret c"
  by (simp_all add: exported_def)

lemma DetachDisk_exported: "DetachDisk H (exported b c) path = DetachDisk H b path"
  unfolding DetachDisk_def exported_fields by (rule refl)

lemma deferred_Return:
  "deferred d m w = (Return x, w') \<longleftrightarrow> (\<exists>t u. m w = (Return x, t) \<and> d t = (Return u, w'))"
  by (auto simp: deferred_def split: prod.splits outcome.splits)

lemma fst_deferred: "(\<And>t. fst (d t) = Return u) \<Longrightarrow> fst (deferred d m w) = fst (m w)"
  by (simp add: deferred_def split: prod.split outcome.split) (metis fst_conv outcome.distinct(1))

lemma persist_Inr:
  assumes "persistISCSI F conf mnt w = (Return (Inr u), w')"
  shows "\<exists>fp w1 enc w2. fs_Create F (configFile mnt conf) w = (Return (Inr fp), w1) \<and> js_Encode F conf = Inr enc \<and>
     fs_Write F fp enc w1 = (Return None, w2) \<and> w' = snd (fs_Close F fp w2)"
proof -
  obtain fp w1 where c: "fs_Create F (configFile mnt conf) w = (Return (Inr fp), w1)"
    using assms by (auto simp: persistISCSI_def Let_def bnd_def split: prod.splits outcome.splits sum.splits)
  with assms obtain enc where t: "js_Encode F conf = Inr enc"
    by (cases "js_Encode F conf") (auto simp: persistISCSI_def Let_def bnd_def deferred_Return)
  from assms c t show ?thesis
    by (auto simp: persistISCSI_def Let_def bnd_Return_iff deferred_Return split: option.splits)
qed


text \<open>Files in memory: the contents by name, and the name of each file that was opened. The encoding of the
  witness is the fields, one on a line; it refuses a disk with a field that has a line break.\<close>

record sample_disk =
  sd_files :: gomap
  sd_opened :: "string list"

definition disk_lines :: "iscsiDisk \<Rightarrow> string list" where
  "disk_lines b = [d_Iqn b, d_Iface b, d_InitiatorName b, d_VolName b] @ d_Portals b"

definition sample_files :: "sample_disk files" where
  "sample_files = \<lparr>
     fs_Create = (\<lambda>f s. (Return (Inr (length (sd_opened s))), s\<lparr>sd_files := AList.update f [] (sd_files s), sd_opened := sd_opened s @ [f]\<rparr>)),
     fs_Open = (\<lambda>f s. case map_of (sd_files s) f of None \<Rightarrow> (Return (Inl (OsNotExist f)), s)
       | Some _ \<Rightarrow> (Return (Inr (length (sd_opened s))), s\<lparr>sd_opened := sd_opened s @ [f]\<rparr>)),
     fs_Write = (\<lambda>fp x s. (Return None, s\<lparr>sd_files := AList.update (sd_opened s ! fp) x (sd_files s)\<rparr>)),
     fs_Read = (\<lambda>fp s. (Return (Inr (gget (sd_files s) (sd_opened s ! fp))), s)),
     fs_Close = (\<lambda>_. ret ()),
     js_Encode = (\<lambda>b. if list_all (\<lambda>l. CHR 0x0A \<notin> set l) (disk_lines b) then Inr (Join (disk_lines b) [CHR 0x0A])
       else Inl (Errorf ''line break'' [])),
     js_Decode = (\<lambda>x c. case Split x (CHR 0x0A) of
         iqn # iface # ini # vol # portals \<Rightarrow> (None, c\<lparr>d_Portals := portals, d_Iqn := iqn, d_Iface := iface, d_InitiatorName := ini, d_VolName := vol\<rparr>)
       | _ \<Rightarrow> (Some (Errorf ''syntax'' []), c)),
     js_Unmarshal = (\<lambda>_. Inr [])\<rparr>"

lemma Split_Join: "xs \<noteq> [] \<Longrightarrow> list_all (\<lambda>x. c \<notin> set x) xs \<Longrightarrow> Split (Join xs [c]) c = xs"
  by (induction xs rule: induct_list012) (simp_all add: Split_append_sep)

lemma sample_files_ok: "json_exported sample_files" "files_kept sample_files" "closes sample_files"
proof -
  have "Split (Join (disk_lines b) [CHR 0x0A]) (CHR 0x0A) = disk_lines b" if "list_all (\<lambda>l. CHR 0x0A \<notin> set l) (disk_lines b)" for b
    using that by (intro Split_Join) (auto simp: disk_lines_def)
  then show "json_exported sample_files"
    by (auto simp: json_exported_def sample_files_def exported_def disk_lines_def split: if_splits)
  show "files_kept sample_files"
    by (auto simp: files_kept_def sample_files_def gget_def update_conv' nth_append split: option.split)
  show "closes sample_files" by (simp add: closes_def sample_files_def)
qed

definition sample_saved :: iscsiDisk where
  "sample_saved = zero_disk\<lparr>d_Portals := [''10.0.0.1:3260''], d_Iqn := ''iqn.v'', d_lun := ''0'', d_Iface := ''default'', d_VolName := ''v''\<rparr>"


end
