(* ===== verification/Spec2Isabelle.thy ===== *)
theory Spec2Isabelle
  imports Controller_Props List_Builders Node_Props Transition Driver_Props Fleet_Props Remount ISCSI_Config
begin

text \<open>
  \<^bold>\<open>A verification development of the CStor CSI driver.\<close>

  \<^bold>\<open>The program.\<close> The driver is one Go program that runs either as the controller plugin or as the node plugin
  of the container storage interface. cmd/main.go reads the flags and pkg/driver/service.go builds the services,
  which pkg/utils/server.go serves over a Unix socket. The controller (pkg/driver/controller.go) turns requests
  into CStorVolumeConfig resources in the cluster through pkg/utils/maya.go: it provisions, deletes, resizes and
  clones volumes, and takes snapshots by talking to the target of a volume (pkg/cstor/snapshot). The node service
  (pkg/driver/node.go) records on which node a volume is used in CStorVolumeAttachment resources
  (pkg/utils/kubernetes.go), waits for the target, logs in with the iSCSI tools (pkg/iscsi) and mounts; beside the
  handlers a monitor remounts what is mounted wrongly and a cleanup detaches what is being deleted
  (pkg/utils/utils.go). All of them exclude each other per volume by one map, the transition list. The resources
  are built by the builders and reached by the clients of pkg/cstor and pkg/kubernetes.

  \<^bold>\<open>Foundations.\<close> CSI_Prelude has Go's strings, maps as association lists, slices and the named collections
  of lemmas. Go_Effects has error values and computations: \<open>('s, 'a) go\<close> is a function from a state to an outcome,
  a returned value or a panic, and a state; the handlers are written in its combinators, which stand for the shapes
  of the Go code (a call with \<open>if err != nil\<close>, a deferred call, a wrapped error). Its second half is a calculus of
  relations between the states before and after. API_Objects has the resource records. Go's \<open>int64\<close> and
  \<open>uint64\<close> are \<open>64 word\<close> where they can overflow.

  \<^bold>\<open>Parameters.\<close> Code outside the repository is an argument of the definitions: the record \<open>kube\<close>
  (Kube_Client: client-go, the generated clientsets, json, the parser of quantities, sleeping), \<open>host\<close> (Host: mounts,
  files, commands, iSCSI library, dialling), \<open>ctl_api\<close> (Controller: analytics, clock, printing of quantities),
  \<open>proc_api\<close> (Driver: reading a file, git, the command line, listening, the grpc loop and its stop), \<open>files\<close>
  (ISCSI_Config: opening, reading and writing a file, json), the API of a single resource (\<open>A\<close> in PersistentVolume and
  Core_Clients). The properties assume of them only what their statements name. Sample_Cluster
  instantiates them with an in-memory cluster and host, on which the witnesses run the code.

  \<^bold>\<open>Data and clients.\<close>
  \<^item> Rounding (pkg/utils/rounding.go): sizes with wrap-around; exactness and bounds for every 64-bit input.
  \<^item> Env (pkg/env): the environment; what is set is read back trimmed.
  \<^item> Builder_Contract is the locale \<open>error_builder\<close>: a chain of calls that collect errors succeeds exactly when each
    call was valid, and gives the fold of the updates. VolumeConfig_Build, VolumeAttachment_Build and Volume_Build
    (build.go of pkg/cstor/volumeconfig, volumeattachment, volume) and PersistentVolume (pkg/kubernetes/persistentvolume)
    interpret it.
  \<^item> List_Builders (config.go, buildlist.go, volume.go, cstorvolume.go, node.go) is the locale \<open>filtered_list\<close>: lists keep
    exactly the objects that satisfy every filter, in order.
  \<^item> Kube_Client (pkg/kubernetes/client) chooses the configuration, and has the locale \<open>cached_client\<close>: a stored
    clientset is used again, a fresh one stored, a failure stores nothing. It is interpreted for the clients
    VolumeConfig_Client, VolumeAttachment_Client, Volume_Client, Node_Client, PVC_Client, PersistentVolume and
    Core_Clients (namespaces and services), that is, the kubernetes.go of each package.

  \<^bold>\<open>Controller.\<close> Attachment_Ops and Volume_Ops (pkg/utils/kubernetes.go and maya.go) are the operations on resources,
  Snapshot the snapshot commands, Payload the response builders, Controller the service with controller_utils.go.
  Volume_Props and Controller_Props show: a create request that succeeded succeeds again with the same answer and no
  change; what is created is what was asked for, rounded up; a resize never shrinks; invalid requests are refused
  before any effect and exactly the valid ones pass; deletion is idempotent; placement takes the first preferred
  topology that a node satisfies; the id of a created snapshot addresses it in deletion; an id without an at sign
  panics; the capacity that \<open>ControllerGetVolume\<close> reports is a thousand times too large.

  \<^bold>\<open>Node.\<close> ISCSI (pkg/iscsi) attaches and detaches disks; ISCSI_Props shows the order of the calls of a successful
  detach, what a successful attach mounted, and that the in-place removal of duplicates is the list of first
  occurrences. ISCSI_Config saves and loads the configuration of a disk: detaching what was loaded is detaching what was
  saved. Node_State has the state of the node plugin, a record \<open>nstate\<close> with the transition list, the
  remount requests and the world, and the locale \<open>framed_handler\<close>: a handler that validates, enters its volume, runs a
  body and leaves gives back the lists it found on every outcome, panics included, and is refused without any change
  while the volume is busy. Node_Utils has the waiting loops, the monitor and the cleanup; Node_Service every handler
  of node.go with node_utils.go; Node_Frames interprets the locale for them. Node_Props inverts successful
  runs: staging happens only when every other attachment of the volume belongs to a node that is gone, and what
  staging, unstaging and publishing did in which order. Remount shows exactly when a remount succeeds and what it mounts,
  and two mounts that were not asked for: a read-only publication is writable after a remount, and staging a volume
  unmounts another one whose id continues its own.

  \<^bold>\<open>The whole driver.\<close> Go_Hoare is a calculus of invariants of the world: \<open>kept I m\<close> says that the computation \<open>m\<close> keeps
  \<open>I\<close> on every outcome, panics included, and its rules follow the combinators. What the surroundings do is stated there
  too: the host does not touch the resources, and the API stores what it is given. Node_Invariants derives that every
  handler and job of the node service keeps every invariant that is closed under the edits which the driver makes to an
  attachment, and Controller_Invariants the same of the controller. Fleet puts them together: a record of the shared
  world and the memory of the driver on each node, and a step relation whose steps are a request to the controller, a
  request to a node, a round of a monitor, a job that a round started, and a restart of a node. Fleet_Props has two
  invariants of all its runs: attachments are well typed, and a volume has at most one attachment that is not being
  deleted. The steps run one after another; \<open>staging_race\<close> is an execution in which two nodes stage the same volume at
  once and both attach it, so the second invariant needs that.

  \<^bold>\<open>Interleaving.\<close> Transition is the node plugin as a step relation in which handlers, monitor rounds, remounts and
  cleanups interleave at the operations that hold the lock, and the world changes arbitrarily in between. Without
  cleanup, in every reachable state at most one task works on a volume and the list names exactly the volumes worked
  on; each run of a handler refines runs of the relation. With cleanup both fail: two theorems give the executions.

  \<^bold>\<open>Process.\<close> Driver and Driver_Props (pkg/config, pkg/version, identity.go, service.go, server.go, main.go): which
  services a configuration serves and which goroutines it starts, that a stale socket is removed before listening,
  and, on the process as a step relation, that the wait of the main goroutine never returns.

  \<^bold>\<open>Loops.\<close> Every loop of the code that is bounded by a counter recurses on that counter, so no fuel is chosen: the
  waiting loops on the six retries of \<open>VolumeWaitRetryCount\<close>, with the property that they end within 24 seconds of
  sleep; the wait for deletion on \<open>loopCount\<close>, five; the list of a cleanup on its five attempts; \<open>waitPath\<close> on its
  argument. The endless loop of \<open>MonitorMounts\<close> is modelled by its round.

  \<^bold>\<open>Not modelled.\<close> Log output, apart from the choice of \<open>logGRPC\<close>; the wrapper structs around one pointer in the list
  packages and the construction of the tools of the host (\<open>NewNodeMounter\<close>), which have no behaviour of their own;
  \<open>getClientsetForPathOrDirect\<close> and the options of the constructors are the same in every package and modelled once, in
  Kube_Client; pkg/utils/test, a copy of the rounding functions for tests; tests and build tools. Contexts and deadlines
  of requests are not read by the code. Two goroutines inside the bodies of handlers interleave in Transition only
  through the lists and the world, and in Fleet not at all.
\<close>

end
